(* ===== verification/Go_Prelude.thy ===== *)
theory Go_Prelude
  imports Main "HOL-Library.State_Monad"
begin

text \<open>
  Shared vocabulary of the development.

  Go code returns pairs of a value and an error, updates its receiver in place, reads the
  clock, and computes with 64-bit integers.  Here a fallible call is a value of a sum type
  (\<open>Inl\<close> the error, \<open>Inr\<close> the value), a stateful call is a computation of the library's
  state monad, a Go \<open>int\<close> or \<open>int64\<close> is an \<open>int\<close> whose wrap-around is written out by
  \<open>int64\<close>, and a Go map is a partial function.  The theory also holds the lemma
  collections the component theories use.
\<close>

named_theorems go_eval
  \<open>equations that run a computation of the model on a state\<close>
named_theorems go_result
  \<open>equivalences that invert a successful or failed computation\<close>
named_theorems keeps_rules
  \<open>introduction rules for invariants of computations\<close>

section \<open>Machine integers\<close>

text \<open>Go's \<open>int\<close>, \<open>int64\<close> and \<open>time.Duration\<close> are 64-bit two's complement.\<close>

definition int64 :: "int \<Rightarrow> int" where
  "int64 x = signed_take_bit 63 x"

definition min_int64 :: int where
  "min_int64 = - (2 ^ 63)"

definition max_int64 :: int where
  "max_int64 = 2 ^ 63 - 1"

lemma int64_id: "min_int64 \<le> x \<Longrightarrow> x \<le> max_int64 \<Longrightarrow> int64 x = x"
  by (simp add: int64_def min_int64_def max_int64_def signed_take_bit_int_eq_self_iff)

lemma int64_range: "min_int64 \<le> int64 x" "int64 x \<le> max_int64"
  using signed_take_bit_int_greater_eq_minus_exp [of 63 x]
    signed_take_bit_int_less_exp [of 63 x]
  by (simp_all add: int64_def min_int64_def max_int64_def)

lemma int64_small: "- (2 ^ 62) \<le> x \<Longrightarrow> x \<le> 2 ^ 62 \<Longrightarrow> int64 x = x"
  by (rule int64_id) (simp_all add: min_int64_def max_int64_def)

section \<open>Time\<close>

text \<open>
  A \<open>time.Time\<close> is the number of nanoseconds since the zero time (year 1, UTC), so that
  \<open>IsZero\<close> is equality with \<open>0\<close>; a \<open>time.Duration\<close> is a number of nanoseconds.
  \<open>Sub\<close> (and with it \<open>Since\<close> and \<open>Until\<close>) saturates at the ends of the range of a
  duration, as the library's does.
\<close>

type_synonym time = int
type_synonym duration = int

definition Second :: duration where
  "Second = 10 ^ 9"

definition time_IsZero :: "time \<Rightarrow> bool" where
  "time_IsZero t \<longleftrightarrow> t = 0"

definition time_Sub :: "time \<Rightarrow> time \<Rightarrow> duration" where
  "time_Sub t u = max min_int64 (min max_int64 (t - u))"

definition time_After :: "time \<Rightarrow> time \<Rightarrow> bool" where
  "time_After t u \<longleftrightarrow> u < t"

definition time_Before :: "time \<Rightarrow> time \<Rightarrow> bool" where
  "time_Before t u \<longleftrightarrow> t < u"

lemma time_Sub_le_0 [simp]: "time_Sub t u \<le> 0 \<longleftrightarrow> t \<le> u"
  by (auto simp: time_Sub_def min_int64_def max_int64_def)

lemma time_Sub_less:
  "min_int64 < d \<Longrightarrow> d \<le> max_int64 \<Longrightarrow> time_Sub t u < d \<longleftrightarrow> t - u < d"
  by (auto simp: time_Sub_def)

section \<open>Calls that may fail\<close>

type_synonym ('s, 'e, 'a) call = "('s, 'e + 'a) state"

abbreviation ok :: "'a \<Rightarrow> ('s, 'e, 'a) call" where
  "ok x \<equiv> State_Monad.return (Inr x)"

abbreviation err :: "'e \<Rightarrow> ('s, 'e, 'a) call" where
  "err e \<equiv> State_Monad.return (Inl e)"

text \<open>
  \<open>call_ok m k\<close> is the idiom \<open>x, err := m(); if err != nil { return ..., err }\<close>
  followed by \<open>k x\<close>: an error is passed on, and the state keeps what \<open>m\<close> did to it.
\<close>

definition call_ok ::
  "('s, 'e, 'a) call \<Rightarrow> ('a \<Rightarrow> ('s, 'e, 'b) call) \<Rightarrow> ('s, 'e, 'b) call" where
  "call_ok m k = do { r \<leftarrow> m; case r of Inl e \<Rightarrow> err e | Inr x \<Rightarrow> k x }"

text \<open>\<open>_ = m()\<close>: the result, error or not, is discarded.\<close>

definition ignoring :: "('s, 'a) state \<Rightarrow> ('s, 'b) state \<Rightarrow> ('s, 'b) state" where
  "ignoring m k = do { _ \<leftarrow> m; k }"

lemma run_call_ok [go_eval]:
  "run_state (call_ok m k) s =
     (case run_state m s of (Inl e, s') \<Rightarrow> (Inl e, s') | (Inr x, s') \<Rightarrow> run_state (k x) s')"
  by (simp add: call_ok_def split: prod.splits sum.splits)

lemma run_ignoring [go_eval]:
  "run_state (ignoring m k) s = (case run_state m s of (_, s') \<Rightarrow> run_state k s')"
  by (simp add: ignoring_def split: prod.splits)

lemma call_ok_Inr [go_result]:
  "run_state (call_ok m k) s = (Inr y, s'') \<longleftrightarrow>
     (\<exists>x s'. run_state m s = (Inr x, s') \<and> run_state (k x) s' = (Inr y, s''))"
  by (auto simp: run_call_ok split: prod.splits sum.splits)

lemma call_ok_Inl [go_result]:
  "run_state (call_ok m k) s = (Inl e, s'') \<longleftrightarrow>
     run_state m s = (Inl e, s'') \<or>
     (\<exists>x s'. run_state m s = (Inr x, s') \<and> run_state (k x) s' = (Inl e, s''))"
  by (auto simp: run_call_ok split: prod.splits sum.splits)

text \<open>The error of a call, wrapped or translated.\<close>

definition with_error :: "('e \<Rightarrow> 'f) \<Rightarrow> ('s, 'e, 'a) call \<Rightarrow> ('s, 'f, 'a) call" where
  "with_error f m = do { r \<leftarrow> m; case r of Inl e \<Rightarrow> err (f e) | Inr x \<Rightarrow> ok x }"

lemma with_error_Inr [go_result]:
  "run_state (with_error f m) d = (Inr x, d') \<longleftrightarrow> run_state m d = (Inr x, d')"
  by (auto simp: with_error_def split: prod.splits sum.splits)

lemma run_with_error [go_eval]:
  "run_state (with_error f m) d =
     (case run_state m d of (Inl e, d') \<Rightarrow> (Inl (f e), d') | (Inr x, d') \<Rightarrow> (Inr x, d'))"
  by (auto simp: with_error_def split: prod.splits sum.splits)

section \<open>Results every computation has\<close>

text \<open>\<open>yields P m\<close>: whatever the state, the result of \<open>m\<close> satisfies \<open>P\<close>.\<close>

definition yields :: "('a \<Rightarrow> bool) \<Rightarrow> ('s, 'a) state \<Rightarrow> bool" where
  "yields P m \<longleftrightarrow> (\<forall>s. P (fst (run_state m s)))"

lemma yieldsD: "yields P m \<Longrightarrow> run_state m s = (r, s') \<Longrightarrow> P r"
  unfolding yields_def by (metis fst_conv)

lemma yields_return: "P x \<Longrightarrow> yields P (State_Monad.return x)"
  by (simp add: yields_def)

lemma yields_ignoring: "yields P k \<Longrightarrow> yields P (ignoring m k)"
  by (simp add: yields_def run_ignoring split: prod.split)

lemma yields_call_ok:
  "(\<And>s e s'. run_state m s = (Inl e, s') \<Longrightarrow> P (Inl e)) \<Longrightarrow> (\<And>x. yields P (k x)) \<Longrightarrow> yields P (call_ok m k)"
  by (simp add: yields_def run_call_ok split: prod.split sum.split)

lemma with_error_Inl: "run_state (with_error f m) s = (Inl e, s') \<Longrightarrow> \<exists>e'. e = f e'"
  by (auto simp: run_with_error split: prod.splits sum.splits)

section \<open>Maps\<close>

lemma map_le_None: "f \<subseteq>\<^sub>m g \<Longrightarrow> g k = None \<Longrightarrow> f k = None"
  by (metis domIff map_le_implies_dom_le subsetD)

section \<open>Relations every computation respects\<close>

text \<open>
  \<open>keeps R m\<close>: whatever \<open>m\<close> returns, its final state is related to its first state by
  \<open>R\<close>.  For a reflexive and transitive \<open>R\<close> the property is compositional; invariants
  (\<open>R s s' = (I s \<longrightarrow> I s')\<close>) and frame conditions are instances.
\<close>

definition keeps :: "('s \<Rightarrow> 's \<Rightarrow> bool) \<Rightarrow> ('s, 'a) state \<Rightarrow> bool" where
  "keeps R m \<longleftrightarrow> (\<forall>s. R s (snd (run_state m s)))"

lemma keepsD: "keeps R m \<Longrightarrow> run_state m s = (r, s') \<Longrightarrow> R s s'"
  unfolding keeps_def by (metis snd_conv)

lemma keepsI: "(\<And>s r s'. run_state m s = (r, s') \<Longrightarrow> R s s') \<Longrightarrow> keeps R m"
  by (simp add: keeps_def prod_eq_iff)

lemma keeps_return: "reflp R \<Longrightarrow> keeps R (State_Monad.return x)"
  by (simp add: keeps_def reflpD)

lemma keeps_bind:
  assumes "transp R" and "keeps R m" and "\<And>x. keeps R (f x)"
  shows "keeps R (State_Monad.bind m f)"
proof (rule keepsI)
  fix s r s'
  assume "run_state (State_Monad.bind m f) s = (r, s')"
  then obtain x t where 1: "run_state m s = (x, t)" and 2: "run_state (f x) t = (r, s')"
    by (auto split: prod.splits)
  from keepsD [OF assms(2) 1] keepsD [OF assms(3) 2] show "R s s'"
    using assms(1) by (blast dest: transpD)
qed

lemma keeps_call_ok:
  assumes "reflp R" "transp R" and "keeps R m" and "\<And>x. keeps R (f x)"
  shows "keeps R (call_ok m f)"
  unfolding call_ok_def
  by (rule keeps_bind [OF assms(2,3)])
    (auto split: sum.split intro: keeps_return [OF assms(1)] assms(4))

lemma keeps_ignoring:
  "transp R \<Longrightarrow> keeps R m \<Longrightarrow> keeps R k \<Longrightarrow> keeps R (ignoring m k)"
  unfolding ignoring_def by (rule keeps_bind)

lemma keeps_if: "(b \<Longrightarrow> keeps R m) \<Longrightarrow> (\<not> b \<Longrightarrow> keeps R n) \<Longrightarrow> keeps R (if b then m else n)"
  by simp

lemma keeps_sum:
  "(\<And>e. x = Inl e \<Longrightarrow> keeps R (f e)) \<Longrightarrow> (\<And>y. x = Inr y \<Longrightarrow> keeps R (g y)) \<Longrightarrow>
     keeps R (case x of Inl e \<Rightarrow> f e | Inr y \<Rightarrow> g y)"
  by (simp split: sum.split)

lemma keeps_option:
  "(x = None \<Longrightarrow> keeps R m) \<Longrightarrow> (\<And>y. x = Some y \<Longrightarrow> keeps R (g y)) \<Longrightarrow>
     keeps R (case x of None \<Rightarrow> m | Some y \<Rightarrow> g y)"
  by (simp split: option.split)

lemma keeps_prod:
  "(\<And>a b. x = (a, b) \<Longrightarrow> keeps R (g a b)) \<Longrightarrow> keeps R (case x of (a, b) \<Rightarrow> g a b)"
  by (simp split: prod.split)

lemma keeps_Let: "(\<And>y. y = x \<Longrightarrow> keeps R (f y)) \<Longrightarrow> keeps R (let y = x in f y)"
  by simp

lemmas keeps_intros = keeps_if keeps_sum keeps_option keeps_prod keeps_Let

lemma reflp_invariant [simp]: "reflp (\<lambda>s s'. I s \<longrightarrow> I s')"
  by (simp add: reflp_def)

lemma transp_invariant [simp]: "transp (\<lambda>s s'. I s \<longrightarrow> I s')"
  by (auto simp: transp_def)

lemma reflp_frame [simp]: "reflp (\<lambda>s s'. f s' = f s)"
  by (simp add: reflp_def)

lemma transp_frame [simp]: "transp (\<lambda>s s'. f s' = f s)"
  by (auto simp: transp_def)

end
