(* ===== verification/Go_Strings.thy ===== *)
theory Go_Strings
  imports Go_Prelude Unicode_Tables
begin

text \<open>
  Go strings and the functions of \<open>strings\<close>, \<open>unicode\<close> and \<open>unicode/utf8\<close> that the
  program calls.  A Go string is a sequence of bytes, here a \<open>string\<close> (\<open>char\<close> is a byte);
  \<open>len\<close> is \<open>length\<close> and counts bytes.  \<open>for _, r := range s\<close> and the Unicode-aware
  functions decode UTF-8: \<open>chunks\<close> splits a string into its runes with the bytes each was
  read from, an invalid byte being read as U+FFFD of width 1.
\<close>

section \<open>UTF-8\<close>

abbreviation byte :: "char \<Rightarrow> nat" where
  "byte c \<equiv> of_char c"

definition rune_error :: rune where
  "rune_error = 65533"

text \<open>The accepted range of the second byte after each lead byte.\<close>

definition second_ok :: "nat \<Rightarrow> nat \<Rightarrow> bool" where
  "second_ok b0 b1 =
     (if b0 = 224 then 160 \<le> b1 \<and> b1 \<le> 191
      else if b0 = 237 then 128 \<le> b1 \<and> b1 \<le> 159
      else if b0 = 240 then 144 \<le> b1 \<and> b1 \<le> 191
      else if b0 = 244 then 128 \<le> b1 \<and> b1 \<le> 143
      else 128 \<le> b1 \<and> b1 \<le> 191)"

definition is_cont :: "nat \<Rightarrow> bool" where
  "is_cont b \<longleftrightarrow> 128 \<le> b \<and> b \<le> 191"

fun decode_rune :: "string \<Rightarrow> rune \<times> nat" where
  "decode_rune [] = (rune_error, 0)"
| "decode_rune (c0 # s) =
     (let b0 = byte c0 in
      if b0 < 128 then (b0, 1)
      else if b0 < 194 \<or> 244 < b0 then (rune_error, 1)
      else if b0 < 224 then
        (case s of
           c1 # _ \<Rightarrow>
             if second_ok b0 (byte c1) then ((b0 - 192) * 64 + (byte c1 - 128), 2)
             else (rune_error, 1)
         | _ \<Rightarrow> (rune_error, 1))
      else if b0 < 240 then
        (case s of
           c1 # c2 # _ \<Rightarrow>
             if second_ok b0 (byte c1) \<and> is_cont (byte c2)
             then ((b0 - 224) * 4096 + (byte c1 - 128) * 64 + (byte c2 - 128), 3)
             else (rune_error, 1)
         | _ \<Rightarrow> (rune_error, 1))
      else
        (case s of
           c1 # c2 # c3 # _ \<Rightarrow>
             if second_ok b0 (byte c1) \<and> is_cont (byte c2) \<and> is_cont (byte c3)
             then ((b0 - 240) * 262144 + (byte c1 - 128) * 4096 + (byte c2 - 128) * 64
                   + (byte c3 - 128), 4)
             else (rune_error, 1)
         | _ \<Rightarrow> (rune_error, 1)))"

definition valid_rune :: "rune \<Rightarrow> bool" where
  "valid_rune r \<longleftrightarrow> r \<le> 1114111 \<and> \<not> (55296 \<le> r \<and> r \<le> 57343)"

text \<open>\<open>utf8.AppendRune\<close>, which writes U+FFFD for a value that is no code point.\<close>

definition encode_rune :: "rune \<Rightarrow> string" where
  "encode_rune r0 =
     (let r = (if valid_rune r0 then r0 else rune_error) in
      if r < 128 then [char_of r]
      else if r < 2048 then [char_of (192 + r div 64), char_of (128 + r mod 64)]
      else if r < 65536 then
        [char_of (224 + r div 4096), char_of (128 + r div 64 mod 64), char_of (128 + r mod 64)]
      else
        [char_of (240 + r div 262144), char_of (128 + r div 4096 mod 64),
         char_of (128 + r div 64 mod 64), char_of (128 + r mod 64)])"

lemma decode_width: "s \<noteq> [] \<Longrightarrow> 0 < snd (decode_rune s) \<and> snd (decode_rune s) \<le> length s"
  by (cases s) (auto simp: Let_def split: list.splits)

declare decode_rune.simps(2) [simp del]

text \<open>A decoded rune depends on the bytes it was read from, whatever follows them.\<close>

lemma decode_prefix:
  "decode_rune (s @ t) = (r, w) \<Longrightarrow> s \<noteq> [] \<Longrightarrow> w \<le> length s \<Longrightarrow> decode_rune s = (r, w)"
proof -
  assume d: "decode_rune (s @ t) = (r, w)" and ne: "s \<noteq> []" and w: "w \<le> length s"
  then obtain c0 s' where s: "s = c0 # s'" by (cases s) auto
  let ?b = "byte c0 :: nat"
  consider "?b < 128" | "128 \<le> ?b" "?b < 194 \<or> 244 < ?b" | "194 \<le> ?b" "?b < 224"
    | "224 \<le> ?b" "?b < 240" | "240 \<le> ?b" "?b \<le> 244" by linarith
  then show "decode_rune s = (r, w)"
  proof cases
    case 3
    with d w s show ?thesis by (cases s') (simp_all add: decode_rune.simps Let_def split: list.splits if_splits)
  next
    case 4
    with d w s show ?thesis
      by (cases s' rule: remdups_adj.cases)
        (simp_all add: decode_rune.simps Let_def split: list.splits if_splits)
  next
    case 5
    with d w s show ?thesis
      by (cases s' rule: remdups_adj.cases; cases "drop 2 s'")
        (simp_all add: decode_rune.simps Let_def split: list.splits if_splits)
  qed (use d s in \<open>auto simp: decode_rune.simps\<close>)
qed

function chunks :: "string \<Rightarrow> (rune \<times> string) list" where
  "chunks [] = []"
| "chunks (c # s) =
     (case decode_rune (c # s) of (r, w) \<Rightarrow>
        (r, take w (c # s)) # chunks (drop w (c # s)))"
  by pat_completeness auto
termination
proof (relation "measure length")
  fix c s r w
  assume "(r, w) = decode_rune (c # s)"
  then have "0 < w" using decode_width [of "c # s"] by (simp add: prod_eq_iff)
  then show "(drop w (c # s), c # s) \<in> measure length" by simp
qed simp

declare chunks.simps(2) [simp del]

lemma concat_chunks [simp]: "concat (map snd (chunks s)) = s"
proof (induction s rule: chunks.induct)
  case (2 c s)
  obtain r w where rw: "decode_rune (c # s) = (r, w)" by fastforce
  with "2.IH" [OF rw [symmetric]] show ?case
    by (simp add: chunks.simps)
qed simp

lemma chunks_eq_Nil [simp]: "chunks s = [] \<longleftrightarrow> s = []"
  by (cases s) (simp_all add: chunks.simps split: prod.split)

lemma chunks_ascii:
  "\<forall>c \<in> set s. byte c < (128 :: nat) \<Longrightarrow> chunks s = map (\<lambda>c. (byte c, [c])) s"
  by (induction s) (simp_all add: chunks.simps decode_rune.simps Let_def)

text \<open>
  Any run of consecutive chunks decodes to itself: cutting a string at chunk boundaries
  does not change how its remaining bytes are read.
\<close>

lemma chunks_Cons_eq:
  "chunks s = (r, b) # cs \<longleftrightarrow>
     s \<noteq> [] \<and> (\<exists>w. decode_rune s = (r, w) \<and> b = take w s \<and> chunks (drop w s) = cs)"
  by (cases s) (auto simp: chunks.simps split: prod.splits)

lemma chunks_suffix: "chunks s = xs @ ys \<Longrightarrow> chunks (concat (map snd ys)) = ys"
proof (induction xs arbitrary: s)
  case Nil
  then show ?case by (metis append_Nil concat_chunks)
next
  case (Cons x xs)
  then show ?case by (cases x) (auto simp: chunks_Cons_eq)
qed

lemma chunks_prefix: "chunks s = xs @ ys \<Longrightarrow> chunks (concat (map snd xs)) = xs"
proof (induction xs arbitrary: s)
  case (Cons x xs)
  obtain r b where x: "x = (r, b)" by fastforce
  with Cons.prems obtain w where s: "s \<noteq> []" and d: "decode_rune s = (r, w)"
    and b: "b = take w s" and cs: "chunks (drop w s) = xs @ ys"
    by (auto simp: chunks_Cons_eq)
  let ?b' = "concat (map snd xs)"
  have w: "0 < w" "w \<le> length s" using decode_width [OF s] d by simp_all
  have rest: "s = (b @ ?b') @ concat (map snd ys)"
    using concat_chunks [of "drop w s"] b by (simp add: cs)
  have "decode_rune ((b @ ?b') @ concat (map snd ys)) = (r, w)"
    using d by (simp only: rest [symmetric])
  then have "decode_rune (b @ ?b') = (r, w)"
    by (rule decode_prefix) (use w b s in auto)
  moreover have "b \<noteq> []" "take w (b @ ?b') = b" "drop w (b @ ?b') = ?b'"
    using w b s by auto
  ultimately show ?case using Cons.IH [OF cs] by (simp add: x chunks_Cons_eq)
qed simp

section \<open>Encoding inverts decoding\<close>

lemma byte_char_of [simp]: "n < 256 \<Longrightarrow> byte (char_of n) = n"
  by (simp add: of_char_of)

lemma rune_digits:
  fixes r :: nat
  shows "r div 64 * 64 + r mod 64 = r"
    and "r div 4096 * 64 + r div 64 mod 64 = r div 64"
    and "r div 262144 * 64 + r div 4096 mod 64 = r div 4096"
proof -
  have "r div 4096 = r div 64 div 64" "r div 262144 = r div 4096 div 64"
    by (simp_all flip: div_mult2_eq)
  then show "r div 64 * 64 + r mod 64 = r"
    and "r div 4096 * 64 + r div 64 mod 64 = r div 64"
    and "r div 262144 * 64 + r div 4096 mod 64 = r div 4096"
    by simp_all
qed

lemma second_ok_byte: "second_ok b0 b1 \<Longrightarrow> 128 \<le> b1 \<and> b1 \<le> 191"
  by (auto simp: second_ok_def split: if_splits)

lemma decode_two:
  assumes "194 \<le> b0" "b0 < 224" "second_ok b0 b1"
  shows "decode_rune (char_of b0 # char_of b1 # s) = ((b0 - 192) * 64 + (b1 - 128), 2)"
  using assms second_ok_byte [OF assms(3)] by (simp add: decode_rune.simps Let_def)

lemma decode_three:
  assumes "224 \<le> b0" "b0 < 240" "second_ok b0 b1" "is_cont b2"
  shows "decode_rune (char_of b0 # char_of b1 # char_of b2 # s) =
     ((b0 - 224) * 4096 + (b1 - 128) * 64 + (b2 - 128), 3)"
  using assms second_ok_byte [OF assms(3)]
  by (simp add: decode_rune.simps Let_def is_cont_def)

lemma decode_four:
  assumes "240 \<le> b0" "b0 \<le> 244" "second_ok b0 b1" "is_cont b2" "is_cont b3"
  shows "decode_rune (char_of b0 # char_of b1 # char_of b2 # char_of b3 # s) =
     ((b0 - 240) * 262144 + (b1 - 128) * 4096 + (b2 - 128) * 64 + (b3 - 128), 4)"
  using assms second_ok_byte [OF assms(3)]
  by (simp add: decode_rune.simps Let_def is_cont_def)

lemma decode_encode:
  assumes v: "valid_rune r"
  shows "decode_rune (encode_rune r @ s) = (r, length (encode_rune r))"
proof -
  let ?m0 = "r mod 64" and ?m1 = "r div 64 mod 64" and ?m2 = "r div 4096 mod 64"
  have "?m0 < 64" "?m1 < 64" "?m2 < 64" by simp_all
  then have m: "?m0 \<le> 63" "?m1 \<le> 63" "?m2 \<le> 63" by linarith+
  then have cont: "is_cont (128 + ?m0)" "is_cont (128 + ?m1)" by (simp_all add: is_cont_def)
  note d = rune_digits [of r]
  consider "r < 128" | "128 \<le> r" "r < 2048" | "2048 \<le> r" "r < 65536"
    | "65536 \<le> r" "r \<le> 1114111" using v by (fastforce simp: valid_rune_def)
  then show ?thesis
  proof cases
    case 1
    with v show ?thesis by (simp add: encode_rune_def decode_rune.simps)
  next
    case 2
    then have q: "192 + r div 64 < 224" "194 \<le> 192 + r div 64" by auto
    with m have ok: "second_ok (192 + r div 64) (128 + ?m0)" by (simp add: second_ok_def)
    show ?thesis
      using 2 v decode_two [OF q(2,1) ok, of s] d(1) by (simp add: encode_rune_def)
  next
    case 3
    then have q: "224 + r div 4096 < 240" "224 \<le> 224 + r div 4096"
      and q': "32 \<le> r div 64" by auto
    have lo: "32 \<le> ?m1" if "r div 4096 = 0" using q' d(2) that by simp
    have hi: "?m1 < 32" if "r div 4096 = 13"
      using v d(1,2) m that by (auto simp: valid_rune_def)
    have ok: "second_ok (224 + r div 4096) (128 + ?m1)"
      using q m lo hi by (auto simp: second_ok_def)
    have "r div 4096 * 4096 + ?m1 * 64 + ?m0 = r" using d by linarith
    with 3 v decode_three [OF q(2,1) ok cont(1), of s] show ?thesis
      by (simp add: encode_rune_def)
  next
    case 4
    then have q: "240 + r div 262144 \<le> 244" "240 \<le> 240 + r div 262144"
      and q': "16 \<le> r div 4096" by auto
    have lo: "16 \<le> ?m2" if "r div 262144 = 0" using q' d(3) that by simp
    have hi: "?m2 < 16" if "r div 262144 = 4" using 4 d m that by linarith
    have ok: "second_ok (240 + r div 262144) (128 + ?m2)"
      using q m lo hi by (auto simp: second_ok_def)
    have "r div 262144 * 262144 + ?m2 * 4096 + ?m1 * 64 + ?m0 = r" using d by linarith
    with 4 v decode_four [OF q(2,1) ok cont(2,1), of s] show ?thesis
      by (simp add: encode_rune_def)
  qed
qed

lemma encode_nonempty [simp]: "encode_rune r \<noteq> []"
  by (simp add: encode_rune_def Let_def)

lemma chunks_encode:
  "valid_rune r \<Longrightarrow> chunks (encode_rune r @ s) = (r, encode_rune r) # chunks s"
  by (simp add: chunks_Cons_eq decode_encode)

lemma chunks_encodes:
  "\<forall>r \<in> set rs. valid_rune r \<Longrightarrow>
     chunks (concat (map encode_rune rs) @ s) = map (\<lambda>r. (r, encode_rune r)) rs @ chunks s"
  by (induction rs) (simp_all add: chunks_encode)

lemma encode_ascii: "r < 128 \<Longrightarrow> encode_rune r = [char_of r]"
  by (simp add: encode_rune_def valid_rune_def)

section \<open>Character classes and case\<close>

definition is_space :: "rune \<Rightarrow> bool" where
  "is_space r = in_ranges space_ranges r"

definition IsDigit :: "rune \<Rightarrow> bool" where
  "IsDigit r = in_ranges digit_ranges r"

definition rune_lower :: "rune \<Rightarrow> rune" where
  "rune_lower r =
     (if r < 128 then (if 65 \<le> r \<and> r \<le> 90 then r + 32 else r) else case_map lower_runs r)"

definition rune_upper :: "rune \<Rightarrow> rune" where
  "rune_upper r =
     (if r < 128 then (if 97 \<le> r \<and> r \<le> 122 then r - 32 else r) else case_map upper_runs r)"

section \<open>Functions of the strings package\<close>

definition trim_by :: "('a \<Rightarrow> bool) \<Rightarrow> 'a list \<Rightarrow> 'a list" where
  "trim_by P xs = rev (dropWhile P (rev (dropWhile P xs)))"

definition TrimSpace :: "string \<Rightarrow> string" where
  "TrimSpace s = concat (map snd (trim_by (\<lambda>(r, _). is_space r) (chunks s)))"

definition ToLower :: "string \<Rightarrow> string" where
  "ToLower s = concat (map (\<lambda>(r, _). encode_rune (rune_lower r)) (chunks s))"

definition ToUpper :: "string \<Rightarrow> string" where
  "ToUpper s = concat (map (\<lambda>(r, _). encode_rune (rune_upper r)) (chunks s))"

definition HasPrefix :: "string \<Rightarrow> string \<Rightarrow> bool" where
  "HasPrefix s p \<longleftrightarrow> length p \<le> length s \<and> take (length p) s = p"

fun Contains :: "string \<Rightarrow> string \<Rightarrow> bool" where
  "Contains [] p = (p = [])"
| "Contains (c # s) p = (HasPrefix (c # s) p \<or> Contains s p)"

text \<open>\<open>strings.Split\<close> at a separator of one byte.\<close>

fun Split :: "char \<Rightarrow> string \<Rightarrow> string list" where
  "Split sep [] = [[]]"
| "Split sep (c # s) =
     (if c = sep then [] # Split sep s
      else (case Split sep s of p # ps \<Rightarrow> (c # p) # ps | [] \<Rightarrow> [[c]]))"

lemma trim_by_split:
  obtains pre post where "xs = pre @ trim_by P xs @ post"
    and "\<forall>x \<in> set pre. P x" and "\<forall>x \<in> set post. P x"
proof
  let ?ys = "dropWhile P xs"
  have "?ys = rev (dropWhile P (rev ?ys)) @ rev (takeWhile P (rev ?ys))"
    by (metis rev_append rev_rev_ident takeWhile_dropWhile_id)
  then show "xs = takeWhile P xs @ trim_by P xs @ rev (takeWhile P (rev ?ys))"
    unfolding trim_by_def by (metis takeWhile_dropWhile_id)
  show "\<forall>x \<in> set (takeWhile P xs). P x" by (blast dest: set_takeWhileD)
  show "\<forall>x \<in> set (rev (takeWhile P (rev ?ys))). P x"
    unfolding set_rev by (blast dest: set_takeWhileD)
qed

lemma trim_by_ends:
  assumes "trim_by P xs \<noteq> []"
  shows "\<not> P (hd (trim_by P xs))" "\<not> P (last (trim_by P xs))"
proof -
  let ?ys = "dropWhile P xs"
  have ne: "dropWhile P (rev ?ys) \<noteq> []" using assms by (simp add: trim_by_def)
  then show "\<not> P (last (trim_by P xs))" by (simp add: trim_by_def last_rev hd_dropWhile)
  from ne have "?ys \<noteq> []" by (metis dropWhile.simps(1) rev.simps(1))
  then have "\<not> P (hd ?ys)" by (rule hd_dropWhile)
  moreover have "hd (trim_by P xs) = hd ?ys"
    using ne unfolding trim_by_def
    by (metis hd_append2 rev_append rev_is_Nil_conv rev_rev_ident takeWhile_dropWhile_id)
  ultimately show "\<not> P (hd (trim_by P xs))" by simp
qed

lemma trim_by_id: "xs = [] \<or> \<not> P (hd xs) \<and> \<not> P (last xs) \<Longrightarrow> trim_by P xs = xs"
proof (cases "xs = []")
  case False
  assume "xs = [] \<or> \<not> P (hd xs) \<and> \<not> P (last xs)"
  with False have "dropWhile P xs = xs" "dropWhile P (rev xs) = rev xs"
    by (simp_all add: dropWhile_eq_self_iff hd_rev)
  then show ?thesis by (simp add: trim_by_def)
qed (simp add: trim_by_def)

lemma trim_by_idem: "trim_by P (trim_by P xs) = trim_by P xs"
  by (rule trim_by_id) (use trim_by_ends [of P xs] in blast)

lemma chunks_TrimSpace: "chunks (TrimSpace s) = trim_by (\<lambda>(r, _). is_space r) (chunks s)"
proof -
  obtain pre post where s: "chunks s = pre @ trim_by (\<lambda>(r, _). is_space r) (chunks s) @ post"
    by (rule trim_by_split)
  from chunks_suffix [OF s] have
    "chunks (concat (map snd (trim_by (\<lambda>(r, _). is_space r) (chunks s) @ post)))
       = trim_by (\<lambda>(r, _). is_space r) (chunks s) @ post" .
  then show ?thesis unfolding TrimSpace_def by (rule chunks_prefix)
qed

lemma TrimSpace_idem [simp]: "TrimSpace (TrimSpace s) = TrimSpace s"
  by (simp add: TrimSpace_def [of "TrimSpace s"] chunks_TrimSpace trim_by_idem)
    (simp add: TrimSpace_def)

lemma TrimSpace_Nil [simp]: "TrimSpace [] = []"
  by (simp add: TrimSpace_def trim_by_def)

text \<open>ASCII text without capitals.\<close>

definition plain_name :: "string \<Rightarrow> bool" where
  "plain_name k \<longleftrightarrow> (\<forall>c \<in> set k. byte c < (128 :: nat) \<and> \<not> (65 \<le> (byte c :: nat) \<and> byte c \<le> (90 :: nat)))"

lemma ToLower_plain: "plain_name s \<Longrightarrow> ToLower s = s"
proof -
  assume s: "plain_name s"
  then have "ToLower s = concat (map (\<lambda>c. encode_rune (rune_lower (byte c))) s)"
    by (simp add: ToLower_def chunks_ascii plain_name_def comp_def)
  also have "\<dots> = concat (map (\<lambda>c. [c]) s)"
    using s by (intro arg_cong [where f = concat] map_cong)
      (auto simp: plain_name_def rune_lower_def encode_ascii)
  finally show ?thesis by simp
qed

end
