(* ===== verification/Auth_Types.thy ===== *)
theory Auth_Types
  imports Go_Strings
begin

text \<open>
  Package \<open>auth\<close>: the domain types (\<open>models.go\<close>, \<open>tokens.go\<close>, \<open>otp.go\<close>, \<open>requests.go\<close>,
  \<open>ratelimit.go\<close>), the error values (\<open>errors.go\<close>) and the interfaces the service is
  written against (\<open>repository.go\<close>, \<open>refresh_store.go\<close>, \<open>otp.go\<close>, \<open>ratelimit.go\<close>).
  A Go \<open>uint\<close> identifier is a \<open>nat\<close>.  An interface value is a record of its methods; a
  method runs on the private state of its implementation and is given the clock reading at
  which it is served.
\<close>

section \<open>Errors\<close>

text \<open>
  The sentinel errors of \<open>errors.go\<close>.  \<open>ErrOther\<close> stands for every error made elsewhere
  (database, network, cryptography), with its message.  No sentinel is ever wrapped, so
  \<open>errors.Is\<close> is equality.
\<close>

datatype auth_error =
    ErrInvalidCredentials | ErrInvalidUsername | ErrInvalidPassword | ErrInvalidEmail
  | ErrInvalidMobile | ErrInvalidOTPCode | ErrInvalidClientType | ErrInvalidMobileFormat
  | ErrUserNotFound | ErrUserAlreadyExists | ErrUsernameAlreadyExists
  | ErrEmailAlreadyExists | ErrMobileAlreadyExists | ErrSignupVerificationPending
  | ErrOTPResendTooSoon | ErrOTPResendLimitReached | ErrOTPTooManyRequests
  | ErrPendingSignupExpired | ErrMobileNotVerified | ErrOTPProviderUnavailable
  | ErrCacheMiss | ErrUnauthorized | ErrInvalidToken | ErrTokenExpired | ErrInvalidJWEKey
  | ErrInvalidRefreshToken | ErrProfileAlreadyComplete
  | ErrOther string

text \<open>\<open>err.Error()\<close>.\<close>

fun error_message :: "auth_error \<Rightarrow> string" where
  "error_message ErrInvalidCredentials = ''invalid username or password''"
| "error_message ErrInvalidUsername = ''username is required''"
| "error_message ErrInvalidPassword = ''password is required''"
| "error_message ErrInvalidEmail = ''email is required''"
| "error_message ErrInvalidMobile = ''mobile is required''"
| "error_message ErrInvalidOTPCode = ''invalid otp code''"
| "error_message ErrInvalidClientType = ''invalid client type''"
| "error_message ErrInvalidMobileFormat = ''invalid mobile number''"
| "error_message ErrUserNotFound = ''user not found''"
| "error_message ErrUserAlreadyExists = ''user already exists''"
| "error_message ErrUsernameAlreadyExists = ''username already exists''"
| "error_message ErrEmailAlreadyExists = ''email already exists''"
| "error_message ErrMobileAlreadyExists = ''mobile already exists''"
| "error_message ErrSignupVerificationPending = ''signup verification pending''"
| "error_message ErrOTPResendTooSoon = ''otp resend cooldown active''"
| "error_message ErrOTPResendLimitReached = ''otp resend limit reached''"
| "error_message ErrOTPTooManyRequests = ''too many otp requests''"
| "error_message ErrPendingSignupExpired = ''pending signup expired''"
| "error_message ErrMobileNotVerified = ''mobile not verified''"
| "error_message ErrOTPProviderUnavailable = ''otp provider unavailable''"
| "error_message ErrCacheMiss = ''cache miss''"
| "error_message ErrUnauthorized = ''unauthorized''"
| "error_message ErrInvalidToken = ''invalid token''"
| "error_message ErrTokenExpired = ''token expired''"
| "error_message ErrInvalidJWEKey = ''invalid jwe key length''"
| "error_message ErrInvalidRefreshToken = ''invalid refresh token''"
| "error_message ErrProfileAlreadyComplete = ''profile already complete''"
| "error_message (ErrOther m) = m"

section \<open>Domain types\<close>

type_synonym role = string

definition RoleAdmin :: role where "RoleAdmin = ''admin''"
definition RoleCustomer :: role where "RoleCustomer = ''customer''"

record user =
  ID :: nat
  Username :: string
  Email :: string
  Mobile :: string
  MobileVerified :: bool
  Role :: role
  IsProfileComplete :: bool
  CreatedAt :: time
  UpdatedAt :: time

text \<open>\<open>User{}\<close>, the zero value.\<close>

definition zero_user :: user where
  "zero_user = \<lparr>user.ID = 0, Username = [], Email = [], Mobile = [], MobileVerified = False,
     Role = [], IsProfileComplete = False, CreatedAt = 0, UpdatedAt = 0\<rparr>"

text \<open>The field \<open>Data\<close> of an SSO account is never set or read and is left out.\<close>

record sso_account =
  UserID :: nat
  Provider :: string
  ProviderID :: string
  Email :: string

record google_config =
  ClientID :: string
  ClientSecret :: string
  RedirectURI :: string

record access_claims =
  Subject :: string
  TokenType :: string
  Role :: string
  IsProfileComplete :: bool
  IssuedAt :: time
  ExpiresAt :: time

record refresh_session =
  TokenID :: string
  UserID :: nat
  Username :: string
  ExpiresAt :: time

record token_pair =
  AccessToken :: string
  RefreshToken :: string
  TokenType :: string
  AccessTokenExpiresIn :: int
  RefreshTokenExpiresIn :: int

record pending_signup =
  Username :: string
  PasswordHash :: string
  Email :: string
  Mobile :: string
  ResendCount :: int
  LastSentAt :: time
  ExpiresAt :: time

record otp_request_state =
  Mobile :: string
  ResendCount :: int
  LastSentAt :: time
  ExpiresAt :: time

record otp_config =
  PendingSignupTTL :: duration
  ResendCooldown :: duration
  MaxResends :: int

record rate_limit_rule =
  Limit :: int
  Window :: duration

record otp_rate_limit_config =
  RequestIP :: rate_limit_rule
  RequestMobile :: rate_limit_rule
  VerifyIP :: rate_limit_rule
  VerifyMobile :: rate_limit_rule

section \<open>Requests\<close>

record register_request =
  Username :: string
  Password :: string
  Email :: string
  Mobile :: string
  ClientType :: string

record password_login_request =
  Username :: string
  Password :: string
  ClientType :: string

record otp_request =
  Mobile :: string
  ClientType :: string

record otp_verify_request =
  Mobile :: string
  Code :: string
  ClientType :: string

section \<open>Interfaces\<close>

record 'u user_repository =
  GetUserDetailsByUsername :: "time \<Rightarrow> string \<Rightarrow> ('u, auth_error, user) call"
  GetUserByEmail :: "time \<Rightarrow> string \<Rightarrow> ('u, auth_error, user) call"
  GetUserByMobile :: "time \<Rightarrow> string \<Rightarrow> ('u, auth_error, user) call"
  GetUserByID :: "time \<Rightarrow> nat \<Rightarrow> ('u, auth_error, user) call"
  RegisterUser :: "time \<Rightarrow> user \<Rightarrow> string \<Rightarrow> ('u, auth_error, user) call"
  UpdateUser :: "time \<Rightarrow> user \<Rightarrow> ('u, auth_error, unit) call"
  GetPasswordHashByUserID :: "time \<Rightarrow> nat \<Rightarrow> ('u, auth_error, string) call"
  GetSSOAccount :: "time \<Rightarrow> string \<Rightarrow> string \<Rightarrow> ('u, auth_error, user \<times> bool) call"
  CreateSSOUser :: "time \<Rightarrow> user \<Rightarrow> sso_account \<Rightarrow> ('u, auth_error, user) call"
  LinkSSOAccount :: "time \<Rightarrow> nat \<Rightarrow> sso_account \<Rightarrow> ('u, auth_error, unit) call"

record 'c user_cache =
  GetUser :: "time \<Rightarrow> string \<Rightarrow> ('c, auth_error, user) call"
  SetUser :: "time \<Rightarrow> user \<Rightarrow> ('c, auth_error, unit) call"
  DeleteUser :: "time \<Rightarrow> string \<Rightarrow> ('c, auth_error, unit) call"

record 'r refresh_token_store =
  Save :: "time \<Rightarrow> string \<Rightarrow> refresh_session \<Rightarrow> ('r, auth_error, unit) call"
  Get :: "time \<Rightarrow> string \<Rightarrow> ('r, auth_error, refresh_session) call"
  Delete :: "time \<Rightarrow> string \<Rightarrow> ('r, auth_error, unit) call"

record 'x otp_provider =
  SendVerification :: "string \<Rightarrow> ('x, auth_error, unit) call"
  CheckVerification :: "string \<Rightarrow> string \<Rightarrow> ('x, auth_error, bool) call"

record 'p pending_signup_store =
  Save :: "time \<Rightarrow> pending_signup \<Rightarrow> ('p, auth_error, unit) call"
  GetByMobile :: "time \<Rightarrow> string \<Rightarrow> ('p, auth_error, pending_signup) call"
  DeleteByMobile :: "time \<Rightarrow> string \<Rightarrow> ('p, auth_error, unit) call"
  GetMobileByUsername :: "time \<Rightarrow> string \<Rightarrow> ('p, auth_error, string) call"
  GetMobileByEmail :: "time \<Rightarrow> string \<Rightarrow> ('p, auth_error, string) call"
  GetMobileByMobile :: "time \<Rightarrow> string \<Rightarrow> ('p, auth_error, string) call"

record 'o otp_state_store =
  Save :: "time \<Rightarrow> string \<Rightarrow> otp_request_state \<Rightarrow> ('o, auth_error, unit) call"
  Get :: "time \<Rightarrow> string \<Rightarrow> ('o, auth_error, otp_request_state) call"
  Delete :: "time \<Rightarrow> string \<Rightarrow> ('o, auth_error, unit) call"

record 'l rate_limiter =
  Allow :: "time \<Rightarrow> string \<Rightarrow> rate_limit_rule \<Rightarrow> ('l, auth_error, bool) call"

end
