(* ===== verification/Mobile.thy ===== *)
theory Mobile
  imports Auth_Types
begin

text \<open>
  \<open>auth/mobile.go\<close>: the normalisation of mobile numbers to the Indian E.164 form, and of
  emails and usernames.  The loop over the runes of the input is \<open>mobile_digits\<close>, with the
  \<open>strings.Builder\<close> as its accumulator.
\<close>

section \<open>Definitions\<close>

fun mobile_digits :: "rune list \<Rightarrow> string \<Rightarrow> auth_error + string" where
  "mobile_digits [] digits = Inr digits"
| "mobile_digits (r # rs) digits =
     (if r = 43 then
        (if 0 < length digits then Inl ErrInvalidMobileFormat else mobile_digits rs digits)
      else if IsDigit r then mobile_digits rs (digits @ encode_rune r)
      else if r = 32 \<or> r = 45 \<or> r = 40 \<or> r = 41 then mobile_digits rs digits
      else Inl ErrInvalidMobileFormat)"

definition NormalizeIndianMobile :: "string \<Rightarrow> auth_error + string" where
  "NormalizeIndianMobile input =
     (let trimmed = TrimSpace input in
      if trimmed = [] then Inl ErrInvalidMobile
      else
        case mobile_digits (map fst (chunks trimmed)) [] of
          Inl e \<Rightarrow> Inl e
        | Inr digits \<Rightarrow>
            (case
               (if length digits = 10 then Inr digits
                else if length digits = 11 \<and> HasPrefix digits ''0'' then Inr (drop 1 digits)
                else if length digits = 12 \<and> HasPrefix digits ''91'' then Inr (drop 2 digits)
                else Inl ErrInvalidMobileFormat) of
               Inl e \<Rightarrow> Inl e
             | Inr number \<Rightarrow>
                 if length number \<noteq> 10 \<or> byte (number ! 0) < (54 :: nat)
                   \<or> (57 :: nat) < byte (number ! 0)
                 then Inl ErrInvalidMobileFormat
                 else Inr (''+91'' @ number)))"

definition normalizeEmail :: "string \<Rightarrow> string" where
  "normalizeEmail input = ToLower (TrimSpace input)"

definition normalizeUsername :: "string \<Rightarrow> string" where
  "normalizeUsername input = TrimSpace input"

section \<open>The digits loop\<close>

lemma char_of_signs:
  "char_of (43 :: nat) = CHR ''+''" "char_of (57 :: nat) = CHR ''9''"
  "char_of (49 :: nat) = CHR ''1''"
  using char_of_char [where 'a = nat and c = "CHR ''+''"]
    char_of_char [where 'a = nat and c = "CHR ''9''"]
    char_of_char [where 'a = nat and c = "CHR ''1''"] by simp_all

lemma IsDigit_ascii: "r < 128 \<Longrightarrow> IsDigit r \<longleftrightarrow> 48 \<le> r \<and> r \<le> 57"
  by (auto simp: IsDigit_def digit_ranges_def)

lemma IsDigit_valid: "IsDigit r \<Longrightarrow> valid_rune r"
  by (auto simp: IsDigit_def digit_ranges_def valid_rune_def)

lemma in_ranges_iff: "in_ranges rs r \<longleftrightarrow> (\<exists>(lo, hi) \<in> set rs. lo \<le> r \<and> r \<le> hi)"
  by (induction rs r rule: in_ranges.induct) auto

lemma IsDigit_not_space: "IsDigit r \<Longrightarrow> \<not> is_space r"
proof -
  have "\<forall>(a, b) \<in> set digit_ranges. \<forall>(c, d) \<in> set space_ranges. b < c \<or> d < a"
    by (simp add: digit_ranges_def space_ranges_def)
  then show "IsDigit r \<Longrightarrow> \<not> is_space r"
    by (fastforce simp: IsDigit_def is_space_def in_ranges_iff)
qed

text \<open>A successful loop has written exactly the digits among the runes it read.\<close>

lemma mobile_digits_Inr:
  "mobile_digits rs acc = Inr ds \<Longrightarrow>
     ds = acc @ concat (map encode_rune (filter IsDigit rs)) \<and>
     (\<forall>r \<in> set rs. IsDigit r \<or> r \<in> {43, 32, 45, 40, 41})"
proof (induction rs arbitrary: acc)
  case (Cons r rs)
  from Cons.prems Cons.IH [of acc] Cons.IH [of "acc @ encode_rune r"] show ?case
    by (auto simp: IsDigit_ascii split: if_splits)
qed simp

lemma mobile_digits_digits:
  "\<forall>r \<in> set rs. IsDigit r \<Longrightarrow>
     mobile_digits rs acc = Inr (acc @ concat (map encode_rune rs))"
  by (induction rs arbitrary: acc) (auto simp: IsDigit_ascii)

section \<open>Results are normalised\<close>

text \<open>The shape every result has: \<open>+91\<close>, then ten bytes that begin with 6 to 9.\<close>

definition normal_mobile :: "string \<Rightarrow> bool" where
  "normal_mobile m \<longleftrightarrow>
     (\<exists>rs. m = ''+91'' @ concat (map encode_rune rs) \<and> (\<forall>r \<in> set rs. IsDigit r) \<and>
        length (concat (map encode_rune rs)) = 10 \<and>
        (\<exists>d rs'. rs = d # rs' \<and> 54 \<le> d \<and> d \<le> 57))"

lemma encode_byte:
  assumes "IsDigit r" and "encode_rune r @ x = c # y" and "byte c < (128 :: nat)"
  shows "r = byte c \<and> encode_rune r = [c]"
proof -
  from assms(1) have v: "valid_rune r" by (rule IsDigit_valid)
  have "decode_rune (c # y) = (byte c, 1)" using assms(3) by (simp add: decode_rune.simps)
  with decode_encode [OF v, of x] assms(2)
  have "r = byte c" "length (encode_rune r) = 1" by auto
  with assms(2) show ?thesis by (cases "encode_rune r") auto
qed

lemma strip_digit:
  assumes "concat (map encode_rune rs) = c # y" and "\<forall>r \<in> set rs. IsDigit r"
    and "byte c < (128 :: nat)"
  shows "\<exists>rs'. rs = byte c # rs' \<and> concat (map encode_rune rs') = y \<and> (\<forall>r \<in> set rs'. IsDigit r)"
proof -
  from assms(1) obtain r rs' where rs: "rs = r # rs'" by (cases rs) auto
  with assms have "r = byte c \<and> encode_rune r = [c]"
    by (intro encode_byte [of r "concat (map encode_rune rs')" c y]) auto
  with rs assms show ?thesis by auto
qed

lemma HasPrefix_append: "HasPrefix s p \<Longrightarrow> \<exists>t. s = p @ t"
  by (metis HasPrefix_def append_take_drop_id)

lemma NormalizeIndianMobile_normal:
  assumes "NormalizeIndianMobile input = Inr m"
  shows "normal_mobile m"
proof -
  from assms obtain ds number where
    loop: "mobile_digits (map fst (chunks (TrimSpace input))) [] = Inr ds" and
    number: "(length ds = 10 \<and> number = ds) \<or>
      (length ds = 11 \<and> HasPrefix ds ''0'' \<and> number = drop 1 ds) \<or>
      (length ds = 12 \<and> HasPrefix ds ''91'' \<and> number = drop 2 ds)" and
    ten: "length number = 10" and
    first: "54 \<le> byte (number ! 0)" "byte (number ! 0) \<le> (57 :: nat)" and
    m: "m = ''+91'' @ number"
    by (auto simp: NormalizeIndianMobile_def Let_def split: sum.splits if_splits)
  let ?rs = "filter IsDigit (map fst (chunks (TrimSpace input)))"
  have ds: "ds = concat (map encode_rune ?rs)" and dig: "\<forall>r \<in> set ?rs. IsDigit r"
    using mobile_digits_Inr [OF loop] by simp_all
  have "\<exists>rs. number = concat (map encode_rune rs) \<and> (\<forall>r \<in> set rs. IsDigit r)"
  proof -
    consider "ds = number" | "ds = CHR ''0'' # number" | "ds = CHR ''9'' # CHR ''1'' # number"
      using number by (auto dest!: HasPrefix_append)
    then show ?thesis
    proof cases
      case 1
      with ds dig show ?thesis by blast
    next
      case 2
      from strip_digit [OF trans [OF ds [symmetric] 2] dig] show ?thesis by auto
    next
      case 3
      from strip_digit [OF trans [OF ds [symmetric] 3] dig]
      obtain rs1 where "concat (map encode_rune rs1) = CHR ''1'' # number"
        and "\<forall>r \<in> set rs1. IsDigit r" by auto
      from strip_digit [OF this] show ?thesis by auto
    qed
  qed
  then obtain rs where rs: "number = concat (map encode_rune rs)" "\<forall>r \<in> set rs. IsDigit r"
    by blast
  from ten obtain c y where cy: "number = c # y" by (cases number) auto
  from cy first have c: "54 \<le> byte c" "byte c \<le> (57 :: nat)" by simp_all
  with strip_digit [OF trans [OF rs(1) [symmetric] cy] rs(2)]
  obtain rs' where "rs = byte c # rs'" by auto
  with rs ten c m show ?thesis unfolding normal_mobile_def by blast
qed

text \<open>A normalised number is left as it is.\<close>

lemma NormalizeIndianMobile_fixed:
  assumes "normal_mobile m"
  shows "NormalizeIndianMobile m = Inr m"
proof -
  from assms obtain rs d rs' where m: "m = ''+91'' @ concat (map encode_rune rs)"
    and dig: "\<forall>r \<in> set rs. IsDigit r" and ten: "length (concat (map encode_rune rs)) = 10"
    and rs: "rs = d # rs'" "54 \<le> d" "d \<le> 57"
    by (auto simp: normal_mobile_def)
  let ?all = "[43, 57, 49] @ rs"
  have valid: "\<forall>r \<in> set ?all. valid_rune r"
    using dig by (simp add: IsDigit_valid) (simp add: valid_rune_def)
  have enc: "m = concat (map encode_rune ?all)"
    by (simp add: m encode_ascii char_of_signs)
  have ch: "chunks m = map (\<lambda>r. (r, encode_rune r)) ?all"
    using chunks_encodes [OF valid, of "[]"] by (simp add: enc)
  have "IsDigit (last rs)" using dig rs by simp
  then have "\<not> is_space (last rs)" by (rule IsDigit_not_space)
  moreover have "\<not> is_space 43" by (simp add: is_space_def space_ranges_def)
  moreover have "last ?all = last rs" "hd ?all = 43" "rs \<noteq> []" using rs(1) by simp_all
  ultimately have "trim_by (\<lambda>(r, _). is_space r) (chunks m) = chunks m"
    unfolding ch by (intro trim_by_id) (simp add: last_map hd_map)
  then have trim: "TrimSpace m = m" by (simp add: TrimSpace_def)
  have "mobile_digits (map fst (chunks m)) [] = Inr (''91'' @ concat (map encode_rune rs))"
    using mobile_digits_digits [OF dig, of "''91''"]
    by (simp add: ch comp_def IsDigit_ascii encode_ascii char_of_signs)
  moreover have "byte (concat (map encode_rune rs) ! 0) = d"
    using rs by (simp add: encode_ascii)
  moreover have "m \<noteq> []" by (simp add: m)
  ultimately have "NormalizeIndianMobile m = Inr (''+91'' @ concat (map encode_rune rs))"
    using ten rs(2,3) unfolding NormalizeIndianMobile_def trim Let_def
    by (simp add: HasPrefix_def)
  then show ?thesis by (simp only: m)
qed

section \<open>ASCII input\<close>

definition is_ascii :: "string \<Rightarrow> bool" where
  "is_ascii s \<longleftrightarrow> (\<forall>c \<in> set s. byte c < (128 :: nat))"

definition digit :: "char \<Rightarrow> bool" where
  "digit c \<longleftrightarrow> 48 \<le> (byte c :: nat) \<and> byte c \<le> (57 :: nat)"

text \<open>The grammar the loop accepts: signs may stand only before the first digit.\<close>

definition mobile_syntax :: "string \<Rightarrow> bool" where
  "mobile_syntax s \<longleftrightarrow>
     (\<forall>c \<in> set s. digit c \<or> c \<in> set '' -()+'') \<and>
     CHR ''+'' \<notin> set (dropWhile (\<lambda>c. \<not> digit c) s)"

lemma byte_signs:
  "byte c = (43 :: nat) \<longleftrightarrow> c = CHR ''+''" "byte c = (32 :: nat) \<longleftrightarrow> c = CHR '' ''"
  "byte c = (45 :: nat) \<longleftrightarrow> c = CHR ''-''" "byte c = (40 :: nat) \<longleftrightarrow> c = CHR ''(''"
  "byte c = (41 :: nat) \<longleftrightarrow> c = CHR '')''"
  using of_char_eq_iff [where 'a = nat and c = c and d = "CHR ''+''"]
    of_char_eq_iff [where 'a = nat and c = c and d = "CHR '' ''"]
    of_char_eq_iff [where 'a = nat and c = c and d = "CHR ''-''"]
    of_char_eq_iff [where 'a = nat and c = c and d = "CHR ''(''"]
    of_char_eq_iff [where 'a = nat and c = c and d = "CHR '')''"] by simp_all

lemma mobile_digits_ascii:
  assumes "is_ascii s"
  shows "mobile_digits (map byte s) acc =
    (if (\<forall>c \<in> set s. digit c \<or> c \<in> set '' -()+'') \<and>
        (if acc = [] then CHR ''+'' \<notin> set (dropWhile (\<lambda>c. \<not> digit c) s) else CHR ''+'' \<notin> set s)
     then Inr (acc @ filter digit s) else Inl ErrInvalidMobileFormat)"
  using assms
proof (induction s arbitrary: acc)
  case (Cons c s)
  then have c: "byte c < (128 :: nat)" and s: "is_ascii s" by (simp_all add: is_ascii_def)
  have enc: "encode_rune (byte c) = [c]" using c by (simp add: encode_ascii)
  have dig: "IsDigit (byte c) \<longleftrightarrow> digit c" using c by (simp add: IsDigit_ascii digit_def)
  have nodigit: "\<not> digit c" if "c \<in> set '' -()+''" using that by (auto simp: digit_def)
  consider "c = CHR ''+''" | "digit c" "c \<noteq> CHR ''+''"
    | "\<not> digit c" "c \<noteq> CHR ''+''" "c \<in> set '' -()''"
    | "\<not> digit c" "c \<notin> set '' -()+''" by auto
  then show ?case
  proof cases
    case 1
    with nodigit have "\<not> digit c" by simp
    with Cons.IH [OF s, of acc] 1 show ?thesis by (cases "acc = []") (auto simp: byte_signs)
  next
    case 2
    with Cons.IH [OF s, of "acc @ [c]"] show ?thesis
      by (auto simp: dig enc byte_signs)
  next
    case 3
    with Cons.IH [OF s, of acc] dig show ?thesis by (auto simp: byte_signs)
  next
    case 4
    with dig show ?thesis by (auto simp: byte_signs)
  qed
qed simp

lemma trim_by_map: "trim_by P (map f xs) = map f (trim_by (P \<circ> f) xs)"
  by (simp add: trim_by_def dropWhile_map rev_map comp_def)

lemma TrimSpace_ascii:
  "is_ascii s \<Longrightarrow> TrimSpace s = trim_by (\<lambda>c. is_space (byte c)) s"
  by (simp add: TrimSpace_def chunks_ascii is_ascii_def trim_by_map comp_def)

lemma set_trim_by: "set (trim_by P xs) \<subseteq> set xs"
  unfolding trim_by_def by (metis set_dropWhileD set_rev subsetI)

lemma is_ascii_TrimSpace: "is_ascii s \<Longrightarrow> is_ascii (TrimSpace s)"
  using set_trim_by by (force simp: TrimSpace_ascii is_ascii_def)

section \<open>Properties\<close>

text \<open>C20. Whatever the input, a number that \<open>NormalizeIndianMobile\<close> returns is in normal
  form: it is \<open>+91\<close> followed by ten bytes, of which the first is a digit from 6 to 9, and
  normalising it again returns it unchanged, so every lookup by a normalised number uses
  the key it was stored under.\<close>

theorem NormalizeIndianMobile_normal_form:
  assumes "NormalizeIndianMobile input = Inr m"
  shows "NormalizeIndianMobile m = Inr m \<and> length m = 13 \<and> take 3 m = ''+91'' \<and>
    m ! 3 \<in> {CHR ''6'', CHR ''7'', CHR ''8'', CHR ''9''}"
proof -
  from assms have n: "normal_mobile m" by (rule NormalizeIndianMobile_normal)
  then obtain d rs where m: "m = ''+91'' @ encode_rune d @ concat (map encode_rune rs)"
    and len: "length m = 13" and d: "54 \<le> d" "d \<le> 57"
    by (auto simp: normal_mobile_def)
  from d have "d = 54 \<or> d = 55 \<or> d = 56 \<or> d = 57" by linarith
  then have "m ! 3 \<in> {CHR ''6'', CHR ''7'', CHR ''8'', CHR ''9''}"
    using char_of_char [where 'a = nat and c = "CHR ''6''"]
      char_of_char [where 'a = nat and c = "CHR ''7''"]
      char_of_char [where 'a = nat and c = "CHR ''8''"]
      char_of_char [where 'a = nat and c = "CHR ''9''"]
    by (auto simp: m encode_ascii)
  with n len m NormalizeIndianMobile_fixed show ?thesis by simp
qed

lemma pick_number:
  "(case (if length ds = 10 then Inr ds
          else if length ds = 11 \<and> HasPrefix ds ''0'' then Inr (drop 1 ds)
          else if length ds = 12 \<and> HasPrefix ds ''91'' then Inr (drop 2 ds)
          else Inl ErrInvalidMobileFormat) of
      Inl e \<Rightarrow> Inl e
    | Inr number \<Rightarrow>
        if length number \<noteq> 10 \<or> byte (number ! 0) < (54 :: nat) \<or> (57 :: nat) < byte (number ! 0)
        then Inl ErrInvalidMobileFormat else Inr (''+91'' @ number)) = Inr m \<longleftrightarrow>
   (\<exists>n. m = ''+91'' @ n \<and> length n = 10 \<and> 54 \<le> (byte (n ! 0) :: nat) \<and>
      byte (n ! 0) \<le> (57 :: nat) \<and> ds \<in> {n, ''0'' @ n, ''91'' @ n})"
proof -
  consider "length ds = 10" | c n where "ds = c # n" "length n = 10"
    | c d n where "ds = c # d # n" "length n = 10" | "length ds \<notin> {10, 11, 12}"
    by (cases ds; cases "tl ds") auto
  then show ?thesis
    by cases (auto simp: HasPrefix_def not_less)
qed

lemma NormalizeIndianMobile_ascii_spec:
  assumes "is_ascii input"
  shows "NormalizeIndianMobile input = Inr m \<longleftrightarrow>
    (\<exists>n. m = ''+91'' @ n \<and> length n = 10 \<and> 54 \<le> (byte (n ! 0) :: nat) \<and>
       byte (n ! 0) \<le> (57 :: nat) \<and> mobile_syntax (TrimSpace input) \<and>
       filter digit (TrimSpace input) \<in> {n, ''0'' @ n, ''91'' @ n})"
proof -
  let ?t = "TrimSpace input" and ?ds = "filter digit (TrimSpace input)"
  from assms have t: "is_ascii ?t" by (rule is_ascii_TrimSpace)
  then have "map fst (chunks ?t) = map byte ?t"
    by (simp add: chunks_ascii is_ascii_def comp_def)
  with mobile_digits_ascii [OF t, of "[]"]
  have loop: "mobile_digits (map fst (chunks ?t)) [] =
      (if mobile_syntax ?t then Inr ?ds else Inl ErrInvalidMobileFormat)"
    by (simp add: mobile_syntax_def)
  have "?thesis" if "mobile_syntax ?t"
  proof -
    have ne: "?t \<noteq> []" if "filter digit ?t \<in> {n, ''0'' @ n, ''91'' @ n}" "length n = 10" for n
      using that by auto
    show ?thesis
    proof (cases "?t = []")
      case True
      then have "NormalizeIndianMobile input = Inl ErrInvalidMobile"
        by (simp add: NormalizeIndianMobile_def)
      with True ne show ?thesis by auto
    next
      case False
      show ?thesis
        unfolding NormalizeIndianMobile_def Let_def loop if_P [OF that] if_not_P [OF False]
          sum.case pick_number
        using that by simp
    qed
  qed
  moreover have ?thesis if "\<not> mobile_syntax ?t"
    using that unfolding NormalizeIndianMobile_def Let_def loop by simp
  ultimately show ?thesis by blast
qed

text \<open>C21. On ASCII input \<open>NormalizeIndianMobile\<close> is the documented normalisation: it
  succeeds exactly when, between the surrounding blanks, the input consists of digits, blanks,
  dashes, parentheses and plus signs before the first digit, and its digits are a ten-digit
  number that begins with 6 to 9, bare or after \<open>0\<close> or \<open>91\<close>; the result is \<open>+91\<close> and that
  number.\<close>

theorem NormalizeIndianMobile_ascii:
  assumes "is_ascii input"
  shows "NormalizeIndianMobile input = Inr m \<longleftrightarrow>
    (\<exists>n. m = ''+91'' @ n \<and> length n = 10 \<and> 54 \<le> (byte (n ! 0) :: nat) \<and>
       byte (n ! 0) \<le> (57 :: nat) \<and> mobile_syntax (TrimSpace input) \<and>
       filter digit (TrimSpace input) \<in> {n, ''0'' @ n, ''91'' @ n})"
  using assms by (rule NormalizeIndianMobile_ascii_spec)

text \<open>Length is counted in bytes and digits in Unicode runes: any run of decimal digits,
  of whatever scripts, is accepted when it begins with an ASCII 6 to 9 and its UTF-8 encoding
  has ten bytes.  So a string of four digits, one ASCII and three Devanagari, passes as a
  mobile number and is stored, although it is no Indian number.\<close>

theorem NormalizeIndianMobile_counts_bytes:
  assumes "\<forall>r \<in> set rs. IsDigit r" and "54 \<le> d" and "d \<le> 57"
    and "length (concat (map encode_rune (d # rs))) = 10"
  shows "NormalizeIndianMobile (concat (map encode_rune (d # rs))) =
    Inr (''+91'' @ concat (map encode_rune (d # rs)))"
proof -
  let ?n = "concat (map encode_rune (d # rs))"
  have dig: "\<forall>r \<in> set (d # rs). IsDigit r" using assms by (simp add: IsDigit_ascii)
  then have "\<forall>r \<in> set (d # rs). valid_rune r" by (blast intro: IsDigit_valid)
  then have ch: "chunks ?n = map (\<lambda>r. (r, encode_rune r)) (d # rs)"
    using chunks_encodes [of "d # rs" "[]"] by simp
  have "IsDigit d" "IsDigit (last (d # rs))" using dig by simp_all
  then have "trim_by (\<lambda>(r, _). is_space r) (chunks ?n) = chunks ?n"
    unfolding ch by (intro trim_by_id) (auto simp: last_map dest: IsDigit_not_space)
  then have trim: "TrimSpace ?n = ?n" by (simp add: TrimSpace_def)
  have fst: "map fst (chunks ?n) = d # rs" unfolding ch by (simp add: comp_def)
  have loop: "mobile_digits (d # rs) [] = Inr ?n"
    using mobile_digits_digits [OF dig, of "[]"] by simp
  have "byte (?n ! 0) = d" "?n \<noteq> []" using assms(2,3) by (simp_all add: encode_ascii)
  then show ?thesis
    using assms(2-4) unfolding NormalizeIndianMobile_def trim fst loop Let_def by simp
qed

theorem NormalizeIndianMobile_normal_form_witness:
  "NormalizeIndianMobile ''+919642560235'' = Inr ''+919642560235'' \<and>
   take 3 ''+919642560235'' = ''+91''"
proof -
  have a: "is_ascii ''+919642560235''" by (simp add: is_ascii_def)
  have "TrimSpace ''+919642560235'' = ''+919642560235''"
    unfolding TrimSpace_ascii [OF a] by (simp add: trim_by_def is_space_def space_ranges_def)
  then have "NormalizeIndianMobile ''+919642560235'' = Inr ''+919642560235''"
    unfolding NormalizeIndianMobile_ascii_spec [OF a]
    by (simp add: mobile_syntax_def digit_def)
  from NormalizeIndianMobile_normal_form [OF this] this show ?thesis by simp
qed

theorem NormalizeIndianMobile_ascii_witness:
  "NormalizeIndianMobile '' 09642-560235 '' = Inr ''+919642560235''"
proof -
  have a: "is_ascii '' 09642-560235 ''" by (simp add: is_ascii_def)
  have "TrimSpace '' 09642-560235 '' = ''09642-560235''"
    unfolding TrimSpace_ascii [OF a] by (simp add: trim_by_def is_space_def space_ranges_def)
  then show ?thesis
    by (subst NormalizeIndianMobile_ascii [OF a])
      (simp add: mobile_syntax_def digit_def)
qed

theorem NormalizeIndianMobile_counts_bytes_witness:
  "NormalizeIndianMobile (''9'' @ concat (map encode_rune [2406, 2407, 2408])) =
     Inr (''+919'' @ concat (map encode_rune [2406, 2407, 2408]))"
proof -
  have "length (concat (map encode_rune [57, 2406, 2407, 2408])) = 10"
    by (simp add: encode_rune_def valid_rune_def)
  moreover have "\<forall>r \<in> set [2406, 2407, 2408]. IsDigit r"
    by (simp add: IsDigit_def digit_ranges_def)
  ultimately show ?thesis
    using NormalizeIndianMobile_counts_bytes [of "[2406, 2407, 2408]" 57]
    by (simp add: encode_ascii [of 57] char_of_signs)
qed

end
