(* ===== verification/Auth_Interfaces.thy ===== *)
theory Auth_Interfaces
  imports Auth_Types
begin

text \<open>
  The contracts of the store interfaces of package \<open>auth\<close>, as locales.  The service relies
  on these laws only; each implementation under \<open>cache/\<close> is an interpretation.  A
  contract speaks of the contents of a store through \<open>view\<close>, the map of the entries it
  holds whether they have expired or not.
\<close>

section \<open>Stores whose entries expire\<close>

text \<open>
  \<open>RefreshTokenStore\<close> and \<open>OTPRequestStateStore\<close> share one contract: a value is saved only
  while it is alive, a lookup returns what was saved last for the key until it expires, and
  an expired or absent entry is a cache miss.  Entries are filed under \<open>digest k\<close>, so keys
  with the same digest are the same entry.
\<close>

locale expiring_store =
  fixes save :: "time \<Rightarrow> string \<Rightarrow> 'v \<Rightarrow> ('s, auth_error, unit) call"
    and get :: "time \<Rightarrow> string \<Rightarrow> ('s, auth_error, 'v) call"
    and del :: "time \<Rightarrow> string \<Rightarrow> ('s, auth_error, unit) call"
    and view :: "'s \<Rightarrow> string \<rightharpoonup> 'v"
    and digest :: "string \<Rightarrow> string"
    and expires :: "'v \<Rightarrow> time"
  assumes save_live: "t < expires v \<Longrightarrow>
      \<exists>s'. run_state (save t k v) s = (Inr (), s') \<and> view s' = (view s)(digest k \<mapsto> v)"
    and save_dead: "expires v \<le> t \<Longrightarrow> run_state (save t k v) s = (Inl ErrTokenExpired, s)"
    and get_live: "view s (digest k) = Some v \<Longrightarrow> t \<le> expires v \<Longrightarrow>
      run_state (get t k) s = (Inr v, s)"
    and get_stale: "view s (digest k) = Some v \<Longrightarrow> expires v < t \<Longrightarrow>
      \<exists>s'. run_state (get t k) s = (Inl ErrCacheMiss, s') \<and> view s' = (view s)(digest k := None)"
    and get_none: "view s (digest k) = None \<Longrightarrow> run_state (get t k) s = (Inl ErrCacheMiss, s)"
    and del: "\<exists>s'. run_state (del t k) s = (Inr (), s') \<and> view s' = (view s)(digest k := None)"
begin

lemma get_cases:
  obtains v where "view s (digest k) = Some v" "t \<le> expires v"
      "run_state (get t k) s = (Inr v, s)"
  | v s' where "view s (digest k) = Some v" "expires v < t"
      "run_state (get t k) s = (Inl ErrCacheMiss, s')" "view s' = (view s)(digest k := None)"
  | "view s (digest k) = None" "run_state (get t k) s = (Inl ErrCacheMiss, s)"
proof (cases "view s (digest k)")
  case None
  with get_none that(3) show thesis by blast
next
  case (Some v)
  show thesis
  proof (cases "t \<le> expires v")
    case True
    with Some get_live that(1) show thesis by blast
  next
    case False
    then have "expires v < t" by simp
    with get_stale [OF Some this] Some that(2) show thesis by blast
  qed
qed

lemma get_Inr:
  "run_state (get t k) s = (Inr v, s') \<Longrightarrow>
     s' = s \<and> view s (digest k) = Some v \<and> t \<le> expires v"
  by (rule get_cases [of s k t]) auto

lemma get_Inl:
  "run_state (get t k) s = (Inl e, s') \<Longrightarrow> e = ErrCacheMiss \<and> view s' \<subseteq>\<^sub>m view s \<and>
     (\<forall>k'. digest k' \<noteq> digest k \<longrightarrow> view s' (digest k') = view s (digest k'))"
  by (rule get_cases [of s k t]) (auto simp: map_le_def)

lemma save_result:
  "run_state (save t k v) s = (r, s') \<Longrightarrow>
     r = (if t < expires v then Inr () else Inl ErrTokenExpired) \<and>
     view s' = (if t < expires v then (view s)(digest k \<mapsto> v) else view s)"
  using save_live [of t v k s] save_dead [of v t k s] by (cases "t < expires v") auto

lemma del_result:
  "run_state (del t k) s = (r, s') \<Longrightarrow> r = Inr () \<and> view s' = (view s)(digest k := None)"
  using del [of t k s] by auto

lemma get_after_save:
  assumes "run_state (save t k v) s = (Inr (), s')"
  shows "run_state (get t' k) s' = (if t' \<le> expires v then Inr v else Inl ErrCacheMiss,
    snd (run_state (get t' k) s'))"
proof -
  have "view s' (digest k) = Some v" using save_result [OF assms] by (auto split: if_splits)
  then show ?thesis by (rule_tac get_cases [of s' k t']) auto
qed

lemma get_after_del:
  "run_state (del t k) s = (r, s') \<Longrightarrow> run_state (get t' k) s' = (Inl ErrCacheMiss, s')"
  by (rule get_none) (simp add: del_result)

end

section \<open>Stores that may fail and forget\<close>

text \<open>
  A store behind a network promises less: a call may fail, a failed call may or may not have
  been carried out, and entries may vanish.  What remains is that a hit is an entry of the
  store, that only a call to save a key can add an entry, and that only under its digest, and
  that a deletion that is reported as done has removed the entry.
\<close>

datatype 'v store_op = SaveOp string 'v | GetOp string | DelOp string

fun run_ops ::
  "(time \<Rightarrow> string \<Rightarrow> 'v \<Rightarrow> ('s, auth_error, unit) call) \<Rightarrow> (time \<Rightarrow> string \<Rightarrow> ('s, auth_error, 'v) call) \<Rightarrow>
     (time \<Rightarrow> string \<Rightarrow> ('s, auth_error, unit) call) \<Rightarrow> (time \<times> 'v store_op) list \<Rightarrow> 's \<Rightarrow> 's" where
  "run_ops save get del [] s = s"
| "run_ops save get del ((t, op) # ops) s =
     run_ops save get del ops
       (case op of
          SaveOp k v \<Rightarrow> snd (run_state (save t k v) s)
        | GetOp k \<Rightarrow> snd (run_state (get t k) s)
        | DelOp k \<Rightarrow> snd (run_state (del t k) s))"

locale volatile_store =
  fixes save :: "time \<Rightarrow> string \<Rightarrow> 'v \<Rightarrow> ('s, auth_error, unit) call"
    and get :: "time \<Rightarrow> string \<Rightarrow> ('s, auth_error, 'v) call"
    and del :: "time \<Rightarrow> string \<Rightarrow> ('s, auth_error, unit) call"
    and view :: "'s \<Rightarrow> string \<rightharpoonup> 'v"
    and digest :: "string \<Rightarrow> string"
  assumes get_hit: "run_state (get t k) s = (Inr v, s') \<Longrightarrow> view s (digest k) = Some v"
    and get_le: "run_state (get t k) s = (r, s') \<Longrightarrow> view s' \<subseteq>\<^sub>m view s"
    and save_other: "run_state (save t k v) s = (u, s') \<Longrightarrow> k' \<noteq> digest k \<Longrightarrow> view s k' = None \<Longrightarrow>
      view s' k' = None"
    and del_le: "run_state (del t k) s = (u, s') \<Longrightarrow> view s' \<subseteq>\<^sub>m view s"
    and del_gone: "run_state (del t k) s = (Inr (), s') \<Longrightarrow> view s' (digest k) = None"
begin

text \<open>An absent entry stays absent until its key is saved.\<close>

lemma stays_absent:
  assumes "view s (digest k) = None"
    and "\<forall>(t, op) \<in> set ops. \<forall>k' v. op = SaveOp k' v \<longrightarrow> digest k' \<noteq> digest k"
  shows "view (run_ops save get del ops s) (digest k) = None"
  using assms
proof (induction ops arbitrary: s)
  case (Cons e ops)
  obtain t op where e: "e = (t, op)" by fastforce
  have "view (case op of SaveOp k v \<Rightarrow> snd (run_state (save t k v) s)
      | GetOp k \<Rightarrow> snd (run_state (get t k) s) | DelOp k \<Rightarrow> snd (run_state (del t k) s)) (digest k) = None"
  proof (cases op)
    case (SaveOp k' v)
    then have "digest k \<noteq> digest k'" using Cons.prems(2) by (force simp: e)
    with save_other Cons.prems(1) SaveOp show ?thesis by (metis surjective_pairing store_op.simps(10))
  next
    case (GetOp k')
    with map_le_None [OF get_le] Cons.prems(1) show ?thesis by (metis surjective_pairing store_op.simps(11))
  next
    case (DelOp k')
    with map_le_None [OF del_le] Cons.prems(1) show ?thesis by (metis surjective_pairing store_op.simps(12))
  qed
  with Cons.IH Cons.prems(2) show ?case by (simp add: e)
qed simp

text \<open>A deleted key is not found until it is saved again.\<close>

lemma revoked:
  assumes "run_state (del t k) s = (Inr (), s1)"
    and "\<forall>(t, op) \<in> set ops. \<forall>k' v. op = SaveOp k' v \<longrightarrow> digest k' \<noteq> digest k"
  shows "\<exists>e s'. run_state (get t' k) (run_ops save get del ops s1) = (Inl e, s')"
proof -
  have "view (run_ops save get del ops s1) (digest k) = None"
    by (rule stays_absent [OF del_gone [OF assms(1)] assms(2)])
  then show ?thesis
    using get_hit [of t' k "run_ops save get del ops s1"]
    by (cases "run_state (get t' k) (run_ops save get del ops s1)"; cases "fst (run_state (get t' k) (run_ops save get del ops s1))")
      auto
qed

end

text \<open>A store whose entries expire on time is such a store.\<close>

sublocale expiring_store \<subseteq> volatile_store save get del view digest
proof unfold_locales
  show "view s' \<subseteq>\<^sub>m view s" if "run_state (get t k) s = (r, s')" for t k s r s'
    using that get_Inl [of t k s _ s'] get_Inr [of t k s _ s'] by (cases r) auto
qed (auto dest!: get_Inr save_result del_result simp: map_le_def split: if_splits)

section \<open>Pending signups\<close>

text \<open>The identities pending signups reserve are distinct: no two share a username or email.\<close>

definition unique_identities :: "(string \<rightharpoonup> pending_signup) \<Rightarrow> bool" where
  "unique_identities v \<longleftrightarrow>
     (\<forall>m p m' p'. v m = Some p \<longrightarrow> v m' = Some p' \<longrightarrow> pending_signup.Mobile p = m \<and>
        (pending_signup.Username p = pending_signup.Username p' \<or>
         pending_signup.Email p = pending_signup.Email p' \<longrightarrow> m = m'))"

definition free_identity :: "(string \<rightharpoonup> pending_signup) \<Rightarrow> pending_signup \<Rightarrow> bool" where
  "free_identity v p \<longleftrightarrow>
     (\<forall>m p'. v m = Some p' \<longrightarrow> m \<noteq> pending_signup.Mobile p \<longrightarrow>
        pending_signup.Username p' \<noteq> pending_signup.Username p \<and>
        pending_signup.Email p' \<noteq> pending_signup.Email p)"

text \<open>The value a lookup through an index yields when the index leads to \<open>found\<close>.\<close>

definition via_index ::
  "(string \<Rightarrow> ('p, auth_error, pending_signup) call) \<Rightarrow> string option \<Rightarrow>
     ('p, auth_error, string) call" where
  "via_index fetch found =
     (case found of None \<Rightarrow> err ErrCacheMiss
      | Some m \<Rightarrow> call_ok (fetch m) (\<lambda>_. ok m))"

text \<open>
  The contract of \<open>PendingSignupStore\<close>, for stores in a well-formed state (\<open>wf\<close>) whose
  identities are distinct: lookups by username, email and mobile find exactly the signup
  that reserves the identity, and a signup can be saved whenever its identity is free.
\<close>

locale pending_contract =
  fixes st :: "'p pending_signup_store"
    and view :: "'p \<Rightarrow> string \<rightharpoonup> pending_signup"
    and wf :: "'p \<Rightarrow> bool"
  assumes wf_unique: "wf p \<Longrightarrow> unique_identities (view p)"
    and get_live: "wf p \<Longrightarrow> view p m = Some s \<Longrightarrow> t \<le> pending_signup.ExpiresAt s \<Longrightarrow>
      run_state (GetByMobile st t m) p = (Inr s, p)"
    and get_stale: "wf p \<Longrightarrow> view p m = Some s \<Longrightarrow> pending_signup.ExpiresAt s < t \<Longrightarrow>
      \<exists>p'. run_state (GetByMobile st t m) p = (Inl ErrCacheMiss, p') \<and> wf p' \<and>
           view p' = (view p)(m := None)"
    and get_none: "wf p \<Longrightarrow> view p m = None \<Longrightarrow>
      run_state (GetByMobile st t m) p = (Inl ErrCacheMiss, p)"
    and delete: "wf p \<Longrightarrow>
      \<exists>p'. run_state (DeleteByMobile st t m) p = (Inr (), p') \<and> wf p' \<and>
           view p' = (view p)(m := None)"
    and save_dead: "pending_signup.ExpiresAt s \<le> t \<Longrightarrow>
      run_state (pending_signup_store.Save st t s) p = (Inl ErrPendingSignupExpired, p)"
    and save_live: "wf p \<Longrightarrow> t < pending_signup.ExpiresAt s \<Longrightarrow> free_identity (view p) s \<Longrightarrow>
      \<exists>p'. run_state (pending_signup_store.Save st t s) p = (Inr (), p') \<and> wf p' \<and>
           view p' = (view p)(pending_signup.Mobile s \<mapsto> s)"
    and by_username: "wf p \<Longrightarrow>
      \<exists>found. run_state (GetMobileByUsername st t u) p =
           run_state (via_index (GetByMobile st t) found) p \<and>
         (\<forall>m. found = Some m \<longleftrightarrow> (\<exists>s. view p m = Some s \<and> pending_signup.Username s = u))"
    and by_email: "wf p \<Longrightarrow>
      \<exists>found. run_state (GetMobileByEmail st t e) p =
           run_state (via_index (GetByMobile st t) found) p \<and>
         (\<forall>m. found = Some m \<longleftrightarrow> (\<exists>s. view p m = Some s \<and> pending_signup.Email s = e))"
    and by_mobile: "wf p \<Longrightarrow>
      \<exists>found. run_state (GetMobileByMobile st t n) p =
           run_state (via_index (GetByMobile st t) found) p \<and>
         (\<forall>m. found = Some m \<longleftrightarrow> (\<exists>s. view p m = Some s \<and> m = n))"

end
