(* ===== verification/Memory_Stores.thy ===== *)
theory Memory_Stores
  imports Auth_Interfaces
begin

text \<open>
  \<open>cache/memory/stores.go\<close>: the in-process implementations of the auth stores, used when
  Redis is disabled.  Each store is a record of its Go maps; its methods hold the mutex from
  start to end, so each is one step on that record.  The clock reading a method takes is its
  first argument; \<open>sha256\<close> is the digest function of \<open>tokenKey\<close>.
\<close>

section \<open>RefreshStore\<close>

text \<open>\<open>hex.EncodeToString\<close>.\<close>

definition hex_digit :: "nat \<Rightarrow> char" where
  "hex_digit n = ''0123456789abcdef'' ! n"

definition hex_encode :: "string \<Rightarrow> string" where
  "hex_encode s = concat (map (\<lambda>c. [hex_digit (byte c div 16), hex_digit (byte c mod 16)]) s)"

lemma hex_encode_length: "length (hex_encode s) = 2 * length s"
  by (induction s) (simp_all add: hex_encode_def)

definition tokenKey :: "(string \<Rightarrow> string) \<Rightarrow> string \<Rightarrow> string" where
  "tokenKey sha256 rawToken = hex_encode (sha256 rawToken)"

record refresh_store =
  sessions :: "string \<rightharpoonup> refresh_session"

definition NewRefreshStore :: refresh_store where
  "NewRefreshStore = \<lparr>sessions = Map.empty\<rparr>"

definition RefreshStore_Save ::
  "(string \<Rightarrow> string) \<Rightarrow> time \<Rightarrow> string \<Rightarrow> refresh_session \<Rightarrow> (refresh_store, auth_error, unit) call" where
  "RefreshStore_Save sha256 now rawToken session =
     (if time_Sub (refresh_session.ExpiresAt session) now \<le> 0 then err ErrTokenExpired
      else do {
        s \<leftarrow> State_Monad.get;
        State_Monad.set (s\<lparr>sessions := (sessions s)(tokenKey sha256 rawToken \<mapsto> session)\<rparr>);
        ok ()
      })"

definition RefreshStore_Get ::
  "(string \<Rightarrow> string) \<Rightarrow> time \<Rightarrow> string \<Rightarrow> (refresh_store, auth_error, refresh_session) call" where
  "RefreshStore_Get sha256 now rawToken =
     do {
       s \<leftarrow> State_Monad.get;
       let key = tokenKey sha256 rawToken;
       case sessions s key of
         None \<Rightarrow> err ErrCacheMiss
       | Some session \<Rightarrow>
           if time_After now (refresh_session.ExpiresAt session)
           then do {
             State_Monad.set (s\<lparr>sessions := (sessions s)(key := None)\<rparr>);
             err ErrCacheMiss
           }
           else ok session
     }"

definition RefreshStore_Delete ::
  "(string \<Rightarrow> string) \<Rightarrow> time \<Rightarrow> string \<Rightarrow> (refresh_store, auth_error, unit) call" where
  "RefreshStore_Delete sha256 now rawToken =
     do {
       s \<leftarrow> State_Monad.get;
       State_Monad.set (s\<lparr>sessions := (sessions s)(tokenKey sha256 rawToken := None)\<rparr>);
       ok ()
     }"

definition memory_refresh_store ::
  "(string \<Rightarrow> string) \<Rightarrow> refresh_store refresh_token_store" where
  "memory_refresh_store sha256 =
     \<lparr>refresh_token_store.Save = RefreshStore_Save sha256,
      Get = RefreshStore_Get sha256, Delete = RefreshStore_Delete sha256\<rparr>"

interpretation mem_refresh: expiring_store
  "RefreshStore_Save sha256" "RefreshStore_Get sha256" "RefreshStore_Delete sha256"
  sessions "tokenKey sha256" refresh_session.ExpiresAt
  for sha256
  by unfold_locales
    (auto simp: RefreshStore_Save_def RefreshStore_Get_def RefreshStore_Delete_def
      time_After_def Let_def split: option.split)

section \<open>OTPStateStore\<close>

record otp_store =
  states :: "string \<rightharpoonup> otp_request_state"

definition NewOTPStateStore :: otp_store where
  "NewOTPStateStore = \<lparr>states = Map.empty\<rparr>"

definition OTPStateStore_Save ::
  "time \<Rightarrow> string \<Rightarrow> otp_request_state \<Rightarrow> (otp_store, auth_error, unit) call" where
  "OTPStateStore_Save now key state =
     (if time_Sub (otp_request_state.ExpiresAt state) now \<le> 0 then err ErrTokenExpired
      else do {
        s \<leftarrow> State_Monad.get;
        State_Monad.set (s\<lparr>states := (states s)(key \<mapsto> state)\<rparr>);
        ok ()
      })"

definition OTPStateStore_Get ::
  "time \<Rightarrow> string \<Rightarrow> (otp_store, auth_error, otp_request_state) call" where
  "OTPStateStore_Get now key =
     do {
       s \<leftarrow> State_Monad.get;
       case states s key of
         None \<Rightarrow> err ErrCacheMiss
       | Some state \<Rightarrow>
           if time_After now (otp_request_state.ExpiresAt state)
           then do {
             State_Monad.set (s\<lparr>states := (states s)(key := None)\<rparr>);
             err ErrCacheMiss
           }
           else ok state
     }"

definition OTPStateStore_Delete :: "time \<Rightarrow> string \<Rightarrow> (otp_store, auth_error, unit) call" where
  "OTPStateStore_Delete now key =
     do {
       s \<leftarrow> State_Monad.get;
       State_Monad.set (s\<lparr>states := (states s)(key := None)\<rparr>);
       ok ()
     }"

definition memory_otp_store :: "otp_store otp_state_store" where
  "memory_otp_store =
     \<lparr>otp_state_store.Save = OTPStateStore_Save,
      Get = OTPStateStore_Get, Delete = OTPStateStore_Delete\<rparr>"

interpretation mem_otp: expiring_store
  OTPStateStore_Save OTPStateStore_Get OTPStateStore_Delete
  states "\<lambda>k. k" otp_request_state.ExpiresAt
  by unfold_locales
    (auto simp: OTPStateStore_Save_def OTPStateStore_Get_def OTPStateStore_Delete_def
      time_After_def split: option.split)

section \<open>PendingSignupStore\<close>

record pending_store =
  signups :: "string \<rightharpoonup> pending_signup"
  byUsername :: "string \<rightharpoonup> string"
  byEmail :: "string \<rightharpoonup> string"
  byMobile :: "string \<rightharpoonup> string"

definition NewPendingSignupStore :: pending_store where
  "NewPendingSignupStore =
     \<lparr>signups = Map.empty, byUsername = Map.empty, byEmail = Map.empty, byMobile = Map.empty\<rparr>"

text \<open>The helpers that run with the mutex held.\<close>

definition deleteLocked :: "string \<Rightarrow> pending_store \<Rightarrow> pending_store" where
  "deleteLocked mobile s =
     (case signups s mobile of
        None \<Rightarrow> s
      | Some signup \<Rightarrow>
          s\<lparr>signups := (signups s)(mobile := None),
            byUsername := (byUsername s)(pending_signup.Username signup := None),
            byEmail := (byEmail s)(pending_signup.Email signup := None),
            byMobile := (byMobile s)(pending_signup.Mobile signup := None)\<rparr>)"

definition getByMobileLocked ::
  "time \<Rightarrow> string \<Rightarrow> (pending_store, auth_error, pending_signup) call" where
  "getByMobileLocked now mobile =
     do {
       s \<leftarrow> State_Monad.get;
       case signups s mobile of
         None \<Rightarrow> err ErrCacheMiss
       | Some signup \<Rightarrow>
           if time_After now (pending_signup.ExpiresAt signup)
           then do { State_Monad.set (deleteLocked mobile s); err ErrCacheMiss }
           else ok signup
     }"

definition getIndexLocked ::
  "time \<Rightarrow> (pending_store \<Rightarrow> string \<rightharpoonup> string) \<Rightarrow> string \<Rightarrow> (pending_store, auth_error, string) call" where
  "getIndexLocked now index key =
     do {
       s \<leftarrow> State_Monad.get;
       case index s key of
         None \<Rightarrow> err ErrCacheMiss
       | Some mobile \<Rightarrow> call_ok (getByMobileLocked now mobile) (\<lambda>_. ok mobile)
     }"

definition PendingSignupStore_Save ::
  "time \<Rightarrow> pending_signup \<Rightarrow> (pending_store, auth_error, unit) call" where
  "PendingSignupStore_Save now signup =
     (if time_Sub (pending_signup.ExpiresAt signup) now \<le> 0 then err ErrPendingSignupExpired
      else do {
        s0 \<leftarrow> State_Monad.get;
        let m = pending_signup.Mobile signup;
        let s = (case signups s0 m of
                   None \<Rightarrow> s0
                 | Some existing \<Rightarrow> deleteLocked (pending_signup.Mobile existing) s0);
        State_Monad.set
          (s\<lparr>signups := (signups s)(m \<mapsto> signup),
             byUsername := (byUsername s)(pending_signup.Username signup \<mapsto> m),
             byEmail := (byEmail s)(pending_signup.Email signup \<mapsto> m),
             byMobile := (byMobile s)(m \<mapsto> m)\<rparr>);
        ok ()
      })"

definition PendingSignupStore_DeleteByMobile ::
  "time \<Rightarrow> string \<Rightarrow> (pending_store, auth_error, unit) call" where
  "PendingSignupStore_DeleteByMobile now mobile =
     do { s \<leftarrow> State_Monad.get; State_Monad.set (deleteLocked mobile s); ok () }"

definition memory_pending_store :: "pending_store pending_signup_store" where
  "memory_pending_store =
     \<lparr>pending_signup_store.Save = PendingSignupStore_Save,
      GetByMobile = getByMobileLocked,
      DeleteByMobile = PendingSignupStore_DeleteByMobile,
      GetMobileByUsername = (\<lambda>now. getIndexLocked now byUsername),
      GetMobileByEmail = (\<lambda>now. getIndexLocked now byEmail),
      GetMobileByMobile = (\<lambda>now. getIndexLocked now byMobile)\<rparr>"

text \<open>
  The indices are exact: each signup is filed under its own mobile and indexed by its
  username, email and mobile, and every index entry leads to such a signup.
\<close>

definition index_exact ::
  "(string \<rightharpoonup> pending_signup) \<Rightarrow> (pending_signup \<Rightarrow> string) \<Rightarrow> (string \<rightharpoonup> string) \<Rightarrow> bool" where
  "index_exact sg f idx \<longleftrightarrow> (\<forall>k m. idx k = Some m \<longleftrightarrow> (\<exists>p. sg m = Some p \<and> f p = k))"

definition pending_wf :: "pending_store \<Rightarrow> bool" where
  "pending_wf s \<longleftrightarrow>
     (\<forall>m p. signups s m = Some p \<longrightarrow> pending_signup.Mobile p = m) \<and>
     index_exact (signups s) pending_signup.Username (byUsername s) \<and>
     index_exact (signups s) pending_signup.Email (byEmail s) \<and>
     index_exact (signups s) pending_signup.Mobile (byMobile s)"

lemma pending_wf_new: "pending_wf NewPendingSignupStore"
  by (simp add: pending_wf_def index_exact_def NewPendingSignupStore_def)

lemma index_exact_remove:
  "index_exact sg f idx \<Longrightarrow> sg m = Some p \<Longrightarrow>
     index_exact (sg(m := None)) f (idx(f p := None))"
  unfolding index_exact_def by (auto split: if_splits) (metis option.inject)+

lemma index_exact_insert:
  "index_exact sg f idx \<Longrightarrow> sg m = None \<Longrightarrow> (\<forall>m' p'. sg m' = Some p' \<longrightarrow> f p' \<noteq> f p) \<Longrightarrow>
     index_exact (sg(m \<mapsto> p)) f (idx(f p \<mapsto> m))"
  unfolding index_exact_def by auto

lemma index_exact_inj:
  "index_exact sg f idx \<Longrightarrow> sg m = Some p \<Longrightarrow> sg m' = Some p' \<Longrightarrow> f p = f p' \<Longrightarrow> m = m'"
  unfolding index_exact_def by (metis option.inject)

lemma index_exact_found: "index_exact sg f idx \<Longrightarrow> sg m = Some p \<Longrightarrow> idx (f p) = Some m"
  unfolding index_exact_def by blast

lemma signups_deleteLocked [simp]: "signups (deleteLocked m s) = (signups s)(m := None)"
  by (auto simp: deleteLocked_def split: option.split)

lemma pending_wf_delete:
  assumes "pending_wf s"
  shows "pending_wf (deleteLocked m s)"
proof (cases "signups s m")
  case None
  with assms show ?thesis by (simp add: deleteLocked_def)
next
  case (Some p)
  with assms show ?thesis
    by (auto simp: pending_wf_def deleteLocked_def intro: index_exact_remove)
qed

lemma pending_wf_insert:
  assumes wf: "pending_wf s" and none: "signups s m = None" and m: "pending_signup.Mobile p = m"
    and free: "free_identity (signups s) p"
  shows "pending_wf
    (s\<lparr>signups := (signups s)(m \<mapsto> p),
       byUsername := (byUsername s)(pending_signup.Username p \<mapsto> m),
       byEmail := (byEmail s)(pending_signup.Email p \<mapsto> m),
       byMobile := (byMobile s)(m \<mapsto> m)\<rparr>)"
proof -
  have "index_exact ((signups s)(m \<mapsto> p)) pending_signup.Mobile
      ((byMobile s)(pending_signup.Mobile p \<mapsto> m))"
    using wf none m by (intro index_exact_insert) (auto simp: pending_wf_def)
  moreover have "\<forall>m' p'. signups s m' = Some p' \<longrightarrow> m' \<noteq> pending_signup.Mobile p"
    using none m by auto
  ultimately show ?thesis
    using wf none m free
    by (auto simp: pending_wf_def free_identity_def intro!: index_exact_insert)
qed

interpretation mem_pending: pending_contract memory_pending_store signups pending_wf
proof unfold_locales
  fix p :: pending_store
  assume wf: "pending_wf p"
  then show "unique_identities (signups p)"
    unfolding unique_identities_def pending_wf_def by (metis index_exact_inj)
  show "\<exists>found. run_state (GetMobileByUsername memory_pending_store t u) p =
      run_state (via_index (GetByMobile memory_pending_store t) found) p \<and>
      (\<forall>m. found = Some m \<longleftrightarrow> (\<exists>s. signups p m = Some s \<and> pending_signup.Username s = u))" for t u
    using wf by (intro exI [of _ "byUsername p u"])
      (auto simp: memory_pending_store_def getIndexLocked_def via_index_def pending_wf_def
        index_exact_def split: option.split)
  show "\<exists>found. run_state (GetMobileByEmail memory_pending_store t e) p =
      run_state (via_index (GetByMobile memory_pending_store t) found) p \<and>
      (\<forall>m. found = Some m \<longleftrightarrow> (\<exists>s. signups p m = Some s \<and> pending_signup.Email s = e))" for t e
    using wf by (intro exI [of _ "byEmail p e"])
      (auto simp: memory_pending_store_def getIndexLocked_def via_index_def pending_wf_def
        index_exact_def split: option.split)
  show "\<exists>found. run_state (GetMobileByMobile memory_pending_store t n) p =
      run_state (via_index (GetByMobile memory_pending_store t) found) p \<and>
      (\<forall>m. found = Some m \<longleftrightarrow> (\<exists>s. signups p m = Some s \<and> m = n))" for t n
    using wf by (intro exI [of _ "byMobile p n"])
      (auto simp: memory_pending_store_def getIndexLocked_def via_index_def pending_wf_def
        index_exact_def split: option.split)
  show "\<exists>p'. run_state (pending_signup_store.Save memory_pending_store t s) p = (Inr (), p') \<and>
      pending_wf p' \<and> signups p' = (signups p)(pending_signup.Mobile s \<mapsto> s)"
    if "t < pending_signup.ExpiresAt s" and free: "free_identity (signups p) s" for t s
  proof -
    let ?m = "pending_signup.Mobile s"
    let ?q = "case signups p ?m of None \<Rightarrow> p | Some x \<Rightarrow> deleteLocked (pending_signup.Mobile x) p"
    have q: "?q = deleteLocked ?m p"
      using wf by (auto simp: pending_wf_def deleteLocked_def split: option.split)
    have "free_identity (signups (deleteLocked ?m p)) s"
      using free by (auto simp: free_identity_def)
    with pending_wf_insert [OF pending_wf_delete [OF wf], of ?m ?m s] that q show ?thesis
      by (simp add: memory_pending_store_def PendingSignupStore_Save_def Let_def)
  qed
qed (auto simp: memory_pending_store_def getByMobileLocked_def PendingSignupStore_Save_def
    PendingSignupStore_DeleteByMobile_def time_After_def pending_wf_delete)

section \<open>RateLimiter\<close>

record rate_limit_window =
  count :: int
  expiresAt :: time

record limiter =
  windows :: "string \<rightharpoonup> rate_limit_window"

definition NewRateLimiter :: limiter where
  "NewRateLimiter = \<lparr>windows = Map.empty\<rparr>"

text \<open>A missing key reads as the zero value of the Go struct.\<close>

definition RateLimiter_Allow ::
  "time \<Rightarrow> string \<Rightarrow> rate_limit_rule \<Rightarrow> (limiter, auth_error, bool) call" where
  "RateLimiter_Allow now key rule =
     (if Limit rule \<le> 0 \<or> Window rule \<le> 0 then ok True
      else do {
        l \<leftarrow> State_Monad.get;
        let w0 = (case windows l key of None \<Rightarrow> \<lparr>count = 0, expiresAt = 0\<rparr> | Some w \<Rightarrow> w);
        let w1 = (if time_IsZero (expiresAt w0) \<or> time_After now (expiresAt w0)
                  then \<lparr>count = 0, expiresAt = now + Window rule\<rparr> else w0);
        let w = w1\<lparr>count := int64 (count w1 + 1)\<rparr>;
        State_Monad.set (l\<lparr>windows := (windows l)(key \<mapsto> w)\<rparr>);
        ok (count w \<le> Limit rule)
      })"

definition memory_rate_limiter :: "limiter rate_limiter" where
  "memory_rate_limiter = \<lparr>Allow = RateLimiter_Allow\<rparr>"

text \<open>
  A history of calls: \<open>limiter_after\<close> is the state they leave, \<open>admitted\<close> the number of
  them for one key that were let through.
\<close>

fun limiter_after :: "rate_limit_rule \<Rightarrow> (time \<times> string) list \<Rightarrow> limiter \<Rightarrow> limiter" where
  "limiter_after r [] l = l"
| "limiter_after r ((t, k) # es) l =
     limiter_after r es (snd (run_state (RateLimiter_Allow t k r) l))"

fun admitted :: "rate_limit_rule \<Rightarrow> string \<Rightarrow> (time \<times> string) list \<Rightarrow> limiter \<Rightarrow> nat" where
  "admitted r k [] l = 0"
| "admitted r k ((t, k') # es) l =
     (case run_state (RateLimiter_Allow t k' r) l of (res, l') \<Rightarrow>
        (if k' = k \<and> res = Inr True then 1 else 0) + admitted r k es l')"

definition rule_active :: "rate_limit_rule \<Rightarrow> bool" where
  "rule_active r \<longleftrightarrow> 0 < Limit r \<and> 0 < Window r"

lemma Allow_other:
  "k' \<noteq> k \<Longrightarrow> windows (snd (run_state (RateLimiter_Allow t k' r) l)) k = windows l k"
  by (simp add: RateLimiter_Allow_def Let_def)

text \<open>A call inside the current window of its key counts one more request in it.\<close>

lemma Allow_inside:
  assumes "rule_active r" and "windows l k = Some w" and "expiresAt w \<noteq> 0"
    and "t \<le> expiresAt w" and "0 \<le> count w" and "count w < max_int64"
  shows "run_state (RateLimiter_Allow t k r) l =
    (Inr (count w < Limit r), l\<lparr>windows := (windows l)(k \<mapsto> w\<lparr>count := count w + 1\<rparr>)\<rparr>)"
proof -
  have "int64 (count w + 1) = count w + 1"
    using assms by (intro int64_id) (simp_all add: min_int64_def)
  with assms show ?thesis
    by (auto simp: RateLimiter_Allow_def rule_active_def time_IsZero_def time_After_def Let_def)
qed

text \<open>A call outside a window opens one.\<close>

lemma Allow_opens:
  assumes "rule_active r"
    and "windows l k = None \<or> (\<exists>w. windows l k = Some w \<and> expiresAt w < t)"
  shows "run_state (RateLimiter_Allow t k r) l =
    (Inr True, l\<lparr>windows := (windows l)(k \<mapsto> \<lparr>count = 1, expiresAt = t + Window r\<rparr>)\<rparr>)"
proof -
  have "int64 1 = 1" by (simp add: int64_small)
  with assms show ?thesis
    by (auto simp: RateLimiter_Allow_def rule_active_def time_IsZero_def time_After_def Let_def)
qed

lemma admitted_in_window:
  assumes "rule_active r" and "windows l k = Some w" and "expiresAt w \<noteq> 0"
    and "\<forall>(t, k') \<in> set es. t \<le> expiresAt w" and "0 \<le> count w"
    and "count w + int (length es) \<le> max_int64"
  shows "admitted r k es l =
    min (length (filter (\<lambda>(t, k'). k' = k) es)) (nat (Limit r - count w))"
  using assms
proof (induction es arbitrary: l w)
  case (Cons e es)
  obtain t k' where e: "e = (t, k')" by fastforce
  show ?case
  proof (cases "k' = k")
    case False
    obtain res l' where run: "run_state (RateLimiter_Allow t k' r) l = (res, l')" by fastforce
    with False Cons.prems Allow_other [of k' k t r l] have "windows l' k = Some w" by simp
    with Cons.IH [of l' w] Cons.prems run False show ?thesis by (simp add: e)
  next
    case True
    let ?l' = "l\<lparr>windows := (windows l)(k \<mapsto> w\<lparr>count := count w + 1\<rparr>)\<rparr>"
    from Cons.prems have "run_state (RateLimiter_Allow t k r) l = (Inr (count w < Limit r), ?l')"
      by (intro Allow_inside) (auto simp: e)
    with Cons.IH [of ?l' "w\<lparr>count := count w + 1\<rparr>"] Cons.prems True show ?thesis
      by (auto simp: e min_def)
  qed
qed simp

text \<open>
  Calls that all fall within one span of the rule's length: at most one new window is opened
  among them, so at most twice the limit is let through.
\<close>

lemma admitted_in_span:
  assumes "rule_active r" and "\<forall>(t, k') \<in> set es. a \<le> t \<and> t \<le> a + Window r" and "0 < a"
    and "\<And>w. windows l k = Some w \<Longrightarrow>
      0 < expiresAt w \<and> 0 \<le> count w \<and> count w + int (length es) \<le> max_int64"
    and "int (length es) \<le> max_int64"
  shows "admitted r k es l \<le> (case windows l k of None \<Rightarrow> 0 | Some w \<Rightarrow> nat (Limit r - count w)) + nat (Limit r)"
  using assms
proof (induction es arbitrary: l)
  case (Cons e es)
  obtain t k' where e: "e = (t, k')" by fastforce
  obtain res l' where run: "run_state (RateLimiter_Allow t k' r) l = (res, l')" by fastforce
  have IH: "admitted r k es l' \<le>
      (case windows l' k of None \<Rightarrow> 0 | Some w \<Rightarrow> nat (Limit r - count w)) + nat (Limit r)"
    if "\<And>w. windows l' k = Some w \<Longrightarrow>
      0 < expiresAt w \<and> 0 \<le> count w \<and> count w + int (length es) \<le> max_int64"
    using Cons.prems that by (intro Cons.IH) auto
  show ?case
  proof (cases "k' = k")
    case False
    with run Allow_other [of k' k t r l] have same: "windows l' k = windows l k" by simp
    have "admitted r k es l' \<le>
      (case windows l' k of None \<Rightarrow> 0 | Some w \<Rightarrow> nat (Limit r - count w)) + nat (Limit r)"
      by (rule IH) (use Cons.prems(4) same in fastforce)
    then have "admitted r k es l' \<le>
      (case windows l k of None \<Rightarrow> 0 | Some w \<Rightarrow> nat (Limit r - count w)) + nat (Limit r)"
      by (simp only: same)
    with run False show ?thesis by (simp add: e)
  next
    case k: True
    show ?thesis
    proof (cases "windows l k = None \<or> (\<exists>w. windows l k = Some w \<and> expiresAt w < t)")
      case True
      let ?w = "\<lparr>count = 1, expiresAt = t + Window r\<rparr>"
      from Allow_opens [OF Cons.prems(1) True] run k
      have l': "l' = l\<lparr>windows := (windows l)(k \<mapsto> ?w)\<rparr>" and res: "res = Inr True" by simp_all
      have "admitted r k es l' =
          min (length (filter (\<lambda>(t, k'). k' = k) es)) (nat (Limit r - count ?w))"
        using Cons.prems by (intro admitted_in_window)
          (auto simp: l' e rule_active_def)
      moreover have "0 < Limit r" using Cons.prems by (simp add: rule_active_def)
      ultimately show ?thesis using run k res by (simp add: e)
    next
      case False
      then obtain w where w: "windows l k = Some w" "t \<le> expiresAt w"
        by (cases "windows l k") (auto simp: not_less)
      with Cons.prems(4) [OF w(1)]
      have "run_state (RateLimiter_Allow t k r) l =
          (Inr (count w < Limit r), l\<lparr>windows := (windows l)(k \<mapsto> w\<lparr>count := count w + 1\<rparr>)\<rparr>)"
        by (intro Allow_inside [OF Cons.prems(1)]) (auto simp: e)
      with run k have l': "l' = l\<lparr>windows := (windows l)(k \<mapsto> w\<lparr>count := count w + 1\<rparr>)\<rparr>"
        and res: "res = Inr (count w < Limit r)" by simp_all
      from IH Cons.prems(4) [OF w(1)]
      have "admitted r k es l' \<le> nat (Limit r - (count w + 1)) + nat (Limit r)"
        by (simp add: l')
      moreover have "(if count w < Limit r then 1 else 0) + nat (Limit r - (count w + 1)) =
          nat (Limit r - count w)"
        by auto
      ultimately show ?thesis using run k res w by (cases "count w < Limit r") (simp_all add: e)
    qed
  qed
qed simp

text \<open>What a history of calls leaves in a fresh limiter.\<close>

lemma limiter_after_windows:
  assumes "rule_active r" and "\<forall>(t, k) \<in> set es. 0 < t" and "n + int (length es) \<le> max_int64"
    and "\<And>k w. windows l k = Some w \<Longrightarrow> 0 < expiresAt w \<and> 0 \<le> count w \<and> count w \<le> n"
    and "0 \<le> n" and "windows (limiter_after r es l) k = Some w"
  shows "0 < expiresAt w \<and> 0 \<le> count w \<and> count w \<le> n + int (length es)"
  using assms
proof (induction es arbitrary: l n)
  case (Cons e es)
  obtain t k' where e: "e = (t, k')" by fastforce
  let ?l' = "snd (run_state (RateLimiter_Allow t k' r) l)"
  have step: "0 < expiresAt w \<and> 0 \<le> count w \<and> count w \<le> n + 1"
    if "windows ?l' k = Some w" for k w
  proof (cases "k' = k")
    case False
    with that Allow_other [OF False, of t r l] Cons.prems(4) [of k w] show ?thesis by simp
  next
    case k: True
    show ?thesis
    proof (cases "windows l k = None \<or> (\<exists>w. windows l k = Some w \<and> expiresAt w < t)")
      case True
      with Allow_opens [OF Cons.prems(1) True] that k Cons.prems(1,2,5) show ?thesis
        by (auto simp: e rule_active_def)
    next
      case False
      then obtain v where v: "windows l k = Some v" "t \<le> expiresAt v"
        by (cases "windows l k") (auto simp: not_less)
      note inv = Cons.prems(4) [OF v(1)]
      have "run_state (RateLimiter_Allow t k r) l =
          (Inr (count v < Limit r), l\<lparr>windows := (windows l)(k \<mapsto> v\<lparr>count := count v + 1\<rparr>)\<rparr>)"
        using inv v Cons.prems(1,3) by (intro Allow_inside) auto
      with that k inv show ?thesis by auto
    qed
  qed
  have "0 < expiresAt w \<and> 0 \<le> count w \<and> count w \<le> (n + 1) + int (length es)"
    using Cons.prems step by (intro Cons.IH [of "n + 1" ?l']) (auto simp: e)
  then show ?case by simp
qed auto

section \<open>Properties of the in-process stores\<close>

text \<open>
  Exactness of the rate limiter within a window.  When the calls for a key all fall
  into the window its first call opens, exactly the first \<open>Limit\<close> of them are let through,
  however many calls for other keys come in between.
\<close>

theorem RateLimiter_exact_in_window:
  assumes "rule_active r" and "0 < t" and "windows l k = None"
    and "\<forall>(t', k') \<in> set es. t' \<le> t + Window r" and "int (length es) < max_int64"
  shows "admitted r k ((t, k) # es) l =
    min (length (filter (\<lambda>(t', k'). k' = k) ((t, k) # es))) (nat (Limit r))"
proof -
  let ?w = "\<lparr>count = 1, expiresAt = t + Window r\<rparr>"
  let ?l' = "l\<lparr>windows := (windows l)(k \<mapsto> ?w)\<rparr>"
  have run: "run_state (RateLimiter_Allow t k r) l = (Inr True, ?l')"
    using assms by (intro Allow_opens) auto
  have "admitted r k es ?l' =
      min (length (filter (\<lambda>(t, k'). k' = k) es)) (nat (Limit r - count ?w))"
    using assms by (intro admitted_in_window) (auto simp: rule_active_def)
  with run show ?thesis using assms by (auto simp: rule_active_def min_def)
qed

text \<open>Five calls for one key and one for another under a limit of three.\<close>

lemma RateLimiter_exact_in_window_witness:
  "admitted \<lparr>Limit = 3, Window = 10\<rparr> ''a''
     [(100, ''a''), (101, ''b''), (102, ''a''), (103, ''a''), (104, ''a''), (110, ''a'')]
     NewRateLimiter = 3"
  using RateLimiter_exact_in_window [of "\<lparr>Limit = 3, Window = 10\<rparr>" 100 NewRateLimiter "''a''"
    "[(101, ''b''), (102, ''a''), (103, ''a''), (104, ''a''), (110, ''a'')]"]
  by (simp add: rule_active_def NewRateLimiter_def max_int64_def del: admitted.simps)

text \<open>
  C19. The rate limiter bounds bursts after any history.  Whatever calls came before, among
  calls that fall within one span of the rule's window length at most twice the limit are
  let through for a key: the fixed windows of the limiter can be straddled once.
\<close>

theorem RateLimiter_burst_bound:
  assumes "rule_active r" and "\<forall>(t, k') \<in> set pre. 0 < t" and "0 < a"
    and "\<forall>(t, k') \<in> set es. a \<le> t \<and> t \<le> a + Window r"
    and "int (length pre) + int (length es) \<le> max_int64"
  shows "admitted r k es (limiter_after r pre NewRateLimiter) \<le> 2 * nat (Limit r)"
proof -
  let ?l = "limiter_after r pre NewRateLimiter"
  have inv: "0 < expiresAt w \<and> 0 \<le> count w \<and> count w \<le> 0 + int (length pre)"
    if "windows ?l k = Some w" for w
    using assms that by (intro limiter_after_windows [of r pre 0 NewRateLimiter])
      (auto simp: NewRateLimiter_def)
  have "admitted r k es ?l \<le>
      (case windows ?l k of None \<Rightarrow> 0 | Some w \<Rightarrow> nat (Limit r - count w)) + nat (Limit r)"
    using assms inv by (intro admitted_in_span [of r es a]) fastforce+
  with inv show ?thesis by (fastforce split: option.splits)
qed

text \<open>
  The bound is reached: three calls at the end of a window of ten and three at the start of
  the next are all let through under a limit of three.
\<close>

lemma RateLimiter_burst_bound_witness:
  "admitted \<lparr>Limit = 3, Window = 10\<rparr> ''a'' [(109, ''a''), (110, ''a''), (111, ''a''),
      (112, ''a''), (113, ''a''), (114, ''a'')]
     (limiter_after \<lparr>Limit = 3, Window = 10\<rparr> [(100, ''a'')] NewRateLimiter) \<le> 6"
  using RateLimiter_burst_bound [of "\<lparr>Limit = 3, Window = 10\<rparr>" "[(100, ''a'')]" 105
    "[(109, ''a''), (110, ''a''), (111, ''a''), (112, ''a''), (113, ''a''), (114, ''a'')]" "''a''"]
  by (simp add: rule_active_def max_int64_def del: admitted.simps limiter_after.simps)

text \<open>
  The indices of the pending signup store.  In a well-formed store a signup that is still
  alive and whose username and email no other signup reserves is saved; the store stays
  well-formed; and until the signup expires it is found by its mobile, and its mobile by its
  username, its email and its mobile, without any other signup being touched.
\<close>

theorem PendingSignupStore_indexed:
  assumes "pending_wf s" and "free_identity (signups s) p" and "t < pending_signup.ExpiresAt p"
  shows "\<exists>s'. run_state (PendingSignupStore_Save t p) s = (Inr (), s') \<and> pending_wf s' \<and>
    signups s' = (signups s)(pending_signup.Mobile p \<mapsto> p) \<and>
    (\<forall>t' \<le> pending_signup.ExpiresAt p.
       run_state (getByMobileLocked t' (pending_signup.Mobile p)) s' = (Inr p, s') \<and>
       run_state (getIndexLocked t' byUsername (pending_signup.Username p)) s' =
         (Inr (pending_signup.Mobile p), s') \<and>
       run_state (getIndexLocked t' byEmail (pending_signup.Email p)) s' =
         (Inr (pending_signup.Mobile p), s') \<and>
       run_state (getIndexLocked t' byMobile (pending_signup.Mobile p)) s' =
         (Inr (pending_signup.Mobile p), s'))"
proof -
  let ?m = "pending_signup.Mobile p"
  obtain s' where run: "run_state (PendingSignupStore_Save t p) s = (Inr (), s')"
    and wf: "pending_wf s'" and view: "signups s' = (signups s)(?m \<mapsto> p)"
    using mem_pending.save_live [OF assms(1,3,2)] by (auto simp: memory_pending_store_def)
  have at: "signups s' ?m = Some p" by (simp add: view)
  have idx: "byUsername s' (pending_signup.Username p) = Some ?m"
    "byEmail s' (pending_signup.Email p) = Some ?m" "byMobile s' ?m = Some ?m"
    using wf at unfolding pending_wf_def by (blast intro: index_exact_found)+
  have get: "run_state (getByMobileLocked t' ?m) s' = (Inr p, s')"
    if "t' \<le> pending_signup.ExpiresAt p" for t'
    using at that by (simp add: getByMobileLocked_def time_After_def)
  have via: "run_state (getIndexLocked t' index key) s' = (Inr ?m, s')"
    if "t' \<le> pending_signup.ExpiresAt p" "index s' key = Some ?m" for t' index key
    using get [OF that(1)] that(2) by (simp add: getIndexLocked_def run_call_ok)
  show ?thesis
    by (intro exI [of _ s'] conjI allI impI run wf view get via idx)
qed

text \<open>One signup in a fresh store.\<close>

definition a_signup :: pending_signup where
  "a_signup = \<lparr>pending_signup.Username = ''u'', PasswordHash = ''h'', Email = ''e'',
     Mobile = ''m'', ResendCount = 0, LastSentAt = 5, ExpiresAt = 9\<rparr>"

lemma PendingSignupStore_indexed_witness:
  "\<exists>s'. run_state (PendingSignupStore_Save 5 a_signup) NewPendingSignupStore = (Inr (), s') \<and>
     run_state (getIndexLocked 7 byEmail ''e'') s' = (Inr ''m'', s')"
proof -
  have free: "free_identity (signups NewPendingSignupStore) a_signup"
    by (simp add: free_identity_def NewPendingSignupStore_def)
  have live: "5 < pending_signup.ExpiresAt a_signup" "(7::int) \<le> pending_signup.ExpiresAt a_signup"
    and "pending_signup.Email a_signup = ''e''" "pending_signup.Mobile a_signup = ''m''"
    by (simp_all add: a_signup_def)
  with PendingSignupStore_indexed [OF pending_wf_new free live(1)] show ?thesis by metis
qed

end
