(* ===== verification/Json.thy ===== *)
theory Json
  imports Go_Strings
begin

text \<open>
  The part of \<open>encoding/json\<close> the program uses, on parsed documents.  \<open>json.Marshal\<close> turns a
  struct into a \<open>json\<close> document and \<open>json.Unmarshal\<close> stores one into a struct; a byte
  sequence is identified with the document it spells, and \<open>Marshal\<close> writes U+FFFD for each
  invalid byte of a string.  The texts of timestamps (RFC 3339 in UTC) are two functions
  of a \<open>clock_text\<close>, since only their round trip matters to the program.
\<close>

section \<open>Documents\<close>

datatype json =
    JNull | JBool bool | JNumber int | JReal string | JString string
  | JArray "json list" | JObject "(string \<times> json) list"

record clock_text =
  time_text :: "time \<Rightarrow> string"
  time_parse :: "string \<Rightarrow> time option"

definition clock_text_ok :: "clock_text \<Rightarrow> bool" where
  "clock_text_ok ct \<longleftrightarrow> (\<forall>t. time_parse ct (time_text ct t) = Some t)"

section \<open>Marshal\<close>

text \<open>Strings are coerced to valid UTF-8.\<close>

definition valid_text :: "string \<Rightarrow> string" where
  "valid_text s = concat (map (\<lambda>(r, _). encode_rune r) (chunks s))"

definition is_utf8 :: "string \<Rightarrow> bool" where
  "is_utf8 s \<longleftrightarrow> valid_text s = s"

definition json_string :: "string \<Rightarrow> json" where
  "json_string s = JString (valid_text s)"

text \<open>A year outside 0 to 9999 cannot be marshalled.\<close>

definition Day :: duration where
  "Day = 86400 * Second"

definition year_ok :: "time \<Rightarrow> bool" where
  "year_ok t \<longleftrightarrow> - 366 * Day \<le> t \<and> t < 3652059 * Day"

definition json_time :: "clock_text \<Rightarrow> time \<Rightarrow> json option" where
  "json_time ct t = (if year_ok t then Some (JString (time_text ct t)) else None)"

section \<open>Unmarshal\<close>

text \<open>
  Object keys are matched with the names of the fields up to simple case folding.  Names are
  in lower-case ASCII, onto which only ASCII capitals and two further letters fold.
\<close>

definition fold_rune :: "rune \<Rightarrow> rune" where
  "fold_rune r =
     (if 65 \<le> r \<and> r \<le> 90 then r + 32 else if r = 383 then 115 else if r = 8490 then 107 else r)"

definition fold_key :: "string \<Rightarrow> string" where
  "fold_key k = concat (map (\<lambda>(r, _). encode_rune (fold_rune r)) (chunks k))"

type_synonym 'a setter = "json \<Rightarrow> 'a \<Rightarrow> 'a option"

text \<open>
  The fields of an object are stored one after the other; unknown names are skipped, and a
  value of the wrong type fails the whole call (whose result the program then discards).
\<close>

fun set_fields :: "(string \<times> 'a setter) list \<Rightarrow> (string \<times> json) list \<Rightarrow> 'a \<Rightarrow> 'a option" where
  "set_fields setters [] a = Some a"
| "set_fields setters ((k, v) # fs) a =
     (case map_of setters (fold_key k) of
        None \<Rightarrow> set_fields setters fs a
      | Some f \<Rightarrow> (case f v a of None \<Rightarrow> None | Some b \<Rightarrow> set_fields setters fs b))"

fun unmarshal :: "(string \<times> 'a setter) list \<Rightarrow> json \<Rightarrow> 'a \<Rightarrow> 'a option" where
  "unmarshal setters (JObject fs) a = set_fields setters fs a"
| "unmarshal setters JNull a = Some a"
| "unmarshal setters _ a = None"

text \<open>A \<open>null\<close> leaves the field as it is.\<close>

fun set_string :: "(string \<Rightarrow> 'a \<Rightarrow> 'a) \<Rightarrow> 'a setter" where
  "set_string f (JString s) a = Some (f s a)"
| "set_string f JNull a = Some a"
| "set_string f _ a = None"

fun set_bool :: "(bool \<Rightarrow> 'a \<Rightarrow> 'a) \<Rightarrow> 'a setter" where
  "set_bool f (JBool b) a = Some (f b a)"
| "set_bool f JNull a = Some a"
| "set_bool f _ a = None"

fun set_uint :: "(nat \<Rightarrow> 'a \<Rightarrow> 'a) \<Rightarrow> 'a setter" where
  "set_uint f (JNumber n) a = (if 0 \<le> n \<and> n < 2 ^ 64 then Some (f (nat n) a) else None)"
| "set_uint f JNull a = Some a"
| "set_uint f _ a = None"

fun set_int :: "(int \<Rightarrow> 'a \<Rightarrow> 'a) \<Rightarrow> 'a setter" where
  "set_int f (JNumber n) a = (if min_int64 \<le> n \<and> n \<le> max_int64 then Some (f n a) else None)"
| "set_int f JNull a = Some a"
| "set_int f _ a = None"

fun set_time :: "clock_text \<Rightarrow> (time \<Rightarrow> 'a \<Rightarrow> 'a) \<Rightarrow> 'a setter" where
  "set_time ct f (JString s) a =
     (case time_parse ct s of None \<Rightarrow> None | Some t \<Rightarrow> Some (f t a))"
| "set_time ct f JNull a = Some a"
| "set_time ct f _ a = None"

section \<open>Lemmas\<close>

text \<open>A name in lower-case ASCII is its own folding.\<close>

lemma fold_key_plain: "plain_name k \<Longrightarrow> fold_key k = k"
proof -
  assume k: "plain_name k"
  then have "fold_key k = concat (map (\<lambda>c. encode_rune (byte c)) k)"
    unfolding fold_key_def
    by (subst chunks_ascii) (auto simp: plain_name_def fold_rune_def comp_def
      intro!: arg_cong [where f = concat] map_cong)
  also have "\<dots> = concat (map (\<lambda>c. [c]) k)"
    using k by (intro arg_cong [where f = concat] map_cong) (auto simp: plain_name_def encode_ascii)
  finally show ?thesis by simp
qed

lemma valid_text_ascii: "\<forall>c \<in> set s. byte c < (128 :: nat) \<Longrightarrow> is_utf8 s"
proof -
  assume a: "\<forall>c \<in> set s. byte c < (128 :: nat)"
  then have "valid_text s = concat (map (\<lambda>c. encode_rune (byte c)) s)"
    by (simp add: valid_text_def chunks_ascii comp_def)
  also have "\<dots> = concat (map (\<lambda>c. [c]) s)"
    using a by (intro arg_cong [where f = concat] map_cong) (auto simp: encode_ascii)
  finally show ?thesis by (simp add: is_utf8_def)
qed

lemma clock_text_okD [simp]: "clock_text_ok ct \<Longrightarrow> time_parse ct (time_text ct t) = Some t"
  by (simp add: clock_text_ok_def)

end
