(* ===== verification/Token_Manager.thy ===== *)
theory Token_Manager
  imports Auth_Types Json "HOL-Library.Log_Nat"
begin

text \<open>
  \<open>auth/token_manager.go\<close>: access tokens are JWE objects (direct encryption, A256GCM) over the
  JSON document of the claims; refresh tokens are random.  \<open>crypto_lib\<close> is the code outside
  the repository: the entropy source and the JOSE library.  Encryption draws a nonce, so it is
  a call on the state of the outside world; decryption is a function of token and key.
\<close>

section \<open>The libraries\<close>

record 'x crypto_lib =
  rand_Read :: "nat \<Rightarrow> ('x, auth_error, string) call"
  jose_NewEncrypter :: "string \<Rightarrow> auth_error + (json \<Rightarrow> ('x, auth_error, string) call)"
  jose_ParseEncrypted :: "string \<Rightarrow> auth_error + (string \<Rightarrow> auth_error + json)"
  json_clock :: clock_text

text \<open>
  The documented behaviour: \<open>rand.Read\<close> fills the buffer or fails; decrypting a serialized
  object with the key it was encrypted under gives the plaintext back; and a timestamp
  survives its own text.
\<close>

definition crypto_ok :: "'x crypto_lib \<Rightarrow> bool" where
  "crypto_ok lib \<longleftrightarrow>
     (\<forall>n x d x'. run_state (rand_Read lib n) x = (Inr d, x') \<longrightarrow> length d = n) \<and>
     (\<forall>key enc doc x tok x'. jose_NewEncrypter lib key = Inr enc \<longrightarrow>
        run_state (enc doc) x = (Inr tok, x') \<longrightarrow>
        (\<exists>dec. jose_ParseEncrypted lib tok = Inr dec \<and> dec key = Inr doc)) \<and>
     clock_text_ok (json_clock lib)"

section \<open>Random tokens\<close>

text \<open>\<open>base64.RawURLEncoding.EncodeToString\<close>.\<close>

definition base64_char :: "nat \<Rightarrow> char" where
  "base64_char n = ''ABCDEFGHIJKLMNOPQRSTUVWXYZabcdefghijklmnopqrstuvwxyz0123456789-_'' ! n"

fun base64url :: "string \<Rightarrow> string" where
  "base64url [] = []"
| "base64url [a] = [base64_char (byte a div 4), base64_char (byte a mod 4 * 16)]"
| "base64url [a, b] =
     [base64_char (byte a div 4), base64_char (byte a mod 4 * 16 + byte b div 16),
      base64_char (byte b mod 16 * 4)]"
| "base64url (a # b # c # s) =
     base64_char (byte a div 4) # base64_char (byte a mod 4 * 16 + byte b div 16)
     # base64_char (byte b mod 16 * 4 + byte c div 64) # base64_char (byte c mod 64)
     # base64url s"

definition randomToken :: "'x crypto_lib \<Rightarrow> nat \<Rightarrow> ('x, auth_error, string) call" where
  "randomToken lib n = call_ok (rand_Read lib n) (\<lambda>data. ok (base64url data))"

section \<open>The manager\<close>

record token_manager =
  issuer :: string
  jweKey :: string
  accessTokenTTL :: duration
  refreshTokenTTL :: duration

definition NewTokenManager ::
  "string \<Rightarrow> string \<Rightarrow> duration \<Rightarrow> duration \<Rightarrow> auth_error + token_manager" where
  "NewTokenManager iss key accessTTL refreshTTL =
     (if length key \<noteq> 32 then Inl ErrInvalidJWEKey
      else Inr \<lparr>issuer = iss, jweKey = key, accessTokenTTL = accessTTL, refreshTokenTTL = refreshTTL\<rparr>)"

text \<open>\<open>json.Marshal\<close> and \<open>json.Unmarshal\<close> at \<open>AccessClaims\<close>.\<close>

definition claims_Marshal :: "clock_text \<Rightarrow> access_claims \<Rightarrow> auth_error + json" where
  "claims_Marshal ct c =
     (case (json_time ct (IssuedAt c), json_time ct (access_claims.ExpiresAt c)) of
        (Some i, Some e) \<Rightarrow>
          Inr (JObject
            [(''sub'', json_string (Subject c)), (''typ'', json_string (access_claims.TokenType c)),
             (''role'', json_string (access_claims.Role c)),
             (''is_profile_complete'', JBool (access_claims.IsProfileComplete c)),
             (''iat'', i), (''exp'', e)])
      | _ \<Rightarrow> Inl (ErrOther ''year outside of range [0,9999]''))"

definition claims_setters :: "clock_text \<Rightarrow> (string \<times> access_claims setter) list" where
  "claims_setters ct =
     [(''sub'', set_string (\<lambda>s c. c\<lparr>Subject := s\<rparr>)),
      (''typ'', set_string (\<lambda>s c. c\<lparr>access_claims.TokenType := s\<rparr>)),
      (''role'', set_string (\<lambda>s c. c\<lparr>access_claims.Role := s\<rparr>)),
      (''is_profile_complete'', set_bool (\<lambda>b c. c\<lparr>access_claims.IsProfileComplete := b\<rparr>)),
      (''iat'', set_time ct (\<lambda>t c. c\<lparr>IssuedAt := t\<rparr>)),
      (''exp'', set_time ct (\<lambda>t c. c\<lparr>access_claims.ExpiresAt := t\<rparr>))]"

definition zero_claims :: access_claims where
  "zero_claims = \<lparr>Subject = [], TokenType = [], Role = [], IsProfileComplete = False,
     IssuedAt = 0, ExpiresAt = 0\<rparr>"

definition encrypt ::
  "'x crypto_lib \<Rightarrow> token_manager \<Rightarrow> access_claims \<Rightarrow> ('x, auth_error, string) call" where
  "encrypt lib m payload =
     (case jose_NewEncrypter lib (jweKey m) of
        Inl e \<Rightarrow> err e
      | Inr encrypter \<Rightarrow>
          (case claims_Marshal (json_clock lib) payload of
             Inl e \<Rightarrow> err e
           | Inr data \<Rightarrow> encrypter data))"

definition decrypt :: "'x crypto_lib \<Rightarrow> token_manager \<Rightarrow> string \<Rightarrow> auth_error + access_claims" where
  "decrypt lib m token =
     (case jose_ParseEncrypted lib token of
        Inl e \<Rightarrow> Inl e
      | Inr object \<Rightarrow>
          (case object (jweKey m) of
             Inl e \<Rightarrow> Inl e
           | Inr data \<Rightarrow>
               (case unmarshal (claims_setters (json_clock lib)) data zero_claims of
                  None \<Rightarrow> Inl (ErrOther ''json: cannot unmarshal'')
                | Some claims \<Rightarrow> Inr claims)))"

text \<open>
  \<open>int64(d.Seconds())\<close>.  \<open>Seconds\<close> adds the whole seconds and the fraction in floating point;
  the sum of whole seconds with \<open>b\<close> binary digits and a fraction rounds up to the next whole
  second exactly when the gap that is left is at most half the spacing \<open>2 ^ (b - 53)\<close>.
\<close>

definition seconds_round_up :: "int \<Rightarrow> int \<Rightarrow> bool" where
  "seconds_round_up sec nsec \<longleftrightarrow>
     0 < sec \<and> (Second - nsec) * 2 ^ 54 \<le> Second * 2 ^ nat (bitlen sec)"

definition duration_seconds :: "duration \<Rightarrow> int" where
  "duration_seconds d =
     (let sec = \<bar>d\<bar> div Second; nsec = \<bar>d\<bar> mod Second in
      sgn d * (if seconds_round_up sec nsec then sec + 1 else sec))"

definition access_claims_for :: "token_manager \<Rightarrow> time \<Rightarrow> user \<Rightarrow> access_claims" where
  "access_claims_for m now u =
     \<lparr>Subject = user.Username u, TokenType = ''access'', Role = user.Role u,
      IsProfileComplete = user.IsProfileComplete u, IssuedAt = now,
      ExpiresAt = now + accessTokenTTL m\<rparr>"

definition GenerateTokenPair ::
  "'x crypto_lib \<Rightarrow> token_manager \<Rightarrow> time \<Rightarrow> user \<Rightarrow>
     ('x, auth_error, token_pair \<times> refresh_session) call" where
  "GenerateTokenPair lib m now u =
     call_ok (encrypt lib m (access_claims_for m now u)) (\<lambda>accessToken.
     call_ok (randomToken lib 32) (\<lambda>rawRefreshToken.
     call_ok (randomToken lib 24) (\<lambda>tokenID.
     ok (\<lparr>AccessToken = accessToken, RefreshToken = tokenID @ ''.'' @ rawRefreshToken,
          TokenType = ''Bearer'', AccessTokenExpiresIn = duration_seconds (accessTokenTTL m),
          RefreshTokenExpiresIn = duration_seconds (refreshTokenTTL m)\<rparr>,
         \<lparr>TokenID = tokenID, UserID = user.ID u, Username = user.Username u,
          ExpiresAt = now + refreshTokenTTL m\<rparr>))))"

definition ParseAccessToken ::
  "'x crypto_lib \<Rightarrow> token_manager \<Rightarrow> time \<Rightarrow> string \<Rightarrow> auth_error + access_claims" where
  "ParseAccessToken lib m now token =
     (case decrypt lib m token of
        Inl _ \<Rightarrow> Inl ErrInvalidToken
      | Inr claims \<Rightarrow>
          if access_claims.TokenType claims \<noteq> ''access'' then Inl ErrInvalidToken
          else if time_After now (access_claims.ExpiresAt claims) then Inl ErrTokenExpired
          else Inr claims)"

section \<open>Base64\<close>

definition base64_alphabet :: string where
  "base64_alphabet = ''ABCDEFGHIJKLMNOPQRSTUVWXYZabcdefghijklmnopqrstuvwxyz0123456789-_''"

lemma base64_alphabet: "distinct base64_alphabet" "length base64_alphabet = 64"
  "CHR ''.'' \<notin> set base64_alphabet"
  by (simp_all add: base64_alphabet_def)

lemma base64_char_eq: "m < 64 \<Longrightarrow> n < 64 \<Longrightarrow> base64_char m = base64_char n \<longleftrightarrow> m = n"
  unfolding base64_char_def base64_alphabet_def [symmetric]
  by (simp add: nth_eq_iff_index_eq base64_alphabet)

lemma base64_char_in: "n < 64 \<Longrightarrow> base64_char n \<in> set base64_alphabet"
  unfolding base64_char_def base64_alphabet_def [symmetric]
  by (rule nth_mem) (simp add: base64_alphabet)

lemma byte_less: "byte c < (256 :: nat)"
  by simp

text \<open>The six-bit pieces of a byte.\<close>

lemma piece_bounds:
  "byte a div 4 < (64 :: nat)" "byte a div 16 < (16 :: nat)" "byte a div 64 < (4 :: nat)"
  "byte a mod 64 < (64 :: nat)" "byte a mod 4 < (4 :: nat)" "byte a mod 16 < (16 :: nat)"
  by (simp_all add: div_less_iff_less_mult)

lemma pack16: "p < 4 \<Longrightarrow> q < 16 \<Longrightarrow> p * 16 + q < (64 :: nat)"
  by simp

lemma pack4: "p < 16 \<Longrightarrow> q < 4 \<Longrightarrow> p * 4 + q < (64 :: nat)"
  by simp

lemma pieces_less [simp]:
  "byte a div 4 < (64 :: nat)" "byte a mod 4 * 16 < (64 :: nat)"
  "byte a mod 4 * 16 + byte b div 16 < (64 :: nat)"
  "byte b mod 16 * 4 < (64 :: nat)" "byte b mod 16 * 4 + byte c div 64 < (64 :: nat)"
  "byte c mod 64 < (64 :: nat)"
  using pack16 [of "byte a mod 4" 0] pack4 [of "byte b mod 16" 0]
  by (simp_all add: piece_bounds pack16 pack4)

lemma length_base64url: "length (base64url s) = (4 * length s + 2) div 3"
  by (induction s rule: base64url.induct) simp_all

lemma base64url_alphabet: "set (base64url s) \<subseteq> set base64_alphabet"
  by (induction s rule: base64url.induct) (auto intro: base64_char_in)

lemma unpack:
  assumes "p * n + q = p' * n + q'" and "q < n" and "q' < (n :: nat)"
  shows "p = p' \<and> q = q'"
proof -
  have "(p * n + q) div n = p" "(p' * n + q') div n = p'" using assms(2,3) by simp_all
  moreover have "(p * n + q) mod n = q" "(p' * n + q') mod n = q'" using assms(2,3) by simp_all
  ultimately show ?thesis using assms(1) by metis
qed

lemma div_mod_eqI: "(x :: nat) div n = y div n \<Longrightarrow> x mod n = y mod n \<Longrightarrow> x = y"
  by (metis div_mult_mod_eq)

lemma byte_eqI: "byte a div n = (byte b div n :: nat) \<Longrightarrow> byte a mod n = (byte b mod n :: nat) \<Longrightarrow> a = b"
  by (metis div_mod_eqI of_char_eq_iff)

lemma first_byte:
  assumes "byte a div 4 = (byte a' div 4 :: nat)"
    and "byte a mod 4 * 16 + byte b div 16 = (byte a' mod 4 * 16 + byte b' div 16 :: nat)"
  shows "a = a' \<and> byte b div 16 = (byte b' div 16 :: nat)"
  using unpack [OF assms(2) piece_bounds(2) piece_bounds(2)] assms(1) by (blast intro: byte_eqI)

lemma second_byte:
  assumes "byte b div 16 = (byte b' div 16 :: nat)"
    and "byte b mod 16 * 4 + byte c div 64 = (byte b' mod 16 * 4 + byte c' div 64 :: nat)"
  shows "b = b' \<and> byte c div 64 = (byte c' div 64 :: nat)"
  using unpack [OF assms(2) piece_bounds(3) piece_bounds(3)] assms(1) by (blast intro: byte_eqI)

lemma base64url_inj:
  "length s = length t \<Longrightarrow> base64url s = base64url t \<Longrightarrow> s = t"
proof (induction s arbitrary: t rule: base64url.induct)
  case (2 a)
  then obtain a' where t: "t = [a']" by (cases t) auto
  have "byte a mod 4 * 16 + 0 = (byte a' mod 4 * 16 + 0 :: nat)" 
    using "2.prems"(2) by (simp add: t base64_char_eq del: mult_cancel2)
  with unpack [OF this] "2.prems"(2) show ?case by (auto simp: t base64_char_eq intro: byte_eqI)
next
  case (3 a b)
  then obtain a' b' where t: "t = [a', b']" by (cases t rule: remdups_adj.cases) auto
  from "3.prems"(2) have p: "byte a div 4 = (byte a' div 4 :: nat)"
      "byte a mod 4 * 16 + byte b div 16 = (byte a' mod 4 * 16 + byte b' div 16 :: nat)"
      "byte b mod 16 * 4 = (byte b' mod 16 * 4 :: nat)"
    by (simp_all add: t base64_char_eq del: mult_cancel2)
  from first_byte [OF p(1,2)] p(3) show ?case by (auto simp: t intro: byte_eqI)
next
  case (4 a b c s)
  then obtain a' b' c' t' where t: "t = a' # b' # c' # t'"
    by (cases t rule: base64url.cases) auto
  from "4.prems"(2) have p: "byte a div 4 = (byte a' div 4 :: nat)"
      "byte a mod 4 * 16 + byte b div 16 = (byte a' mod 4 * 16 + byte b' div 16 :: nat)"
      "byte b mod 16 * 4 + byte c div 64 = (byte b' mod 16 * 4 + byte c' div 64 :: nat)"
      "byte c mod 64 = (byte c' mod 64 :: nat)" and r: "base64url s = base64url t'"
    by (simp_all add: t base64_char_eq)
  from first_byte [OF p(1,2)] have ab: "a = a'" "byte b div 16 = (byte b' div 16 :: nat)" by auto
  from second_byte [OF ab(2) p(3)] p(4) have "b = b'" "c = c'" by (auto intro: byte_eqI)
  with ab "4.IH" [of t'] "4.prems"(1) r show ?case by (simp add: t)
qed simp

section \<open>Durations\<close>

text \<open>A whole number of seconds, as every configured lifetime is, is reported exactly.\<close>

lemma bitlen_mono_54: "0 \<le> k \<Longrightarrow> k < 2 ^ 53 \<Longrightarrow> (2 :: int) ^ nat (bitlen k) \<le> 2 ^ 53"
proof -
  assume "0 \<le> k" "k < 2 ^ 53"
  then have "bitlen k \<le> int 53" by (subst bitlen_le_iff_power) simp_all
  then have "nat (bitlen k) \<le> 53" by simp
  then show "(2 :: int) ^ nat (bitlen k) \<le> 2 ^ 53" by (rule power_increasing) simp
qed

lemma duration_seconds_whole:
  assumes "0 \<le> k" and "k < 2 ^ 53"
  shows "duration_seconds (k * Second) = k"
proof -
  have S: "Second > 0" by (simp add: Second_def)
  have "\<not> seconds_round_up k 0"
  proof
    assume "seconds_round_up k 0"
    then have "Second * 2 ^ 54 \<le> Second * (2 :: int) ^ nat (bitlen k)"
      by (simp add: seconds_round_up_def)
    then have "(2 :: int) ^ 54 \<le> 2 ^ nat (bitlen k)" using S by simp
    also have "\<dots> \<le> 2 ^ 53" by (rule bitlen_mono_54 [OF assms])
    finally show False by simp
  qed
  with assms S show ?thesis
    by (simp add: duration_seconds_def Let_def abs_mult sgn_mult) (simp add: sgn_if)
qed

section \<open>Generation and parsing\<close>

lemma json_time_Some: "year_ok t \<Longrightarrow> json_time ct t = Some (JString (time_text ct t))"
  by (simp add: json_time_def)

lemma claims_Marshal_Inr:
  "claims_Marshal ct c = Inr d \<Longrightarrow> clock_text_ok ct \<Longrightarrow> is_utf8 (Subject c) \<Longrightarrow>
   is_utf8 (access_claims.TokenType c) \<Longrightarrow> is_utf8 (access_claims.Role c) \<Longrightarrow>
   unmarshal (claims_setters ct) d zero_claims = Some c"
  by (cases c) (auto simp: claims_Marshal_def json_time_def json_string_def is_utf8_def
      claims_setters_def fold_key_plain plain_name_def zero_claims_def split: if_splits)

lemma decrypt_encrypt:
  assumes "crypto_ok lib" and "run_state (encrypt lib m c) x = (Inr tok, x')"
    and "is_utf8 (Subject c)" "is_utf8 (access_claims.TokenType c)" "is_utf8 (access_claims.Role c)"
    and "jweKey m' = jweKey m"
  shows "decrypt lib m' tok = Inr c"
proof -
  obtain enc data where e: "jose_NewEncrypter lib (jweKey m) = Inr enc"
    and d: "claims_Marshal (json_clock lib) c = Inr data" and t: "run_state (enc data) x = (Inr tok, x')"
    using assms(2) by (auto simp: encrypt_def split: sum.splits)
  from assms(1) e t obtain dec where "jose_ParseEncrypted lib tok = Inr dec" "dec (jweKey m) = Inr data"
    unfolding crypto_ok_def by blast
  moreover have "unmarshal (claims_setters (json_clock lib)) data zero_claims = Some c"
    using assms d by (intro claims_Marshal_Inr) (auto simp: crypto_ok_def)
  ultimately show ?thesis using assms(6) by (simp add: decrypt_def)
qed

lemma GenerateTokenPair_Inr:
  assumes "run_state (GenerateTokenPair lib m now u) x = (Inr (p, s), x')"
  obtains tok raw tid x1 x2 where
    "run_state (encrypt lib m (access_claims_for m now u)) x = (Inr tok, x1)"
    "run_state (randomToken lib 32) x1 = (Inr raw, x2)"
    "run_state (randomToken lib 24) x2 = (Inr tid, x')"
    "p = \<lparr>AccessToken = tok, RefreshToken = tid @ ''.'' @ raw, TokenType = ''Bearer'',
       AccessTokenExpiresIn = duration_seconds (accessTokenTTL m),
       RefreshTokenExpiresIn = duration_seconds (refreshTokenTTL m)\<rparr>"
    "s = \<lparr>TokenID = tid, UserID = user.ID u, Username = user.Username u,
       ExpiresAt = now + refreshTokenTTL m\<rparr>"
  using assms unfolding GenerateTokenPair_def by (auto simp: call_ok_Inr)

lemma randomToken_Inr:
  assumes "crypto_ok lib" and "run_state (randomToken lib n) x = (Inr t, x')"
  obtains d where "t = base64url d" "length d = n" "run_state (rand_Read lib n) x = (Inr d, x')"
  using assms unfolding randomToken_def crypto_ok_def by (auto simp: call_ok_Inr)

lemma is_utf8_access: "is_utf8 ''access''"
  by (rule valid_text_ascii) simp

lemma ParseAccessToken_generated:
  assumes "crypto_ok lib" and "run_state (GenerateTokenPair lib m now u) x = (Inr (p, s), x')"
    and "is_utf8 (user.Username u)" "is_utf8 (user.Role u)" and "jweKey m' = jweKey m"
  shows "ParseAccessToken lib m' t (AccessToken p) =
    (if t \<le> now + accessTokenTTL m then Inr (access_claims_for m now u) else Inl ErrTokenExpired)"
proof -
  obtain tok x1 where "run_state (encrypt lib m (access_claims_for m now u)) x = (Inr tok, x1)"
    and tok: "AccessToken p = tok"
    by (rule GenerateTokenPair_Inr [OF assms(2)]) simp
  from decrypt_encrypt [OF assms(1) this(1) _ _ _ assms(5)] assms(3,4)
  have "decrypt lib m' tok = Inr (access_claims_for m now u)"
    by (simp add: access_claims_for_def is_utf8_access)
  then show ?thesis
    by (simp add: ParseAccessToken_def tok time_After_def not_less) (simp add: access_claims_for_def)
qed

lemma base64url_token_inj:
  assumes "length a = length a'" and "length b = length b'"
    and "base64url a @ ''.'' @ base64url b = base64url a' @ ''.'' @ base64url b'"
  shows "a = a' \<and> b = b'"
  using assms by (auto simp: length_base64url dest: base64url_inj)

section \<open>A working library\<close>

text \<open>
  A concrete, insecure library for evaluating the model: an object is the key and the flat
  document in a prefix-free notation, an entropy source repeats one byte, and timestamps are
  written in unary.
\<close>

definition demo_text :: "string \<Rightarrow> string" where
  "demo_text s = concat (map (\<lambda>c. [CHR ''x'', c]) s) @ ''e''"

fun demo_untext :: "string \<Rightarrow> (string \<times> string) option" where
  "demo_untext (a # s) =
     (if a = CHR ''e'' then Some ([], s)
      else case s of [] \<Rightarrow> None
        | c # r \<Rightarrow> map_option (\<lambda>(t, r'). (c # t, r')) (demo_untext r))"
| "demo_untext [] = None"

fun demo_value :: "json \<Rightarrow> string option" where
  "demo_value (JString s) = Some (CHR ''s'' # demo_text s)"
| "demo_value (JBool b) = Some (if b then ''t'' else ''f'')"
| "demo_value _ = None"

fun demo_unvalue :: "string \<Rightarrow> (json \<times> string) option" where
  "demo_unvalue (a # s) =
     (if a = CHR ''s'' then map_option (\<lambda>(t, r). (JString t, r)) (demo_untext s)
      else Some (JBool (a = CHR ''t''), s))"
| "demo_unvalue [] = None"

fun demo_fields :: "(string \<times> json) list \<Rightarrow> string option" where
  "demo_fields [] = Some ''z''"
| "demo_fields ((k, v) # fs) =
     (case (demo_value v, demo_fields fs) of
        (Some a, Some b) \<Rightarrow> Some (CHR ''k'' # demo_text k @ a @ b)
      | _ \<Rightarrow> None)"

fun demo_unfields :: "nat \<Rightarrow> string \<Rightarrow> (string \<times> json) list option" where
  "demo_unfields 0 s = None"
| "demo_unfields (Suc n) s =
     (case s of
        [] \<Rightarrow> None
      | a # r \<Rightarrow>
          if a = CHR ''z'' then Some []
          else case demo_untext r of
            None \<Rightarrow> None
          | Some (k, r1) \<Rightarrow>
              (case demo_unvalue r1 of
                 None \<Rightarrow> None
               | Some (v, r2) \<Rightarrow> map_option (Cons (k, v)) (demo_unfields n r2)))"

definition demo_clock :: clock_text where
  "demo_clock =
     \<lparr>time_text = (\<lambda>t. replicate (nat \<bar>t\<bar>) (if t < 0 then CHR ''-'' else CHR ''+'')),
      time_parse = (\<lambda>s. Some (if CHR ''-'' \<in> set s then - int (length s) else int (length s)))\<rparr>"

definition demo_crypto :: "unit crypto_lib" where
  "demo_crypto =
     \<lparr>rand_Read = (\<lambda>n. ok (replicate n CHR ''r'')),
      jose_NewEncrypter = (\<lambda>key. Inr (\<lambda>doc.
        case doc of
          JObject fs \<Rightarrow>
            (case demo_fields fs of
               None \<Rightarrow> err (ErrOther ''unsupported'')
             | Some s \<Rightarrow> ok (demo_text key @ s))
        | _ \<Rightarrow> err (ErrOther ''unsupported''))),
      jose_ParseEncrypted = (\<lambda>tok.
        case demo_untext tok of
          None \<Rightarrow> Inl (ErrOther ''parse'')
        | Some (key, s) \<Rightarrow>
            (case demo_unfields (length s) s of
               None \<Rightarrow> Inl (ErrOther ''parse'')
             | Some fs \<Rightarrow>
                 Inr (\<lambda>key'. if key' = key then Inr (JObject fs) else Inl (ErrOther ''key'')))),
      json_clock = demo_clock\<rparr>"

lemma demo_clock_ok: "clock_text_ok demo_clock"
  by (auto simp: clock_text_ok_def demo_clock_def)

lemma demo_untext_text: "demo_untext (demo_text s @ r) = Some (s, r)"
  by (induction s) (simp_all add: demo_text_def)

lemma demo_unvalue_value: "demo_value v = Some s \<Longrightarrow> demo_unvalue (s @ r) = Some (v, r)"
  by (cases v) (auto simp: demo_untext_text)

lemma demo_unfields_fields:
  "demo_fields fs = Some s \<Longrightarrow> length s \<le> n \<Longrightarrow> demo_unfields n s = Some fs"
proof (induction fs arbitrary: s n)
  case Nil
  then show ?case by (cases n) auto
next
  case (Cons f fs)
  obtain k v where f: "f = (k, v)" by fastforce
  with Cons.prems obtain a b where a: "demo_value v = Some a" and b: "demo_fields fs = Some b"
    and s: "s = CHR ''k'' # demo_text k @ a @ b"
    by (auto split: option.splits)
  with Cons.prems obtain m where n: "n = Suc m" and m: "length b \<le> m" by (cases n) auto
  show ?case
    by (simp add: n s f demo_untext_text demo_unvalue_value [OF a] Cons.IH [OF b m])
qed

lemma demo_crypto_ok: "crypto_ok demo_crypto"
proof -
  have "\<exists>dec. jose_ParseEncrypted demo_crypto tok = Inr dec \<and> dec key = Inr doc"
    if "jose_NewEncrypter demo_crypto key = Inr enc" and "run_state (enc doc) x = (Inr tok, x')"
    for key enc doc x tok x'
    using that
    by (auto simp: demo_crypto_def demo_untext_text demo_unfields_fields
        split: json.splits option.splits)
  moreover have "run_state (rand_Read demo_crypto n) x = (Inr d, x') \<Longrightarrow> length d = n" for n x d x'
    by (auto simp: demo_crypto_def)
  moreover have "json_clock demo_crypto = demo_clock" by (simp add: demo_crypto_def)
  ultimately show ?thesis
    unfolding crypto_ok_def using demo_clock_ok by auto
qed

definition demo_manager :: token_manager where
  "demo_manager = \<lparr>issuer = ''wesko'', jweKey = replicate 32 CHR ''k'',
     accessTokenTTL = 900 * Second, refreshTokenTTL = 2592000 * Second\<rparr>"

definition demo_user :: user where
  "demo_user = \<lparr>user.ID = 7, Username = ''asha'', Email = ''a@x'', Mobile = ''+919642560235'',
     MobileVerified = True, Role = ''customer'', IsProfileComplete = True,
     CreatedAt = 0, UpdatedAt = 0\<rparr>"

lemma is_utf8_demo_user: "is_utf8 (user.Username demo_user)" "is_utf8 (user.Role demo_user)"
  by (auto simp: demo_user_def intro!: valid_text_ascii)

lemma demo_encrypt:
  "year_ok (IssuedAt c) \<Longrightarrow> year_ok (access_claims.ExpiresAt c) \<Longrightarrow>
     \<exists>tok. run_state (encrypt demo_crypto m c) () = (Inr tok, ())"
  by (simp add: encrypt_def demo_crypto_def claims_Marshal_def json_time_Some json_string_def)

lemma demo_generate:
  "year_ok now \<Longrightarrow> year_ok (now + accessTokenTTL m) \<Longrightarrow>
     \<exists>p s. run_state (GenerateTokenPair demo_crypto m now u) () = (Inr (p, s), ())"
  using demo_encrypt [of "access_claims_for m now u" m]
  by (auto simp: GenerateTokenPair_def run_call_ok randomToken_def access_claims_for_def
      demo_crypto_def)

section \<open>Properties\<close>

text \<open>
  C10. The life of an access token.  An access token that \<open>GenerateTokenPair\<close> issued parses,
  until its lifetime is over, to exactly the claims it was issued for, and is reported as
  expired from then on.  Any manager with the same key accepts it: the issuer a manager was
  configured with plays no part.
\<close>

theorem GenerateTokenPair_ParseAccessToken:
  assumes "crypto_ok lib" and "run_state (GenerateTokenPair lib m now u) x = (Inr (p, s), x')"
    and "is_utf8 (user.Username u)" and "is_utf8 (user.Role u)" and "jweKey m' = jweKey m"
  shows "ParseAccessToken lib m' t (AccessToken p) =
    (if t \<le> now + accessTokenTTL m
     then Inr \<lparr>Subject = user.Username u, TokenType = ''access'', Role = user.Role u,
            IsProfileComplete = user.IsProfileComplete u, IssuedAt = now,
            ExpiresAt = now + accessTokenTTL m\<rparr>
     else Inl ErrTokenExpired)"
  using ParseAccessToken_generated [OF assms] by (simp add: access_claims_for_def)

lemma GenerateTokenPair_ParseAccessToken_witness:
  "\<exists>p s. run_state (GenerateTokenPair demo_crypto demo_manager 5 demo_user) () = (Inr (p, s), ()) \<and>
     ParseAccessToken demo_crypto (demo_manager\<lparr>issuer := ''other''\<rparr>) 6 (AccessToken p) =
       Inr \<lparr>Subject = ''asha'', TokenType = ''access'', Role = ''customer'',
            IsProfileComplete = True, IssuedAt = 5, ExpiresAt = 900000000005\<rparr> \<and>
     ParseAccessToken demo_crypto demo_manager 900000000006 (AccessToken p) = Inl ErrTokenExpired"
proof -
  have "year_ok 5" "year_ok (5 + accessTokenTTL demo_manager)"
    by (simp_all add: year_ok_def Day_def Second_def demo_manager_def)
  then obtain p s where
    run: "run_state (GenerateTokenPair demo_crypto demo_manager 5 demo_user) () = (Inr (p, s), ())"
    using demo_generate by blast
  note parse = GenerateTokenPair_ParseAccessToken [OF demo_crypto_ok run is_utf8_demo_user]
  have "ParseAccessToken demo_crypto (demo_manager\<lparr>issuer := ''other''\<rparr>) 6 (AccessToken p) =
      Inr \<lparr>Subject = ''asha'', TokenType = ''access'', Role = ''customer'',
        IsProfileComplete = True, IssuedAt = 5, ExpiresAt = 900000000005\<rparr>"
    by (subst parse) (simp_all add: demo_manager_def demo_user_def Second_def)
  moreover have "ParseAccessToken demo_crypto demo_manager 900000000006 (AccessToken p) =
      Inl ErrTokenExpired"
    by (subst parse) (simp_all add: demo_manager_def Second_def)
  ultimately show ?thesis using run by blast
qed

text \<open>
  The form of a refresh token.  It is the token identifier, a full stop and a secret:
  76 characters that encode 24 and 32 random bytes without loss, so that two refresh tokens
  agree only when the entropy source produced the same 56 bytes twice.  The session filed
  for it carries the identifier, the user and the expiry.
\<close>

theorem GenerateTokenPair_refresh_token:
  assumes "crypto_ok lib" and "run_state (GenerateTokenPair lib m now u) x = (Inr (p, s), x')"
  shows "\<exists>id secret. length id = 24 \<and> length secret = 32 \<and>
    RefreshToken p = base64url id @ ''.'' @ base64url secret \<and>
    length (RefreshToken p) = 76 \<and>
    (\<forall>id' secret'. length id' = 24 \<longrightarrow> length secret' = 32 \<longrightarrow>
       RefreshToken p = base64url id' @ ''.'' @ base64url secret' \<longrightarrow> id' = id \<and> secret' = secret) \<and>
    s = \<lparr>TokenID = base64url id, UserID = user.ID u, Username = user.Username u,
         ExpiresAt = now + refreshTokenTTL m\<rparr>"
proof -
  obtain raw tid x1 x2 where raw: "run_state (randomToken lib 32) x1 = (Inr raw, x2)"
    and tid: "run_state (randomToken lib 24) x2 = (Inr tid, x')"
    and p: "RefreshToken p = tid @ ''.'' @ raw"
    and s: "s = \<lparr>TokenID = tid, UserID = user.ID u, Username = user.Username u,
       ExpiresAt = now + refreshTokenTTL m\<rparr>"
    by (rule GenerateTokenPair_Inr [OF assms(2)]) simp
  obtain secret where secret: "raw = base64url secret" "length secret = 32"
    by (rule randomToken_Inr [OF assms(1) raw])
  obtain id where id: "tid = base64url id" "length id = 24"
    by (rule randomToken_Inr [OF assms(1) tid])
  have "id' = id \<and> secret' = secret"
    if "length id' = 24" "length secret' = 32" "RefreshToken p = base64url id' @ ''.'' @ base64url secret'"
    for id' secret'
    using that id secret p by (intro base64url_token_inj) auto
  moreover have "length (RefreshToken p) = 76"
    using id secret by (simp add: p length_base64url)
  ultimately show ?thesis using id secret p s by blast
qed

lemma GenerateTokenPair_refresh_token_witness:
  "\<exists>p s. run_state (GenerateTokenPair demo_crypto demo_manager 5 demo_user) () = (Inr (p, s), ()) \<and>
     length (RefreshToken p) = 76 \<and> UserID s = 7"
proof -
  have "year_ok 5" "year_ok (5 + accessTokenTTL demo_manager)"
    by (simp_all add: year_ok_def Day_def Second_def demo_manager_def)
  then obtain p s where
    run: "run_state (GenerateTokenPair demo_crypto demo_manager 5 demo_user) () = (Inr (p, s), ())"
    using demo_generate by blast
  obtain id where "length (RefreshToken p) = 76"
    "s = \<lparr>TokenID = base64url id, UserID = user.ID demo_user, Username = user.Username demo_user,
       ExpiresAt = 5 + refreshTokenTTL demo_manager\<rparr>"
    using GenerateTokenPair_refresh_token [OF demo_crypto_ok run] by blast
  then have "length (RefreshToken p) = 76" "refresh_session.UserID s = 7"
    by (simp_all add: demo_user_def)
  with run show ?thesis by blast
qed

end
