(* ===== verification/Strconv.thy ===== *)
theory Strconv
  imports Go_Strings
begin

text \<open>
  What the program uses of \<open>strconv\<close> and of the address functions of \<open>net\<close>: reading and writing
  decimal numbers, \<open>ParseBool\<close>, and joining and splitting a host and a port.
\<close>

section \<open>Reading numbers\<close>

definition digit_value :: "char \<Rightarrow> nat option" where
  "digit_value c = (if 48 \<le> (byte c :: nat) \<and> byte c \<le> (57 :: nat) then Some (byte c - 48) else None)"

fun parse_digits :: "nat \<Rightarrow> string \<Rightarrow> nat option" where
  "parse_digits n [] = Some n"
| "parse_digits n (c # s) =
     (case digit_value c of None \<Rightarrow> None | Some d \<Rightarrow> parse_digits (n * 10 + d) s)"

text \<open>\<open>strconv.ParseUint(raw, 10, 64)\<close>: syntax and range errors are not told apart.\<close>

definition ParseUint :: "string \<Rightarrow> nat option" where
  "ParseUint raw =
     (if raw = [] then None
      else case parse_digits 0 raw of
        None \<Rightarrow> None
      | Some n \<Rightarrow> if n < 2 ^ 64 then Some n else None)"

text \<open>\<open>strconv.Atoi\<close>: an optional sign and at least one digit, in the range of an \<open>int\<close>.\<close>

definition Atoi :: "string \<Rightarrow> int option" where
  "Atoi s =
     (let (negative, rest) = (case s of
            c # t \<Rightarrow> if c = CHR ''-'' then (True, t) else if c = CHR ''+'' then (False, t) else (False, s)
          | [] \<Rightarrow> (False, s)) in
      if rest = [] then None
      else case parse_digits 0 rest of
        None \<Rightarrow> None
      | Some n \<Rightarrow>
          let v = (if negative then - int n else int n) in
          if min_int64 \<le> v \<and> v \<le> max_int64 then Some v else None)"

definition ParseBool :: "string \<Rightarrow> bool option" where
  "ParseBool s =
     (if s \<in> {''1'', ''t'', ''T'', ''true'', ''TRUE'', ''True''} then Some True
      else if s \<in> {''0'', ''f'', ''F'', ''false'', ''FALSE'', ''False''} then Some False
      else None)"

section \<open>Writing numbers\<close>

definition digit_char :: "nat \<Rightarrow> char" where
  "digit_char d = char_of (48 + d)"

fun decimal :: "nat \<Rightarrow> string" where
  "decimal n = (if n < 10 then [digit_char n] else decimal (n div 10) @ [digit_char (n mod 10)])"

declare decimal.simps [simp del]

text \<open>\<open>%d\<close> and \<open>strconv.Itoa\<close>.\<close>

definition Itoa :: "int \<Rightarrow> string" where
  "Itoa n = (if n < 0 then CHR ''-'' # decimal (nat (- n)) else decimal (nat n))"

lemma digit_value_char: "d < 10 \<Longrightarrow> digit_value (digit_char d) = Some d"
  by (simp add: digit_value_def digit_char_def)

lemma parse_digits_append:
  "parse_digits n (s @ t) = Option.bind (parse_digits n s) (\<lambda>m. parse_digits m t)"
  by (induction s arbitrary: n) (auto split: option.split)

lemma parse_decimal: "parse_digits 0 (decimal n) = Some n"
proof (induction n rule: decimal.induct)
  case (1 n)
  then show ?case
    by (cases "n < 10") (simp_all add: decimal.simps [of n] parse_digits_append digit_value_char)
qed

lemma decimal_nonempty [simp]: "decimal n \<noteq> []"
  by (simp add: decimal.simps [of n])

lemma decimal_no_sign: "decimal n = c # s \<Longrightarrow> c \<noteq> CHR ''-'' \<and> c \<noteq> CHR ''+''"
  using parse_decimal [of n] by (auto simp: digit_value_def split: option.splits)

lemma Atoi_Itoa: "min_int64 \<le> n \<Longrightarrow> n \<le> max_int64 \<Longrightarrow> Atoi (Itoa n) = Some n"
  using parse_decimal [of "nat n"] parse_decimal [of "nat (- n)"] decimal_no_sign [of "nat n"]
  by (cases "decimal (nat n)") (auto simp: Atoi_def Itoa_def Let_def)

section \<open>Hosts and ports\<close>

definition JoinHostPort :: "string \<Rightarrow> string \<Rightarrow> string" where
  "JoinHostPort host port =
     (if CHR '':'' \<in> set host then ''['' @ host @ '']:'' @ port else host @ '':'' @ port)"

text \<open>The position of the first and of the last occurrence of a byte.\<close>

fun index_of :: "char \<Rightarrow> string \<Rightarrow> nat option" where
  "index_of c [] = None"
| "index_of c (d # s) = (if c = d then Some 0 else map_option Suc (index_of c s))"

definition last_index :: "char \<Rightarrow> string \<Rightarrow> nat option" where
  "last_index c s = map_option (\<lambda>i. length s - 1 - i) (index_of c (rev s))"

text \<open>The errors of \<open>SplitHostPort\<close> are not told apart.\<close>

definition SplitHostPort :: "string \<Rightarrow> (string \<times> string) option" where
  "SplitHostPort hp =
     (case last_index (CHR '':'') hp of
        None \<Rightarrow> None
      | Some i \<Rightarrow>
          let port = drop (Suc i) hp;
              checked = (\<lambda>host j k. if CHR ''['' \<in> set (drop j hp) \<or> CHR '']'' \<in> set (drop k hp)
                then None else Some (host, port)) in
          if take 1 hp = ''[''
          then (case index_of (CHR '']'') hp of
              None \<Rightarrow> None
            | Some end' \<Rightarrow> if end' + 1 = i then checked (take (end' - 1) (drop 1 hp)) 1 (end' + 1) else None)
          else let host = take i hp in
            if CHR '':'' \<in> set host then None else checked host 0 0)"

lemma index_of_append: "c \<notin> set s \<Longrightarrow> index_of c (s @ c # t) = Some (length s)"
  by (induction s) auto

lemma last_index_append: "c \<notin> set t \<Longrightarrow> last_index c (s @ c # t) = Some (length s)"
  by (simp add: last_index_def index_of_append)

text \<open>An address that was joined is split into the same host and port.\<close>

lemma SplitHostPort_Join:
  assumes "set host \<inter> {CHR ''['', CHR '']''} = {}" and "set port \<inter> {CHR ''['', CHR '']'', CHR '':''} = {}"
  shows "SplitHostPort (JoinHostPort host port) = Some (host, port)"
proof (cases "CHR '':'' \<in> set host")
  case True
  let ?hp = "CHR ''['' # host @ CHR '']'' # CHR '':'' # port"
  have "last_index (CHR '':'') ((CHR ''['' # host @ [CHR '']'']) @ CHR '':'' # port) = Some (length host + 2)"
    using assms(2) by (subst last_index_append) auto
  moreover have "index_of (CHR '']'') ?hp = Some (length host + 1)"
    using assms(1) index_of_append [of "CHR '']''" "CHR ''['' # host" "CHR '':'' # port"] by simp
  ultimately show ?thesis
    using assms True by (auto simp: SplitHostPort_def JoinHostPort_def Let_def)
next
  case False
  have "last_index (CHR '':'') (host @ CHR '':'' # port) = Some (length host)"
    using assms(2) by (subst last_index_append) auto
  moreover have "take 1 (host @ CHR '':'' # port) \<noteq> ''[''"
    using assms(1) by (cases host) auto
  ultimately show ?thesis
    using assms False by (auto simp: SplitHostPort_def JoinHostPort_def Let_def)
qed

end
