(* ===== verification/Auth_Service.thy ===== *)
theory Auth_Service
  imports Mobile Memory_Stores Token_Manager Strconv
begin

text \<open>
  \<open>auth/service/service.go\<close>: sign-up, login, token rotation and profile completion, over the
  interfaces of package \<open>auth\<close>.  The state of the program is a \<open>world\<close>: the private
  states of the repository and the stores behind the interfaces, the outside (OTP provider,
  entropy, Google), and the clock, of which every reading takes the next value.  A method of
  the service is a computation on the world; logging is left out.  \<open>auth_libs\<close> holds the
  libraries the service calls.
\<close>

section \<open>The world\<close>

record ('u, 'r, 'p, 'o, 'x) world =
  users :: 'u
  refresh_tokens :: 'r
  pending :: 'p
  login_otps :: 'o
  outside :: 'x
  clock :: "nat \<Rightarrow> time"
  ticks :: nat

type_synonym ('u, 'r, 'p, 'o, 'x, 'a) action = "(('u, 'r, 'p, 'o, 'x) world, auth_error, 'a) call"

text \<open>\<open>time.Now().UTC()\<close>.\<close>

definition Now :: "(('u, 'r, 'p, 'o, 'x) world, time) state" where
  "Now = State (\<lambda>w. (clock w (ticks w), w\<lparr>ticks := Suc (ticks w)\<rparr>))"

text \<open>A call to the repository or a store, which reads the clock on its side.\<close>

definition on_users ::
  "(time \<Rightarrow> ('u, auth_error, 'a) call) \<Rightarrow> ('u, 'r, 'p, 'o, 'x, 'a) action" where
  "on_users m = do { t \<leftarrow> Now; State (\<lambda>w.
     case run_state (m t) (users w) of (r, u) \<Rightarrow> (r, w\<lparr>users := u\<rparr>)) }"

definition on_refresh ::
  "(time \<Rightarrow> ('r, auth_error, 'a) call) \<Rightarrow> ('u, 'r, 'p, 'o, 'x, 'a) action" where
  "on_refresh m = do { t \<leftarrow> Now; State (\<lambda>w.
     case run_state (m t) (refresh_tokens w) of (r, u) \<Rightarrow> (r, w\<lparr>refresh_tokens := u\<rparr>)) }"

definition on_pending ::
  "(time \<Rightarrow> ('p, auth_error, 'a) call) \<Rightarrow> ('u, 'r, 'p, 'o, 'x, 'a) action" where
  "on_pending m = do { t \<leftarrow> Now; State (\<lambda>w.
     case run_state (m t) (pending w) of (r, u) \<Rightarrow> (r, w\<lparr>pending := u\<rparr>)) }"

definition on_otps ::
  "(time \<Rightarrow> ('o, auth_error, 'a) call) \<Rightarrow> ('u, 'r, 'p, 'o, 'x, 'a) action" where
  "on_otps m = do { t \<leftarrow> Now; State (\<lambda>w.
     case run_state (m t) (login_otps w) of (r, u) \<Rightarrow> (r, w\<lparr>login_otps := u\<rparr>)) }"

definition on_outside ::
  "('x, auth_error, 'a) call \<Rightarrow> ('u, 'r, 'p, 'o, 'x, 'a) action" where
  "on_outside m = State (\<lambda>w.
     case run_state m (outside w) of (r, u) \<Rightarrow> (r, w\<lparr>outside := u\<rparr>))"

section \<open>Libraries\<close>

record google_userinfo =
  Id :: string
  Email :: string

record 'x auth_libs =
  crypto :: "'x crypto_lib"
  bcrypt_Generate :: "string \<Rightarrow> ('x, auth_error, string) call"
  bcrypt_Compare :: "string \<Rightarrow> string \<Rightarrow> bool"
  oauth2_AuthCodeURL :: "google_config \<Rightarrow> string \<Rightarrow> string"
  oauth2_Exchange :: "google_config \<Rightarrow> string \<Rightarrow> ('x, auth_error, string) call"
  google_NewService :: "google_config \<Rightarrow> string \<Rightarrow> ('x, auth_error, string) call"
  google_Userinfo :: "string \<Rightarrow> ('x, auth_error, google_userinfo) call"

text \<open>Seconds since 1970, and the remainder of Go, which has the sign of the dividend.\<close>

definition unix_seconds :: "time \<Rightarrow> int" where
  "unix_seconds t = t div Second - 62135596800"

definition go_rem :: "int \<Rightarrow> int \<Rightarrow> int" where
  "go_rem a b = sgn a * (\<bar>a\<bar> mod \<bar>b\<bar>)"

section \<open>The service\<close>

text \<open>
  A pointer or interface that the code compares with \<open>nil\<close> is an option.  A method call on a
  nil interface panics; the panic ends the request, here as an error of its own.
\<close>

record ('u, 'r, 'p, 'o, 'x) service =
  repo :: "'u user_repository"
  tokenManager :: "token_manager option"
  refreshStore :: "'r refresh_token_store option"
  otpProvider :: "'x otp_provider"
  pendingSignupStore :: "'p pending_signup_store"
  loginOTPStore :: "'o otp_state_store"
  otpConfig :: otp_config
  googleConfig :: google_config
  libs :: "'x auth_libs"

definition NewService ::
  "'u user_repository \<Rightarrow> token_manager option \<Rightarrow> 'r refresh_token_store option \<Rightarrow> 'x otp_provider \<Rightarrow>
     'p pending_signup_store \<Rightarrow> 'o otp_state_store \<Rightarrow> otp_config \<Rightarrow> google_config \<Rightarrow> 'x auth_libs \<Rightarrow>
     ('u, 'r, 'p, 'o, 'x) service" where
  "NewService rp tm rs op ps os oc gc lbs =
     \<lparr>repo = rp, tokenManager = tm, refreshStore = rs, otpProvider = op, pendingSignupStore = ps,
      loginOTPStore = os, otpConfig = oc, googleConfig = gc, libs = lbs\<rparr>"

definition nil_panic :: "('u, 'r, 'p, 'o, 'x, 'a) action" where
  "nil_panic = err (ErrOther ''nil pointer dereference'')"

definition isCacheMiss :: "auth_error \<Rightarrow> bool" where
  "isCacheMiss e \<longleftrightarrow> e = ErrCacheMiss"

definition validateResendWindow ::
  "otp_config \<Rightarrow> time \<Rightarrow> int \<Rightarrow> ('u, 'r, 'p, 'o, 'x, unit) action" where
  "validateResendWindow cfg lastSentAt resendCount =
     (if 0 < MaxResends cfg \<and> MaxResends cfg \<le> resendCount then err ErrOTPResendLimitReached
      else if \<not> time_IsZero lastSentAt \<and> 0 < ResendCooldown cfg then do {
        t \<leftarrow> Now;
        if time_Sub t lastSentAt < ResendCooldown cfg then err ErrOTPResendTooSoon else ok ()
      }
      else ok ())"

definition loginOTPStateKey :: "string \<Rightarrow> string" where
  "loginOTPStateKey mobile = ''login:'' @ mobile"

subsection \<open>Tokens\<close>

definition IssueTokenPair ::
  "('u, 'r, 'p, 'o, 'x) service \<Rightarrow> user \<Rightarrow> ('u, 'r, 'p, 'o, 'x, token_pair) action" where
  "IssueTokenPair s u =
     (case (tokenManager s, refreshStore s) of
        (Some m, Some rs) \<Rightarrow> do {
          now \<leftarrow> Now;
          call_ok (on_outside (GenerateTokenPair (crypto (libs s)) m now u)) (\<lambda>(tokenPair, session).
          call_ok (on_refresh (\<lambda>t. refresh_token_store.Save rs t (RefreshToken tokenPair) session)) (\<lambda>_.
          ok tokenPair))
        }
      | _ \<Rightarrow> err ErrUnauthorized)"

definition Refresh ::
  "('u, 'r, 'p, 'o, 'x) service \<Rightarrow> string \<Rightarrow> ('u, 'r, 'p, 'o, 'x, user \<times> token_pair) action" where
  "Refresh s refreshToken0 =
     (let refreshToken = TrimSpace refreshToken0 in
      if refreshToken = [] then err ErrInvalidRefreshToken
      else case refreshStore s of
        None \<Rightarrow> nil_panic
      | Some rs \<Rightarrow> do {
          r \<leftarrow> on_refresh (\<lambda>t. refresh_token_store.Get rs t refreshToken);
          case r of
            Inl e \<Rightarrow> if isCacheMiss e then err ErrInvalidRefreshToken else err e
          | Inr session \<Rightarrow> do {
              now \<leftarrow> Now;
              if time_After now (refresh_session.ExpiresAt session)
              then ignoring (on_refresh (\<lambda>t. refresh_token_store.Delete rs t refreshToken))
                     (err ErrTokenExpired)
              else
                call_ok (on_users (\<lambda>t.
                  GetUserDetailsByUsername (repo s) t (refresh_session.Username session))) (\<lambda>u.
                ignoring (on_refresh (\<lambda>t. refresh_token_store.Delete rs t refreshToken))
                (call_ok (IssueTokenPair s u) (\<lambda>tokens. ok (u, tokens))))
            }
        })"

definition Logout ::
  "('u, 'r, 'p, 'o, 'x) service \<Rightarrow> string \<Rightarrow> ('u, 'r, 'p, 'o, 'x, unit) action" where
  "Logout s refreshToken0 =
     (let refreshToken = TrimSpace refreshToken0 in
      if refreshToken = [] then err ErrInvalidRefreshToken
      else case refreshStore s of
        None \<Rightarrow> nil_panic
      | Some rs \<Rightarrow> on_refresh (\<lambda>t. refresh_token_store.Delete rs t refreshToken))"

definition AuthenticateAccessToken ::
  "('u, 'r, 'p, 'o, 'x) service \<Rightarrow> string \<Rightarrow> ('u, 'r, 'p, 'o, 'x, access_claims) action" where
  "AuthenticateAccessToken s token =
     (case tokenManager s of
        None \<Rightarrow> err ErrUnauthorized
      | Some m \<Rightarrow> do { t \<leftarrow> Now; State_Monad.return (ParseAccessToken (crypto (libs s)) m t token) })"

subsection \<open>Password login\<close>

definition ValidateLogin ::
  "('u, 'r, 'p, 'o, 'x) service \<Rightarrow> string \<Rightarrow> string \<Rightarrow> ('u, 'r, 'p, 'o, 'x, user) action" where
  "ValidateLogin s username0 password =
     (let username = TrimSpace username0 in
      if username = [] then err ErrInvalidUsername
      else if password = [] then err ErrInvalidPassword
      else do {
        r \<leftarrow> on_users (\<lambda>t. GetUserDetailsByUsername (repo s) t username);
        case r of
          Inl e \<Rightarrow> if e = ErrUserNotFound then err ErrInvalidCredentials else err e
        | Inr u \<Rightarrow> do {
            h \<leftarrow> on_users (\<lambda>t. GetPasswordHashByUserID (repo s) t (user.ID u));
            case h of
              Inl _ \<Rightarrow> err ErrInvalidCredentials
            | Inr passwordHash \<Rightarrow>
                if bcrypt_Compare (libs s) passwordHash password then ok u
                else err ErrInvalidCredentials
          }
      })"

definition Login ::
  "('u, 'r, 'p, 'o, 'x) service \<Rightarrow> password_login_request \<Rightarrow>
     ('u, 'r, 'p, 'o, 'x, user \<times> token_pair) action" where
  "Login s req =
     call_ok (ValidateLogin s (password_login_request.Username req)
       (password_login_request.Password req)) (\<lambda>u.
     call_ok (IssueTokenPair s u) (\<lambda>tokens. ok (u, tokens)))"

subsection \<open>Sign-up\<close>

definition normalizeSignupRequest :: "register_request \<Rightarrow> auth_error + register_request" where
  "normalizeSignupRequest req0 =
     (let req = req0\<lparr>register_request.Username := TrimSpace (register_request.Username req0),
                     register_request.Email := ToLower (TrimSpace (register_request.Email req0))\<rparr> in
      if register_request.Username req = [] then Inl ErrInvalidUsername
      else if register_request.Password req = [] then Inl ErrInvalidPassword
      else if register_request.Email req = [] then Inl ErrInvalidEmail
      else case NormalizeIndianMobile (register_request.Mobile req) of
        Inl e \<Rightarrow> Inl e
      | Inr mobile \<Rightarrow> Inr (req\<lparr>register_request.Mobile := mobile\<rparr>))"

definition pendingConflict ::
  "('u, 'r, 'p, 'o, 'x) service \<Rightarrow> string \<Rightarrow> string \<Rightarrow> string \<Rightarrow> string \<Rightarrow>
     ('u, 'r, 'p, 'o, 'x, unit) action" where
  "pendingConflict s pendingMobile requestedMobile requestedUsername requestedEmail =
     do {
       r \<leftarrow> on_pending (\<lambda>t. GetByMobile (pendingSignupStore s) t pendingMobile);
       case r of
         Inl e \<Rightarrow> if isCacheMiss e then ok () else err e
       | Inr p \<Rightarrow>
           if pending_signup.Mobile p = requestedMobile
             \<and> pending_signup.Username p = requestedUsername
             \<and> pending_signup.Email p = requestedEmail
           then err ErrSignupVerificationPending
           else if pending_signup.Username p = requestedUsername then err ErrUsernameAlreadyExists
           else if pending_signup.Email p = requestedEmail then err ErrEmailAlreadyExists
           else if pending_signup.Mobile p = requestedMobile then err ErrMobileAlreadyExists
           else err ErrSignupVerificationPending
     }"

text \<open>
  The two kinds of check \<open>ensureSignupAvailability\<close> repeats: an existing user with a nonzero
  identifier ends it, and a pending signup found by an index decides it.
\<close>

definition unless_taken ::
  "('u, 'r, 'p, 'o, 'x, user) action \<Rightarrow> auth_error \<Rightarrow> ('u, 'r, 'p, 'o, 'x, unit) action \<Rightarrow>
     ('u, 'r, 'p, 'o, 'x, unit) action" where
  "unless_taken lookup taken k =
     do {
       r \<leftarrow> lookup;
       case r of
         Inr u \<Rightarrow> if user.ID u \<noteq> 0 then err taken else k
       | Inl e \<Rightarrow> if e \<noteq> ErrUserNotFound then err e else k
     }"

definition unless_pending ::
  "('u, 'r, 'p, 'o, 'x, string) action \<Rightarrow> (string \<Rightarrow> ('u, 'r, 'p, 'o, 'x, unit) action) \<Rightarrow>
     ('u, 'r, 'p, 'o, 'x, unit) action \<Rightarrow> ('u, 'r, 'p, 'o, 'x, unit) action" where
  "unless_pending lookup conflict k =
     do {
       r \<leftarrow> lookup;
       case r of
         Inr mobile \<Rightarrow> conflict mobile
       | Inl e \<Rightarrow> if \<not> isCacheMiss e then err e else k
     }"

definition ensureSignupAvailability ::
  "('u, 'r, 'p, 'o, 'x) service \<Rightarrow> register_request \<Rightarrow> ('u, 'r, 'p, 'o, 'x, unit) action" where
  "ensureSignupAvailability s req =
     (let conflict = (\<lambda>mobile. pendingConflict s mobile (register_request.Mobile req)
            (register_request.Username req) (register_request.Email req)) in
      unless_taken (on_users (\<lambda>t. GetUserDetailsByUsername (repo s) t (register_request.Username req)))
        ErrUsernameAlreadyExists
      (unless_taken (on_users (\<lambda>t. GetUserByEmail (repo s) t (register_request.Email req)))
        ErrEmailAlreadyExists
      (unless_taken (on_users (\<lambda>t. GetUserByMobile (repo s) t (register_request.Mobile req)))
        ErrMobileAlreadyExists
      (unless_pending (on_pending (\<lambda>t.
          GetMobileByUsername (pendingSignupStore s) t (register_request.Username req))) conflict
      (unless_pending (on_pending (\<lambda>t.
          GetMobileByEmail (pendingSignupStore s) t (register_request.Email req))) conflict
      (unless_pending (on_pending (\<lambda>t.
          GetMobileByMobile (pendingSignupStore s) t (register_request.Mobile req))) conflict
      (ok ())))))))"

definition RequestSignupOTP ::
  "('u, 'r, 'p, 'o, 'x) service \<Rightarrow> register_request \<Rightarrow> ('u, 'r, 'p, 'o, 'x, unit) action" where
  "RequestSignupOTP s req =
     (case normalizeSignupRequest req of
        Inl e \<Rightarrow> err e
      | Inr normalized \<Rightarrow>
          call_ok (ensureSignupAvailability s normalized) (\<lambda>_.
          call_ok (on_outside (bcrypt_Generate (libs s) (register_request.Password normalized)))
            (\<lambda>passwordHash. do {
              now \<leftarrow> Now;
              call_ok (on_outside (SendVerification (otpProvider s) (register_request.Mobile normalized)))
                (\<lambda>_.
              on_pending (\<lambda>t. pending_signup_store.Save (pendingSignupStore s) t
                \<lparr>pending_signup.Username = register_request.Username normalized, PasswordHash = passwordHash,
                 Email = register_request.Email normalized,
                 Mobile = register_request.Mobile normalized, ResendCount = 0, LastSentAt = now,
                 ExpiresAt = now + PendingSignupTTL (otpConfig s)\<rparr>))
            })))"

definition VerifySignupOTP ::
  "('u, 'r, 'p, 'o, 'x) service \<Rightarrow> otp_verify_request \<Rightarrow>
     ('u, 'r, 'p, 'o, 'x, user \<times> token_pair) action" where
  "VerifySignupOTP s req =
     (case NormalizeIndianMobile (otp_verify_request.Mobile req) of
        Inl e \<Rightarrow> err e
      | Inr mobile \<Rightarrow>
          let code = TrimSpace (Code req) in
          if code = [] then err ErrInvalidOTPCode
          else do {
            r \<leftarrow> on_pending (\<lambda>t. GetByMobile (pendingSignupStore s) t mobile);
            case r of
              Inl e \<Rightarrow> if isCacheMiss e then err ErrPendingSignupExpired else err e
            | Inr p \<Rightarrow> do {
                now \<leftarrow> Now;
                if time_After now (pending_signup.ExpiresAt p)
                then ignoring (on_pending (\<lambda>t. DeleteByMobile (pendingSignupStore s) t mobile))
                       (err ErrPendingSignupExpired)
                else
                  call_ok (on_outside (CheckVerification (otpProvider s) mobile code)) (\<lambda>approved.
                  if \<not> approved then err ErrInvalidOTPCode
                  else
                    call_ok (on_users (\<lambda>t. RegisterUser (repo s) t
                      \<lparr>user.ID = 0, Username = pending_signup.Username p,
                       Email = pending_signup.Email p, Mobile = pending_signup.Mobile p,
                       MobileVerified = True, Role = RoleCustomer, IsProfileComplete = True,
                       CreatedAt = 0, UpdatedAt = 0\<rparr> (PasswordHash p))) (\<lambda>u.
                    ignoring (on_pending (\<lambda>t. DeleteByMobile (pendingSignupStore s) t mobile))
                    (call_ok (IssueTokenPair s u) (\<lambda>tokens. ok (u, tokens)))))
              }
          })"

definition ResendSignupOTP ::
  "('u, 'r, 'p, 'o, 'x) service \<Rightarrow> otp_request \<Rightarrow> ('u, 'r, 'p, 'o, 'x, unit) action" where
  "ResendSignupOTP s req =
     (case NormalizeIndianMobile (otp_request.Mobile req) of
        Inl e \<Rightarrow> err e
      | Inr mobile \<Rightarrow> do {
          r \<leftarrow> on_pending (\<lambda>t. GetByMobile (pendingSignupStore s) t mobile);
          case r of
            Inl e \<Rightarrow> if isCacheMiss e then err ErrPendingSignupExpired else err e
          | Inr p \<Rightarrow>
              call_ok (validateResendWindow (otpConfig s) (pending_signup.LastSentAt p)
                (pending_signup.ResendCount p)) (\<lambda>_.
              call_ok (on_outside (SendVerification (otpProvider s) mobile)) (\<lambda>_. do {
                now \<leftarrow> Now;
                on_pending (\<lambda>t. pending_signup_store.Save (pendingSignupStore s) t
                  (p\<lparr>pending_signup.ResendCount := int64 (pending_signup.ResendCount p + 1),
                     pending_signup.LastSentAt := now\<rparr>))
              }))
        })"

definition SignupStatus ::
  "('u, 'r, 'p, 'o, 'x) service \<Rightarrow> string \<Rightarrow> ('u, 'r, 'p, 'o, 'x, string) action" where
  "SignupStatus s mobile =
     (case NormalizeIndianMobile mobile of
        Inl e \<Rightarrow> err e
      | Inr normalized \<Rightarrow> do {
          r \<leftarrow> on_pending (\<lambda>t. GetByMobile (pendingSignupStore s) t normalized);
          alive \<leftarrow> (case r of
             Inl _ \<Rightarrow> State_Monad.return False
           | Inr p \<Rightarrow> do { now \<leftarrow> Now;
                           State_Monad.return (time_Before now (pending_signup.ExpiresAt p)) });
          if alive then ok ''pending''
          else if (case r of Inl e \<Rightarrow> \<not> isCacheMiss e | Inr _ \<Rightarrow> False)
          then (case r of Inl e \<Rightarrow> err e | Inr _ \<Rightarrow> ok [])
          else do {
            q \<leftarrow> on_users (\<lambda>t. GetUserByMobile (repo s) t normalized);
            case q of
              Inr u \<Rightarrow> if MobileVerified u then ok ''completed'' else ok ''expired''
            | Inl e \<Rightarrow> if e \<noteq> ErrUserNotFound then err e else ok ''expired''
          }
        })"

subsection \<open>Login by one-time password\<close>

definition RequestLoginOTP ::
  "('u, 'r, 'p, 'o, 'x) service \<Rightarrow> otp_request \<Rightarrow> ('u, 'r, 'p, 'o, 'x, unit) action" where
  "RequestLoginOTP s req =
     (case NormalizeIndianMobile (otp_request.Mobile req) of
        Inl _ \<Rightarrow> ok ()
      | Inr mobile \<Rightarrow> do {
          r \<leftarrow> on_users (\<lambda>t. GetUserByMobile (repo s) t mobile);
          case r of
            Inl e \<Rightarrow> if e = ErrUserNotFound then ok () else err e
          | Inr u \<Rightarrow>
              if \<not> MobileVerified u then ok ()
              else do {
                let stateKey = loginOTPStateKey mobile;
                q \<leftarrow> on_otps (\<lambda>t. otp_state_store.Get (loginOTPStore s) t stateKey);
                v \<leftarrow> (case q of
                  Inr state \<Rightarrow> validateResendWindow (otpConfig s) (otp_request_state.LastSentAt state)
                    (otp_request_state.ResendCount state)
                | Inl _ \<Rightarrow> ok ());
                if (case q of Inr _ \<Rightarrow> v \<noteq> Inr () | Inl _ \<Rightarrow> False) then ok ()
                else if (case q of Inl e \<Rightarrow> \<not> isCacheMiss e | Inr _ \<Rightarrow> False)
                then State_Monad.return (map_sum id (\<lambda>_. ()) q)
                else
                  call_ok (on_outside (SendVerification (otpProvider s) mobile)) (\<lambda>_. do {
                    now \<leftarrow> Now;
                    let resendCount = (case q of
                      Inr state \<Rightarrow> int64 (otp_request_state.ResendCount state + 1) | Inl _ \<Rightarrow> 0);
                    on_otps (\<lambda>t. otp_state_store.Save (loginOTPStore s) t stateKey
                      \<lparr>otp_request_state.Mobile = mobile, ResendCount = resendCount,
                       LastSentAt = now, ExpiresAt = now + PendingSignupTTL (otpConfig s)\<rparr>)
                  })
              }
        })"

definition ResendLoginOTP ::
  "('u, 'r, 'p, 'o, 'x) service \<Rightarrow> otp_request \<Rightarrow> ('u, 'r, 'p, 'o, 'x, unit) action" where
  "ResendLoginOTP s req = RequestLoginOTP s req"

definition VerifyLoginOTP ::
  "('u, 'r, 'p, 'o, 'x) service \<Rightarrow> otp_verify_request \<Rightarrow>
     ('u, 'r, 'p, 'o, 'x, user \<times> token_pair) action" where
  "VerifyLoginOTP s req =
     (case NormalizeIndianMobile (otp_verify_request.Mobile req) of
        Inl _ \<Rightarrow> err ErrInvalidCredentials
      | Inr mobile \<Rightarrow>
          let code = TrimSpace (Code req) in
          if code = [] then err ErrInvalidOTPCode
          else do {
            r \<leftarrow> on_users (\<lambda>t. GetUserByMobile (repo s) t mobile);
            case r of
              Inl e \<Rightarrow> if e = ErrUserNotFound then err ErrInvalidCredentials else err e
            | Inr u \<Rightarrow>
                if \<not> MobileVerified u then err ErrMobileNotVerified
                else
                  call_ok (on_outside (CheckVerification (otpProvider s) mobile code)) (\<lambda>approved.
                  if \<not> approved then err ErrInvalidOTPCode
                  else
                    ignoring (on_otps (\<lambda>t.
                      otp_state_store.Delete (loginOTPStore s) t (loginOTPStateKey mobile)))
                    (call_ok (IssueTokenPair s u) (\<lambda>tokens. ok (u, tokens))))
          })"

subsection \<open>Google\<close>

definition GetGoogleAuthURL :: "('u, 'r, 'p, 'o, 'x) service \<Rightarrow> string" where
  "GetGoogleAuthURL s = oauth2_AuthCodeURL (libs s) (googleConfig s) ''state''"

text \<open>The name a new account gets: the part of the email before the at sign.\<close>

definition sso_username :: "string \<Rightarrow> string" where
  "sso_username email =
     (let usernameArray = Split (CHR ''@'') email in
      if 1 < length usernameArray then usernameArray ! 0 else [])"

text \<open>
  The last step of each branch returns the user and the tokens together with the error of
  \<open>IssueTokenPair\<close>; its callers look at the error first.
\<close>

definition GoogleLogin ::
  "('u, 'r, 'p, 'o, 'x) service \<Rightarrow> string \<Rightarrow> ('u, 'r, 'p, 'o, 'x, user \<times> token_pair) action" where
  "GoogleLogin s code =
     (let issue = (\<lambda>u. call_ok (IssueTokenPair s u) (\<lambda>tokens. ok (u, tokens))) in
      call_ok (on_outside (oauth2_Exchange (libs s) (googleConfig s) code)) (\<lambda>tok.
      call_ok (on_outside (google_NewService (libs s) (googleConfig s) tok)) (\<lambda>oauth2Service.
      call_ok (on_outside (google_Userinfo (libs s) oauth2Service)) (\<lambda>userInfo.
      call_ok (on_users (\<lambda>t. GetSSOAccount (repo s) t ''google'' (Id userInfo))) (\<lambda>(u, exists).
      if exists then issue u
      else do {
        let account = \<lparr>sso_account.UserID = 0, Provider = ''google'', ProviderID = Id userInfo,
                       Email = google_userinfo.Email userInfo\<rparr>;
        r \<leftarrow> on_users (\<lambda>t. GetUserByEmail (repo s) t (google_userinfo.Email userInfo));
        case r of
          Inr u2 \<Rightarrow>
            call_ok (on_users (\<lambda>t. LinkSSOAccount (repo s) t (user.ID u2) account)) (\<lambda>_. issue u2)
        | Inl e \<Rightarrow>
            if e \<noteq> ErrUserNotFound then err e
            else do {
              let username0 = sso_username (google_userinfo.Email userInfo);
              q \<leftarrow> on_users (\<lambda>t. GetUserDetailsByUsername (repo s) t username0);
              username \<leftarrow> (case q of
                Inr _ \<Rightarrow> do {
                  now \<leftarrow> Now;
                  State_Monad.return (username0 @ ''_'' @ Itoa (go_rem (unix_seconds now) 1000))
                }
              | Inl _ \<Rightarrow> State_Monad.return username0);
              call_ok (on_users (\<lambda>t. CreateSSOUser (repo s) t
                \<lparr>user.ID = 0, Username = username, Email = google_userinfo.Email userInfo,
                 Mobile = [], MobileVerified = False, Role = RoleCustomer,
                 IsProfileComplete = False, CreatedAt = 0, UpdatedAt = 0\<rparr> account)) issue
            }
      })))))"

subsection \<open>Profile\<close>

text \<open>A name or number is taken when the lookup finds a user with another identifier.\<close>

definition taken_by_other :: "nat \<Rightarrow> auth_error + user \<Rightarrow> bool" where
  "taken_by_other userID r \<longleftrightarrow> (case r of Inr existing \<Rightarrow> user.ID existing \<noteq> userID | Inl _ \<Rightarrow> False)"

definition CompleteProfile ::
  "('u, 'r, 'p, 'o, 'x) service \<Rightarrow> nat \<Rightarrow> string \<Rightarrow> string \<Rightarrow>
     ('u, 'r, 'p, 'o, 'x, user \<times> token_pair) action" where
  "CompleteProfile s userID username0 mobile =
     call_ok (on_users (\<lambda>t. GetUserByID (repo s) t userID)) (\<lambda>u.
     if user.IsProfileComplete u then err ErrProfileAlreadyComplete
     else let username = TrimSpace username0 in
       if username = [] then err ErrInvalidUsername
       else case NormalizeIndianMobile mobile of
         Inl e \<Rightarrow> err e
       | Inr normalizedMobile \<Rightarrow> do {
           r \<leftarrow> on_users (\<lambda>t. GetUserDetailsByUsername (repo s) t username);
           if taken_by_other userID r then err ErrUsernameAlreadyExists
           else do {
             q \<leftarrow> on_users (\<lambda>t. GetUserByMobile (repo s) t normalizedMobile);
             if taken_by_other userID q then err ErrMobileAlreadyExists
             else do {
               let u2 = u\<lparr>user.Username := username, user.Mobile := normalizedMobile,
                         user.IsProfileComplete := True\<rparr>;
               call_ok (on_users (\<lambda>t. UpdateUser (repo s) t u2)) (\<lambda>_.
               call_ok (IssueTokenPair s u2) (\<lambda>tokens. ok (u2, tokens)))
             }
           }
         })"

definition ValidateCurrentUser ::
  "('u, 'r, 'p, 'o, 'x) service \<Rightarrow> string \<Rightarrow> ('u, 'r, 'p, 'o, 'x, user) action" where
  "ValidateCurrentUser s username =
     on_users (\<lambda>t. GetUserDetailsByUsername (repo s) t (TrimSpace username))"

section \<open>Running a call\<close>

lemma run_Now [go_eval]: "run_state Now w = (clock w (ticks w), w\<lparr>ticks := Suc (ticks w)\<rparr>)"
  by (simp add: Now_def)

lemma run_on_users [go_eval]:
  "run_state (on_users m) w = (case run_state (m (clock w (ticks w))) (users w) of
     (r, u) \<Rightarrow> (r, w\<lparr>ticks := Suc (ticks w), users := u\<rparr>))"
  by (simp add: on_users_def run_Now)

lemma run_on_refresh [go_eval]:
  "run_state (on_refresh m) w = (case run_state (m (clock w (ticks w))) (refresh_tokens w) of
     (r, u) \<Rightarrow> (r, w\<lparr>ticks := Suc (ticks w), refresh_tokens := u\<rparr>))"
  by (simp add: on_refresh_def run_Now)

lemma run_on_pending [go_eval]:
  "run_state (on_pending m) w = (case run_state (m (clock w (ticks w))) (pending w) of
     (r, u) \<Rightarrow> (r, w\<lparr>ticks := Suc (ticks w), pending := u\<rparr>))"
  by (simp add: on_pending_def run_Now)

lemma run_on_otps [go_eval]:
  "run_state (on_otps m) w = (case run_state (m (clock w (ticks w))) (login_otps w) of
     (r, u) \<Rightarrow> (r, w\<lparr>ticks := Suc (ticks w), login_otps := u\<rparr>))"
  by (simp add: on_otps_def run_Now)

lemma run_on_outside [go_eval]:
  "run_state (on_outside m) w = (case run_state m (outside w) of
     (r, u) \<Rightarrow> (r, w\<lparr>outside := u\<rparr>))"
  by (simp add: on_outside_def)

end
