(* ===== verification/Demo_World.thy ===== *)
theory Demo_World
  imports Auth_Service
begin

text \<open>
  A small concrete world in which the model is evaluated: a list of user rows as the
  repository, the in-process stores, the library of \<open>Token_Manager\<close>, an OTP provider that
  approves one code, and a clock that advances by a nanosecond at each reading.
\<close>

section \<open>A repository\<close>

record demo_users =
  rows :: "(user \<times> string) list"
  links :: "(string \<times> nat) list"

definition demo_find :: "(user \<Rightarrow> bool) \<Rightarrow> (demo_users, auth_error, user) call" where
  "demo_find P = do {
     d \<leftarrow> State_Monad.get;
     case find (\<lambda>(u, _). P u) (rows d) of None \<Rightarrow> err ErrUserNotFound | Some (u, _) \<Rightarrow> ok u }"

definition demo_add :: "time \<Rightarrow> user \<Rightarrow> string \<Rightarrow> (demo_users, auth_error, user) call" where
  "demo_add t u hash = do {
     d \<leftarrow> State_Monad.get;
     let u2 = u\<lparr>user.ID := length (rows d) + 1, CreatedAt := t, UpdatedAt := t\<rparr>;
     State_Monad.set (d\<lparr>rows := rows d @ [(u2, hash)]\<rparr>);
     ok u2 }"

definition demo_link :: "string \<Rightarrow> nat \<Rightarrow> (demo_users, auth_error, unit) call" where
  "demo_link pid i = do {
     d \<leftarrow> State_Monad.get; State_Monad.set (d\<lparr>links := links d @ [(pid, i)]\<rparr>); ok () }"

definition demo_repo :: "demo_users user_repository" where
  "demo_repo =
     \<lparr>GetUserDetailsByUsername = (\<lambda>_ n. demo_find (\<lambda>u. user.Username u = n)),
      GetUserByEmail = (\<lambda>_ e. demo_find (\<lambda>u. user.Email u = e)),
      GetUserByMobile = (\<lambda>_ m. demo_find (\<lambda>u. user.Mobile u = m)),
      GetUserByID = (\<lambda>_ i. demo_find (\<lambda>u. user.ID u = i)),
      RegisterUser = demo_add,
      UpdateUser = (\<lambda>_ u. do {
        d \<leftarrow> State_Monad.get;
        State_Monad.set (d\<lparr>rows :=
          map (\<lambda>(v, h). if user.ID v = user.ID u then (u, h) else (v, h)) (rows d)\<rparr>);
        ok () }),
      GetPasswordHashByUserID = (\<lambda>_ i. do {
        d \<leftarrow> State_Monad.get;
        case find (\<lambda>(u, _). user.ID u = i) (rows d) of
          None \<Rightarrow> err (ErrOther ''password not found'') | Some (_, h) \<Rightarrow> ok h }),
      GetSSOAccount = (\<lambda>_ _ pid. do {
        d \<leftarrow> State_Monad.get;
        case map_of (links d) pid of
          None \<Rightarrow> ok (zero_user, False)
        | Some i \<Rightarrow> call_ok (demo_find (\<lambda>u. user.ID u = i)) (\<lambda>u. ok (u, True)) }),
      CreateSSOUser = (\<lambda>t u a. call_ok (demo_add t u []) (\<lambda>u2.
        call_ok (demo_link (ProviderID a) (user.ID u2)) (\<lambda>_. ok u2))),
      LinkSSOAccount = (\<lambda>_ i a. demo_link (ProviderID a) i)\<rparr>"

section \<open>The service\<close>

definition demo_libs :: "unit auth_libs" where
  "demo_libs =
     \<lparr>crypto = demo_crypto,
      bcrypt_Generate = (\<lambda>p. ok (CHR ''$'' # p)),
      bcrypt_Compare = (\<lambda>h p. h = CHR ''$'' # p),
      oauth2_AuthCodeURL = (\<lambda>cfg st. ClientID cfg @ ''?state='' @ st),
      oauth2_Exchange = (\<lambda>_ code. ok code),
      google_NewService = (\<lambda>_ tok. ok tok),
      google_Userinfo = (\<lambda>tok. ok \<lparr>Id = tok, Email = tok @ ''@x''\<rparr>)\<rparr>"

definition demo_otp_config :: otp_config where
  "demo_otp_config =
     \<lparr>PendingSignupTTL = 600 * Second, ResendCooldown = 30 * Second, MaxResends = 3\<rparr>"

definition demo_service :: "(demo_users, refresh_store, pending_store, otp_store, unit) service" where
  "demo_service =
     \<lparr>repo = demo_repo, tokenManager = Some demo_manager,
      refreshStore = Some (memory_refresh_store (\<lambda>x. x)),
      otpProvider = \<lparr>SendVerification = (\<lambda>_. ok ()), CheckVerification = (\<lambda>_ c. ok (c = ''1234''))\<rparr>,
      pendingSignupStore = memory_pending_store, loginOTPStore = memory_otp_store,
      otpConfig = demo_otp_config,
      googleConfig = \<lparr>ClientID = ''id'', ClientSecret = ''secret'', RedirectURI = ''uri''\<rparr>,
      libs = demo_libs\<rparr>"

definition demo_session :: refresh_session where
  "demo_session = \<lparr>TokenID = ''tid'', UserID = 7, Username = ''asha'', ExpiresAt = 500\<rparr>"

definition demo_world :: "(demo_users, refresh_store, pending_store, otp_store, unit) world" where
  "demo_world =
     \<lparr>users = \<lparr>rows = [(demo_user, ''$pw'')], links = []\<rparr>,
      refresh_tokens = \<lparr>sessions = [tokenKey (\<lambda>x. x) ''old'' \<mapsto> demo_session]\<rparr>,
      pending = NewPendingSignupStore, login_otps = NewOTPStateStore, outside = (),
      clock = (\<lambda>n. 5 + int n), ticks = 0\<rparr>"

lemmas demo_service_simps = demo_service_def demo_libs_def demo_otp_config_def
lemmas demo_repo_simps = demo_repo_def demo_find_def demo_world_def demo_user_def

section \<open>Its token pairs\<close>

lemma demo_year_ok: "n < 1000 \<Longrightarrow> year_ok (5 + int n)" "n < 1000 \<Longrightarrow> year_ok (5 + int n + 900 * Second)"
  by (simp_all add: year_ok_def Day_def Second_def)

lemma demo_issue:
  assumes "ticks w < 900" and "clock w = (\<lambda>n. 5 + int n)"
    and "tokenManager s = Some demo_manager" "refreshStore s = Some (memory_refresh_store h)"
    and "libs s = demo_libs"
  shows "\<exists>p w'. run_state (IssueTokenPair s u) w = (Inr p, w') \<and> ticks w' = ticks w + 2 \<and>
    clock w' = clock w \<and> users w' = users w \<and> pending w' = pending w \<and> login_otps w' = login_otps w"
proof -
  have y: "year_ok (5 + int (ticks w))" "year_ok (5 + int (ticks w) + accessTokenTTL demo_manager)"
    using assms(1) demo_year_ok by (simp_all add: demo_manager_def)
  obtain p session where g: "run_state (GenerateTokenPair demo_crypto demo_manager (5 + int (ticks w)) u) () =
      (Inr (p, session), ())"
    using demo_generate [OF y] by blast
  then have "refresh_session.ExpiresAt session = 5 + int (ticks w) + refreshTokenTTL demo_manager"
    by (rule GenerateTokenPair_Inr) simp
  then have "5 + int (Suc (ticks w)) < refresh_session.ExpiresAt session"
    by (simp add: demo_manager_def Second_def)
  with assms g show ?thesis
    by (simp add: IssueTokenPair_def go_eval demo_libs_def memory_refresh_store_def
        RefreshStore_Save_def)
qed

end
