(* ===== verification/Cached_Repository.thy ===== *)
theory Cached_Repository
  imports Demo_World
begin

text \<open>
  \<open>auth/cached_repository.go\<close>: a repository that answers lookups by username from a cache when
  it can and otherwise from the store behind it.  Its state is that of the store and that of
  the cache; without a cache it is the store.
\<close>

section \<open>Definitions\<close>

definition on_store :: "('u, auth_error, 'a) call \<Rightarrow> ('u \<times> 'c, auth_error, 'a) call" where
  "on_store m = State (\<lambda>(u, c). case run_state m u of (r, u') \<Rightarrow> (r, (u', c)))"

definition on_cache :: "('c, auth_error, 'a) call \<Rightarrow> ('u \<times> 'c, auth_error, 'a) call" where
  "on_cache m = State (\<lambda>(u, c). case run_state m c of (r, c') \<Rightarrow> (r, (u, c')))"

text \<open>\<open>if r.cache != nil { _ = ... }\<close>.\<close>

definition if_cache ::
  "'c user_cache option \<Rightarrow> ('c user_cache \<Rightarrow> ('c, auth_error, unit) call) \<Rightarrow>
     ('u \<times> 'c, auth_error, 'a) call \<Rightarrow> ('u \<times> 'c, auth_error, 'a) call" where
  "if_cache cache f k =
     (case cache of None \<Rightarrow> k | Some c \<Rightarrow> ignoring (on_cache (f c)) k)"

definition Cached_GetUserDetailsByUsername ::
  "'u user_repository \<Rightarrow> 'c user_cache option \<Rightarrow> time \<Rightarrow> string \<Rightarrow> ('u \<times> 'c, auth_error, user) call" where
  "Cached_GetUserDetailsByUsername store cache t username =
     (let fetch = call_ok (on_store (GetUserDetailsByUsername store t username)) (\<lambda>u.
            if_cache cache (\<lambda>c. SetUser c t u) (ok u)) in
      case cache of
        None \<Rightarrow> fetch
      | Some c \<Rightarrow> do {
          r \<leftarrow> on_cache (GetUser c t username);
          case r of Inr u \<Rightarrow> ok u | Inl _ \<Rightarrow> fetch
        })"

definition Cached_GetUserByEmail ::
  "'u user_repository \<Rightarrow> 'c user_cache option \<Rightarrow> time \<Rightarrow> string \<Rightarrow> ('u \<times> 'c, auth_error, user) call" where
  "Cached_GetUserByEmail store cache t email =
     call_ok (on_store (GetUserByEmail store t email)) (\<lambda>u.
       if_cache cache (\<lambda>c. SetUser c t u) (ok u))"

definition Cached_GetUserByMobile ::
  "'u user_repository \<Rightarrow> 'c user_cache option \<Rightarrow> time \<Rightarrow> string \<Rightarrow> ('u \<times> 'c, auth_error, user) call" where
  "Cached_GetUserByMobile store cache t mobile =
     call_ok (on_store (GetUserByMobile store t mobile)) (\<lambda>u.
       if_cache cache (\<lambda>c. SetUser c t u) (ok u))"

definition Cached_RegisterUser ::
  "'u user_repository \<Rightarrow> 'c user_cache option \<Rightarrow> time \<Rightarrow> user \<Rightarrow> string \<Rightarrow>
     ('u \<times> 'c, auth_error, user) call" where
  "Cached_RegisterUser store cache t u passwordHash =
     call_ok (on_store (RegisterUser store t u passwordHash)) (\<lambda>createdUser.
       if_cache cache (\<lambda>c. SetUser c t createdUser) (ok createdUser))"

definition Cached_UpdateUser ::
  "'u user_repository \<Rightarrow> 'c user_cache option \<Rightarrow> time \<Rightarrow> user \<Rightarrow> ('u \<times> 'c, auth_error, unit) call" where
  "Cached_UpdateUser store cache t u =
     call_ok (on_store (UpdateUser store t u)) (\<lambda>_.
       if_cache cache (\<lambda>c. DeleteUser c t (user.Username u)) (ok ()))"

definition Cached_CreateSSOUser ::
  "'u user_repository \<Rightarrow> 'c user_cache option \<Rightarrow> time \<Rightarrow> user \<Rightarrow> sso_account \<Rightarrow>
     ('u \<times> 'c, auth_error, user) call" where
  "Cached_CreateSSOUser store cache t u account =
     call_ok (on_store (CreateSSOUser store t u account)) (\<lambda>createdUser.
       if_cache cache (\<lambda>c. SetUser c t createdUser) (ok createdUser))"

definition NewCachedUserRepository ::
  "'u user_repository \<Rightarrow> 'c user_cache option \<Rightarrow> ('u \<times> 'c) user_repository" where
  "NewCachedUserRepository store cache =
     \<lparr>GetUserDetailsByUsername = Cached_GetUserDetailsByUsername store cache,
      GetUserByEmail = Cached_GetUserByEmail store cache,
      GetUserByMobile = Cached_GetUserByMobile store cache,
      GetUserByID = (\<lambda>t i. on_store (GetUserByID store t i)),
      RegisterUser = Cached_RegisterUser store cache,
      UpdateUser = Cached_UpdateUser store cache,
      GetPasswordHashByUserID = (\<lambda>t i. on_store (GetPasswordHashByUserID store t i)),
      GetSSOAccount = (\<lambda>t p i. on_store (GetSSOAccount store t p i)),
      CreateSSOUser = Cached_CreateSSOUser store cache,
      LinkSSOAccount = (\<lambda>t i a. on_store (LinkSSOAccount store t i a))\<rparr>"

section \<open>The cache and the store\<close>

lemma run_on_store [go_eval]:
  "run_state (on_store m) (u, c) = (case run_state m u of (r, u') \<Rightarrow> (r, (u', c)))"
  by (simp add: on_store_def)

lemma run_on_cache [go_eval]:
  "run_state (on_cache m) (u, c) = (case run_state m c of (r, c') \<Rightarrow> (r, (u, c')))"
  by (simp add: on_cache_def)

text \<open>
  What the repository relies on: a cache whose entries may vanish at any time (they have a
  lifetime) but whose hits are what was set last for the name, and a store that is a
  directory of users by name.  A cache may be trusted only with users of some kind \<open>sane\<close>,
  for instance those whose strings survive being encoded; the store then has only such users.
\<close>

definition cache_contract :: "(user \<Rightarrow> bool) \<Rightarrow> 'c user_cache \<Rightarrow> ('c \<Rightarrow> string \<rightharpoonup> user) \<Rightarrow> bool" where
  "cache_contract sane ca cached \<longleftrightarrow>
     (\<forall>t n c r c'. run_state (GetUser ca t n) c = (r, c') \<longrightarrow>
        cached c' \<subseteq>\<^sub>m cached c \<and> (\<forall>u. r = Inr u \<longrightarrow> cached c n = Some u)) \<and>
     (\<forall>t u c r c'. run_state (SetUser ca t u) c = (r, c') \<longrightarrow> sane u \<longrightarrow>
        (\<forall>n x. cached c' n = Some x \<longrightarrow> cached c n = Some x \<or> n = user.Username u \<and> x = u)) \<and>
     (\<forall>t n c r c'. run_state (DeleteUser ca t n) c = (r, c') \<longrightarrow> cached c' \<subseteq>\<^sub>m cached c)"

definition directory :: "(user \<Rightarrow> bool) \<Rightarrow> 'u user_repository \<Rightarrow> ('u \<Rightarrow> string \<rightharpoonup> user) \<Rightarrow> bool" where
  "directory sane st by_name \<longleftrightarrow>
     (\<forall>t n us. run_state (GetUserDetailsByUsername st t n) us =
        (case by_name us n of None \<Rightarrow> Inl ErrUserNotFound | Some u \<Rightarrow> Inr u, us)) \<and>
     (\<forall>us n u. by_name us n = Some u \<longrightarrow> user.Username u = n \<and> sane u)"

definition coherent ::
  "('c \<Rightarrow> string \<rightharpoonup> user) \<Rightarrow> ('u \<Rightarrow> string \<rightharpoonup> user) \<Rightarrow> 'u \<times> 'c \<Rightarrow> bool" where
  "coherent cached by_name s \<longleftrightarrow> cached (snd s) \<subseteq>\<^sub>m by_name (fst s)"

lemma map_le_added:
  assumes "\<forall>n x. m n = Some x \<longrightarrow> f n = Some x \<or> n = a \<and> x = b" and "f \<subseteq>\<^sub>m g" and "g a = Some b"
  shows "m \<subseteq>\<^sub>m g"
  using assms unfolding map_le_def by (metis domD domI)

lemma coherent_hit: "coherent cached by_name (us, c) \<Longrightarrow> cached c n = Some u \<Longrightarrow> by_name us n = Some u"
  unfolding coherent_def map_le_def by (metis domI fst_conv snd_conv)

lemma coherent_lookup:
  assumes ca: "cache_contract sane ca cached" and st: "directory sane st by_name"
    and coh: "coherent cached by_name (us, c)"
    and run: "run_state (Cached_GetUserDetailsByUsername st (Some ca) t n) (us, c) = (r, s')"
  shows "r = (case by_name us n of None \<Rightarrow> Inl ErrUserNotFound | Some u \<Rightarrow> Inr u) \<and>
    fst s' = us \<and> coherent cached by_name s'"
proof -
  have look: "run_state (GetUserDetailsByUsername st t n) us =
      (case by_name us n of None \<Rightarrow> Inl ErrUserNotFound | Some u \<Rightarrow> Inr u, us)"
    using st by (simp add: directory_def)
  obtain g c1 where g: "run_state (GetUser ca t n) c = (g, c1)" by fastforce
  then have hit: "cached c1 \<subseteq>\<^sub>m cached c" "\<And>u. g = Inr u \<Longrightarrow> cached c n = Some u"
    using ca unfolding cache_contract_def by blast+
  have c1: "coherent cached by_name (us, c1)"
    using coh hit(1) by (auto simp: coherent_def intro: map_le_trans)
  show ?thesis
  proof (cases g)
    case (Inr u)
    with run g have "r = Inr u" "s' = (us, c1)"
      by (simp_all add: Cached_GetUserDetailsByUsername_def run_on_cache Let_def)
    with c1 coherent_hit [OF coh hit(2) [OF Inr]] show ?thesis by simp
  next
    case (Inl e)
    show ?thesis
    proof (cases "by_name us n")
      case None
      with Inl run g look have "r = Inl ErrUserNotFound" "s' = (us, c1)"
        by (simp_all add: Cached_GetUserDetailsByUsername_def go_eval Let_def)
      with None c1 show ?thesis by simp
    next
      case (Some u)
      obtain q c2 where q: "run_state (SetUser ca t u) c1 = (q, c2)" by fastforce
      with Inl Some run g look have "r = Inr u" "s' = (us, c2)"
        by (simp_all add: Cached_GetUserDetailsByUsername_def go_eval Let_def if_cache_def)
      moreover have "\<forall>k x. cached c2 k = Some x \<longrightarrow> cached c1 k = Some x \<or> k = user.Username u \<and> x = u"
        using ca q st Some unfolding cache_contract_def directory_def by blast
      moreover have "user.Username u = n" using st Some by (auto simp: directory_def)
      ultimately show ?thesis
        using c1 Some by (auto simp: coherent_def intro: map_le_added)
    qed
  qed
qed

section \<open>A concrete cache\<close>

definition demo_cache :: "(string \<rightharpoonup> user) user_cache" where
  "demo_cache =
     \<lparr>GetUser = (\<lambda>_ n. do { c \<leftarrow> State_Monad.get;
        case c n of None \<Rightarrow> err ErrCacheMiss | Some u \<Rightarrow> ok u }),
      SetUser = (\<lambda>_ u. do { c \<leftarrow> State_Monad.get; State_Monad.set (c(user.Username u \<mapsto> u)); ok () }),
      DeleteUser = (\<lambda>_ n. do { c \<leftarrow> State_Monad.get; State_Monad.set (c(n := None)); ok () })\<rparr>"

definition demo_by_name :: "demo_users \<Rightarrow> string \<rightharpoonup> user" where
  "demo_by_name d n = map_option fst (find (\<lambda>(u, _). user.Username u = n) (rows d))"

lemma demo_cache_contract: "cache_contract (\<lambda>_. True) demo_cache (\<lambda>c. c)"
  by (auto simp: cache_contract_def demo_cache_def map_le_def split: option.splits)

lemma find_holds: "find P xs = Some x \<Longrightarrow> P x"
  by (induction xs) (auto split: if_splits)

lemma demo_directory: "directory (\<lambda>_. True) demo_repo demo_by_name"
  by (auto simp: directory_def demo_repo_def demo_find_def demo_by_name_def dest: find_holds
      split: option.splits)

section \<open>Properties\<close>

text \<open>
  The cache is transparent while it agrees with the store.  If every cached user is the
  store's user of that name, a lookup by username through the cache answers exactly as the
  store would, leaves the store alone, and the agreement is kept, whatever entries the
  cache has lost meanwhile.
\<close>

theorem Cached_lookup_transparent:
  assumes "cache_contract sane ca cached" and "directory sane st by_name"
    and "coherent cached by_name (us, c)"
    and "run_state (GetUserDetailsByUsername (NewCachedUserRepository st (Some ca)) t n) (us, c) = (r, s')"
  shows "r = fst (run_state (GetUserDetailsByUsername st t n) us) \<and> fst s' = us \<and>
    coherent cached by_name s'"
  using coherent_lookup [OF assms(1-3)] assms(2,4)
  by (simp add: NewCachedUserRepository_def directory_def)

lemma Cached_lookup_transparent_witness:
  "fst (run_state (GetUserDetailsByUsername (NewCachedUserRepository demo_repo (Some demo_cache)) 5 ''asha'')
     (users demo_world, Map.empty)) = Inr demo_user"
proof -
  obtain r s' where run: "run_state (GetUserDetailsByUsername (NewCachedUserRepository demo_repo (Some demo_cache)) 5 ''asha'')
     (users demo_world, Map.empty) = (r, s')" by (metis surj_pair)
  have "coherent (\<lambda>c. c) demo_by_name (users demo_world, Map.empty)" by (simp add: coherent_def)
  from Cached_lookup_transparent [OF demo_cache_contract demo_directory this run] run show ?thesis
    by (simp add: demo_repo_simps)
qed

text \<open>
  A rename leaves a stale entry.  \<open>UpdateUser\<close> drops the cache entry of the new name only:
  if the cache holds a user under the old name and dropping another name leaves that entry
  alone, then after a successful rename a lookup of the old name still returns the user as
  it was before, although the store no longer has that name.
\<close>

theorem Cached_rename_stale:
  assumes "run_state (UpdateUser st t u) us = (Inr (), us')"
    and "run_state (DeleteUser ca t (user.Username u)) c = (d, c')"
    and "run_state (GetUser ca t' old) c' = (Inr u0, c'')"
    and "run_state (UpdateUser (NewCachedUserRepository st (Some ca)) t u) (us, c) = (r, s')"
  shows "r = Inr () \<and>
    fst (run_state (GetUserDetailsByUsername (NewCachedUserRepository st (Some ca)) t' old) s') = Inr u0"
  using assms
  by (auto simp: NewCachedUserRepository_def Cached_UpdateUser_def Cached_GetUserDetailsByUsername_def
      go_eval if_cache_def Let_def)

lemma Cached_rename_stale_witness:
  "\<exists>s'. run_state (UpdateUser (NewCachedUserRepository demo_repo (Some demo_cache)) 5
        (demo_user\<lparr>user.Username := ''bala''\<rparr>)) (users demo_world, [''asha'' \<mapsto> demo_user]) = (Inr (), s') \<and>
     fst (run_state (GetUserDetailsByUsername (NewCachedUserRepository demo_repo (Some demo_cache)) 6 ''asha'') s') =
       Inr demo_user \<and>
     demo_by_name (fst s') ''asha'' = None"
proof -
  let ?u = "demo_user\<lparr>user.Username := ''bala''\<rparr>"
  let ?us = "\<lparr>rows = [(?u, ''$pw'')], links = []\<rparr>"
  have a: "run_state (UpdateUser demo_repo 5 ?u) (users demo_world) = (Inr (), ?us)"
    by (simp add: demo_repo_simps)
  have b: "run_state (DeleteUser demo_cache 5 (user.Username ?u)) [''asha'' \<mapsto> demo_user] =
      (Inr (), [''asha'' \<mapsto> demo_user])" by (simp add: demo_cache_def fun_upd_def fun_eq_iff)
  have c: "run_state (GetUser demo_cache 6 ''asha'') [''asha'' \<mapsto> demo_user] =
      (Inr demo_user, [''asha'' \<mapsto> demo_user])" by (simp add: demo_cache_def)
  obtain r s' where run: "run_state (UpdateUser (NewCachedUserRepository demo_repo (Some demo_cache)) 5 ?u)
      (users demo_world, [''asha'' \<mapsto> demo_user]) = (r, s')" by (metis surj_pair)
  have "fst s' = ?us"
    using run a b by (auto simp: NewCachedUserRepository_def Cached_UpdateUser_def go_eval if_cache_def)
  then have "demo_by_name (fst s') ''asha'' = None" by (simp add: demo_by_name_def)
  with Cached_rename_stale [OF a b c run] run show ?thesis by auto
qed

end
