(* ===== verification/Gorm.thy ===== *)
theory Gorm
  imports Go_Prelude
begin

text \<open>
  The database handle as the repositories use it.  \<open>gorm\<close> and the database behind it are
  parameters: a table is a record of the operations the code calls on it, a query is the
  data the code builds, and what the operations promise is stated where it is needed.
\<close>

section \<open>Errors\<close>

text \<open>
  The errors of the database layer: the two that \<open>gorm\<close> reports by name and all others, each
  with its message.
\<close>

datatype db_error = RecordNotFound | DuplicatedKey string | DBError string

section \<open>Queries and tables\<close>

datatype sql_value =
  SQLNull | SQLUint nat | SQLInt int | SQLText string | SQLBool bool | SQLTime time

record query =
  PrimaryKey :: "nat option"
  Joins :: "string list"
  Wheres :: "(string \<times> sql_value list) list"
  DistinctOn :: "string list"
  Preloads :: "(string \<times> string) list"
  Order :: "string list"
  Offset :: "int option"
  Limit :: "int option"

definition all_rows :: query where
  "all_rows = \<lparr>PrimaryKey = None, Joins = [], Wheres = [], DistinctOn = [], Preloads = [],
     Order = [], Offset = None, Limit = None\<rparr>"

definition by_key :: "nat \<Rightarrow> query" where
  "by_key i = all_rows\<lparr>PrimaryKey := Some i\<rparr>"

definition Where :: "string \<Rightarrow> sql_value list \<Rightarrow> query \<Rightarrow> query" where
  "Where condition args q = q\<lparr>Wheres := Wheres q @ [(condition, args)]\<rparr>"

text \<open>
  The operations on one table.  \<open>Create\<close> returns the row as stored, \<open>Updates\<close> and \<open>Delete\<close>
  the number of rows affected.
\<close>

record ('d, 'm) gorm_table =
  Create :: "'m \<Rightarrow> ('d, db_error, 'm) call"
  CreateAll :: "'m list \<Rightarrow> ('d, db_error, 'm list) call"
  First :: "query \<Rightarrow> ('d, db_error, 'm) call"
  Find :: "query \<Rightarrow> ('d, db_error, 'm list) call"
  Count :: "query \<Rightarrow> ('d, db_error, int) call"
  Updates :: "query \<Rightarrow> (string \<times> sql_value) list \<Rightarrow> ('d, db_error, int) call"
  Delete :: "query \<Rightarrow> ('d, db_error, int) call"

section \<open>Transactions\<close>

text \<open>A transaction whose function fails, or that cannot be committed, leaves the rows unchanged.\<close>

definition atomic ::
  "(('d, 'e, 'a) call \<Rightarrow> ('d, 'e, 'a) call) \<Rightarrow> ('d \<Rightarrow> 'v) \<Rightarrow> bool" where
  "atomic T view \<longleftrightarrow> (\<forall>body d.
     (\<exists>e d''. run_state (T body) d = (Inl e, d'') \<and> view d'' = view d) \<or>
     (\<exists>x d'. run_state body d = (Inr x, d') \<and> run_state (T body) d = (Inr x, d')))"

text \<open>A transaction that restores the state when its function fails.\<close>

definition demo_transaction :: "('d, 'e, 'a) call \<Rightarrow> ('d, 'e, 'a) call" where
  "demo_transaction body = State (\<lambda>d. case run_state body d of
     (Inl e, _) \<Rightarrow> (Inl e, d) | (Inr x, d') \<Rightarrow> (Inr x, d'))"

lemma atomic_demo_transaction: "atomic demo_transaction view"
  by (auto simp: atomic_def demo_transaction_def split: prod.splits sum.splits)

end
