(* ===== verification/Catalog_Types.thy ===== *)
theory Catalog_Types
  imports Go_Strings Gorm
begin

text \<open>
  Package \<open>catalog\<close>: the domain types (\<open>models.go\<close>), the error values (\<open>errors.go\<close>), the
  requests (\<open>requests.go\<close>) and the repository interface (\<open>catlog_repository.go\<close>).  A Go
  pointer that may be nil is an option, a \<open>uint\<close> is a \<open>nat\<close>, and \<open>int\<close> and \<open>int64\<close> fields are
  integers in the range of 64 bits.
\<close>

section \<open>Errors\<close>

datatype catalog_error =
    ErrInvalidCategoryName | ErrInvalidCategorySlug | ErrInvalidProductName
  | ErrInvalidProductSlug | ErrInvalidProductStatus | ErrInvalidSKUCode
  | ErrInvalidMoneyAmount | ErrInvalidCurrency
  | ErrCategoryNotFound | ErrProductNotFound | ErrSKUNotFound | ErrJobNotFound
  | ErrCategorySlugAlreadyExists | ErrProductSlugAlreadyExists | ErrSKUCodeAlreadyExists
  | ErrDB db_error

fun catalog_message :: "catalog_error \<Rightarrow> string" where
  "catalog_message ErrInvalidCategoryName = ''category name is required''"
| "catalog_message ErrInvalidCategorySlug = ''category slug is required''"
| "catalog_message ErrInvalidProductName = ''product name is required''"
| "catalog_message ErrInvalidProductSlug = ''product slug is required''"
| "catalog_message ErrInvalidProductStatus = ''invalid product status''"
| "catalog_message ErrInvalidSKUCode = ''sku code is required''"
| "catalog_message ErrInvalidMoneyAmount = ''invalid money amount''"
| "catalog_message ErrInvalidCurrency = ''invalid currency''"
| "catalog_message ErrCategoryNotFound = ''category not found''"
| "catalog_message ErrProductNotFound = ''product not found''"
| "catalog_message ErrSKUNotFound = ''sku not found''"
| "catalog_message ErrJobNotFound = ''bulk upload job not found''"
| "catalog_message ErrCategorySlugAlreadyExists = ''category slug already exists''"
| "catalog_message ErrProductSlugAlreadyExists = ''product slug already exists''"
| "catalog_message ErrSKUCodeAlreadyExists = ''sku code already exists''"
| "catalog_message (ErrDB RecordNotFound) = ''record not found''"
| "catalog_message (ErrDB (DuplicatedKey m)) = m"
| "catalog_message (ErrDB (DBError m)) = m"

section \<open>Models\<close>

type_synonym product_status = string

definition ProductStatusDraft :: product_status where "ProductStatusDraft = ''draft''"
definition ProductStatusActive :: product_status where "ProductStatusActive = ''active''"
definition ProductStatusInactive :: product_status where "ProductStatusInactive = ''inactive''"
definition ProductStatusArchived :: product_status where "ProductStatusArchived = ''archived''"

record category =
  ID :: nat
  Name :: string
  Slug :: string
  Description :: string
  ParentID :: "nat option"
  IsActive :: bool
  SortOrder :: int
  CreatedAt :: time
  UpdatedAt :: time
  DeletedAt :: "time option"

record product_image =
  ID :: nat
  ProductID :: nat
  URL :: string
  AltText :: string
  SortOrder :: int
  IsPrimary :: bool
  CreatedAt :: time
  UpdatedAt :: time

record product_sku =
  ID :: nat
  ProductID :: nat
  SKUCode :: string
  Size :: string
  Color :: string
  MRPAmount :: int
  SellingAmount :: int
  Currency :: string
  IsActive :: bool
  CreatedAt :: time
  UpdatedAt :: time

record product_attribute =
  ID :: nat
  ProductID :: nat
  Type :: string
  Name :: string
  Value :: string
  CreatedAt :: time
  UpdatedAt :: time

record product =
  ID :: nat
  CategoryID :: nat
  Name :: string
  Slug :: string
  Description :: string
  Status :: product_status
  FabricSummary :: string
  WashCare :: string
  DurabilityNotes :: string
  CreatedAt :: time
  UpdatedAt :: time
  DeletedAt :: "time option"
  Images :: "product_image list"
  SKUs :: "product_sku list"
  Attributes :: "product_attribute list"

record bulk_upload_job =
  ID :: nat
  CreatedBy :: nat
  FileName :: string
  Status :: string
  TotalRows :: int
  SuccessRows :: int
  FailedRows :: int
  ErrorReportURL :: string
  CreatedAt :: time
  UpdatedAt :: time

record product_availability =
  ProductID :: nat
  InStock :: bool
  AvailableSKUs :: int
  TotalActiveSKU :: int

record category_filter =
  ParentID :: "nat option"
  IsActive :: "bool option"
  Search :: string
  Page :: int
  PageSize :: int

record product_filter =
  CategoryID :: "nat option"
  Size :: string
  Color :: string
  MinPrice :: "int option"
  MaxPrice :: "int option"
  Search :: string
  Sort :: string
  Status :: "product_status option"
  Page :: int
  PageSize :: int

section \<open>Requests\<close>

record create_category_request =
  Name :: string
  Slug :: string
  Description :: string
  ParentID :: "nat option"
  IsActive :: "bool option"
  SortOrder :: "int option"

record update_category_request =
  Name :: "string option"
  Slug :: "string option"
  Description :: "string option"
  ParentID :: "nat option"
  IsActive :: "bool option"
  SortOrder :: "int option"

record list_categories_request =
  ParentID :: "nat option"
  IsActive :: "bool option"
  Search :: string
  Page :: int
  PageSize :: int

record create_image_request =
  URL :: string
  AltText :: string
  SortOrder :: "int option"
  IsPrimary :: "bool option"

record create_sku_request =
  SKUCode :: string
  Size :: string
  Color :: string
  MRPAmount :: int
  SellingAmount :: int
  Currency :: string
  IsActive :: "bool option"

record create_attribute_request =
  Type :: string
  Name :: string
  Value :: string

record create_product_request =
  CategoryID :: nat
  Name :: string
  Slug :: string
  Description :: string
  Status :: product_status
  FabricSummary :: string
  WashCare :: string
  DurabilityNotes :: string
  Images :: "create_image_request list"
  SKUs :: "create_sku_request list"
  Attributes :: "create_attribute_request list"

record update_product_request =
  CategoryID :: "nat option"
  Name :: "string option"
  Slug :: "string option"
  Description :: "string option"
  Status :: "product_status option"
  FabricSummary :: "string option"
  WashCare :: "string option"
  DurabilityNotes :: "string option"
  Images :: "create_image_request list option"
  SKUs :: "create_sku_request list option"
  Attributes :: "create_attribute_request list option"

record list_products_request =
  CategoryID :: "nat option"
  Size :: string
  Color :: string
  MinPrice :: "int option"
  MaxPrice :: "int option"
  Search :: string
  Sort :: string
  Status :: string
  Page :: int
  PageSize :: int

section \<open>The repository interface\<close>

record 'd catalog_repository =
  CreateCategory :: "category \<Rightarrow> ('d, catalog_error, category) call"
  GetCategoryByID :: "nat \<Rightarrow> ('d, catalog_error, category) call"
  UpdateCategory :: "category \<Rightarrow> ('d, catalog_error, category) call"
  DeleteCategory :: "nat \<Rightarrow> ('d, catalog_error, unit) call"
  ListCategories :: "category_filter \<Rightarrow> ('d, catalog_error, category list \<times> int) call"
  CreateProduct :: "product \<Rightarrow> ('d, catalog_error, product) call"
  GetProductByID :: "nat \<Rightarrow> ('d, catalog_error, product) call"
  UpdateProduct :: "product \<Rightarrow> ('d, catalog_error, product) call"
  DeleteProduct :: "nat \<Rightarrow> ('d, catalog_error, unit) call"
  ListProducts :: "product_filter \<Rightarrow> ('d, catalog_error, product list \<times> int) call"
  CreateSKU :: "product_sku \<Rightarrow> ('d, catalog_error, product_sku) call"
  UpdateSKU :: "product_sku \<Rightarrow> ('d, catalog_error, product_sku) call"
  DeleteSKU :: "nat \<Rightarrow> ('d, catalog_error, unit) call"
  ListProductSKUs :: "nat \<Rightarrow> ('d, catalog_error, product_sku list) call"
  ReplaceProductImages :: "nat \<Rightarrow> product_image list \<Rightarrow> ('d, catalog_error, unit) call"
  ReplaceProductAttributes :: "nat \<Rightarrow> product_attribute list \<Rightarrow> ('d, catalog_error, unit) call"
  CreateBulkUploadJob :: "bulk_upload_job \<Rightarrow> ('d, catalog_error, bulk_upload_job) call"
  UpdateBulkUploadJob :: "bulk_upload_job \<Rightarrow> ('d, catalog_error, bulk_upload_job) call"
  GetBulkUploadJobByID :: "nat \<Rightarrow> ('d, catalog_error, bulk_upload_job) call"
  GetProductAvailability :: "nat \<Rightarrow> ('d, catalog_error, product_availability) call"

end
