(* ===== verification/Catalog_Service.thy ===== *)
theory Catalog_Service
  imports Catalog_Types
begin

text \<open>
  \<open>catalog/service/service.go\<close>: validation and normalisation of categories, products and their
  stock-keeping units on their way to the repository.  Creation and update build the domain
  value by a function on the request; a list whose requests carry defaults is built by a loop
  over its indices.
\<close>

section \<open>Requests to values\<close>

definition normalizeSlug :: "string \<Rightarrow> string" where
  "normalizeSlug value = ToLower (TrimSpace value)"

definition isValidStatus :: "product_status \<Rightarrow> bool" where
  "isValidStatus status \<longleftrightarrow> status = ProductStatusDraft \<or> status = ProductStatusActive \<or>
     status = ProductStatusInactive \<or> status = ProductStatusArchived"

text \<open>\<open>if p != nil { x = *p }\<close>.\<close>

fun deref :: "'a option \<Rightarrow> 'a \<Rightarrow> 'a" where
  "deref None x = x"
| "deref (Some y) x = y"

fun mapImages :: "int \<Rightarrow> create_image_request list \<Rightarrow> nat \<Rightarrow> product_image list" where
  "mapImages idx [] productID = []"
| "mapImages idx (img # rest) productID =
     \<lparr>product_image.ID = 0, ProductID = productID,
      URL = TrimSpace (create_image_request.URL img),
      AltText = TrimSpace (create_image_request.AltText img),
      SortOrder = deref (create_image_request.SortOrder img) idx,
      IsPrimary = deref (create_image_request.IsPrimary img) (idx = 0),
      CreatedAt = 0, UpdatedAt = 0\<rparr> # mapImages (idx + 1) rest productID"

definition mapImageRequests :: "create_image_request list \<Rightarrow> nat \<Rightarrow> product_image list" where
  "mapImageRequests requests productID = mapImages 0 requests productID"

definition mapSKURequest :: "nat \<Rightarrow> create_sku_request \<Rightarrow> product_sku" where
  "mapSKURequest productID sku =
     (let currency0 = ToUpper (TrimSpace (create_sku_request.Currency sku));
          currency = (if currency0 = [] then ''INR'' else currency0) in
      \<lparr>product_sku.ID = 0, ProductID = productID,
       SKUCode = TrimSpace (create_sku_request.SKUCode sku),
       Size = TrimSpace (create_sku_request.Size sku),
       Color = TrimSpace (create_sku_request.Color sku),
       MRPAmount = create_sku_request.MRPAmount sku,
       SellingAmount = create_sku_request.SellingAmount sku,
       Currency = currency, IsActive = deref (create_sku_request.IsActive sku) True,
       CreatedAt = 0, UpdatedAt = 0\<rparr>)"

definition mapSKURequests :: "create_sku_request list \<Rightarrow> nat \<Rightarrow> product_sku list" where
  "mapSKURequests requests productID = map (mapSKURequest productID) requests"

definition mapAttributeRequests ::
  "create_attribute_request list \<Rightarrow> nat \<Rightarrow> product_attribute list" where
  "mapAttributeRequests requests productID =
     map (\<lambda>attr. \<lparr>product_attribute.ID = 0, ProductID = productID,
       Type = create_attribute_request.Type attr,
       Name = TrimSpace (create_attribute_request.Name attr),
       Value = TrimSpace (create_attribute_request.Value attr),
       CreatedAt = 0, UpdatedAt = 0\<rparr>) requests"

text \<open>The loop of \<open>validateSKUs\<close>, with the set of the codes seen so far.\<close>

fun validate_skus :: "string set \<Rightarrow> product_sku list \<Rightarrow> catalog_error option" where
  "validate_skus seen [] = None"
| "validate_skus seen (sku # skus) =
     (if TrimSpace (product_sku.SKUCode sku) = [] then Some ErrInvalidSKUCode
      else if product_sku.MRPAmount sku < 0 \<or> product_sku.SellingAmount sku < 0
        \<or> product_sku.MRPAmount sku < product_sku.SellingAmount sku then Some ErrInvalidMoneyAmount
      else if length (product_sku.Currency sku) \<noteq> 3 then Some ErrInvalidCurrency
      else let key = ToUpper (TrimSpace (product_sku.SKUCode sku)) in
        if key \<in> seen then Some ErrSKUCodeAlreadyExists
        else validate_skus (insert key seen) skus)"

definition validateSKUs :: "product_sku list \<Rightarrow> catalog_error option" where
  "validateSKUs skus = validate_skus {} skus"

section \<open>Categories\<close>

definition Service_CreateCategory ::
  "'d catalog_repository \<Rightarrow> create_category_request \<Rightarrow> ('d, catalog_error, category) call" where
  "Service_CreateCategory repo req =
     (let name = TrimSpace (create_category_request.Name req);
          slug = normalizeSlug (create_category_request.Slug req) in
      if name = [] then err ErrInvalidCategoryName
      else if slug = [] then err ErrInvalidCategorySlug
      else CreateCategory repo
        \<lparr>category.ID = 0, Name = name, Slug = slug,
         Description = TrimSpace (create_category_request.Description req),
         ParentID = create_category_request.ParentID req,
         IsActive = deref (create_category_request.IsActive req) True,
         SortOrder = deref (create_category_request.SortOrder req) 0,
         CreatedAt = 0, UpdatedAt = 0, DeletedAt = None\<rparr>)"

definition Service_GetCategory ::
  "'d catalog_repository \<Rightarrow> nat \<Rightarrow> ('d, catalog_error, category) call" where
  "Service_GetCategory repo i =
     (if i = 0 then err ErrCategoryNotFound else GetCategoryByID repo i)"

text \<open>The assignments of \<open>UpdateCategory\<close> to the category it read, in order.\<close>

definition apply_category_update ::
  "update_category_request \<Rightarrow> category \<Rightarrow> catalog_error + category" where
  "apply_category_update req c0 =
     (case (case update_category_request.Name req of
              None \<Rightarrow> Inr c0
            | Some n \<Rightarrow> if TrimSpace n = [] then Inl ErrInvalidCategoryName
                        else Inr (c0\<lparr>category.Name := TrimSpace n\<rparr>)) of
        Inl e \<Rightarrow> Inl e
      | Inr c1 \<Rightarrow>
     (case (case update_category_request.Slug req of
              None \<Rightarrow> Inr c1
            | Some sl \<Rightarrow> if normalizeSlug sl = [] then Inl ErrInvalidCategorySlug
                         else Inr (c1\<lparr>category.Slug := normalizeSlug sl\<rparr>)) of
        Inl e \<Rightarrow> Inl e
      | Inr c2 \<Rightarrow>
          Inr (c2\<lparr>category.Description :=
                    deref (map_option TrimSpace (update_category_request.Description req))
                      (category.Description c2),
                  category.ParentID :=
                    (case update_category_request.ParentID req of
                       None \<Rightarrow> category.ParentID c2 | Some p \<Rightarrow> Some p),
                  category.IsActive :=
                    deref (update_category_request.IsActive req) (category.IsActive c2),
                  category.SortOrder :=
                    deref (update_category_request.SortOrder req) (category.SortOrder c2)\<rparr>)))"

definition Service_UpdateCategory ::
  "'d catalog_repository \<Rightarrow> nat \<Rightarrow> update_category_request \<Rightarrow> ('d, catalog_error, category) call" where
  "Service_UpdateCategory repo i req =
     (if i = 0 then err ErrCategoryNotFound
      else call_ok (GetCategoryByID repo i) (\<lambda>current.
        case apply_category_update req current of
          Inl e \<Rightarrow> err e
        | Inr c \<Rightarrow> UpdateCategory repo c))"

definition Service_DeleteCategory ::
  "'d catalog_repository \<Rightarrow> nat \<Rightarrow> ('d, catalog_error, unit) call" where
  "Service_DeleteCategory repo i = (if i = 0 then err ErrCategoryNotFound else DeleteCategory repo i)"

definition Service_ListCategories ::
  "'d catalog_repository \<Rightarrow> list_categories_request \<Rightarrow> ('d, catalog_error, category list \<times> int) call" where
  "Service_ListCategories repo req =
     ListCategories repo
       \<lparr>category_filter.ParentID = list_categories_request.ParentID req,
        IsActive = list_categories_request.IsActive req,
        Search = TrimSpace (list_categories_request.Search req),
        Page = list_categories_request.Page req, PageSize = list_categories_request.PageSize req\<rparr>"

section \<open>Products\<close>

definition Service_CreateProduct ::
  "'d catalog_repository \<Rightarrow> create_product_request \<Rightarrow> ('d, catalog_error, product) call" where
  "Service_CreateProduct repo req =
     (let name = TrimSpace (create_product_request.Name req);
          slug = normalizeSlug (create_product_request.Slug req) in
      if name = [] then err ErrInvalidProductName
      else if slug = [] then err ErrInvalidProductSlug
      else if create_product_request.CategoryID req = 0 then err ErrCategoryNotFound
      else let status = (if create_product_request.Status req = [] then ProductStatusDraft
                         else create_product_request.Status req) in
        if \<not> isValidStatus status then err ErrInvalidProductStatus
        else call_ok (GetCategoryByID repo (create_product_request.CategoryID req)) (\<lambda>_.
          let p = \<lparr>product.ID = 0, CategoryID = create_product_request.CategoryID req,
                   Name = name, Slug = slug,
                   Description = TrimSpace (create_product_request.Description req),
                   Status = status,
                   FabricSummary = TrimSpace (create_product_request.FabricSummary req),
                   WashCare = TrimSpace (create_product_request.WashCare req),
                   DurabilityNotes = TrimSpace (create_product_request.DurabilityNotes req),
                   CreatedAt = 0, UpdatedAt = 0, DeletedAt = None,
                   Images = mapImageRequests (create_product_request.Images req) 0,
                   SKUs = mapSKURequests (create_product_request.SKUs req) 0,
                   Attributes = mapAttributeRequests (create_product_request.Attributes req) 0\<rparr> in
          case validateSKUs (product.SKUs p) of
            Some e \<Rightarrow> err e
          | None \<Rightarrow> CreateProduct repo p))"

definition Service_GetProduct ::
  "'d catalog_repository \<Rightarrow> nat \<Rightarrow> ('d, catalog_error, product) call" where
  "Service_GetProduct repo i = (if i = 0 then err ErrProductNotFound else GetProductByID repo i)"

text \<open>
  The assignments of \<open>UpdateProduct\<close> after the category has been checked, and the final
  validation.
\<close>

definition apply_product_update ::
  "update_product_request \<Rightarrow> product \<Rightarrow> catalog_error + product" where
  "apply_product_update req p0 =
     (case (case update_product_request.Name req of
              None \<Rightarrow> Inr p0
            | Some n \<Rightarrow> if TrimSpace n = [] then Inl ErrInvalidProductName
                        else Inr (p0\<lparr>product.Name := TrimSpace n\<rparr>)) of
        Inl e \<Rightarrow> Inl e
      | Inr p1 \<Rightarrow>
     (case (case update_product_request.Slug req of
              None \<Rightarrow> Inr p1
            | Some sl \<Rightarrow> if normalizeSlug sl = [] then Inl ErrInvalidProductSlug
                         else Inr (p1\<lparr>product.Slug := normalizeSlug sl\<rparr>)) of
        Inl e \<Rightarrow> Inl e
      | Inr p2 \<Rightarrow>
     (let p3 = p2\<lparr>product.Description :=
                    deref (map_option TrimSpace (update_product_request.Description req))
                      (product.Description p2)\<rparr> in
      case (case update_product_request.Status req of
              None \<Rightarrow> Inr p3
            | Some st \<Rightarrow> if \<not> isValidStatus st then Inl ErrInvalidProductStatus
                         else Inr (p3\<lparr>product.Status := st\<rparr>)) of
        Inl e \<Rightarrow> Inl e
      | Inr p4 \<Rightarrow>
          let p5 = p4\<lparr>product.FabricSummary :=
                    deref (map_option TrimSpace (update_product_request.FabricSummary req))
                      (product.FabricSummary p4),
                  product.WashCare :=
                    deref (map_option TrimSpace (update_product_request.WashCare req))
                      (product.WashCare p4),
                  product.DurabilityNotes :=
                    deref (map_option TrimSpace (update_product_request.DurabilityNotes req))
                      (product.DurabilityNotes p4),
                  product.Images :=
                    deref (map_option (\<lambda>r. mapImageRequests r (product.ID p4))
                      (update_product_request.Images req)) (product.Images p4),
                  product.SKUs :=
                    deref (map_option (\<lambda>r. mapSKURequests r (product.ID p4))
                      (update_product_request.SKUs req)) (product.SKUs p4),
                  product.Attributes :=
                    deref (map_option (\<lambda>r. mapAttributeRequests r (product.ID p4))
                      (update_product_request.Attributes req)) (product.Attributes p4)\<rparr> in
          case validateSKUs (product.SKUs p5) of Some e \<Rightarrow> Inl e | None \<Rightarrow> Inr p5)))"

definition Service_UpdateProduct ::
  "'d catalog_repository \<Rightarrow> nat \<Rightarrow> update_product_request \<Rightarrow> ('d, catalog_error, product) call" where
  "Service_UpdateProduct repo i req =
     (if i = 0 then err ErrProductNotFound
      else call_ok (GetProductByID repo i) (\<lambda>current.
        let save = (\<lambda>p. case apply_product_update req p of
                          Inl e \<Rightarrow> err e | Inr q \<Rightarrow> UpdateProduct repo q) in
        case update_product_request.CategoryID req of
          None \<Rightarrow> save current
        | Some cid \<Rightarrow>
            if cid = 0 then err ErrCategoryNotFound
            else call_ok (GetCategoryByID repo cid) (\<lambda>_.
              save (current\<lparr>product.CategoryID := cid\<rparr>))))"

definition Service_DeleteProduct ::
  "'d catalog_repository \<Rightarrow> nat \<Rightarrow> ('d, catalog_error, unit) call" where
  "Service_DeleteProduct repo i = (if i = 0 then err ErrProductNotFound else DeleteProduct repo i)"

definition Service_ListProducts ::
  "'d catalog_repository \<Rightarrow> list_products_request \<Rightarrow> ('d, catalog_error, product list \<times> int) call" where
  "Service_ListProducts repo req =
     (let filter0 =
        \<lparr>product_filter.CategoryID = list_products_request.CategoryID req,
         Size = TrimSpace (list_products_request.Size req),
         Color = TrimSpace (list_products_request.Color req),
         MinPrice = list_products_request.MinPrice req,
         MaxPrice = list_products_request.MaxPrice req,
         Search = TrimSpace (list_products_request.Search req),
         Sort = TrimSpace (list_products_request.Sort req), Status = None,
         Page = list_products_request.Page req, PageSize = list_products_request.PageSize req\<rparr> in
      if list_products_request.Status req = [] then ListProducts repo filter0
      else let status = TrimSpace (list_products_request.Status req) in
        if \<not> isValidStatus status then err ErrInvalidProductStatus
        else ListProducts repo (filter0\<lparr>product_filter.Status := Some status\<rparr>))"

definition IsNotFoundError :: "catalog_error \<Rightarrow> bool" where
  "IsNotFoundError e \<longleftrightarrow>
     e = ErrCategoryNotFound \<or> e = ErrProductNotFound \<or> e = ErrSKUNotFound \<or> e = ErrJobNotFound"

section \<open>What the service passes on\<close>

definition valid_sku :: "product_sku \<Rightarrow> bool" where
  "valid_sku sku \<longleftrightarrow> TrimSpace (product_sku.SKUCode sku) \<noteq> [] \<and>
     0 \<le> product_sku.SellingAmount sku \<and> product_sku.SellingAmount sku \<le> product_sku.MRPAmount sku \<and>
     length (product_sku.Currency sku) = 3"

definition sku_key :: "product_sku \<Rightarrow> string" where
  "sku_key sku = ToUpper (TrimSpace (product_sku.SKUCode sku))"

definition valid_skus :: "product_sku list \<Rightarrow> bool" where
  "valid_skus skus \<longleftrightarrow> (\<forall>sku \<in> set skus. valid_sku sku) \<and> distinct (map sku_key skus)"

lemma validate_skus_spec:
  "validate_skus seen skus = None \<longleftrightarrow> valid_skus skus \<and> sku_key ` set skus \<inter> seen = {}"
  by (induction seen skus rule: validate_skus.induct)
    (auto simp: valid_skus_def valid_sku_def sku_key_def Let_def)

lemma validateSKUs_spec: "validateSKUs skus = None \<longleftrightarrow> valid_skus skus"
  by (simp add: validateSKUs_def validate_skus_spec)

text \<open>The first unit at which a list stops being valid.\<close>

lemma validate_skus_error:
  "validate_skus seen skus = Some e \<Longrightarrow>
     \<exists>pre sku post. skus = pre @ sku # post \<and> valid_skus pre \<and> sku_key ` set pre \<inter> seen = {} \<and>
       (case e of
          ErrInvalidSKUCode \<Rightarrow> TrimSpace (product_sku.SKUCode sku) = []
        | ErrInvalidMoneyAmount \<Rightarrow> product_sku.SellingAmount sku < 0 \<or>
            product_sku.MRPAmount sku < product_sku.SellingAmount sku
        | ErrInvalidCurrency \<Rightarrow> length (product_sku.Currency sku) \<noteq> 3
        | ErrSKUCodeAlreadyExists \<Rightarrow> sku_key sku \<in> seen \<union> sku_key ` set pre
        | _ \<Rightarrow> False)"
proof (induction seen skus rule: validate_skus.induct)
  case (2 seen sku skus)
  show ?case
  proof (cases "valid_sku sku \<and> sku_key sku \<notin> seen")
    case False
    with "2.prems" show ?thesis
      by (intro exI [of _ "[]"] exI [of _ sku] exI [of _ skus])
        (auto simp: valid_skus_def valid_sku_def sku_key_def Let_def split: if_splits)
  next
    case True
    then have run: "validate_skus seen (sku # skus) = validate_skus (insert (sku_key sku) seen) skus"
      and cond: "TrimSpace (product_sku.SKUCode sku) \<noteq> []"
        "\<not> (product_sku.MRPAmount sku < 0 \<or> product_sku.SellingAmount sku < 0
          \<or> product_sku.MRPAmount sku < product_sku.SellingAmount sku)"
        "\<not> length (product_sku.Currency sku) \<noteq> 3" "ToUpper (TrimSpace (product_sku.SKUCode sku)) \<notin> seen"
      by (auto simp: valid_sku_def sku_key_def Let_def)
    obtain pre s post where p: "skus = pre @ s # post" "valid_skus pre"
      "sku_key ` set pre \<inter> insert (sku_key sku) seen = {}" and e: "case e of
          ErrInvalidSKUCode \<Rightarrow> TrimSpace (product_sku.SKUCode s) = []
        | ErrInvalidMoneyAmount \<Rightarrow> product_sku.SellingAmount s < 0 \<or>
            product_sku.MRPAmount s < product_sku.SellingAmount s
        | ErrInvalidCurrency \<Rightarrow> length (product_sku.Currency s) \<noteq> 3
        | ErrSKUCodeAlreadyExists \<Rightarrow> sku_key s \<in> insert (sku_key sku) seen \<union> sku_key ` set pre
        | _ \<Rightarrow> False"
      using "2.IH" [OF cond(1,2) cond(3) refl cond(4)] "2.prems" [unfolded run]
      unfolding sku_key_def by blast
    have "valid_skus (sku # pre)" "sku_key ` set (sku # pre) \<inter> seen = {}"
      using p(2,3) True by (auto simp: valid_skus_def)
    with p(1) e show ?thesis
      by (intro exI [of _ "sku # pre"] exI [of _ s] exI [of _ post])
        (auto split: catalog_error.splits)
  qed
qed simp

section \<open>Valid products\<close>

definition valid_product :: "product \<Rightarrow> bool" where
  "valid_product p \<longleftrightarrow> product.CategoryID p \<noteq> 0 \<and>
     product.Name p \<noteq> [] \<and> TrimSpace (product.Name p) = product.Name p \<and>
     product.Slug p \<noteq> [] \<and> (\<exists>raw. product.Slug p = normalizeSlug raw) \<and>
     isValidStatus (product.Status p) \<and> valid_skus (product.SKUs p)"

text \<open>A repository that refuses invalid products.\<close>

definition guarded :: "'d catalog_repository \<Rightarrow> 'd catalog_repository" where
  "guarded repo =
     repo\<lparr>CreateProduct := \<lambda>p. if valid_product p then CreateProduct repo p
                               else err (ErrDB (DBError ''invalid product'')),
          UpdateProduct := \<lambda>p. if valid_product p then UpdateProduct repo p
                               else err (ErrDB (DBError ''invalid product''))\<rparr>"

lemma guarded_simps [simp]:
  "GetCategoryByID (guarded repo) = GetCategoryByID repo"
  "GetProductByID (guarded repo) = GetProductByID repo"
  "valid_product p \<Longrightarrow> CreateProduct (guarded repo) p = CreateProduct repo p"
  "valid_product p \<Longrightarrow> UpdateProduct (guarded repo) p = UpdateProduct repo p"
  by (simp_all add: guarded_def)

lemma isValidStatus_nonempty: "isValidStatus st \<Longrightarrow> st \<noteq> []"
  by (auto simp: isValidStatus_def ProductStatusDraft_def ProductStatusActive_def
      ProductStatusInactive_def ProductStatusArchived_def)

lemma apply_product_update_valid:
  assumes "valid_product p" and "apply_product_update req p = Inr q"
  shows "valid_product q"
  using assms
  by (auto simp: apply_product_update_def valid_product_def validateSKUs_spec Let_def
      split: option.splits sum.splits if_splits)

lemma demo_trim: "TrimSpace ''S1'' = ''S1''"
  by (simp add: TrimSpace_def chunks_ascii trim_by_def is_space_def space_ranges_def)

definition demo_sku :: product_sku where
  "demo_sku = \<lparr>product_sku.ID = 0, ProductID = 0, SKUCode = ''S1'', Size = ''M'', Color = ''red'',
     MRPAmount = 100, SellingAmount = 90, Currency = ''INR'', IsActive = True, CreatedAt = 0, UpdatedAt = 0\<rparr>"

section \<open>A small repository\<close>

definition demo_category :: category where
  "demo_category = \<lparr>category.ID = 1, Name = ''Tops'', Slug = ''tops'', Description = [], ParentID = None,
     IsActive = True, SortOrder = 0, CreatedAt = 0, UpdatedAt = 0, DeletedAt = None\<rparr>"

definition demo_product :: product where
  "demo_product = \<lparr>product.ID = 1, CategoryID = 1, Name = ''S1'', Slug = normalizeSlug ''S1'',
     Description = [], Status = ''draft'', FabricSummary = [], WashCare = [], DurabilityNotes = [],
     CreatedAt = 0, UpdatedAt = 0, DeletedAt = None, Images = [], SKUs = [demo_sku], Attributes = []\<rparr>"

text \<open>One category and one product, of which the last version written is kept.\<close>

definition demo_catalog :: "(category \<times> product) catalog_repository" where
  "demo_catalog =
     \<lparr>CreateCategory = (\<lambda>c. do { (_, p) \<leftarrow> State_Monad.get; State_Monad.set (c, p); ok c }),
      GetCategoryByID = (\<lambda>i. do { (c, _) \<leftarrow> State_Monad.get;
        if category.ID c = i then ok c else err ErrCategoryNotFound }),
      UpdateCategory = (\<lambda>c. do { (_, p) \<leftarrow> State_Monad.get; State_Monad.set (c, p); ok c }),
      DeleteCategory = (\<lambda>_. ok ()), ListCategories = (\<lambda>_. ok ([], 0)),
      CreateProduct = (\<lambda>p. do { (c, _) \<leftarrow> State_Monad.get; State_Monad.set (c, p); ok p }),
      GetProductByID = (\<lambda>i. if i = 1 then ok demo_product else err ErrProductNotFound),
      UpdateProduct = (\<lambda>p. do { (c, _) \<leftarrow> State_Monad.get; State_Monad.set (c, p); ok p }),
      DeleteProduct = (\<lambda>_. ok ()), ListProducts = (\<lambda>_. ok ([], 0)),
      CreateSKU = (\<lambda>s. ok s), UpdateSKU = (\<lambda>s. ok s), DeleteSKU = (\<lambda>_. ok ()),
      ListProductSKUs = (\<lambda>_. ok []), ReplaceProductImages = (\<lambda>_ _. ok ()),
      ReplaceProductAttributes = (\<lambda>_ _. ok ()), CreateBulkUploadJob = (\<lambda>j. ok j),
      UpdateBulkUploadJob = (\<lambda>j. ok j), GetBulkUploadJobByID = (\<lambda>_. err ErrJobNotFound),
      GetProductAvailability = (\<lambda>i. ok \<lparr>product_availability.ProductID = i, InStock = False,
        AvailableSKUs = 0, TotalActiveSKU = 0\<rparr>)\<rparr>"

lemma demo_slug: "normalizeSlug ''S1'' \<noteq> []"
  by (simp add: normalizeSlug_def demo_trim ToLower_def chunks_ascii encode_nonempty)

lemma demo_product_valid: "valid_product demo_product"
  unfolding valid_product_def
  by (intro conjI exI [of _ "''S1''"])
    (simp_all add: demo_product_def demo_trim demo_slug isValidStatus_def ProductStatusDraft_def
      valid_skus_def valid_sku_def demo_sku_def)

section \<open>Properties\<close>

text \<open>
  C22. The validation of stock-keeping units is exact.  \<open>validateSKUs\<close> accepts a list precisely
  when every unit has a code, amounts with \<open>0 \<le> selling \<le> MRP\<close> and a currency of three bytes,
  and no two codes agree up to case; otherwise the error it reports is the defect of the first
  unit at which the list stops being valid.
\<close>

theorem validateSKUs_exact:
  "case validateSKUs skus of
     None \<Rightarrow> (\<forall>sku. sku \<in> set skus \<longrightarrow> TrimSpace (product_sku.SKUCode sku) \<noteq> [] \<and>
          0 \<le> product_sku.SellingAmount sku \<and>
          product_sku.SellingAmount sku \<le> product_sku.MRPAmount sku \<and>
          length (product_sku.Currency sku) = 3) \<and>
        distinct (map (\<lambda>sku. ToUpper (TrimSpace (product_sku.SKUCode sku))) skus)
   | Some e \<Rightarrow> \<not> valid_skus skus \<and>
        (\<exists>pre sku post. skus = pre @ sku # post \<and> valid_skus pre \<and>
          (case e of
             ErrInvalidSKUCode \<Rightarrow> TrimSpace (product_sku.SKUCode sku) = []
           | ErrInvalidMoneyAmount \<Rightarrow> product_sku.SellingAmount sku < 0 \<or>
               product_sku.MRPAmount sku < product_sku.SellingAmount sku
           | ErrInvalidCurrency \<Rightarrow> length (product_sku.Currency sku) \<noteq> 3
           | ErrSKUCodeAlreadyExists \<Rightarrow> sku_key sku \<in> sku_key ` set pre
           | _ \<Rightarrow> False))"
proof (cases "validateSKUs skus")
  case None
  then have "valid_skus skus" by (simp add: validateSKUs_spec)
  with None show ?thesis by (auto simp: valid_skus_def valid_sku_def sku_key_def [abs_def])
next
  case (Some e)
  then have "\<not> valid_skus skus" by (simp add: validateSKUs_spec [symmetric])
  moreover have "validate_skus {} skus = Some e" using Some by (simp add: validateSKUs_def)
  from validate_skus_error [OF this] have "\<exists>pre sku post. skus = pre @ sku # post \<and> valid_skus pre \<and>
       (case e of
          ErrInvalidSKUCode \<Rightarrow> TrimSpace (product_sku.SKUCode sku) = []
        | ErrInvalidMoneyAmount \<Rightarrow> product_sku.SellingAmount sku < 0 \<or>
            product_sku.MRPAmount sku < product_sku.SellingAmount sku
        | ErrInvalidCurrency \<Rightarrow> length (product_sku.Currency sku) \<noteq> 3
        | ErrSKUCodeAlreadyExists \<Rightarrow> sku_key sku \<in> sku_key ` set pre
        | _ \<Rightarrow> False)"
    by (simp only: Un_empty_left Int_empty_right simp_thms)
  ultimately show ?thesis using Some by simp
qed

lemma validateSKUs_exact_witness:
  "validateSKUs [demo_sku, demo_sku] = Some ErrSKUCodeAlreadyExists \<and> \<not> valid_skus [demo_sku, demo_sku]"
proof -
  have "validateSKUs [demo_sku, demo_sku] = Some ErrSKUCodeAlreadyExists"
    by (simp add: validateSKUs_def demo_sku_def demo_trim Let_def)
  with validateSKUs_exact [of "[demo_sku, demo_sku]"] show ?thesis by simp
qed



definition rename_request :: update_product_request where
  "rename_request = \<lparr>update_product_request.CategoryID = Some 1, Name = Some ''S1'', Slug = None,
     Description = None, Status = Some ''active'', FabricSummary = None, WashCare = None,
     DurabilityNotes = None, Images = None, SKUs = None, Attributes = None\<rparr>"


text \<open>
  A category may become its own parent.  An update that sets the parent of category \<open>i\<close> to
  \<open>i\<close> is handed to the repository unchecked.
\<close>

theorem UpdateCategory_own_parent:
  assumes "i \<noteq> 0" and "run_state (GetCategoryByID repo i) d = (Inr c, d1)" and "category.ID c = i"
  shows "\<exists>c'. category.ID c' = i \<and> category.ParentID c' = Some i \<and>
    run_state (Service_UpdateCategory repo i
      \<lparr>update_category_request.Name = None, Slug = None, Description = None, ParentID = Some i,
       IsActive = None, SortOrder = None\<rparr>) d =
    run_state (UpdateCategory repo c') d1"
  using assms
  by (intro exI [of _ "c\<lparr>category.ParentID := Some i\<rparr>"])
    (simp add: Service_UpdateCategory_def apply_category_update_def run_call_ok)

lemma UpdateCategory_own_parent_witness:
  "\<exists>c'. category.ParentID c' = Some 1 \<and>
     run_state (Service_UpdateCategory demo_catalog 1
       \<lparr>update_category_request.Name = None, Slug = None, Description = None, ParentID = Some 1,
        IsActive = None, SortOrder = None\<rparr>) (demo_category, demo_product) = (Inr c', (c', demo_product))"
proof -
  have "run_state (GetCategoryByID demo_catalog 1) (demo_category, demo_product) =
      (Inr demo_category, (demo_category, demo_product))" "category.ID demo_category = 1"
    by (simp_all add: demo_catalog_def demo_category_def)
  from UpdateCategory_own_parent [OF _ this] show ?thesis
    by (auto simp: demo_catalog_def)
qed

end
