(* ===== verification/Catalog_Dao.thy ===== *)
theory Catalog_Dao
  imports Catalog_Types
begin

text \<open>
  \<open>catalog/productdao/postgres.go\<close>: the repository of the catalog on a relational database.
  The database handle of \<open>gorm\<close> is a parameter: a record of the operations the code calls on
  each table, and \<open>Transaction\<close>.  A query is the data that the code's chain of builder calls
  accumulates, with the text of each condition and its arguments.
\<close>

section \<open>Rows\<close>

text \<open>A \<open>gorm.DeletedAt\<close> is a time that may be absent.\<close>

record category_model =
  ID :: nat
  Name :: string
  Slug :: string
  Description :: string
  ParentID :: "nat option"
  IsActive :: bool
  SortOrder :: int
  CreatedAt :: time
  UpdatedAt :: time
  DeletedAt :: "time option"

record product_image_model =
  ID :: nat
  ProductID :: nat
  URL :: string
  AltText :: string
  SortOrder :: int
  IsPrimary :: bool
  CreatedAt :: time
  UpdatedAt :: time

record product_sku_model =
  ID :: nat
  ProductID :: nat
  SKUCode :: string
  Size :: string
  Color :: string
  MRPAmount :: int
  SellingAmount :: int
  Currency :: string
  IsActive :: bool
  CreatedAt :: time
  UpdatedAt :: time

record product_attribute_model =
  ID :: nat
  ProductID :: nat
  Type :: string
  Name :: string
  Value :: string
  CreatedAt :: time
  UpdatedAt :: time

record product_model =
  ID :: nat
  CategoryID :: nat
  Name :: string
  Slug :: string
  Description :: string
  Status :: string
  FabricSummary :: string
  WashCare :: string
  DurabilityNotes :: string
  CreatedAt :: time
  UpdatedAt :: time
  DeletedAt :: "time option"
  Images :: "product_image_model list"
  SKUs :: "product_sku_model list"
  Attributes :: "product_attribute_model list"

record bulk_upload_job_model =
  ID :: nat
  CreatedBy :: nat
  FileName :: string
  Status :: string
  TotalRows :: int
  SuccessRows :: int
  FailedRows :: int
  ErrorReportURL :: string
  CreatedAt :: time
  UpdatedAt :: time

section \<open>Conversion\<close>

definition toCategoryModel :: "category \<Rightarrow> category_model" where
  "toCategoryModel c =
     \<lparr>category_model.ID = category.ID c, Name = category.Name c, Slug = category.Slug c,
      Description = category.Description c, ParentID = category.ParentID c,
      IsActive = category.IsActive c, SortOrder = category.SortOrder c,
      CreatedAt = category.CreatedAt c, UpdatedAt = category.UpdatedAt c, DeletedAt = None\<rparr>"

definition toCategoryDomain :: "category_model \<Rightarrow> category" where
  "toCategoryDomain m =
     \<lparr>category.ID = category_model.ID m, Name = category_model.Name m, Slug = category_model.Slug m,
      Description = category_model.Description m, ParentID = category_model.ParentID m,
      IsActive = category_model.IsActive m, SortOrder = category_model.SortOrder m,
      CreatedAt = category_model.CreatedAt m, UpdatedAt = category_model.UpdatedAt m,
      DeletedAt = category_model.DeletedAt m\<rparr>"

definition toProductModel :: "product \<Rightarrow> product_model" where
  "toProductModel p =
     \<lparr>product_model.ID = product.ID p, CategoryID = product.CategoryID p, Name = product.Name p,
      Slug = product.Slug p, Description = product.Description p, Status = product.Status p,
      FabricSummary = product.FabricSummary p, WashCare = product.WashCare p,
      DurabilityNotes = product.DurabilityNotes p, CreatedAt = product.CreatedAt p,
      UpdatedAt = product.UpdatedAt p, DeletedAt = None, Images = [], SKUs = [], Attributes = []\<rparr>"

definition toProductImageModel :: "product_image \<Rightarrow> product_image_model" where
  "toProductImageModel i =
     \<lparr>product_image_model.ID = product_image.ID i, ProductID = product_image.ProductID i,
      URL = product_image.URL i, AltText = product_image.AltText i,
      SortOrder = product_image.SortOrder i, IsPrimary = product_image.IsPrimary i,
      CreatedAt = product_image.CreatedAt i, UpdatedAt = product_image.UpdatedAt i\<rparr>"

definition toProductSKUModel :: "product_sku \<Rightarrow> product_sku_model" where
  "toProductSKUModel s =
     \<lparr>product_sku_model.ID = product_sku.ID s, ProductID = product_sku.ProductID s,
      SKUCode = product_sku.SKUCode s, Size = product_sku.Size s, Color = product_sku.Color s,
      MRPAmount = product_sku.MRPAmount s, SellingAmount = product_sku.SellingAmount s,
      Currency = product_sku.Currency s, IsActive = product_sku.IsActive s,
      CreatedAt = product_sku.CreatedAt s, UpdatedAt = product_sku.UpdatedAt s\<rparr>"

definition toProductAttributeModel :: "product_attribute \<Rightarrow> product_attribute_model" where
  "toProductAttributeModel a =
     \<lparr>product_attribute_model.ID = product_attribute.ID a, ProductID = product_attribute.ProductID a,
      Type = product_attribute.Type a, Name = product_attribute.Name a,
      Value = product_attribute.Value a, CreatedAt = product_attribute.CreatedAt a,
      UpdatedAt = product_attribute.UpdatedAt a\<rparr>"

definition toBulkUploadJobModel :: "bulk_upload_job \<Rightarrow> bulk_upload_job_model" where
  "toBulkUploadJobModel j =
     \<lparr>bulk_upload_job_model.ID = bulk_upload_job.ID j, CreatedBy = bulk_upload_job.CreatedBy j,
      FileName = bulk_upload_job.FileName j, Status = bulk_upload_job.Status j,
      TotalRows = bulk_upload_job.TotalRows j, SuccessRows = bulk_upload_job.SuccessRows j,
      FailedRows = bulk_upload_job.FailedRows j, ErrorReportURL = bulk_upload_job.ErrorReportURL j,
      CreatedAt = bulk_upload_job.CreatedAt j, UpdatedAt = bulk_upload_job.UpdatedAt j\<rparr>"

definition toProductImageDomain :: "product_image_model \<Rightarrow> product_image" where
  "toProductImageDomain m =
     \<lparr>product_image.ID = product_image_model.ID m, ProductID = product_image_model.ProductID m,
      URL = product_image_model.URL m, AltText = product_image_model.AltText m,
      SortOrder = product_image_model.SortOrder m, IsPrimary = product_image_model.IsPrimary m,
      CreatedAt = product_image_model.CreatedAt m, UpdatedAt = product_image_model.UpdatedAt m\<rparr>"

definition toProductSKUDomain :: "product_sku_model \<Rightarrow> product_sku" where
  "toProductSKUDomain m =
     \<lparr>product_sku.ID = product_sku_model.ID m, ProductID = product_sku_model.ProductID m,
      SKUCode = product_sku_model.SKUCode m, Size = product_sku_model.Size m,
      Color = product_sku_model.Color m, MRPAmount = product_sku_model.MRPAmount m,
      SellingAmount = product_sku_model.SellingAmount m, Currency = product_sku_model.Currency m,
      IsActive = product_sku_model.IsActive m, CreatedAt = product_sku_model.CreatedAt m,
      UpdatedAt = product_sku_model.UpdatedAt m\<rparr>"

definition toProductAttributeDomain :: "product_attribute_model \<Rightarrow> product_attribute" where
  "toProductAttributeDomain m =
     \<lparr>product_attribute.ID = product_attribute_model.ID m,
      ProductID = product_attribute_model.ProductID m, Type = product_attribute_model.Type m,
      Name = product_attribute_model.Name m, Value = product_attribute_model.Value m,
      CreatedAt = product_attribute_model.CreatedAt m,
      UpdatedAt = product_attribute_model.UpdatedAt m\<rparr>"

definition toBulkUploadJobDomain :: "bulk_upload_job_model \<Rightarrow> bulk_upload_job" where
  "toBulkUploadJobDomain m =
     \<lparr>bulk_upload_job.ID = bulk_upload_job_model.ID m, CreatedBy = bulk_upload_job_model.CreatedBy m,
      FileName = bulk_upload_job_model.FileName m, Status = bulk_upload_job_model.Status m,
      TotalRows = bulk_upload_job_model.TotalRows m, SuccessRows = bulk_upload_job_model.SuccessRows m,
      FailedRows = bulk_upload_job_model.FailedRows m,
      ErrorReportURL = bulk_upload_job_model.ErrorReportURL m,
      CreatedAt = bulk_upload_job_model.CreatedAt m, UpdatedAt = bulk_upload_job_model.UpdatedAt m\<rparr>"

definition toProductDomain :: "product_model \<Rightarrow> product" where
  "toProductDomain m =
     \<lparr>product.ID = product_model.ID m, CategoryID = product_model.CategoryID m,
      Name = product_model.Name m, Slug = product_model.Slug m,
      Description = product_model.Description m, Status = product_model.Status m,
      FabricSummary = product_model.FabricSummary m, WashCare = product_model.WashCare m,
      DurabilityNotes = product_model.DurabilityNotes m, CreatedAt = product_model.CreatedAt m,
      UpdatedAt = product_model.UpdatedAt m, DeletedAt = product_model.DeletedAt m,
      Images = map toProductImageDomain (product_model.Images m),
      SKUs = map toProductSKUDomain (product_model.SKUs m),
      Attributes = map toProductAttributeDomain (product_model.Attributes m)\<rparr>"

section \<open>The database handle\<close>

text \<open>
  \<open>Transaction\<close> runs a function and commits or rolls back; the result of the function is the
  identifier it leaves in the variables of the caller (\<open>0\<close> where it leaves none).
\<close>

record 'd gorm_db =
  catalog_categories :: "('d, category_model) gorm_table"
  catalog_products :: "('d, product_model) gorm_table"
  catalog_product_images :: "('d, product_image_model) gorm_table"
  catalog_skus :: "('d, product_sku_model) gorm_table"
  catalog_product_attributes :: "('d, product_attribute_model) gorm_table"
  catalog_bulk_upload_jobs :: "('d, bulk_upload_job_model) gorm_table"
  Transaction :: "('d, catalog_error, nat) call \<Rightarrow> ('d, catalog_error, nat) call"

text \<open>\<open>migrate\<close> is the schema migration of \<open>gorm\<close> for models given by name.\<close>

definition Catalog_AutoMigrate :: "(string list \<Rightarrow> ('d, 'e, unit) call) \<Rightarrow> ('d, 'e, unit) call" where
  "Catalog_AutoMigrate migrate =
     migrate [''CategoryModel'', ''ProductModel'', ''ProductImageModel'', ''ProductSKUModel'',
       ''ProductAttributeModel'', ''BulkUploadJobModel'']"

section \<open>Errors\<close>

definition contains :: "string \<Rightarrow> string \<Rightarrow> bool" where
  "contains source needle \<longleftrightarrow> Contains (ToLower source) (ToLower needle)"

definition mapDuplicateError :: "db_error \<Rightarrow> catalog_error" where
  "mapDuplicateError e =
     (let msg = catalog_message (ErrDB e) in
      if contains msg ''catalog_categories'' \<or> contains msg ''slug''
      then ErrCategorySlugAlreadyExists
      else if contains msg ''catalog_products'' \<or> contains msg ''slug''
      then ErrProductSlugAlreadyExists
      else if contains msg ''catalog_skus'' \<or> contains msg ''sku_code''
      then ErrSKUCodeAlreadyExists
      else ErrDB e)"

definition mapDBError :: "db_error \<Rightarrow> catalog_error" where
  "mapDBError e = (case e of DuplicatedKey _ \<Rightarrow> mapDuplicateError e | _ \<Rightarrow> ErrDB e)"

text \<open>The errors of a call to the database are translated before they are returned.\<close>

definition orNotFound :: "catalog_error \<Rightarrow> db_error \<Rightarrow> catalog_error" where
  "orNotFound missing e = (if e = RecordNotFound then missing else ErrDB e)"

section \<open>Pagination\<close>

definition normalizePagination :: "int \<Rightarrow> int \<Rightarrow> int \<times> int" where
  "normalizePagination page pageSize =
     (if page \<le> 0 then 1 else page,
      let pageSize' = (if pageSize \<le> 0 then 20 else pageSize) in
      if 100 < pageSize' then 100 else pageSize')"

definition paginate :: "int \<times> int \<Rightarrow> query \<Rightarrow> query" where
  "paginate pg q = (case pg of (page, pageSize) \<Rightarrow>
     q\<lparr>Offset := Some (int64 (int64 (page - 1) * pageSize)), Limit := Some pageSize\<rparr>)"

section \<open>Categories\<close>

definition Postgres_CreateCategory ::
  "'d gorm_db \<Rightarrow> category \<Rightarrow> ('d, catalog_error, category) call" where
  "Postgres_CreateCategory db c =
     call_ok (with_error mapDBError (Create (catalog_categories db) (toCategoryModel c)))
       (\<lambda>model. ok (toCategoryDomain model))"

definition Postgres_GetCategoryByID ::
  "'d gorm_db \<Rightarrow> nat \<Rightarrow> ('d, catalog_error, category) call" where
  "Postgres_GetCategoryByID db i =
     call_ok (with_error (orNotFound ErrCategoryNotFound) (First (catalog_categories db) (by_key i)))
       (\<lambda>model. ok (toCategoryDomain model))"

definition Postgres_UpdateCategory ::
  "'d gorm_db \<Rightarrow> time \<Rightarrow> category \<Rightarrow> ('d, catalog_error, category) call" where
  "Postgres_UpdateCategory db now c =
     (let model = toCategoryModel c in
      call_ok (with_error mapDBError
        (Updates (catalog_categories db) (Where ''id = ?'' [SQLUint (category.ID c)] all_rows)
          [(''name'', SQLText (category_model.Name model)),
           (''slug'', SQLText (category_model.Slug model)),
           (''description'', SQLText (category_model.Description model)),
           (''parent_id'', case category_model.ParentID model of None \<Rightarrow> SQLNull | Some p \<Rightarrow> SQLUint p),
           (''is_active'', SQLBool (category_model.IsActive model)),
           (''sort_order'', SQLInt (category_model.SortOrder model)),
           (''updated_at'', SQLTime now)])) (\<lambda>rowsAffected.
      if rowsAffected = 0 then err ErrCategoryNotFound
      else Postgres_GetCategoryByID db (category.ID c)))"

definition Postgres_DeleteCategory :: "'d gorm_db \<Rightarrow> nat \<Rightarrow> ('d, catalog_error, unit) call" where
  "Postgres_DeleteCategory db i =
     call_ok (with_error ErrDB (Delete (catalog_categories db) (by_key i))) (\<lambda>rowsAffected.
       if rowsAffected = 0 then err ErrCategoryNotFound else ok ())"

text \<open>The conditions of \<open>ListCategories\<close>.\<close>

definition categories_query :: "category_filter \<Rightarrow> query" where
  "categories_query f =
     (let q1 = (case category_filter.ParentID f of None \<Rightarrow> all_rows
                | Some p \<Rightarrow> Where ''parent_id = ?'' [SQLUint p] all_rows);
          q2 = (case category_filter.IsActive f of None \<Rightarrow> q1
                | Some b \<Rightarrow> Where ''is_active = ?'' [SQLBool b] q1) in
      if category_filter.Search f \<noteq> [] then
        let pattern = ''%'' @ category_filter.Search f @ ''%'' in
        Where ''name ILIKE ? OR slug ILIKE ?'' [SQLText pattern, SQLText pattern] q2
      else q2)"

definition Postgres_ListCategories ::
  "'d gorm_db \<Rightarrow> category_filter \<Rightarrow> ('d, catalog_error, category list \<times> int) call" where
  "Postgres_ListCategories db f =
     (let q = categories_query f in
      call_ok (with_error ErrDB (Count (catalog_categories db) q)) (\<lambda>total.
      call_ok (with_error ErrDB (Find (catalog_categories db)
        (paginate (normalizePagination (category_filter.Page f) (category_filter.PageSize f))
          (q\<lparr>Order := [''sort_order ASC, id ASC'']\<rparr>)))) (\<lambda>models.
      ok (map toCategoryDomain models, total))))"

section \<open>Products\<close>

text \<open>The preloads of \<open>GetProductByID\<close> and \<open>ListProducts\<close>.\<close>

definition with_children :: "query \<Rightarrow> query" where
  "with_children q = q\<lparr>Preloads := [(''Images'', ''sort_order ASC, id ASC''),
     (''SKUs'', ''id ASC''), (''Attributes'', ''id ASC'')]\<rparr>"

definition Postgres_GetProductByID ::
  "'d gorm_db \<Rightarrow> nat \<Rightarrow> ('d, catalog_error, product) call" where
  "Postgres_GetProductByID db i =
     call_ok (with_error (orNotFound ErrProductNotFound)
       (First (catalog_products db) (with_children (by_key i))))
       (\<lambda>model. ok (toProductDomain model))"

text \<open>A non-empty list of rows is written in one statement.\<close>

definition createRows ::
  "(db_error \<Rightarrow> catalog_error) \<Rightarrow> ('d, 'm) gorm_table \<Rightarrow> 'm list \<Rightarrow> ('d, catalog_error, unit) call" where
  "createRows f tbl rows =
     (if rows = [] then ok ()
      else call_ok (with_error f (CreateAll tbl rows)) (\<lambda>_. ok ()))"

definition ownedImages :: "nat \<Rightarrow> product_image list \<Rightarrow> product_image_model list" where
  "ownedImages pid images = map (\<lambda>i. toProductImageModel (i\<lparr>product_image.ProductID := pid\<rparr>)) images"

definition ownedSKUs :: "nat \<Rightarrow> product_sku list \<Rightarrow> product_sku_model list" where
  "ownedSKUs pid skus = map (\<lambda>s. toProductSKUModel (s\<lparr>product_sku.ProductID := pid\<rparr>)) skus"

definition ownedAttributes :: "nat \<Rightarrow> product_attribute list \<Rightarrow> product_attribute_model list" where
  "ownedAttributes pid attributes =
     map (\<lambda>a. toProductAttributeModel (a\<lparr>product_attribute.ProductID := pid\<rparr>)) attributes"

text \<open>The function \<open>CreateProduct\<close> runs in a transaction, and the method.\<close>

definition createProduct_tx :: "'d gorm_db \<Rightarrow> product \<Rightarrow> ('d, catalog_error, nat) call" where
  "createProduct_tx db p =
     call_ok (with_error mapDBError (Create (catalog_products db) (toProductModel p))) (\<lambda>model.
     let pid = product_model.ID model in
     call_ok (createRows mapDBError (catalog_product_images db) (ownedImages pid (product.Images p))) (\<lambda>_.
     call_ok (createRows mapDBError (catalog_skus db) (ownedSKUs pid (product.SKUs p))) (\<lambda>_.
     call_ok (createRows mapDBError (catalog_product_attributes db)
       (ownedAttributes pid (product.Attributes p))) (\<lambda>_. ok pid))))"

definition Postgres_CreateProduct ::
  "'d gorm_db \<Rightarrow> product \<Rightarrow> ('d, catalog_error, product) call" where
  "Postgres_CreateProduct db p =
     call_ok (Transaction db (createProduct_tx db p)) (\<lambda>pid. Postgres_GetProductByID db pid)"

definition owned_by :: "nat \<Rightarrow> query" where
  "owned_by pid = Where ''product_id = ?'' [SQLUint pid] all_rows"

text \<open>The rows of a child table are replaced by new ones.\<close>

definition replaceRows ::
  "(db_error \<Rightarrow> catalog_error) \<Rightarrow> ('d, 'm) gorm_table \<Rightarrow> nat \<Rightarrow> 'm list \<Rightarrow> ('d, catalog_error, unit) call" where
  "replaceRows f tbl pid rows =
     call_ok (with_error ErrDB (Delete tbl (owned_by pid))) (\<lambda>_. createRows f tbl rows)"

text \<open>The columns \<open>UpdateProduct\<close> writes.\<close>

definition product_columns :: "time \<Rightarrow> product_model \<Rightarrow> (string \<times> sql_value) list" where
  "product_columns now model =
     [(''category_id'', SQLUint (product_model.CategoryID model)),
      (''name'', SQLText (product_model.Name model)),
      (''slug'', SQLText (product_model.Slug model)),
      (''description'', SQLText (product_model.Description model)),
      (''status'', SQLText (product_model.Status model)),
      (''fabric_summary'', SQLText (product_model.FabricSummary model)),
      (''wash_care'', SQLText (product_model.WashCare model)),
      (''durability_notes'', SQLText (product_model.DurabilityNotes model)),
      (''updated_at'', SQLTime now)]"

definition updateProduct_tx :: "'d gorm_db \<Rightarrow> time \<Rightarrow> product \<Rightarrow> ('d, catalog_error, nat) call" where
  "updateProduct_tx db now p =
     (let pid = product.ID p in
      call_ok (with_error mapDBError (Updates (catalog_products db)
        (Where ''id = ?'' [SQLUint pid] all_rows) (product_columns now (toProductModel p)))) (\<lambda>rowsAffected.
      if rowsAffected = 0 then err ErrProductNotFound
      else
        call_ok (replaceRows mapDBError (catalog_product_images db) pid
          (ownedImages pid (product.Images p))) (\<lambda>_.
        call_ok (replaceRows mapDBError (catalog_skus db) pid
          (ownedSKUs pid (product.SKUs p))) (\<lambda>_.
        call_ok (replaceRows mapDBError (catalog_product_attributes db) pid
          (ownedAttributes pid (product.Attributes p))) (\<lambda>_. ok 0)))))"

definition Postgres_UpdateProduct ::
  "'d gorm_db \<Rightarrow> time \<Rightarrow> product \<Rightarrow> ('d, catalog_error, product) call" where
  "Postgres_UpdateProduct db now p =
     call_ok (Transaction db (updateProduct_tx db now p))
       (\<lambda>_. Postgres_GetProductByID db (product.ID p))"

definition Postgres_DeleteProduct :: "'d gorm_db \<Rightarrow> nat \<Rightarrow> ('d, catalog_error, unit) call" where
  "Postgres_DeleteProduct db i =
     call_ok (with_error ErrDB (Delete (catalog_products db) (by_key i))) (\<lambda>rowsAffected.
       if rowsAffected = 0 then err ErrProductNotFound else ok ())"

definition joins_skus :: "product_filter \<Rightarrow> bool" where
  "joins_skus f \<longleftrightarrow> product_filter.Size f \<noteq> [] \<or> product_filter.Color f \<noteq> [] \<or>
     product_filter.MinPrice f \<noteq> None \<or> product_filter.MaxPrice f \<noteq> None \<or>
     product_filter.Sort f = ''price_asc'' \<or> product_filter.Sort f = ''price_desc''"

text \<open>The conditions of \<open>ListProducts\<close>, added in order.\<close>

definition products_query :: "product_filter \<Rightarrow> query" where
  "products_query f =
     (let pattern = ''%'' @ product_filter.Search f @ ''%'' in
      all_rows
      \<lparr>Joins := (if joins_skus f
         then [''LEFT JOIN catalog_skus ON catalog_skus.product_id = catalog_products.id''] else []),
       Wheres :=
         (case product_filter.CategoryID f of None \<Rightarrow> []
          | Some c \<Rightarrow> [(''catalog_products.category_id = ?'', [SQLUint c])]) @
         (case product_filter.Status f of None \<Rightarrow> []
          | Some st \<Rightarrow> [(''catalog_products.status = ?'', [SQLText st])]) @
         (if product_filter.Search f = [] then []
          else [(''catalog_products.name ILIKE ? OR catalog_products.slug ILIKE ?'',
            [SQLText pattern, SQLText pattern])]) @
         (if product_filter.Size f = [] then []
          else [(''catalog_skus.size = ?'', [SQLText (product_filter.Size f)])]) @
         (if product_filter.Color f = [] then []
          else [(''catalog_skus.color = ?'', [SQLText (product_filter.Color f)])]) @
         (case product_filter.MinPrice f of None \<Rightarrow> []
          | Some x \<Rightarrow> [(''catalog_skus.selling_amount >= ?'', [SQLInt x])]) @
         (case product_filter.MaxPrice f of None \<Rightarrow> []
          | Some x \<Rightarrow> [(''catalog_skus.selling_amount <= ?'', [SQLInt x])]),
       DistinctOn := [''catalog_products.id'']\<rparr>)"

definition products_order :: "string \<Rightarrow> string" where
  "products_order srt =
     (if srt = ''oldest'' then ''catalog_products.created_at ASC''
      else if srt = ''price_asc''
      then ''catalog_skus.selling_amount ASC NULLS LAST, catalog_products.created_at DESC''
      else if srt = ''price_desc''
      then ''catalog_skus.selling_amount DESC NULLS LAST, catalog_products.created_at DESC''
      else ''catalog_products.created_at DESC'')"

definition Postgres_ListProducts ::
  "'d gorm_db \<Rightarrow> product_filter \<Rightarrow> ('d, catalog_error, product list \<times> int) call" where
  "Postgres_ListProducts db f =
     (let q = products_query f in
      call_ok (with_error ErrDB (Count (catalog_products db) q)) (\<lambda>total.
      call_ok (with_error ErrDB (Find (catalog_products db)
        (paginate (normalizePagination (product_filter.Page f) (product_filter.PageSize f))
          ((with_children q)\<lparr>Order := [products_order (product_filter.Sort f)]\<rparr>)))) (\<lambda>models.
      ok (map toProductDomain models, total))))"

section \<open>Units, images, attributes and jobs\<close>

definition Postgres_CreateSKU ::
  "'d gorm_db \<Rightarrow> product_sku \<Rightarrow> ('d, catalog_error, product_sku) call" where
  "Postgres_CreateSKU db s =
     call_ok (with_error mapDBError (Create (catalog_skus db) (toProductSKUModel s)))
       (\<lambda>model. ok (toProductSKUDomain model))"

definition Postgres_UpdateSKU ::
  "'d gorm_db \<Rightarrow> time \<Rightarrow> product_sku \<Rightarrow> ('d, catalog_error, product_sku) call" where
  "Postgres_UpdateSKU db now s =
     (let model = toProductSKUModel s in
      call_ok (with_error mapDBError
        (Updates (catalog_skus db) (Where ''id = ?'' [SQLUint (product_sku.ID s)] all_rows)
          [(''size'', SQLText (product_sku_model.Size model)),
           (''color'', SQLText (product_sku_model.Color model)),
           (''mrp_amount'', SQLInt (product_sku_model.MRPAmount model)),
           (''selling_amount'', SQLInt (product_sku_model.SellingAmount model)),
           (''currency'', SQLText (product_sku_model.Currency model)),
           (''is_active'', SQLBool (product_sku_model.IsActive model)),
           (''updated_at'', SQLTime now)])) (\<lambda>rowsAffected.
      if rowsAffected = 0 then err ErrSKUNotFound
      else call_ok (with_error (orNotFound ErrSKUNotFound)
             (First (catalog_skus db) (by_key (product_sku.ID s))))
           (\<lambda>out. ok (toProductSKUDomain out))))"

definition Postgres_DeleteSKU :: "'d gorm_db \<Rightarrow> nat \<Rightarrow> ('d, catalog_error, unit) call" where
  "Postgres_DeleteSKU db i =
     call_ok (with_error ErrDB (Delete (catalog_skus db) (by_key i))) (\<lambda>rowsAffected.
       if rowsAffected = 0 then err ErrSKUNotFound else ok ())"

definition Postgres_ListProductSKUs ::
  "'d gorm_db \<Rightarrow> nat \<Rightarrow> ('d, catalog_error, product_sku list) call" where
  "Postgres_ListProductSKUs db pid =
     call_ok (with_error ErrDB (Find (catalog_skus db) ((owned_by pid)\<lparr>Order := [''id ASC'']\<rparr>)))
       (\<lambda>models. ok (map toProductSKUDomain models))"

definition Postgres_ReplaceProductImages ::
  "'d gorm_db \<Rightarrow> nat \<Rightarrow> product_image list \<Rightarrow> ('d, catalog_error, unit) call" where
  "Postgres_ReplaceProductImages db pid images =
     call_ok (Transaction db
       (call_ok (replaceRows ErrDB (catalog_product_images db) pid (ownedImages pid images))
         (\<lambda>_. ok 0))) (\<lambda>_. ok ())"

definition Postgres_ReplaceProductAttributes ::
  "'d gorm_db \<Rightarrow> nat \<Rightarrow> product_attribute list \<Rightarrow> ('d, catalog_error, unit) call" where
  "Postgres_ReplaceProductAttributes db pid attributes =
     call_ok (Transaction db
       (call_ok (replaceRows ErrDB (catalog_product_attributes db) pid (ownedAttributes pid attributes))
         (\<lambda>_. ok 0))) (\<lambda>_. ok ())"

definition Postgres_CreateBulkUploadJob ::
  "'d gorm_db \<Rightarrow> bulk_upload_job \<Rightarrow> ('d, catalog_error, bulk_upload_job) call" where
  "Postgres_CreateBulkUploadJob db j =
     call_ok (with_error ErrDB (Create (catalog_bulk_upload_jobs db) (toBulkUploadJobModel j)))
       (\<lambda>model. ok (toBulkUploadJobDomain model))"

definition Postgres_GetBulkUploadJobByID ::
  "'d gorm_db \<Rightarrow> nat \<Rightarrow> ('d, catalog_error, bulk_upload_job) call" where
  "Postgres_GetBulkUploadJobByID db i =
     call_ok (with_error (orNotFound ErrJobNotFound) (First (catalog_bulk_upload_jobs db) (by_key i)))
       (\<lambda>model. ok (toBulkUploadJobDomain model))"

definition Postgres_UpdateBulkUploadJob ::
  "'d gorm_db \<Rightarrow> time \<Rightarrow> bulk_upload_job \<Rightarrow> ('d, catalog_error, bulk_upload_job) call" where
  "Postgres_UpdateBulkUploadJob db now j =
     (let model = toBulkUploadJobModel j in
      call_ok (with_error ErrDB
        (Updates (catalog_bulk_upload_jobs db) (Where ''id = ?'' [SQLUint (bulk_upload_job.ID j)] all_rows)
          [(''status'', SQLText (bulk_upload_job_model.Status model)),
           (''total_rows'', SQLInt (bulk_upload_job_model.TotalRows model)),
           (''success_rows'', SQLInt (bulk_upload_job_model.SuccessRows model)),
           (''failed_rows'', SQLInt (bulk_upload_job_model.FailedRows model)),
           (''error_report_url'', SQLText (bulk_upload_job_model.ErrorReportURL model)),
           (''updated_at'', SQLTime now)])) (\<lambda>rowsAffected.
      if rowsAffected = 0 then err ErrJobNotFound
      else Postgres_GetBulkUploadJobByID db (bulk_upload_job.ID j)))"

definition Postgres_GetProductAvailability ::
  "'d gorm_db \<Rightarrow> nat \<Rightarrow> ('d, catalog_error, product_availability) call" where
  "Postgres_GetProductAvailability db pid =
     call_ok (with_error ErrDB (Count (catalog_skus db)
       (Where ''product_id = ? AND is_active = ?'' [SQLUint pid, SQLBool True] all_rows))) (\<lambda>total.
     let available = int64 total in
     ok \<lparr>product_availability.ProductID = pid, InStock = 0 < available,
         AvailableSKUs = available, TotalActiveSKU = available\<rparr>)"

text \<open>The repository as seen through the interface, at a reading of the clock.\<close>

definition NewPostgresRepository :: "'d gorm_db \<Rightarrow> time \<Rightarrow> 'd catalog_repository" where
  "NewPostgresRepository db now =
     \<lparr>CreateCategory = Postgres_CreateCategory db, GetCategoryByID = Postgres_GetCategoryByID db,
      UpdateCategory = Postgres_UpdateCategory db now, DeleteCategory = Postgres_DeleteCategory db,
      ListCategories = Postgres_ListCategories db, CreateProduct = Postgres_CreateProduct db,
      GetProductByID = Postgres_GetProductByID db, UpdateProduct = Postgres_UpdateProduct db now,
      DeleteProduct = Postgres_DeleteProduct db, ListProducts = Postgres_ListProducts db,
      CreateSKU = Postgres_CreateSKU db, UpdateSKU = Postgres_UpdateSKU db now,
      DeleteSKU = Postgres_DeleteSKU db, ListProductSKUs = Postgres_ListProductSKUs db,
      ReplaceProductImages = Postgres_ReplaceProductImages db,
      ReplaceProductAttributes = Postgres_ReplaceProductAttributes db,
      CreateBulkUploadJob = Postgres_CreateBulkUploadJob db,
      UpdateBulkUploadJob = Postgres_UpdateBulkUploadJob db now,
      GetBulkUploadJobByID = Postgres_GetBulkUploadJobByID db,
      GetProductAvailability = Postgres_GetProductAvailability db\<rparr>"


section \<open>What the database promises\<close>

text \<open>
  The rows of a product and its children, in the order of their insertion.
\<close>

record catalog_rows =
  product_rows :: "product_model list"
  image_rows :: "product_image_model list"
  sku_rows :: "product_sku_model list"
  attribute_rows :: "product_attribute_model list"

text \<open>
  A row without the columns the database fills in, and a row after the defaults of its
  columns have replaced zero values: \<open>gorm\<close> does so for a column with a \<open>default\<close> tag on
  every insertion, which for the unit's \<open>IsActive\<close> (\<open>default:true\<close>) means \<open>true\<close>
  whatever the value.
\<close>

definition image_content :: "product_image_model \<Rightarrow> product_image_model" where
  "image_content m = m\<lparr>product_image_model.ID := 0, product_image_model.CreatedAt := 0,
     product_image_model.UpdatedAt := 0\<rparr>"

definition sku_content :: "product_sku_model \<Rightarrow> product_sku_model" where
  "sku_content m = m\<lparr>product_sku_model.ID := 0, product_sku_model.CreatedAt := 0,
     product_sku_model.UpdatedAt := 0\<rparr>"

definition attribute_content :: "product_attribute_model \<Rightarrow> product_attribute_model" where
  "attribute_content m = m\<lparr>product_attribute_model.ID := 0, product_attribute_model.CreatedAt := 0,
     product_attribute_model.UpdatedAt := 0\<rparr>"

definition sku_stored :: "product_sku_model \<Rightarrow> product_sku_model" where
  "sku_stored m = m\<lparr>product_sku_model.Currency :=
       (if product_sku_model.Currency m = [] then ''INR'' else product_sku_model.Currency m),
     product_sku_model.IsActive := True\<rparr>"

definition product_content :: "product_model \<Rightarrow> product_model" where
  "product_content m = m\<lparr>product_model.ID := 0, product_model.CreatedAt := 0, product_model.UpdatedAt := 0\<rparr>"

definition product_stored :: "product_model \<Rightarrow> product_model" where
  "product_stored m = m\<lparr>product_model.Status :=
     (if product_model.Status m = [] then ''draft'' else product_model.Status m)\<rparr>"

text \<open>
  The columns of \<open>catalog_products\<close> and the fields they are stored from, by the naming rule of
  \<open>gorm\<close>; rows that are marked as deleted are out of reach of its updates.
\<close>

definition write_column :: "string \<times> sql_value \<Rightarrow> product_model \<Rightarrow> product_model" where
  "write_column cv m = (case cv of
     (col, SQLUint n) \<Rightarrow> if col = ''category_id'' then m\<lparr>product_model.CategoryID := n\<rparr> else m
   | (col, SQLTime t) \<Rightarrow> if col = ''updated_at'' then m\<lparr>product_model.UpdatedAt := t\<rparr> else m
   | (col, SQLText v) \<Rightarrow>
       if col = ''name'' then m\<lparr>product_model.Name := v\<rparr>
       else if col = ''slug'' then m\<lparr>product_model.Slug := v\<rparr>
       else if col = ''description'' then m\<lparr>product_model.Description := v\<rparr>
       else if col = ''status'' then m\<lparr>product_model.Status := v\<rparr>
       else if col = ''fabric_summary'' then m\<lparr>product_model.FabricSummary := v\<rparr>
       else if col = ''wash_care'' then m\<lparr>product_model.WashCare := v\<rparr>
       else if col = ''durability_notes'' then m\<lparr>product_model.DurabilityNotes := v\<rparr>
       else m
   | _ \<Rightarrow> m)"

definition live :: "nat \<Rightarrow> product_model \<Rightarrow> bool" where
  "live pid m \<longleftrightarrow> product_model.ID m = pid \<and> product_model.DeletedAt m = None"

text \<open>
  The documented behaviour of \<open>gorm\<close> on the tables: a deletion by owner removes the rows of
  that owner, an insertion adds rows with the given contents, an update by key writes the
  given columns of the row with that key, and a read changes nothing.
\<close>

definition deletes_owned ::
  "('d, 'm) gorm_table \<Rightarrow> ('d \<Rightarrow> catalog_rows) \<Rightarrow> (('m list \<Rightarrow> 'm list) \<Rightarrow> catalog_rows \<Rightarrow> catalog_rows) \<Rightarrow>
     ('m \<Rightarrow> nat) \<Rightarrow> bool" where
  "deletes_owned tbl view upd owner \<longleftrightarrow> (\<forall>pid d n d'.
     run_state (Delete tbl (owned_by pid)) d = (Inr n, d') \<longrightarrow>
     view d' = upd (filter (\<lambda>m. owner m \<noteq> pid)) (view d))"

definition inserts ::
  "('d, 'm) gorm_table \<Rightarrow> ('d \<Rightarrow> catalog_rows) \<Rightarrow> (('m list \<Rightarrow> 'm list) \<Rightarrow> catalog_rows \<Rightarrow> catalog_rows) \<Rightarrow>
     ('m \<Rightarrow> 'm) \<Rightarrow> ('m \<Rightarrow> 'm) \<Rightarrow> bool" where
  "inserts tbl view upd content stored \<longleftrightarrow> (\<forall>ms ms' d d'.
     run_state (CreateAll tbl ms) d = (Inr ms', d') \<longrightarrow>
     (\<exists>new. map content new = map (content \<circ> stored) ms \<and> view d' = upd (\<lambda>rows. rows @ new) (view d)))"

definition tables_ok :: "'d gorm_db \<Rightarrow> ('d \<Rightarrow> catalog_rows) \<Rightarrow> bool" where
  "tables_ok db view \<longleftrightarrow>
     deletes_owned (catalog_product_images db) view image_rows_update product_image_model.ProductID \<and>
     deletes_owned (catalog_skus db) view sku_rows_update product_sku_model.ProductID \<and>
     deletes_owned (catalog_product_attributes db) view attribute_rows_update product_attribute_model.ProductID \<and>
     inserts (catalog_product_images db) view image_rows_update image_content id \<and>
     inserts (catalog_skus db) view sku_rows_update sku_content sku_stored \<and>
     inserts (catalog_product_attributes db) view attribute_rows_update attribute_content id \<and>
     (\<forall>pid cols d n d'. run_state (Updates (catalog_products db) (Where ''id = ?'' [SQLUint pid] all_rows) cols) d =
        (Inr n, d') \<longrightarrow>
        view d' = (view d)\<lparr>product_rows :=
          map (\<lambda>m. if live pid m then fold write_column cols m else m) (product_rows (view d))\<rparr>) \<and>
     (\<forall>m d m' d'. run_state (Create (catalog_products db) m) d = (Inr m', d') \<longrightarrow>
        product_content m' = product_content (product_stored m) \<and>
        view d' = (view d)\<lparr>product_rows := product_rows (view d) @ [m']\<rparr>) \<and>
     (\<forall>q. keeps (\<lambda>d d'. view d' = view d) (First (catalog_products db) q))"

text \<open>Inserting rows, none or some.\<close>

lemma createRows_Inr:
  assumes "inserts tbl view upd content stored" and "run_state (createRows f tbl ms) d = (Inr u, d')"
    and "\<And>v. upd (\<lambda>rows. rows @ []) v = v"
  obtains new where "map content new = map (content \<circ> stored) ms" "view d' = upd (\<lambda>rows. rows @ new) (view d)"
proof (cases "ms = []")
  case True
  with assms(2,3) that [of "[]"] show thesis by (simp add: createRows_def)
next
  case False
  with assms(2) obtain ms' where "run_state (CreateAll tbl ms) d = (Inr ms', d')"
    by (auto simp: createRows_def go_result)
  with assms(1) that show thesis unfolding inserts_def by blast
qed

lemma replaceRows_Inr:
  assumes "deletes_owned tbl view upd owner" and "inserts tbl view upd content stored"
    and "run_state (replaceRows f tbl pid ms) d = (Inr u, d')"
    and "\<And>v. upd (\<lambda>rows. rows @ []) v = v"
    and "\<And>g h v. upd g (upd h v) = upd (\<lambda>r. g (h r)) v"
  obtains new where "map content new = map (content \<circ> stored) ms"
    "view d' = upd (\<lambda>rows. filter (\<lambda>m. owner m \<noteq> pid) rows @ new) (view d)"
proof -
  from assms(3) obtain n d1 where d: "run_state (Delete tbl (owned_by pid)) d = (Inr n, d1)"
    and c: "run_state (createRows f tbl ms) d1 = (Inr u, d')"
    by (auto simp: replaceRows_def go_result)
  from d assms(1) have "view d1 = upd (filter (\<lambda>m. owner m \<noteq> pid)) (view d)"
    unfolding deletes_owned_def by blast
  moreover obtain new where "map content new = map (content \<circ> stored) ms"
    "view d' = upd (\<lambda>rows. rows @ new) (view d1)"
    by (rule createRows_Inr [OF assms(2) c assms(4)])
  ultimately show thesis using that assms(5) by simp
qed

lemma tables_okD:
  assumes "tables_ok db view"
  shows "deletes_owned (catalog_product_images db) view image_rows_update product_image_model.ProductID"
    "deletes_owned (catalog_skus db) view sku_rows_update product_sku_model.ProductID"
    "deletes_owned (catalog_product_attributes db) view attribute_rows_update product_attribute_model.ProductID"
    "inserts (catalog_product_images db) view image_rows_update image_content id"
    "inserts (catalog_skus db) view sku_rows_update sku_content sku_stored"
    "inserts (catalog_product_attributes db) view attribute_rows_update attribute_content id"
  using assms by (simp_all only: tables_ok_def)

text \<open>The children of a product after they have been written.\<close>

definition children_of :: "nat \<Rightarrow> product \<Rightarrow> product_image_model list \<Rightarrow> product_sku_model list \<Rightarrow>
    product_attribute_model list \<Rightarrow> bool" where
  "children_of pid p i s a \<longleftrightarrow>
     map image_content i = map image_content (ownedImages pid (product.Images p)) \<and>
     map sku_content s = map (sku_content \<circ> sku_stored) (ownedSKUs pid (product.SKUs p)) \<and>
     map attribute_content a = map attribute_content (ownedAttributes pid (product.Attributes p))"

lemma GetProductByID_reads:
  assumes "tables_ok db view" and "run_state (Postgres_GetProductByID db i) d = (r, d')"
  shows "view d' = view d"
proof -
  have k: "keeps (\<lambda>d d'. view d' = view d) (First (catalog_products db) (with_children (by_key i)))"
    using assms(1) by (simp add: tables_ok_def)
  obtain x e where x: "run_state (First (catalog_products db) (with_children (by_key i))) d = (x, e)"
    by fastforce
  from keepsD [OF k x] assms(2) x show ?thesis
    by (auto simp: Postgres_GetProductByID_def go_eval split: sum.splits)
qed

text \<open>The row of a product after its columns have been written.\<close>

definition updated_row :: "time \<Rightarrow> product \<Rightarrow> product_model \<Rightarrow> product_model" where
  "updated_row now p m = m\<lparr>product_model.CategoryID := product.CategoryID p,
     product_model.Name := product.Name p, product_model.Slug := product.Slug p,
     product_model.Description := product.Description p, product_model.Status := product.Status p,
     product_model.FabricSummary := product.FabricSummary p,
     product_model.WashCare := product.WashCare p,
     product_model.DurabilityNotes := product.DurabilityNotes p,
     product_model.UpdatedAt := now\<rparr>"

lemma fold_product_columns:
  "fold write_column (product_columns now (toProductModel p)) m = updated_row now p m"
  by (simp add: product_columns_def write_column_def toProductModel_def updated_row_def)

lemma UpdateProduct_body:
  assumes "tables_ok db view" and "run_state (updateProduct_tx db now p) d = (Inr x, d4)"
  obtains i s a where
    "view d4 = \<lparr>product_rows = map (\<lambda>m. if live (product.ID p) m then updated_row now p m else m)
         (product_rows (view d)),
       image_rows = filter (\<lambda>m. product_image_model.ProductID m \<noteq> (product.ID p)) (image_rows (view d)) @ i,
       sku_rows = filter (\<lambda>m. product_sku_model.ProductID m \<noteq> (product.ID p)) (sku_rows (view d)) @ s,
       attribute_rows = filter (\<lambda>m. product_attribute_model.ProductID m \<noteq> (product.ID p)) (attribute_rows (view d)) @ a\<rparr>"
    "children_of (product.ID p) p i s a"
proof -
  from assms(2) obtain n d1 u1 d2 u2 d3 u3 where
    u: "run_state (Updates (catalog_products db) (Where ''id = ?'' [SQLUint (product.ID p)] all_rows) (product_columns now (toProductModel p))) d = (Inr n, d1)"
    and i: "run_state (replaceRows mapDBError (catalog_product_images db) (product.ID p)
      (ownedImages (product.ID p) (product.Images p))) d1 = (Inr u1, d2)"
    and s: "run_state (replaceRows mapDBError (catalog_skus db) (product.ID p)
      (ownedSKUs (product.ID p) (product.SKUs p))) d2 = (Inr u2, d3)"
    and a: "run_state (replaceRows mapDBError (catalog_product_attributes db) (product.ID p)
      (ownedAttributes (product.ID p) (product.Attributes p))) d3 = (Inr u3, d4)"
    by (auto simp: updateProduct_tx_def Let_def go_result split: if_splits)
  from u assms(1) have ps: "view d1 = (view d)\<lparr>product_rows :=
      map (\<lambda>m. if live (product.ID p) m then updated_row now p m else m) (product_rows (view d))\<rparr>"
    unfolding tables_ok_def fold_product_columns [symmetric] by blast
  obtain ni where ni: "map image_content ni = map (image_content \<circ> id) (ownedImages (product.ID p) (product.Images p))"
    "view d2 = image_rows_update (\<lambda>rows. filter (\<lambda>m. product_image_model.ProductID m \<noteq> (product.ID p)) rows @ ni) (view d1)"
    by (rule replaceRows_Inr [OF tables_okD(1,4) [OF assms(1)] i]) simp_all
  obtain ns where ns: "map sku_content ns = map (sku_content \<circ> sku_stored) (ownedSKUs (product.ID p) (product.SKUs p))"
    "view d3 = sku_rows_update (\<lambda>rows. filter (\<lambda>m. product_sku_model.ProductID m \<noteq> (product.ID p)) rows @ ns) (view d2)"
    by (rule replaceRows_Inr [OF tables_okD(2,5) [OF assms(1)] s]) simp_all
  obtain na where na: "map attribute_content na =
      map (attribute_content \<circ> id) (ownedAttributes (product.ID p) (product.Attributes p))"
    "view d4 = attribute_rows_update (\<lambda>rows. filter (\<lambda>m. product_attribute_model.ProductID m \<noteq> (product.ID p)) rows @ na) (view d3)"
    by (rule replaceRows_Inr [OF tables_okD(3,6) [OF assms(1)] a]) simp_all
  show thesis
    by (rule that [of ni ns na]) (use ps ni ns na in \<open>simp_all add: children_of_def\<close>)
qed

lemma CreateProduct_body:
  assumes "tables_ok db view" and "run_state (createProduct_tx db p) d = (Inr x, d4)"
  obtains m i s a where
    "view d4 = \<lparr>product_rows = product_rows (view d) @ [m], image_rows = image_rows (view d) @ i,
       sku_rows = sku_rows (view d) @ s, attribute_rows = attribute_rows (view d) @ a\<rparr>"
    "product_model.ID m = x" "product_content m = product_content (product_stored (toProductModel p))"
    "children_of x p i s a"
proof -
  from assms(2) obtain m d1 u1 d2 u2 d3 u3 where
    u: "run_state (Create (catalog_products db) (toProductModel p)) d = (Inr m, d1)"
    and x: "product_model.ID m = x"
    and i: "run_state (createRows mapDBError (catalog_product_images db)
      (ownedImages x (product.Images p))) d1 = (Inr u1, d2)"
    and s: "run_state (createRows mapDBError (catalog_skus db)
      (ownedSKUs x (product.SKUs p))) d2 = (Inr u2, d3)"
    and a: "run_state (createRows mapDBError (catalog_product_attributes db)
      (ownedAttributes x (product.Attributes p))) d3 = (Inr u3, d4)"
    by (auto simp: createProduct_tx_def go_result Let_def)
  from u assms(1) have m: "view d1 = (view d)\<lparr>product_rows := product_rows (view d) @ [m]\<rparr>"
    and content: "product_content m = product_content (product_stored (toProductModel p))"
    unfolding tables_ok_def by blast+
  obtain ni where ni: "map image_content ni = map (image_content \<circ> id) (ownedImages x (product.Images p))"
    "view d2 = image_rows_update (\<lambda>rows. rows @ ni) (view d1)"
    by (rule createRows_Inr [OF tables_okD(4) [OF assms(1)] i]) simp_all
  obtain ns where ns: "map sku_content ns = map (sku_content \<circ> sku_stored) (ownedSKUs x (product.SKUs p))"
    "view d3 = sku_rows_update (\<lambda>rows. rows @ ns) (view d2)"
    by (rule createRows_Inr [OF tables_okD(5) [OF assms(1)] s]) simp_all
  obtain na where na: "map attribute_content na =
      map (attribute_content \<circ> id) (ownedAttributes x (product.Attributes p))"
    "view d4 = attribute_rows_update (\<lambda>rows. rows @ na) (view d3)"
    by (rule createRows_Inr [OF tables_okD(6) [OF assms(1)] a]) simp_all
  show thesis
    by (rule that [OF _ x content, of ni ns na]) (use m ni ns na in \<open>simp_all add: children_of_def\<close>)
qed

text \<open>A step in a transaction followed by a read-back.\<close>

lemma transaction_then_read:
  assumes "tables_ok db view" and "atomic (Transaction db) view"
    and "run_state (call_ok (Transaction db body) (\<lambda>x. Postgres_GetProductByID db (f x))) d = (r, d')"
  shows "(\<exists>e. r = Inl e) \<and> view d' = view d \<or>
    (\<exists>x d1. run_state body d = (Inr x, d1) \<and> view d' = view d1)"
proof -
  consider e d1 where "run_state (Transaction db body) d = (Inl e, d1)" "view d1 = view d"
    | x d1 where "run_state body d = (Inr x, d1)" "run_state (Transaction db body) d = (Inr x, d1)"
    using assms(2) unfolding atomic_def by blast
  then show ?thesis
  proof cases
    case 1
    with assms(3) show ?thesis by (auto simp: go_eval)
  next
    case 2
    with assms(3) have "run_state (Postgres_GetProductByID db (f x)) d1 = (r, d')" by (simp add: go_eval)
    from GetProductByID_reads [OF assms(1) this] 2(1) show ?thesis by blast
  qed
qed

lemma content_owner:
  "map sku_content s = map (sku_content \<circ> sku_stored) (ownedSKUs pid xs) \<Longrightarrow> m \<in> set s \<Longrightarrow>
     product_sku_model.ProductID m = pid \<and> product_sku_model.IsActive m"
proof -
  assume *: "map sku_content s = map (sku_content \<circ> sku_stored) (ownedSKUs pid xs)" and "m \<in> set s"
  then have "sku_content m \<in> set (map (sku_content \<circ> sku_stored) (ownedSKUs pid xs))"
    by (metis image_eqI list.set_map)
  then obtain y where "sku_content m = sku_content (sku_stored y)" "product_sku_model.ProductID y = pid"
    by (auto simp: ownedSKUs_def toProductSKUModel_def)
  then have "product_sku_model.ProductID (sku_content m) = pid" "product_sku_model.IsActive (sku_content m)"
    by (simp_all add: sku_content_def sku_stored_def)
  then show ?thesis by (simp add: sku_content_def)
qed

text \<open>A product is created with all of its children or not at all.\<close>

lemma CreateProduct_stored:
  assumes "tables_ok db view" and "atomic (Transaction db) view"
    and "run_state (Postgres_CreateProduct db p) d = (r, d')"
  shows "(\<exists>e. r = Inl e) \<and> view d' = view d \<or>
    (\<exists>m i s a. view d' = \<lparr>product_rows = product_rows (view d) @ [m], image_rows = image_rows (view d) @ i,
       sku_rows = sku_rows (view d) @ s, attribute_rows = attribute_rows (view d) @ a\<rparr> \<and>
     product_content m = product_content (product_stored (toProductModel p)) \<and>
     map image_content i = map image_content (ownedImages (product_model.ID m) (product.Images p)) \<and>
     map sku_content s = map (sku_content \<circ> sku_stored) (ownedSKUs (product_model.ID m) (product.SKUs p)) \<and>
     map attribute_content a =
       map attribute_content (ownedAttributes (product_model.ID m) (product.Attributes p)))"
  using transaction_then_read [OF assms(1,2) assms(3) [unfolded Postgres_CreateProduct_def]]
proof (elim disjE exE conjE)
  fix x d1
  assume body: "run_state (createProduct_tx db p) d = (Inr x, d1)"
    and v: "view d' = view d1"
  obtain m i s a where rows: "view d1 = \<lparr>product_rows = product_rows (view d) @ [m],
      image_rows = image_rows (view d) @ i, sku_rows = sku_rows (view d) @ s,
      attribute_rows = attribute_rows (view d) @ a\<rparr>"
    and x: "product_model.ID m = x"
    and content: "product_content m = product_content (product_stored (toProductModel p))"
      "children_of x p i s a"
    by (rule CreateProduct_body [OF assms(1) body])
  show ?thesis
    by (intro disjI2 exI conjI, unfold v, rule rows)
      (use x content in \<open>simp_all add: children_of_def\<close>)
qed blast

section \<open>A small database\<close>

text \<open>Tables as lists; a failed transaction restores all of them.\<close>

definition demo_table :: "(('m list \<Rightarrow> 'm list) \<Rightarrow> catalog_rows \<Rightarrow> catalog_rows) \<Rightarrow> ('m \<Rightarrow> nat) \<Rightarrow>
    ('m \<Rightarrow> 'm) \<Rightarrow> (catalog_rows, 'm) gorm_table" where
  "demo_table upd owner stored =
     \<lparr>Create = (\<lambda>m. State (\<lambda>d. (Inr (stored m), upd (\<lambda>rows. rows @ [stored m]) d))),
      CreateAll = (\<lambda>ms. State (\<lambda>d. (Inr (map stored ms), upd (\<lambda>rows. rows @ map stored ms) d))),
      First = (\<lambda>q. err RecordNotFound), Find = (\<lambda>q. ok []), Count = (\<lambda>q. ok 0),
      Updates = (\<lambda>q cols. ok 0),
      Delete = (\<lambda>q. case Wheres q of
          [(_, [SQLUint pid])] \<Rightarrow> State (\<lambda>d. (Inr 1, upd (filter (\<lambda>m. owner m \<noteq> pid)) d))
        | _ \<Rightarrow> err (DBError ''unsupported''))\<rparr>"

definition demo_products :: "(catalog_rows, product_model) gorm_table" where
  "demo_products =
     \<lparr>Create = (\<lambda>m. State (\<lambda>d.
        let m' = (product_stored m)\<lparr>product_model.ID := Suc (length (product_rows d))\<rparr> in
        (Inr m', d\<lparr>product_rows := product_rows d @ [m']\<rparr>))),
      CreateAll = (\<lambda>ms. err (DBError ''unsupported'')),
      First = (\<lambda>q. State (\<lambda>d.
        (case List.find (\<lambda>m. Some (product_model.ID m) = PrimaryKey q) (product_rows d) of
           None \<Rightarrow> Inl RecordNotFound
         | Some m \<Rightarrow> Inr (m\<lparr>product_model.SKUs :=
             filter (\<lambda>s. product_sku_model.ProductID s = product_model.ID m) (sku_rows d)\<rparr>), d))),
      Find = (\<lambda>q. State (\<lambda>d. (Inr (product_rows d), d))),
      Count = (\<lambda>q. State (\<lambda>d. (Inr (int (length (product_rows d))), d))),
      Updates = (\<lambda>q cols. case Wheres q of
          [(_, [SQLUint pid])] \<Rightarrow> State (\<lambda>d. (Inr (int (length (filter (live pid) (product_rows d)))),
            d\<lparr>product_rows := map (\<lambda>m. if live pid m then fold write_column cols m else m) (product_rows d)\<rparr>))
        | _ \<Rightarrow> err (DBError ''unsupported'')),
      Delete = (\<lambda>q. ok 0)\<rparr>"

definition demo_db :: "catalog_rows gorm_db" where
  "demo_db =
     \<lparr>catalog_categories = \<lparr>Create = (\<lambda>m. ok m), CreateAll = (\<lambda>ms. ok ms), First = (\<lambda>q. err RecordNotFound),
        Find = (\<lambda>q. ok []), Count = (\<lambda>q. ok 0), Updates = (\<lambda>q cols. ok 0), Delete = (\<lambda>q. ok 0)\<rparr>,
      catalog_products = demo_products,
      catalog_product_images = demo_table image_rows_update product_image_model.ProductID id,
      catalog_skus = demo_table sku_rows_update product_sku_model.ProductID sku_stored,
      catalog_product_attributes = demo_table attribute_rows_update product_attribute_model.ProductID id,
      catalog_bulk_upload_jobs = \<lparr>Create = (\<lambda>m. ok m), CreateAll = (\<lambda>ms. ok ms), First = (\<lambda>q. err RecordNotFound),
        Find = (\<lambda>q. ok []), Count = (\<lambda>q. ok 0), Updates = (\<lambda>q cols. ok 0), Delete = (\<lambda>q. ok 0)\<rparr>,
      Transaction = demo_transaction\<rparr>"

lemma demo_tables_ok: "tables_ok demo_db id"
  unfolding tables_ok_def
proof (intro conjI)
  show "\<forall>q. keeps (\<lambda>d d'. id d' = id d) (First (catalog_products demo_db) q)"
    by (simp add: keeps_def demo_db_def demo_products_def)
qed (force simp: demo_db_def demo_table_def demo_products_def deletes_owned_def inserts_def
    owned_by_def Where_def all_rows_def product_content_def product_stored_def Let_def)+

lemma demo_atomic: "atomic (Transaction demo_db) id"
  by (simp add: demo_db_def atomic_demo_transaction)

definition demo_unit :: product_sku where
  "demo_unit = \<lparr>product_sku.ID = 0, ProductID = 0, SKUCode = ''S1'', Size = ''M'', Color = ''red'',
     MRPAmount = 100, SellingAmount = 90, Currency = ''INR'', IsActive = False, CreatedAt = 0, UpdatedAt = 0\<rparr>"

definition demo_shirt :: product where
  "demo_shirt = \<lparr>product.ID = 1, CategoryID = 1, Name = ''Shirt'', Slug = ''shirt'', Description = [],
     Status = ''draft'', FabricSummary = [], WashCare = [], DurabilityNotes = [], CreatedAt = 0,
     UpdatedAt = 0, DeletedAt = None, Images = [], SKUs = [demo_unit], Attributes = []\<rparr>"

definition demo_rows :: catalog_rows where
  "demo_rows = \<lparr>product_rows = [toProductModel demo_shirt], image_rows = [], sku_rows = [], attribute_rows = []\<rparr>"

lemmas demo_dao = demo_db_def demo_table_def demo_products_def demo_transaction_def demo_rows_def
  Postgres_CreateProduct_def Postgres_UpdateProduct_def createProduct_tx_def updateProduct_tx_def
  Postgres_GetProductByID_def replaceRows_def
  createRows_def run_call_ok run_with_error owned_by_def Where_def all_rows_def by_key_def
  with_children_def demo_shirt_def demo_unit_def toProductModel_def toProductSKUModel_def
  ownedImages_def ownedSKUs_def ownedAttributes_def sku_stored_def product_stored_def
  product_columns_def write_column_def live_def Let_def

section \<open>Properties\<close>

text \<open>
  C25. A product is updated as a whole.  Whenever \<open>UpdateProduct\<close> ends, either it reports an
  error and no row has changed, or the row of the product has the new columns (the slug that
  the service chose, \<open>updated_at\<close>) unless it is marked as deleted, the images, units and
  attributes of the product are exactly those of the new version, and the rows of every
  other product are untouched.  The hypotheses are the documented behaviour of the
  database: deletions by owner, insertions with column defaults, and atomic transactions.
\<close>

theorem UpdateProduct_replaces_children:
  assumes "tables_ok db view" and "atomic (Transaction db) view"
    and "run_state (Postgres_UpdateProduct db now p) d = (r, d')"
  shows "(\<exists>e. r = Inl e) \<and> view d' = view d \<or>
    (\<exists>i s a. view d' = \<lparr>product_rows =
         map (\<lambda>m. if product_model.ID m = product.ID p \<and> product_model.DeletedAt m = None
           then m\<lparr>product_model.CategoryID := product.CategoryID p, product_model.Name := product.Name p,
             product_model.Slug := product.Slug p, product_model.Description := product.Description p,
             product_model.Status := product.Status p, product_model.FabricSummary := product.FabricSummary p,
             product_model.WashCare := product.WashCare p,
             product_model.DurabilityNotes := product.DurabilityNotes p, product_model.UpdatedAt := now\<rparr>
           else m) (product_rows (view d)),
       image_rows = filter (\<lambda>m. product_image_model.ProductID m \<noteq> product.ID p) (image_rows (view d)) @ i,
       sku_rows = filter (\<lambda>m. product_sku_model.ProductID m \<noteq> product.ID p) (sku_rows (view d)) @ s,
       attribute_rows = filter (\<lambda>m. product_attribute_model.ProductID m \<noteq> product.ID p)
         (attribute_rows (view d)) @ a\<rparr> \<and>
     map image_content i = map image_content (ownedImages (product.ID p) (product.Images p)) \<and>
     map sku_content s = map (sku_content \<circ> sku_stored) (ownedSKUs (product.ID p) (product.SKUs p)) \<and>
     map attribute_content a = map attribute_content (ownedAttributes (product.ID p) (product.Attributes p)))"
  using transaction_then_read [OF assms(1,2) assms(3) [unfolded Postgres_UpdateProduct_def]]
proof (elim disjE exE conjE)
  fix x d1
  assume body: "run_state (updateProduct_tx db now p) d = (Inr x, d1)"
    and v: "view d' = view d1"
  obtain i s a where rows: "view d1 = \<lparr>product_rows =
      map (\<lambda>m. if live (product.ID p) m then updated_row now p m else m) (product_rows (view d)),
      image_rows = filter (\<lambda>m. product_image_model.ProductID m \<noteq> product.ID p) (image_rows (view d)) @ i,
      sku_rows = filter (\<lambda>m. product_sku_model.ProductID m \<noteq> product.ID p) (sku_rows (view d)) @ s,
      attribute_rows = filter (\<lambda>m. product_attribute_model.ProductID m \<noteq> product.ID p)
        (attribute_rows (view d)) @ a\<rparr>"
    and content: "children_of (product.ID p) p i s a"
    by (rule UpdateProduct_body [OF assms(1) body])
  show ?thesis
    by (intro disjI2 exI conjI, unfold v, rule rows [unfolded live_def updated_row_def])
      (use content in \<open>simp_all add: children_of_def\<close>)
qed blast

lemma UpdateProduct_replaces_children_witness:
  "map sku_content (sku_rows (snd (run_state (Postgres_UpdateProduct demo_db 5 demo_shirt) demo_rows))) =
     [sku_content (sku_stored (toProductSKUModel (demo_unit\<lparr>product_sku.ProductID := 1\<rparr>)))]"
proof -
  obtain r d' where run: "run_state (Postgres_UpdateProduct demo_db 5 demo_shirt) demo_rows = (r, d')"
    by fastforce
  have "\<exists>q. r = Inr q" using run by (auto simp: demo_dao)
  with UpdateProduct_replaces_children [OF demo_tables_ok demo_atomic run] show ?thesis
    unfolding run by (auto simp: demo_rows_def ownedSKUs_def demo_shirt_def)
qed

text \<open>
  A product is created as a whole.  Whenever \<open>CreateProduct\<close> ends, either it reports an
  error and no row has changed, or one product row with the columns of the request (and the
  default status ``draft'' if it named none) was added together with exactly the images, units and attributes of the request, all of them owned by the new product.
\<close>

theorem CreateProduct_all_or_nothing:
  assumes "tables_ok db view" and "atomic (Transaction db) view"
    and "run_state (Postgres_CreateProduct db p) d = (r, d')"
  shows "(\<exists>e. r = Inl e) \<and> view d' = view d \<or>
    (\<exists>m i s a. view d' = \<lparr>product_rows = product_rows (view d) @ [m], image_rows = image_rows (view d) @ i,
       sku_rows = sku_rows (view d) @ s, attribute_rows = attribute_rows (view d) @ a\<rparr> \<and>
     product_content m = product_content (product_stored (toProductModel p)) \<and>
     map image_content i = map image_content (ownedImages (product_model.ID m) (product.Images p)) \<and>
     map sku_content s = map (sku_content \<circ> sku_stored) (ownedSKUs (product_model.ID m) (product.SKUs p)) \<and>
     map attribute_content a =
       map attribute_content (ownedAttributes (product_model.ID m) (product.Attributes p)))"
  by (rule CreateProduct_stored [OF assms])

lemma CreateProduct_all_or_nothing_witness:
  "\<exists>m. product_rows (snd (run_state (Postgres_CreateProduct demo_db demo_shirt) demo_rows)) =
     [toProductModel demo_shirt, m]"
proof -
  obtain r d' where run: "run_state (Postgres_CreateProduct demo_db demo_shirt) demo_rows = (r, d')"
    by fastforce
  have "\<exists>q. r = Inr q" using run by (auto simp: demo_dao)
  with CreateProduct_all_or_nothing [OF demo_tables_ok demo_atomic run] show ?thesis
    unfolding run by (auto simp: demo_rows_def)
qed

text \<open>
  A unit cannot be stored as inactive.  Because the column defaults to true, every unit of
  a product that \<open>UpdateProduct\<close> has written is active, whatever the request said.
\<close>

theorem UpdateProduct_activates_units:
  assumes "tables_ok db view" and "atomic (Transaction db) view"
    and "run_state (Postgres_UpdateProduct db now p) d = (Inr q, d')"
    and "m \<in> set (sku_rows (view d'))" and "product_sku_model.ProductID m = product.ID p"
  shows "product_sku_model.IsActive m"
  using transaction_then_read [OF assms(1,2) assms(3) [unfolded Postgres_UpdateProduct_def]]
proof (elim disjE exE conjE)
  fix x d1
  assume body: "run_state (updateProduct_tx db now p) d = (Inr x, d1)"
    and v: "view d' = view d1"
  obtain s where
    "sku_rows (view d1) = filter (\<lambda>m. product_sku_model.ProductID m \<noteq> product.ID p) (sku_rows (view d)) @ s"
    and s: "map sku_content s = map (sku_content \<circ> sku_stored) (ownedSKUs (product.ID p) (product.SKUs p))"
    by (rule UpdateProduct_body [OF assms(1) body]) (simp_all add: children_of_def that)
  with assms(4,5) v have "m \<in> set s" by auto
  from content_owner [OF s this] show ?thesis by simp
qed simp

lemma UpdateProduct_activates_units_witness:
  "\<not> product_sku.IsActive demo_unit \<and>
   (\<exists>m. sku_rows (snd (run_state (Postgres_UpdateProduct demo_db 5 demo_shirt) demo_rows)) = [m] \<and>
     product_sku_model.IsActive m)"
proof -
  obtain r d' where run: "run_state (Postgres_UpdateProduct demo_db 5 demo_shirt) demo_rows = (r, d')"
    by fastforce
  obtain q where q: "r = Inr q" using run by (auto simp: demo_dao)
  obtain m where m: "sku_rows d' = [m]" "product_sku_model.ProductID m = 1"
    using run by (auto simp: demo_dao)
  have "product_sku_model.IsActive m"
    by (rule UpdateProduct_activates_units [OF demo_tables_ok demo_atomic run [unfolded q]])
      (use m in \<open>simp_all add: demo_shirt_def\<close>)
  with m show ?thesis unfolding run by (simp add: demo_unit_def)
qed

text \<open>
  Conflicts of product slugs are never reported as such.  \<open>ErrProductSlugAlreadyExists\<close>
  needs a message that does not contain ``slug'', so the name of the unique index leads to
  the category error; and without that name (\<open>gorm.ErrDuplicatedKey\<close> itself, or an error the
  driver does not translate) the error is passed on as it is.
\<close>

theorem product_slug_conflict:
  "(mapDBError e = ErrProductSlugAlreadyExists \<longleftrightarrow>
     (\<exists>m. e = DuplicatedKey m \<and> contains m ''catalog_products'' \<and>
        \<not> contains m ''catalog_categories'' \<and> \<not> contains m ''slug'')) \<and>
   mapDBError (DuplicatedKey ''idx_catalog_products_slug'') = ErrCategorySlugAlreadyExists \<and>
   mapDBError (DuplicatedKey ''duplicated key not allowed'') =
     ErrDB (DuplicatedKey ''duplicated key not allowed'') \<and>
   mapDBError (DBError m) = ErrDB (DBError m)"
proof (intro conjI)
  show "mapDBError e = ErrProductSlugAlreadyExists \<longleftrightarrow>
     (\<exists>m. e = DuplicatedKey m \<and> contains m ''catalog_products'' \<and>
        \<not> contains m ''catalog_categories'' \<and> \<not> contains m ''slug'')"
    by (cases e) (simp_all add: mapDBError_def mapDuplicateError_def Let_def)
qed (simp_all add: mapDBError_def mapDuplicateError_def Let_def contains_def ToLower_plain plain_name_def HasPrefix_def)

text \<open>
  Pages are bounded and adjacent.  Whatever the request asks for, a list query fetches at
  most 100 rows, and as long as the page number stays below \<open>2 ^ 56\<close>, page \<open>n + 1\<close> starts where
  page \<open>n\<close> ends.  Beyond, the offset wraps around and can be negative.
\<close>

theorem pagination_bounded:
  assumes "Limit (paginate (normalizePagination page pageSize) q) = Some l"
    and "Offset (paginate (normalizePagination page pageSize) q) = Some ofs"
  shows "1 \<le> l \<and> l \<le> 100 \<and>
    (0 < page \<and> page < 2 ^ 56 \<longrightarrow> ofs = (page - 1) * l \<and>
      Offset (paginate (normalizePagination (page + 1) pageSize) q) = Some (ofs + l)) \<and>
    (page = 92233720368547760 \<and> 100 \<le> pageSize \<longrightarrow> ofs < 0)"
proof -
  have l: "l = (if pageSize \<le> 0 then 20 else if 100 < pageSize then 100 else pageSize)"
    using assms(1) by (auto simp: paginate_def normalizePagination_def Let_def)
  then have bounds: "1 \<le> l" "l \<le> 100" by auto
  have ofs: "ofs = int64 (int64 ((if page \<le> 0 then 1 else page) - 1) * l)"
    using assms by (auto simp: paginate_def normalizePagination_def Let_def)
  have exact: "int64 (int64 n * l) = n * l" if "0 \<le> n" "n \<le> 2 ^ 56" for n
  proof -
    have "int64 n = n" by (rule int64_small) (use that in simp_all)
    moreover have "n * l \<le> 2 ^ 56 * 100" using that bounds by (intro mult_mono) auto
    moreover have "0 \<le> n * l" using that bounds by simp
    ultimately show ?thesis by (simp add: int64_id min_int64_def max_int64_def)
  qed
  have "ofs = (page - 1) * l \<and> Offset (paginate (normalizePagination (page + 1) pageSize) q) = Some (ofs + l)"
    if "0 < page" "page < 2 ^ 56"
  proof -
    have "ofs = (page - 1) * l" using that ofs exact [of "page - 1"] by simp
    moreover have "Offset (paginate (normalizePagination (page + 1) pageSize) q) = Some (int64 (int64 page * l))"
      using that l by (simp add: paginate_def normalizePagination_def Let_def)
    ultimately show ?thesis using that exact [of page] by (simp add: algebra_simps)
  qed
  moreover have "ofs < 0" if "page = 92233720368547760" "100 \<le> pageSize"
  proof -
    have "l = 100" using that l by auto
    then show ?thesis using that ofs by (simp add: int64_def)
  qed
  ultimately show ?thesis using bounds by blast
qed

lemma pagination_bounded_witness:
  "Offset (paginate (normalizePagination 3 500) all_rows) = Some 200 \<and>
   Offset (paginate (normalizePagination 4 500) all_rows) = Some (200 + 100)"
proof -
  have "Limit (paginate (normalizePagination 3 500) all_rows) = Some 100"
    "Offset (paginate (normalizePagination 3 500) all_rows) = Some 200"
    by (simp_all add: paginate_def normalizePagination_def int64_def)
  from pagination_bounded [OF this] this(2) show ?thesis by simp
qed

end
