(* ===== verification/Http.thy ===== *)
theory Http
  imports Strconv
begin

text \<open>
  What the two HTTP packages share: requests and responses as \<open>gin\<close> presents them, the
  context of a request (\<open>requestctx/context.go\<close>), and the validation of request bodies
  (\<open>validation/\<close>).  Binding a body and checking its struct tags are the work of \<open>gin\<close> and of
  the validator library: a \<open>submission\<close> carries their results.
\<close>

section \<open>Request contexts\<close>

record metadata =
  RequestID :: string
  RequestStart :: time
  TraceParent :: string
  TraceState :: string

text \<open>The values of the four keys of the package, where they are set.\<close>

record request_context =
  request_id :: "string option"
  request_start :: "time option"
  trace_parent :: "string option"
  trace_state :: "string option"

definition background :: request_context where
  "background = \<lparr>request_id = None, request_start = None, trace_parent = None, trace_state = None\<rparr>"

definition WithMetadata :: "request_context \<Rightarrow> metadata \<Rightarrow> request_context" where
  "WithMetadata ctx0 m =
     (let ctx1 = (if RequestID m \<noteq> [] then ctx0\<lparr>request_id := Some (RequestID m)\<rparr> else ctx0);
          ctx2 = (if \<not> time_IsZero (RequestStart m) then ctx1\<lparr>request_start := Some (RequestStart m)\<rparr> else ctx1);
          ctx3 = (if TraceParent m \<noteq> [] then ctx2\<lparr>trace_parent := Some (TraceParent m)\<rparr> else ctx2) in
      if TraceState m \<noteq> [] then ctx3\<lparr>trace_state := Some (TraceState m)\<rparr> else ctx3)"

definition ctx_RequestID :: "request_context \<Rightarrow> string" where
  "ctx_RequestID ctx = (case request_id ctx of Some v \<Rightarrow> v | None \<Rightarrow> [])"

definition ctx_RequestStart :: "request_context \<Rightarrow> time" where
  "ctx_RequestStart ctx = (case request_start ctx of Some v \<Rightarrow> v | None \<Rightarrow> 0)"

definition ctx_TraceParent :: "request_context \<Rightarrow> string" where
  "ctx_TraceParent ctx = (case trace_parent ctx of Some v \<Rightarrow> v | None \<Rightarrow> [])"

definition ctx_TraceState :: "request_context \<Rightarrow> string" where
  "ctx_TraceState ctx = (case trace_state ctx of Some v \<Rightarrow> v | None \<Rightarrow> [])"

section \<open>Requests and responses\<close>

text \<open>
  \<open>Header\<close> is empty for an absent header and \<open>Cookie\<close> absent for a missing or malformed
  cookie, as \<open>GetHeader\<close> and \<open>Cookie\<close> of \<open>gin\<close> report them.
\<close>

record request =
  Header :: "string \<Rightarrow> string"
  Cookie :: "string \<Rightarrow> string option"
  Param :: "string \<Rightarrow> string"
  Query :: "string \<Rightarrow> string option"
  ClientIP :: string
  Context :: request_context

datatype same_site = SameSiteUnset | SameSiteDefaultMode | SameSiteLaxMode | SameSiteStrictMode | SameSiteNoneMode

record cookie =
  Name :: string
  Value :: string
  Path :: string
  Domain :: string
  MaxAge :: int
  HttpOnly :: bool
  Secure :: bool
  SameSite :: same_site

record 'b response =
  Status :: int
  Location :: "string option"
  SetCookies :: "cookie list"
  Body :: "'b option"

definition respond :: "int \<Rightarrow> 'b \<Rightarrow> 'b response" where
  "respond st b = \<lparr>Status = st, Location = None, SetCookies = [], Body = Some b\<rparr>"

definition respond_empty :: "int \<Rightarrow> 'b response" where
  "respond_empty st = \<lparr>Status = st, Location = None, SetCookies = [], Body = None\<rparr>"

record error_response =
  Error :: string
  RequestID :: string
  Details :: "string \<rightharpoonup> string"

definition requestIDFromContext :: "request \<Rightarrow> string" where
  "requestIDFromContext c =
     (let requestID = ctx_RequestID (Context c) in
      if requestID \<noteq> [] then requestID else Header c ''X-Request-ID'')"

section \<open>Validation\<close>

text \<open>A failed tag: the name of the field, its \<open>json\<close> tag, the tag that failed and its parameter.\<close>

record field_error =
  GoName :: string
  JsonTag :: string
  Tag :: string
  Param :: string

text \<open>
  The name the validator reports for a field, by the function \<open>engine\<close> registers: the part of
  the \<open>json\<close> tag before the first comma, unless it is empty or a dash.
\<close>

definition tag_name :: "string \<Rightarrow> string \<Rightarrow> string" where
  "tag_name json_tag go_name =
     (let name = takeWhile (\<lambda>ch. ch \<noteq> CHR '','') json_tag in
      if name = [] \<or> name = ''-'' then go_name else name)"

definition Field :: "field_error \<Rightarrow> string" where
  "Field e = tag_name (JsonTag e) (GoName e)"

text \<open>The outcome of the validator library on a struct.\<close>

datatype struct_check = StructValid | FieldErrors "field_error list" | StructUnusable string

text \<open>The error \<open>Validate\<close> returns: the map \<open>Errors\<close>, or the library's own.\<close>

datatype validation_error = Errors "string \<rightharpoonup> string" | LibraryError string

definition ErrValidationFailed :: string where
  "ErrValidationFailed = ''validation failed''"

definition Errors_add :: "string \<Rightarrow> string \<Rightarrow> (string \<rightharpoonup> string) \<Rightarrow> (string \<rightharpoonup> string)" where
  "Errors_add field message e =
     (if field = [] \<or> message = [] then e else e(field \<mapsto> message))"

text \<open>\<open>Errors\<close> reads as the sentinel error and is one with it; \<open>Messages\<close> is a copy of the map.\<close>

definition Errors_Error :: "(string \<rightharpoonup> string) \<Rightarrow> string" where
  "Errors_Error e = ErrValidationFailed"

definition Errors_Is :: "(string \<rightharpoonup> string) \<Rightarrow> string \<Rightarrow> bool" where
  "Errors_Is e target \<longleftrightarrow> target = ErrValidationFailed"

definition Errors_Messages :: "(string \<rightharpoonup> string) \<Rightarrow> (string \<rightharpoonup> string)" where
  "Errors_Messages e = (\<lambda>field. case e field of Some message \<Rightarrow> Some message | None \<Rightarrow> None)"

definition messageForTag :: "string \<Rightarrow> string \<Rightarrow> string" where
  "messageForTag tag param =
     (if tag = ''required'' then ''is required''
      else if tag = ''email'' then ''must be a valid email''
      else if tag = ''min'' then ''must be at least '' @ param @ '' characters long''
      else if tag = ''max'' then ''must be at most '' @ param @ '' characters long''
      else if tag = ''len'' then ''must be exactly '' @ param @ '' characters long''
      else if tag = ''numeric'' then ''must contain only digits''
      else if tag = [] then ''is invalid''
      else ''failed '' @ map (\<lambda>c. if c = CHR ''_'' then CHR '' '' else c) tag @ '' validation'')"

definition Validate :: "struct_check \<Rightarrow> validation_error option" where
  "Validate outcome =
     (case outcome of
        StructValid \<Rightarrow> None
      | StructUnusable m \<Rightarrow> Some (LibraryError m)
      | FieldErrors es \<Rightarrow> Some (Errors
          (fold (\<lambda>e. Errors_add (Field e) (messageForTag (Tag e) (field_error.Param e))) es Map.empty)))"

definition IsValidationError :: "validation_error \<Rightarrow> bool" where
  "IsValidationError e = (case e of Errors _ \<Rightarrow> True | LibraryError _ \<Rightarrow> False)"

text \<open>
  A request body after \<open>ShouldBindJSON\<close> or \<open>ShouldBindQuery\<close>: the struct, unless binding
  failed, and the verdict of the validator on it.
\<close>

record 'r submission =
  Bound :: "'r option"
  Checked :: struct_check

text \<open>\<open>decodeAndValidateJSON\<close> of both packages; the response is the one written on failure.\<close>

definition decodeAndValidateJSON ::
  "(error_response \<Rightarrow> 'b) \<Rightarrow> request \<Rightarrow> 'r submission \<Rightarrow> 'b response + 'r" where
  "decodeAndValidateJSON body c s =
     (case Bound s of
        None \<Rightarrow> Inl (respond 400 (body \<lparr>Error = ''invalid request body'',
          RequestID = requestIDFromContext c, Details = Map.empty\<rparr>))
      | Some req \<Rightarrow>
          (case Validate (Checked s) of
             None \<Rightarrow> Inr req
           | Some (Errors messages) \<Rightarrow> Inl (respond 400 (body \<lparr>Error = ErrValidationFailed,
               RequestID = requestIDFromContext c, Details = Errors_Messages messages\<rparr>))
           | Some (LibraryError _) \<Rightarrow> Inl (respond 400 (body \<lparr>Error = ErrValidationFailed,
               RequestID = requestIDFromContext c, Details = Map.empty\<rparr>))))"

text \<open>A small request, given its headers and cookies.\<close>

definition demo_request_of :: "(string \<Rightarrow> string) \<Rightarrow> (string \<Rightarrow> string option) \<Rightarrow> request" where
  "demo_request_of headers cks = \<lparr>Header = headers, Cookie = cks, Param = (\<lambda>_. []), Query = (\<lambda>_. None),
     ClientIP = ''10.0.0.1'', Context = background\<rparr>"

section \<open>Lemmas\<close>

lemma Errors_Messages_copy [simp]: "Errors_Messages e = e"
  by (rule ext) (simp add: Errors_Messages_def split: option.split)

text \<open>A field is never reported without a name, so \<open>add\<close> drops no message of a named field.\<close>

lemma tag_name_nonempty: "go_name \<noteq> [] \<Longrightarrow> tag_name json_tag go_name \<noteq> []"
  by (simp add: tag_name_def Let_def)

lemma messageForTag_nonempty: "messageForTag tag param \<noteq> []"
  by (simp add: messageForTag_def)

lemma Errors_add_reports:
  "GoName e \<noteq> [] \<Longrightarrow> Errors_add (Field e) (messageForTag tag param) m = m(Field e \<mapsto> messageForTag tag param)"
  by (simp add: Errors_add_def Field_def tag_name_nonempty messageForTag_nonempty)

text \<open>A request without a usable body is answered with status 400.\<close>

lemma decode_Inl:
  "decodeAndValidateJSON body c s = Inl r \<Longrightarrow>
     Status r = 400 \<and> SetCookies r = [] \<and> (\<exists>e. Body r = Some (body e) \<and>
       error_response.Error e \<in> {''invalid request body'', ErrValidationFailed})"
  by (auto simp: decodeAndValidateJSON_def respond_def split: option.splits validation_error.splits)

lemma decode_Inr:
  "decodeAndValidateJSON body c s = Inr req \<longleftrightarrow> Bound s = Some req \<and> Checked s = StructValid"
  by (auto simp: decodeAndValidateJSON_def Validate_def
      split: option.splits validation_error.splits struct_check.splits)

lemma respond_sel [simp]:
  "Status (respond st b) = st" "SetCookies (respond st b) = []" "Body (respond st b) = Some b"
  "Location (respond st b) = None"
  "Status (respond_empty st) = st" "SetCookies (respond_empty st) = []" "Body (respond_empty st) = None"
  by (simp_all add: respond_def respond_empty_def)

end
