(* ===== verification/Catalog_Http.thy ===== *)
theory Catalog_Http
  imports Catalog_Service Catalog_Dao Http
begin

text \<open>
  \<open>catalog/http/handler.go\<close> and \<open>catalog/responses.go\<close>: the routes under \<open>/catalog\<close>.  A
  handler takes a request and what was bound from its body or query and returns the response
  it writes; it runs on the state of the repository.
\<close>

section \<open>Responses\<close>

record category_response =
  ID :: nat
  Name :: string
  Slug :: string
  Description :: string
  ParentID :: "nat option"
  IsActive :: bool
  SortOrder :: int
  CreatedAt :: time
  UpdatedAt :: time
  DeletedAt :: "time option"

record product_image_response =
  ID :: nat
  URL :: string
  AltText :: string
  SortOrder :: int
  IsPrimary :: bool
  CreatedAt :: time
  UpdatedAt :: time

record product_sku_response =
  ID :: nat
  SKUCode :: string
  Size :: string
  Color :: string
  MRPAmount :: int
  SellingAmount :: int
  Currency :: string
  IsActive :: bool
  CreatedAt :: time
  UpdatedAt :: time

record product_attribute_response =
  ID :: nat
  Type :: string
  Name :: string
  Value :: string
  CreatedAt :: time
  UpdatedAt :: time

record product_response =
  ID :: nat
  CategoryID :: nat
  Name :: string
  Slug :: string
  Description :: string
  Status :: product_status
  FabricSummary :: string
  WashCare :: string
  DurabilityNotes :: string
  Images :: "product_image_response list"
  SKUs :: "product_sku_response list"
  Attributes :: "product_attribute_response list"
  CreatedAt :: time
  UpdatedAt :: time
  DeletedAt :: "time option"

record product_list_response =
  Items :: "product_response list"
  Page :: int
  PageSize :: int
  TotalCount :: int

text \<open>The anonymous object of \<open>handleListCategories\<close>.\<close>

record category_list_response =
  Items :: "category_response list"
  Page :: int
  PageSize :: int
  TotalCount :: int

datatype catalog_body =
    ErrorBody error_response
  | CategoryBody category_response
  | CategoryListBody category_list_response
  | ProductBody product_response
  | ProductListBody product_list_response

definition toCategoryResponse :: "category \<Rightarrow> category_response" where
  "toCategoryResponse c =
     \<lparr>category_response.ID = category.ID c, Name = category.Name c, Slug = category.Slug c,
      Description = category.Description c, ParentID = category.ParentID c,
      IsActive = category.IsActive c, SortOrder = category.SortOrder c,
      CreatedAt = category.CreatedAt c, UpdatedAt = category.UpdatedAt c,
      DeletedAt = category.DeletedAt c\<rparr>"

definition toProductResponse :: "product \<Rightarrow> product_response" where
  "toProductResponse p =
     \<lparr>product_response.ID = product.ID p, CategoryID = product.CategoryID p,
      Name = product.Name p, Slug = product.Slug p, Description = product.Description p,
      Status = product.Status p, FabricSummary = product.FabricSummary p,
      WashCare = product.WashCare p, DurabilityNotes = product.DurabilityNotes p,
      Images = map (\<lambda>i. \<lparr>product_image_response.ID = product_image.ID i, URL = product_image.URL i,
        AltText = product_image.AltText i, SortOrder = product_image.SortOrder i,
        IsPrimary = product_image.IsPrimary i, CreatedAt = product_image.CreatedAt i,
        UpdatedAt = product_image.UpdatedAt i\<rparr>) (product.Images p),
      SKUs = map (\<lambda>s. \<lparr>product_sku_response.ID = product_sku.ID s, SKUCode = product_sku.SKUCode s,
        Size = product_sku.Size s, Color = product_sku.Color s, MRPAmount = product_sku.MRPAmount s,
        SellingAmount = product_sku.SellingAmount s, Currency = product_sku.Currency s,
        IsActive = product_sku.IsActive s, CreatedAt = product_sku.CreatedAt s,
        UpdatedAt = product_sku.UpdatedAt s\<rparr>) (product.SKUs p),
      Attributes = map (\<lambda>a. \<lparr>product_attribute_response.ID = product_attribute.ID a,
        Type = product_attribute.Type a, Name = product_attribute.Name a,
        Value = product_attribute.Value a, CreatedAt = product_attribute.CreatedAt a,
        UpdatedAt = product_attribute.UpdatedAt a\<rparr>) (product.Attributes p),
      CreatedAt = product.CreatedAt p, UpdatedAt = product.UpdatedAt p,
      DeletedAt = product.DeletedAt p\<rparr>"

section \<open>Errors\<close>

text \<open>The package has its own copies of two functions of \<open>auth/http\<close>.\<close>

definition catalog_requestIDFromContext :: "request \<Rightarrow> string" where
  "catalog_requestIDFromContext c =
     (let requestID = ctx_RequestID (Context c) in
      if requestID \<noteq> [] then requestID else Header c ''X-Request-ID'')"

definition catalog_decodeAndValidateJSON :: "request \<Rightarrow> 'r submission \<Rightarrow> catalog_body response + 'r" where
  "catalog_decodeAndValidateJSON c sub =
     (case Bound sub of
        None \<Rightarrow> Inl (respond 400 (ErrorBody \<lparr>error_response.Error = ''invalid request body'',
          RequestID = catalog_requestIDFromContext c, Details = Map.empty\<rparr>))
      | Some req \<Rightarrow>
          (case Validate (Checked sub) of
             Some (Errors messages) \<Rightarrow> Inl (respond 400 (ErrorBody \<lparr>error_response.Error = ErrValidationFailed,
               RequestID = catalog_requestIDFromContext c, Details = Errors_Messages messages\<rparr>))
           | Some (LibraryError _) \<Rightarrow> Inl (respond 400 (ErrorBody \<lparr>error_response.Error = ErrValidationFailed,
               RequestID = catalog_requestIDFromContext c, Details = Map.empty\<rparr>))
           | None \<Rightarrow> Inr req))"

text \<open>They agree, so the lemmas of \<open>Http\<close> apply.\<close>

lemma catalog_requestID [simp]: "catalog_requestIDFromContext = requestIDFromContext"
  by (rule ext) (simp add: catalog_requestIDFromContext_def requestIDFromContext_def)

lemma catalog_decode [simp]: "catalog_decodeAndValidateJSON = decodeAndValidateJSON ErrorBody"
  by (intro ext) (simp add: catalog_decodeAndValidateJSON_def decodeAndValidateJSON_def
      split: option.split validation_error.split)

definition catalog_status :: "catalog_error \<Rightarrow> int" where
  "catalog_status e =
     (if e \<in> {ErrInvalidCategoryName, ErrInvalidCategorySlug, ErrInvalidProductName, ErrInvalidProductSlug,
          ErrInvalidProductStatus, ErrInvalidSKUCode, ErrInvalidMoneyAmount, ErrInvalidCurrency} then 400
      else if e \<in> {ErrCategoryNotFound, ErrProductNotFound, ErrSKUNotFound, ErrJobNotFound} then 404
      else if e \<in> {ErrCategorySlugAlreadyExists, ErrProductSlugAlreadyExists, ErrSKUCodeAlreadyExists} then 409
      else 500)"

definition writeCatalogError :: "request \<Rightarrow> catalog_error \<Rightarrow> catalog_body response" where
  "writeCatalogError c e =
     (let status = catalog_status e in
      if 500 \<le> status then respond status (ErrorBody \<lparr>error_response.Error = ''internal server error'',
        RequestID = catalog_requestIDFromContext c, Details = Map.empty\<rparr>)
      else respond status (ErrorBody \<lparr>error_response.Error = catalog_message e,
        RequestID = catalog_requestIDFromContext c, Details = Map.empty\<rparr>))"

definition parseUintParam :: "request \<Rightarrow> string \<Rightarrow> catalog_body response + nat" where
  "parseUintParam c name =
     (let invalid = Inl (respond 400 (ErrorBody \<lparr>error_response.Error = ''invalid path parameter: '' @ name,
        RequestID = catalog_requestIDFromContext c, Details = Map.empty\<rparr>)) in
      case ParseUint (request.Param c name) of
        None \<Rightarrow> invalid
      | Some value \<Rightarrow> if value = 0 then invalid else Inr value)"

section \<open>Handlers\<close>

type_synonym 'd catalog_handler = "('d, catalog_body response) state"

text \<open>\<open>if err != nil { h.writeServiceError(c, err); return }\<close> and the two guards in front of it.\<close>

definition or_error ::
  "request \<Rightarrow> ('d, catalog_error, 'a) call \<Rightarrow> ('a \<Rightarrow> 'd catalog_handler) \<Rightarrow> 'd catalog_handler" where
  "or_error c m k = do {
     r \<leftarrow> m;
     case r of Inl e \<Rightarrow> State_Monad.return (writeCatalogError c e) | Inr x \<Rightarrow> k x }"

definition or_response ::
  "catalog_body response + 'a \<Rightarrow> ('a \<Rightarrow> 'd catalog_handler) \<Rightarrow> 'd catalog_handler" where
  "or_response v k = (case v of Inl r \<Rightarrow> State_Monad.return r | Inr x \<Rightarrow> k x)"

definition bound_query :: "request \<Rightarrow> 'q option \<Rightarrow> catalog_body response + 'q" where
  "bound_query c q = (case q of
     None \<Rightarrow> Inl (respond 400 (ErrorBody \<lparr>error_response.Error = ''invalid query params'',
       RequestID = catalog_requestIDFromContext c, Details = Map.empty\<rparr>))
   | Some req \<Rightarrow> Inr req)"

definition handleCreateCategory ::
  "'d catalog_repository \<Rightarrow> request \<Rightarrow> create_category_request submission \<Rightarrow> 'd catalog_handler" where
  "handleCreateCategory repo c sub = or_response (catalog_decodeAndValidateJSON c sub) (\<lambda>req.
     or_error c (Service_CreateCategory repo req) (\<lambda>item.
     State_Monad.return (respond 201 (CategoryBody (toCategoryResponse item)))))"

definition handleListCategories ::
  "'d catalog_repository \<Rightarrow> request \<Rightarrow> list_categories_request option \<Rightarrow> 'd catalog_handler" where
  "handleListCategories repo c q = or_response (bound_query c q) (\<lambda>req.
     or_error c (Service_ListCategories repo req) (\<lambda>(items, total).
     State_Monad.return (respond 200 (CategoryListBody
       \<lparr>category_list_response.Items = map toCategoryResponse items,
        Page = list_categories_request.Page req, PageSize = list_categories_request.PageSize req,
        TotalCount = total\<rparr>))))"

definition handleGetCategory :: "'d catalog_repository \<Rightarrow> request \<Rightarrow> 'd catalog_handler" where
  "handleGetCategory repo c = or_response (parseUintParam c ''id'') (\<lambda>i.
     or_error c (Service_GetCategory repo i) (\<lambda>item.
     State_Monad.return (respond 200 (CategoryBody (toCategoryResponse item)))))"

definition handleUpdateCategory ::
  "'d catalog_repository \<Rightarrow> request \<Rightarrow> update_category_request submission \<Rightarrow> 'd catalog_handler" where
  "handleUpdateCategory repo c sub = or_response (parseUintParam c ''id'') (\<lambda>i.
     or_response (catalog_decodeAndValidateJSON c sub) (\<lambda>req.
     or_error c (Service_UpdateCategory repo i req) (\<lambda>item.
     State_Monad.return (respond 200 (CategoryBody (toCategoryResponse item))))))"

definition handleDeleteCategory :: "'d catalog_repository \<Rightarrow> request \<Rightarrow> 'd catalog_handler" where
  "handleDeleteCategory repo c = or_response (parseUintParam c ''id'') (\<lambda>i.
     or_error c (Service_DeleteCategory repo i) (\<lambda>_. State_Monad.return (respond_empty 204)))"

definition handleCreateProduct ::
  "'d catalog_repository \<Rightarrow> request \<Rightarrow> create_product_request submission \<Rightarrow> 'd catalog_handler" where
  "handleCreateProduct repo c sub = or_response (catalog_decodeAndValidateJSON c sub) (\<lambda>req.
     or_error c (Service_CreateProduct repo req) (\<lambda>item.
     State_Monad.return (respond 201 (ProductBody (toProductResponse item)))))"

definition handleListProducts ::
  "'d catalog_repository \<Rightarrow> request \<Rightarrow> list_products_request option \<Rightarrow> 'd catalog_handler" where
  "handleListProducts repo c q = or_response (bound_query c q) (\<lambda>req.
     or_error c (Service_ListProducts repo req) (\<lambda>(items, total).
     let page = (if list_products_request.Page req \<le> 0 then 1 else list_products_request.Page req);
         pageSize = (if list_products_request.PageSize req \<le> 0 then 20 else list_products_request.PageSize req) in
     State_Monad.return (respond 200 (ProductListBody
       \<lparr>product_list_response.Items = map toProductResponse items, Page = page, PageSize = pageSize,
        TotalCount = total\<rparr>))))"

definition handleGetProduct :: "'d catalog_repository \<Rightarrow> request \<Rightarrow> 'd catalog_handler" where
  "handleGetProduct repo c = or_response (parseUintParam c ''id'') (\<lambda>i.
     or_error c (Service_GetProduct repo i) (\<lambda>item.
     State_Monad.return (respond 200 (ProductBody (toProductResponse item)))))"

definition handleUpdateProduct ::
  "'d catalog_repository \<Rightarrow> request \<Rightarrow> update_product_request submission \<Rightarrow> 'd catalog_handler" where
  "handleUpdateProduct repo c sub = or_response (parseUintParam c ''id'') (\<lambda>i.
     or_response (catalog_decodeAndValidateJSON c sub) (\<lambda>req.
     or_error c (Service_UpdateProduct repo i req) (\<lambda>item.
     State_Monad.return (respond 200 (ProductBody (toProductResponse item))))))"

definition handleDeleteProduct :: "'d catalog_repository \<Rightarrow> request \<Rightarrow> 'd catalog_handler" where
  "handleDeleteProduct repo c = or_response (parseUintParam c ''id'') (\<lambda>i.
     or_error c (Service_DeleteProduct repo i) (\<lambda>_. State_Monad.return (respond_empty 204)))"

section \<open>Lemmas\<close>

lemma run_or_error [go_eval]:
  "run_state (or_error c m k) s =
     (case run_state m s of (Inl e, s') \<Rightarrow> (writeCatalogError c e, s') | (Inr x, s') \<Rightarrow> run_state (k x) s')"
  by (simp add: or_error_def split: prod.split sum.split)

lemma catalog_status_range: "catalog_status e \<in> {400, 404, 409, 500}"
  by (simp add: catalog_status_def)

lemma writeCatalogError_sel [simp]: "response.Status (writeCatalogError c e) = catalog_status e"
  by (simp add: writeCatalogError_def Let_def)

lemma parseUintParam_cases:
  "parseUintParam c name = Inl r \<Longrightarrow> response.Status r = 400"
  "parseUintParam c name = Inr i \<Longrightarrow> 0 < i \<and> i < 2 ^ 64"
  by (auto simp: parseUintParam_def ParseUint_def Let_def split: option.splits if_splits)

text \<open>What \<open>CreateProduct\<close> hands on to the repository.\<close>

lemma Service_CreateProduct_cases:
  assumes "run_state (Service_CreateProduct repo req) d = (r, d')"
  obtains (rejected) e where "r = Inl e" "d' = d"
    | (category) e c where "r = Inl e" "run_state (GetCategoryByID repo (create_product_request.CategoryID req)) d = (c, d')"
    | (stored) p c d1 where
      "run_state (GetCategoryByID repo (create_product_request.CategoryID req)) d = (Inr c, d1)"
      "run_state (CreateProduct repo p) d1 = (r, d')" "valid_product p"
      "product.CategoryID p = create_product_request.CategoryID req"
      "product.Name p = TrimSpace (create_product_request.Name req)"
      "product.Slug p = normalizeSlug (create_product_request.Slug req)"
proof -
  define p where "p st =
    \<lparr>product.ID = 0, CategoryID = create_product_request.CategoryID req,
     Name = TrimSpace (create_product_request.Name req),
     Slug = normalizeSlug (create_product_request.Slug req),
     Description = TrimSpace (create_product_request.Description req), Status = st,
     FabricSummary = TrimSpace (create_product_request.FabricSummary req),
     WashCare = TrimSpace (create_product_request.WashCare req),
     DurabilityNotes = TrimSpace (create_product_request.DurabilityNotes req),
     CreatedAt = 0, UpdatedAt = 0, DeletedAt = None,
     Images = mapImageRequests (create_product_request.Images req) 0,
     SKUs = mapSKURequests (create_product_request.SKUs req) 0,
     Attributes = mapAttributeRequests (create_product_request.Attributes req) 0\<rparr>" for st
  obtain c d1 where c: "run_state (GetCategoryByID repo (create_product_request.CategoryID req)) d = (c, d1)"
    by fastforce
  consider e where "r = Inl e" "d' = d" | e where "r = Inl e" "d' = d1"
    | st y where "c = Inr y" "run_state (CreateProduct repo (p st)) d1 = (r, d')" "valid_product (p st)"
    using assms c
    by (auto simp: Service_CreateProduct_def p_def [symmetric] Let_def run_call_ok
        split: if_splits option.splits sum.splits)
      (simp_all add: p_def valid_product_def validateSKUs_spec; blast)+
  then show thesis
  proof cases
    case 3
    with stored c show thesis by (simp add: p_def)
  qed (use rejected category c in auto)
qed

lemma GetCategoryByID_reads:
  assumes "\<And>q. keeps (\<lambda>d d'. view d' = view d) (First (catalog_categories db) q)"
    and "run_state (Postgres_GetCategoryByID db i) d = (r, d')"
  shows "view d' = view d"
proof -
  obtain x e where x: "run_state (First (catalog_categories db) (by_key i)) d = (x, e)" by fastforce
  from keepsD [OF assms(1) x] assms(2) x show ?thesis
    by (auto simp: Postgres_GetCategoryByID_def go_eval split: sum.splits)
qed

lemma handleCreateProduct_service:
  assumes "run_state (handleCreateProduct repo c sub) d = (resp, d')"
  obtains (refused) "response.Status resp = 400" "d' = d"
    | (failed) req e where "Bound sub = Some req" "run_state (Service_CreateProduct repo req) d = (Inl e, d')"
        "resp = writeCatalogError c e"
    | (created) req p where "Bound sub = Some req" "Checked sub = StructValid"
        "run_state (Service_CreateProduct repo req) d = (Inr p, d')"
        "resp = respond 201 (ProductBody (toProductResponse p))"
proof (cases "decodeAndValidateJSON ErrorBody c sub")
  case (Inl r)
  with assms refused decode_Inl [OF Inl] show thesis
    by (simp add: handleCreateProduct_def or_response_def)
next
  case (Inr req)
  with assms failed created show thesis
    by (auto simp: handleCreateProduct_def or_response_def decode_Inr go_eval split: prod.splits sum.splits)
qed

section \<open>Properties\<close>


definition demo_shop :: "catalog_rows gorm_db" where
  "demo_shop = demo_db\<lparr>catalog_categories := (catalog_categories demo_db)
     \<lparr>First := \<lambda>q. ok (toCategoryModel demo_category)\<rparr>\<rparr>"

definition demo_order :: create_product_request where
  "demo_order = \<lparr>create_product_request.CategoryID = 1, Name = ''S1'', Slug = ''S1'', Description = [],
     Status = [], FabricSummary = [], WashCare = [], DurabilityNotes = [], Images = [], SKUs = [],
     Attributes = []\<rparr>"


text \<open>
  The catalogue never reveals internal errors.  A failed request is answered with 400,
  404, 409 or 500; the message of a database error is never in the answer, and every error
  of the domain is answered with its own message.
\<close>

theorem writeCatalogError_opaque:
  "response.Status (writeCatalogError c e) \<in> {400, 404, 409, 500} \<and>
   response.Body (writeCatalogError c e) = Some (ErrorBody \<lparr>error_response.Error =
     (case e of ErrDB _ \<Rightarrow> ''internal server error'' | _ \<Rightarrow> catalog_message e),
     RequestID = requestIDFromContext c, Details = Map.empty\<rparr>) \<and>
   (response.Status (writeCatalogError c e) = 404 \<longleftrightarrow> IsNotFoundError e)"
  by (cases e) (simp_all add: writeCatalogError_def catalog_status_def IsNotFoundError_def Let_def)

text \<open>
  The page a product list reports.  The answer repeats the page the query used, but the
  page size it reports is the one that was asked for: it is the number of rows the query was
  limited to only if that was at most 100.
\<close>

theorem handleListProducts_page:
  assumes "run_state (handleListProducts repo c (Some req)) d = (resp, d')"
    and "response.Body resp = Some (ProductListBody b)"
  shows "response.Status resp = 200 \<and>
    product_list_response.Page b = fst (normalizePagination (list_products_request.Page req) (list_products_request.PageSize req)) \<and>
    (product_list_response.PageSize b =
       snd (normalizePagination (list_products_request.Page req) (list_products_request.PageSize req)) \<longleftrightarrow>
     list_products_request.PageSize req \<le> 100)"
  using assms
  by (auto simp: handleListProducts_def bound_query_def or_response_def go_eval normalizePagination_def
      writeCatalogError_def Let_def split: prod.splits sum.splits if_splits)

definition demo_query :: list_products_request where
  "demo_query = \<lparr>list_products_request.CategoryID = None, Size = [], Color = [], MinPrice = None,
     MaxPrice = None, Search = [], Sort = [], Status = [], Page = 0, PageSize = 500\<rparr>"

lemma handleListProducts_page_witness:
  "\<exists>resp d' b. run_state (handleListProducts (NewPostgresRepository demo_db 5)
       (demo_request_of (\<lambda>_. []) (\<lambda>_. None)) (Some demo_query)) demo_rows = (resp, d') \<and>
     response.Body resp = Some (ProductListBody b) \<and> product_list_response.Page b = 1 \<and>
     product_list_response.PageSize b \<noteq> 100"
proof -
  let ?h = "handleListProducts (NewPostgresRepository demo_db 5) (demo_request_of (\<lambda>_. []) (\<lambda>_. None)) (Some demo_query)"
  obtain resp d' b where run: "run_state ?h demo_rows = (resp, d')" "response.Body resp = Some (ProductListBody b)"
    by (simp add: handleListProducts_def bound_query_def or_response_def go_eval Service_ListProducts_def
        demo_query_def NewPostgresRepository_def Postgres_ListProducts_def demo_db_def demo_products_def Let_def)
  from handleListProducts_page [OF this] have "product_list_response.Page b = 1"
    "product_list_response.PageSize b \<noteq> 100"
    by (simp_all add: demo_query_def normalizePagination_def)
  with run show ?thesis by blast
qed

end
