(* ===== verification/Redis_Client.thy ===== *)
theory Redis_Client
  imports Memory_Stores Json
begin

text \<open>
  The Redis client and server as the stores of \<open>cache/redis/\<close> use them.  The client is a
  parameter: a record of the commands that are sent, each at a reading of the clock.  The
  locale \<open>redis_server\<close> states the documented behaviour of the server: a keyspace whose
  entries may have a deadline, commands that take effect atomically, and errors after which
  the command may or may not have been carried out.  Live entries are not evicted.
\<close>

section \<open>Values and errors\<close>

text \<open>
  A Redis string holds the text of a JSON document, other text, or a counter; the text of
  documents and the documents that other text may spell belong to the JSON library.
\<close>

datatype redis_value = Document json | Text string | Counter int

record json_codec =
  codec_clock :: clock_text
  doc_text :: "json \<Rightarrow> string"
  text_doc :: "string \<Rightarrow> json option"

definition bytes_json :: "json_codec \<Rightarrow> redis_value \<Rightarrow> json option" where
  "bytes_json cd v = (case v of Document j \<Rightarrow> Some j | Text s \<Rightarrow> text_doc cd s | Counter n \<Rightarrow> Some (JNumber n))"

definition bytes_text :: "json_codec \<Rightarrow> redis_value \<Rightarrow> string" where
  "bytes_text cd v = (case v of Document j \<Rightarrow> doc_text cd j | Text s \<Rightarrow> s | Counter n \<Rightarrow> doc_text cd (JNumber n))"

text \<open>\<open>goredis.Nil\<close> and every other error.\<close>

datatype redis_error = RedisNil | RedisError string

fun redis_to_auth :: "redis_error \<Rightarrow> auth_error" where
  "redis_to_auth RedisNil = ErrOther ''redis: nil''"
| "redis_to_auth (RedisError m) = ErrOther m"

section \<open>The client\<close>

datatype redis_command =
    SetCmd string redis_value duration
  | DelCmd string
  | IncrCmd string
  | ExpireCmd string duration

record 'd redis_client =
  SET :: "time \<Rightarrow> string \<Rightarrow> redis_value \<Rightarrow> duration \<Rightarrow> ('d, redis_error, unit) call"
  GET :: "time \<Rightarrow> string \<Rightarrow> ('d, redis_error, redis_value) call"
  DEL :: "time \<Rightarrow> string \<Rightarrow> ('d, redis_error, unit) call"
  INCR :: "time \<Rightarrow> string \<Rightarrow> ('d, redis_error, int) call"
  EXPIRE :: "time \<Rightarrow> string \<Rightarrow> duration \<Rightarrow> ('d, redis_error, unit) call"
  TxPipeline :: "time \<Rightarrow> redis_command list \<Rightarrow> ('d, redis_error, unit) call"
  PING :: "time \<Rightarrow> ('d, redis_error, unit) call"

text \<open>\<open>.Err()\<close> and \<open>.Result()\<close>: the error is passed on.\<close>

definition client_result :: "('d, redis_error, 'a) call \<Rightarrow> ('d, auth_error, 'a) call" where
  "client_result m = with_error redis_to_auth m"

lemma run_client_result [go_eval]:
  "run_state (client_result m) d =
     (case run_state m d of (Inl e, d') \<Rightarrow> (Inl (redis_to_auth e), d') | (Inr x, d') \<Rightarrow> (Inr x, d'))"
  by (simp add: client_result_def run_with_error)

section \<open>The keyspace\<close>

type_synonym keyspace = "string \<rightharpoonup> redis_value \<times> time option"

definition Millisecond :: duration where
  "Millisecond = 10 ^ 6"

definition alive :: "time \<Rightarrow> time option \<Rightarrow> bool" where
  "alive t dl \<longleftrightarrow> (case dl of None \<Rightarrow> True | Some d \<Rightarrow> t \<le> d)"

definition live_entry :: "time \<Rightarrow> keyspace \<Rightarrow> string \<Rightarrow> (redis_value \<times> time option) option" where
  "live_entry t m k = (case m k of None \<Rightarrow> None | Some (v, dl) \<Rightarrow> if alive t dl then Some (v, dl) else None)"

text \<open>Entries past their deadline may vanish at any moment, the others stay.\<close>

definition decays :: "time \<Rightarrow> keyspace \<Rightarrow> keyspace \<Rightarrow> bool" where
  "decays t m m' \<longleftrightarrow> m' \<subseteq>\<^sub>m m \<and> (\<forall>k v dl. m k = Some (v, dl) \<longrightarrow> alive t dl \<longrightarrow> m' k = Some (v, dl))"

text \<open>
  \<open>SET\<close> rounds a lifetime to milliseconds (at least one), \<open>EXPIRE\<close> to seconds; a lifetime of
  \<open>0\<close> or less sets none, and \<open>-1\<close> (\<open>KeepTTL\<close>) keeps the old one.
\<close>

definition rounded :: "duration \<Rightarrow> time \<Rightarrow> duration \<Rightarrow> time \<Rightarrow> bool" where
  "rounded unit t ttl d \<longleftrightarrow> t + ttl - unit < d \<and> d \<le> t + max ttl unit"

definition new_deadline :: "time \<Rightarrow> duration \<Rightarrow> time option \<Rightarrow> time option \<Rightarrow> bool" where
  "new_deadline t ttl old dl \<longleftrightarrow>
     (if 0 < ttl then \<exists>d. dl = Some d \<and> rounded Millisecond t ttl d
      else if ttl = -1 then dl = old else dl = None)"

text \<open>\<open>effect t cmd m n m'\<close>: the command turns \<open>m\<close> into \<open>m'\<close> and replies \<open>n\<close>.\<close>

fun effect :: "time \<Rightarrow> redis_command \<Rightarrow> keyspace \<Rightarrow> int \<Rightarrow> keyspace \<Rightarrow> bool" where
  "effect t (SetCmd k v ttl) m n m' \<longleftrightarrow>
     (\<exists>dl. new_deadline t ttl (Option.bind (live_entry t m k) snd) dl \<and> m' = m(k \<mapsto> (v, dl)))"
| "effect t (DelCmd k) m n m' \<longleftrightarrow> m' = m(k := None)"
| "effect t (IncrCmd k) m n m' \<longleftrightarrow>
     (case live_entry t m k of
        None \<Rightarrow> n = 1 \<and> m' = m(k \<mapsto> (Counter 1, None))
      | Some (Counter c, dl) \<Rightarrow> c < max_int64 \<and> n = c + 1 \<and> m' = m(k \<mapsto> (Counter n, dl))
      | Some (_, _) \<Rightarrow> False)"
| "effect t (ExpireCmd k w) m n m' \<longleftrightarrow>
     (case live_entry t m k of
        None \<Rightarrow> m' = m
      | Some (v, _) \<Rightarrow> \<exists>d. rounded Second t w d \<and> m' = m(k \<mapsto> (v, Some d)))"

fun effects :: "time \<Rightarrow> redis_command list \<Rightarrow> keyspace \<Rightarrow> keyspace \<Rightarrow> bool" where
  "effects t [] m m' \<longleftrightarrow> m' = m"
| "effects t (c # cs) m m' \<longleftrightarrow> (\<exists>n m1. effect t c m n m1 \<and> effects t cs m1 m')"

definition carried_out :: "time \<Rightarrow> redis_command list \<Rightarrow> keyspace \<Rightarrow> keyspace \<Rightarrow> bool" where
  "carried_out t cs m m' \<longleftrightarrow> (\<exists>m1. effects t cs m m1 \<and> decays t m1 m')"

text \<open>A reply means that the commands were carried out, an error leaves it open.\<close>

definition outcome :: "time \<Rightarrow> redis_command list \<Rightarrow> keyspace \<Rightarrow> keyspace \<Rightarrow> redis_error + 'a \<Rightarrow> bool" where
  "outcome t cs m m' r \<longleftrightarrow>
     (case r of Inr _ \<Rightarrow> carried_out t cs m m' | Inl _ \<Rightarrow> decays t m m' \<or> carried_out t cs m m')"

locale redis_server =
  fixes c :: "'d redis_client"
    and keys :: "'d \<Rightarrow> keyspace"
  assumes GET: "run_state (GET c t k) d = (r, d') \<Longrightarrow> decays t (keys d) (keys d') \<and>
      (\<forall>v. r = Inr v \<longrightarrow> (\<exists>dl. keys d k = Some (v, dl) \<and> alive t dl)) \<and>
      (r = Inl RedisNil \<longrightarrow> live_entry t (keys d) k = None)"
    and SET: "run_state (SET c t k v ttl) d = (u, d') \<Longrightarrow> outcome t [SetCmd k v ttl] (keys d) (keys d') u"
    and DEL: "run_state (DEL c t k) d = (u, d') \<Longrightarrow> outcome t [DelCmd k] (keys d) (keys d') u"
    and EXPIRE: "run_state (EXPIRE c t k w) d = (u, d') \<Longrightarrow> outcome t [ExpireCmd k w] (keys d) (keys d') u"
    and TxPipeline: "run_state (TxPipeline c t cs) d = (u, d') \<Longrightarrow> outcome t cs (keys d) (keys d') u"
    and INCR: "run_state (INCR c t k) d = (i, d') \<Longrightarrow>
      (case i of
         Inr n \<Rightarrow> \<exists>m1. effect t (IncrCmd k) (keys d) n m1 \<and> decays t m1 (keys d')
       | Inl _ \<Rightarrow> decays t (keys d) (keys d') \<or> carried_out t [IncrCmd k] (keys d) (keys d'))"

section \<open>Lemmas\<close>

lemma decays_refl [simp]: "decays t m m"
  by (simp add: decays_def)

lemma decays_le: "decays t m m' \<Longrightarrow> m' \<subseteq>\<^sub>m m"
  by (simp add: decays_def)

lemma decays_Some: "decays t m m' \<Longrightarrow> m' k = Some e \<Longrightarrow> m k = Some e"
  unfolding decays_def map_le_def by (metis domI)

lemma decays_None: "decays t m m' \<Longrightarrow> m k = None \<Longrightarrow> m' k = None"
  using decays_Some [of t m m' k] by (cases "m' k") auto

lemma decays_alive: "decays t m m' \<Longrightarrow> m k = Some (v, dl) \<Longrightarrow> alive t dl \<Longrightarrow> m' k = Some (v, dl)"
  by (simp add: decays_def)

lemma decays_live_None: "decays t m m' \<Longrightarrow> live_entry t m k = None \<Longrightarrow> live_entry t m' k = None"
  using decays_Some [of t m m' k] by (auto simp: live_entry_def split: option.splits if_splits)

lemma alive_mono: "alive t' dl \<Longrightarrow> t \<le> t' \<Longrightarrow> alive t dl"
  by (auto simp: alive_def split: option.splits)

lemma carried_out_Nil [simp]: "carried_out t [] m m' \<longleftrightarrow> decays t m m'"
  by (simp add: carried_out_def)

lemma outcomeE:
  assumes "outcome t cs m m' r"
  obtains m1 where "decays t m1 m'" "effects t cs m m1 \<or> (m1 = m \<and> Sum_Type.isl r)"
  using assms by (auto simp: outcome_def carried_out_def split: sum.splits)

lemma outcome_SetCmd_other:
  assumes "outcome t [SetCmd k v ttl] m m' r" and "k' \<noteq> k" and "m' k' = Some e"
  shows "m k' = Some e"
proof -
  obtain m1 where "decays t m1 m'" "effects t [SetCmd k v ttl] m m1 \<or> (m1 = m \<and> Sum_Type.isl r)"
    by (rule outcomeE [OF assms(1)])
  with decays_Some [OF this(1) assms(3)] assms(2) show ?thesis by auto
qed

lemma outcome_SetCmd_same:
  assumes "outcome t [SetCmd k v ttl] m m' r" and "m' k = Some (w, dl)"
  shows "w = v \<or> m k = Some (w, dl)"
proof -
  obtain m1 where "decays t m1 m'" "effects t [SetCmd k v ttl] m m1 \<or> (m1 = m \<and> Sum_Type.isl r)"
    by (rule outcomeE [OF assms(1)])
  with decays_Some [OF this(1) assms(2)] show ?thesis by auto
qed

lemma outcome_DelCmd_le:
  assumes "outcome t [DelCmd k] m m' r" and "m' k' = Some e"
  shows "m k' = Some e"
proof -
  obtain m1 where "decays t m1 m'" "effects t [DelCmd k] m m1 \<or> (m1 = m \<and> Sum_Type.isl r)"
    by (rule outcomeE [OF assms(1)])
  with decays_Some [OF this(1) assms(2)] show ?thesis by (auto split: if_splits)
qed

lemma outcome_DelCmd_gone:
  assumes "outcome t [DelCmd k] m m' (Inr u)"
  shows "m' k = None"
proof -
  obtain m1 where "decays t m1 m'" "m1 k = None"
    by (rule outcomeE [OF assms]) auto
  then show ?thesis by (rule decays_None)
qed

text \<open>A counter that stays alive only ever grows, with its deadline.\<close>

lemma counter_after_incr:
  assumes "carried_out t [IncrCmd k'] m m'" and "m k = Some (Counter n, dl)" and "alive t dl"
  shows "\<exists>n'. m' k = Some (Counter n', dl) \<and> n \<le> n'"
proof -
  from assms(1) obtain i m1 where e: "effect t (IncrCmd k') m i m1" and d: "decays t m1 m'"
    by (auto simp: carried_out_def)
  have "\<exists>n'. m1 k = Some (Counter n', dl) \<and> n \<le> n'"
  proof (cases "k' = k")
    case True
    with e assms(2,3) show ?thesis by (auto simp: live_entry_def)
  next
    case False
    with e assms(2) show ?thesis by (auto split: option.split_asm prod.split_asm redis_value.split_asm)
  qed
  with d assms(3) show ?thesis by (auto dest: decays_alive)
qed

section \<open>A small server\<close>

text \<open>A server that never fails and keeps exact deadlines.\<close>

definition demo_step :: "(keyspace \<Rightarrow> keyspace) \<Rightarrow> (keyspace, redis_error, unit) call" where
  "demo_step f = State (\<lambda>m. (Inr (), f m))"

fun demo_apply :: "time \<Rightarrow> redis_command \<Rightarrow> keyspace \<Rightarrow> keyspace" where
  "demo_apply t (SetCmd k v ttl) m = m(k \<mapsto> (v, if 0 < ttl then Some (t + ttl)
     else if ttl = -1 then Option.bind (live_entry t m k) snd else None))"
| "demo_apply t (DelCmd k) m = m(k := None)"
| "demo_apply t (IncrCmd k) m = m"
| "demo_apply t (ExpireCmd k w) m =
     (case live_entry t m k of None \<Rightarrow> m | Some (v, _) \<Rightarrow> m(k \<mapsto> (v, Some (t + w))))"

definition demo_tx :: "time \<Rightarrow> redis_command list \<Rightarrow> (keyspace, redis_error, unit) call" where
  "demo_tx t cs = (if \<exists>c \<in> set cs. (case c of IncrCmd _ \<Rightarrow> True | _ \<Rightarrow> False)
     then err (RedisError ''unsupported'') else demo_step (fold (demo_apply t) cs))"

definition demo_redis :: "keyspace redis_client" where
  "demo_redis =
     \<lparr>SET = (\<lambda>t k v ttl. demo_tx t [SetCmd k v ttl]),
      GET = (\<lambda>t k. State (\<lambda>m. (case live_entry t m k of None \<Rightarrow> Inl RedisNil | Some (v, _) \<Rightarrow> Inr v, m))),
      DEL = (\<lambda>t k. demo_tx t [DelCmd k]),
      INCR = (\<lambda>t k. State (\<lambda>m. case live_entry t m k of
        None \<Rightarrow> (Inr 1, m(k \<mapsto> (Counter 1, None)))
      | Some (Counter n, dl) \<Rightarrow> if n < max_int64 then (Inr (n + 1), m(k \<mapsto> (Counter (n + 1), dl)))
          else (Inl (RedisError ''overflow''), m)
      | Some _ \<Rightarrow> (Inl (RedisError ''not an integer''), m))),
      EXPIRE = (\<lambda>t k w. demo_tx t [ExpireCmd k w]),
      TxPipeline = demo_tx, PING = (\<lambda>_. ok ())\<rparr>"

lemma demo_rounded: "0 < u \<Longrightarrow> rounded u t ttl (t + ttl)"
  by (simp add: rounded_def)

lemma demo_effect:
  "(case cmd of IncrCmd _ \<Rightarrow> False | _ \<Rightarrow> True) \<Longrightarrow> effect t cmd m 0 (demo_apply t cmd m)"
proof (induction cmd)
  case (SetCmd k v ttl)
  show ?case
  proof (cases "0 < ttl")
    case True
    then have "new_deadline t ttl (Option.bind (live_entry t m k) snd) (Some (t + ttl))"
      using demo_rounded [of Millisecond t ttl] by (simp add: new_deadline_def Millisecond_def)
    with True show ?thesis by (auto intro!: exI [of _ "Some (t + ttl)"] simp: fun_eq_iff)
  qed (auto simp: new_deadline_def)
next
  case (ExpireCmd k w)
  show ?case
    using demo_rounded [of Second t w] by (auto simp: Second_def split: option.split)
qed simp_all

lemma demo_effects:
  "\<forall>cmd \<in> set cs. (case cmd of IncrCmd _ \<Rightarrow> False | _ \<Rightarrow> True) \<Longrightarrow>
     effects t cs m (fold (demo_apply t) cs m)"
  by (induction cs arbitrary: m) (auto intro: demo_effect)

lemma demo_tx_outcome:
  assumes "run_state (demo_tx t cs) m = (r, m')"
  shows "outcome t cs m m' r"
proof (cases "\<exists>c \<in> set cs. (case c of IncrCmd _ \<Rightarrow> True | _ \<Rightarrow> False)")
  case True
  with assms show ?thesis by (auto simp: demo_tx_def outcome_def)
next
  case False
  then have "\<forall>cmd \<in> set cs. (case cmd of IncrCmd _ \<Rightarrow> False | _ \<Rightarrow> True)"
    by (auto split: redis_command.splits)
  moreover from False assms have "r = Inr ()" "m' = fold (demo_apply t) cs m"
    by (simp_all add: demo_tx_def demo_step_def)
  ultimately show ?thesis
    using demo_effects [of cs t m] decays_refl by (auto simp: outcome_def carried_out_def)
qed

interpretation demo_redis: redis_server demo_redis "\<lambda>m. m"
proof unfold_locales
  show "(case i of Inr n \<Rightarrow> \<exists>m1. effect t (IncrCmd k) d n m1 \<and> decays t m1 d'
     | Inl _ \<Rightarrow> decays t d d' \<or> carried_out t [IncrCmd k] d d')"
    if "run_state (INCR demo_redis t k) d = (i, d')" for t k d i d'
    using that by (auto simp: demo_redis_def split: option.splits redis_value.splits if_splits)
qed (auto simp: demo_redis_def live_entry_def intro: demo_tx_outcome split: option.splits if_splits)

end
