(* ===== verification/Redis_Stores.thy ===== *)
theory Redis_Stores
  imports Redis_Client Cached_Repository
begin

text \<open>
  \<open>cache/redis/\<close>: the auth stores on a Redis server.  Each store is a client and a key
  prefix; values are JSON documents.  The clock reading a method takes is its first
  argument, and the server reads the same clock.
\<close>

section \<open>Documents\<close>

definition marshalled :: "json option \<Rightarrow> auth_error + json" where
  "marshalled j = (case j of None \<Rightarrow> Inl (ErrOther ''year outside of range [0,9999]'') | Some d \<Rightarrow> Inr d)"

definition session_Marshal :: "clock_text \<Rightarrow> refresh_session \<Rightarrow> auth_error + json" where
  "session_Marshal ct s = marshalled (map_option (\<lambda>e. JObject
     [(''token_id'', json_string (refresh_session.TokenID s)),
      (''user_id'', JNumber (int (refresh_session.UserID s))),
      (''username'', json_string (refresh_session.Username s)), (''expires_at'', e)])
     (json_time ct (refresh_session.ExpiresAt s)))"

definition session_setters :: "clock_text \<Rightarrow> (string \<times> refresh_session setter) list" where
  "session_setters ct =
     [(''token_id'', set_string (\<lambda>v s. s\<lparr>refresh_session.TokenID := v\<rparr>)),
      (''user_id'', set_uint (\<lambda>v s. s\<lparr>refresh_session.UserID := v\<rparr>)),
      (''username'', set_string (\<lambda>v s. s\<lparr>refresh_session.Username := v\<rparr>)),
      (''expires_at'', set_time ct (\<lambda>v s. s\<lparr>refresh_session.ExpiresAt := v\<rparr>))]"

definition zero_session :: refresh_session where
  "zero_session = \<lparr>refresh_session.TokenID = [], UserID = 0, Username = [], ExpiresAt = 0\<rparr>"

definition otp_state_Marshal :: "clock_text \<Rightarrow> otp_request_state \<Rightarrow> auth_error + json" where
  "otp_state_Marshal ct s = marshalled
     (case (json_time ct (otp_request_state.LastSentAt s), json_time ct (otp_request_state.ExpiresAt s)) of
        (Some l, Some e) \<Rightarrow> Some (JObject
          [(''mobile'', json_string (otp_request_state.Mobile s)),
           (''resend_count'', JNumber (otp_request_state.ResendCount s)),
           (''last_sent_at'', l), (''expires_at'', e)])
      | _ \<Rightarrow> None)"

definition otp_state_setters :: "clock_text \<Rightarrow> (string \<times> otp_request_state setter) list" where
  "otp_state_setters ct =
     [(''mobile'', set_string (\<lambda>v s. s\<lparr>otp_request_state.Mobile := v\<rparr>)),
      (''resend_count'', set_int (\<lambda>v s. s\<lparr>otp_request_state.ResendCount := v\<rparr>)),
      (''last_sent_at'', set_time ct (\<lambda>v s. s\<lparr>otp_request_state.LastSentAt := v\<rparr>)),
      (''expires_at'', set_time ct (\<lambda>v s. s\<lparr>otp_request_state.ExpiresAt := v\<rparr>))]"

definition zero_otp_state :: otp_request_state where
  "zero_otp_state = \<lparr>otp_request_state.Mobile = [], ResendCount = 0, LastSentAt = 0, ExpiresAt = 0\<rparr>"

definition signup_Marshal :: "clock_text \<Rightarrow> pending_signup \<Rightarrow> auth_error + json" where
  "signup_Marshal ct p = marshalled
     (case (json_time ct (pending_signup.LastSentAt p), json_time ct (pending_signup.ExpiresAt p)) of
        (Some l, Some e) \<Rightarrow> Some (JObject
          [(''username'', json_string (pending_signup.Username p)),
           (''password_hash'', json_string (pending_signup.PasswordHash p)),
           (''email'', json_string (pending_signup.Email p)),
           (''mobile'', json_string (pending_signup.Mobile p)),
           (''resend_count'', JNumber (pending_signup.ResendCount p)),
           (''last_sent_at'', l), (''expires_at'', e)])
      | _ \<Rightarrow> None)"

definition signup_setters :: "clock_text \<Rightarrow> (string \<times> pending_signup setter) list" where
  "signup_setters ct =
     [(''username'', set_string (\<lambda>v p. p\<lparr>pending_signup.Username := v\<rparr>)),
      (''password_hash'', set_string (\<lambda>v p. p\<lparr>pending_signup.PasswordHash := v\<rparr>)),
      (''email'', set_string (\<lambda>v p. p\<lparr>pending_signup.Email := v\<rparr>)),
      (''mobile'', set_string (\<lambda>v p. p\<lparr>pending_signup.Mobile := v\<rparr>)),
      (''resend_count'', set_int (\<lambda>v p. p\<lparr>pending_signup.ResendCount := v\<rparr>)),
      (''last_sent_at'', set_time ct (\<lambda>v p. p\<lparr>pending_signup.LastSentAt := v\<rparr>)),
      (''expires_at'', set_time ct (\<lambda>v p. p\<lparr>pending_signup.ExpiresAt := v\<rparr>))]"

definition zero_signup :: pending_signup where
  "zero_signup = \<lparr>pending_signup.Username = [], PasswordHash = [], Email = [], Mobile = [],
     ResendCount = 0, LastSentAt = 0, ExpiresAt = 0\<rparr>"

text \<open>\<open>User\<close> has no tags: its keys are the names of its fields.\<close>

definition user_Marshal :: "clock_text \<Rightarrow> user \<Rightarrow> auth_error + json" where
  "user_Marshal ct u = marshalled
     (case (json_time ct (user.CreatedAt u), json_time ct (user.UpdatedAt u)) of
        (Some cr, Some up) \<Rightarrow> Some (JObject
          [(''ID'', JNumber (int (user.ID u))), (''Username'', json_string (user.Username u)),
           (''Email'', json_string (user.Email u)), (''Mobile'', json_string (user.Mobile u)),
           (''MobileVerified'', JBool (user.MobileVerified u)), (''Role'', json_string (user.Role u)),
           (''IsProfileComplete'', JBool (user.IsProfileComplete u)),
           (''CreatedAt'', cr), (''UpdatedAt'', up)])
      | _ \<Rightarrow> None)"

definition user_setters :: "clock_text \<Rightarrow> (string \<times> user setter) list" where
  "user_setters ct =
     [(''id'', set_uint (\<lambda>v u. u\<lparr>user.ID := v\<rparr>)),
      (''username'', set_string (\<lambda>v u. u\<lparr>user.Username := v\<rparr>)),
      (''email'', set_string (\<lambda>v u. u\<lparr>user.Email := v\<rparr>)),
      (''mobile'', set_string (\<lambda>v u. u\<lparr>user.Mobile := v\<rparr>)),
      (''mobileverified'', set_bool (\<lambda>v u. u\<lparr>user.MobileVerified := v\<rparr>)),
      (''role'', set_string (\<lambda>v u. u\<lparr>user.Role := v\<rparr>)),
      (''isprofilecomplete'', set_bool (\<lambda>v u. u\<lparr>user.IsProfileComplete := v\<rparr>)),
      (''createdat'', set_time ct (\<lambda>v u. u\<lparr>user.CreatedAt := v\<rparr>)),
      (''updatedat'', set_time ct (\<lambda>v u. u\<lparr>user.UpdatedAt := v\<rparr>))]"

section \<open>The shape of the stores\<close>

record 'd redis_store =
  client :: "'d redis_client"
  prefix :: string

text \<open>\<open>json.Unmarshal\<close> of the value, and \<open>client.Get\<close> followed by it.\<close>

definition decode :: "json_codec \<Rightarrow> (string \<times> 'v setter) list \<Rightarrow> 'v \<Rightarrow> redis_value \<Rightarrow> 'v option" where
  "decode cd setters zero v = Option.bind (bytes_json cd v) (\<lambda>j. unmarshal setters j zero)"

definition fetch ::
  "json_codec \<Rightarrow> (string \<times> 'v setter) list \<Rightarrow> 'v \<Rightarrow> 'd redis_client \<Rightarrow> time \<Rightarrow> string \<Rightarrow> ('d, auth_error, 'v) call" where
  "fetch cd setters zero c t k = do {
     r \<leftarrow> GET c t k;
     case r of
       Inl RedisNil \<Rightarrow> err ErrCacheMiss
     | Inl e \<Rightarrow> err (redis_to_auth e)
     | Inr v \<Rightarrow> (case decode cd setters zero v of
         None \<Rightarrow> err (ErrOther ''json: cannot unmarshal'') | Some x \<Rightarrow> ok x) }"

text \<open>\<open>json.Marshal\<close>, the test of the remaining lifetime, and the write.\<close>

definition save_until ::
  "auth_error + json \<Rightarrow> time \<Rightarrow> auth_error \<Rightarrow> time \<Rightarrow> (json \<Rightarrow> duration \<Rightarrow> ('d, redis_error, unit) call) \<Rightarrow>
     ('d, auth_error, unit) call" where
  "save_until payload expires expired t write =
     (case payload of
        Inl e \<Rightarrow> err e
      | Inr doc \<Rightarrow>
          let ttl = time_Sub expires t in
          if ttl \<le> 0 then err expired else client_result (write doc ttl))"

section \<open>RefreshStore\<close>

definition NewRedisRefreshStore :: "'d redis_client \<Rightarrow> 'd redis_store" where
  "NewRedisRefreshStore c = \<lparr>client = c, prefix = ''auth:refresh:''\<rparr>"

definition refresh_key :: "(string \<Rightarrow> string) \<Rightarrow> 'd redis_store \<Rightarrow> string \<Rightarrow> string" where
  "refresh_key sha256 s rawToken = prefix s @ hex_encode (sha256 rawToken)"

definition RedisRefreshStore_Save ::
  "json_codec \<Rightarrow> (string \<Rightarrow> string) \<Rightarrow> 'd redis_store \<Rightarrow> time \<Rightarrow> string \<Rightarrow> refresh_session \<Rightarrow>
     ('d, auth_error, unit) call" where
  "RedisRefreshStore_Save cd sha256 s t rawToken session =
     save_until (session_Marshal (codec_clock cd) session) (refresh_session.ExpiresAt session) ErrTokenExpired t
       (\<lambda>payload ttl. SET (client s) t (refresh_key sha256 s rawToken) (Document payload) ttl)"

definition RedisRefreshStore_Get ::
  "json_codec \<Rightarrow> (string \<Rightarrow> string) \<Rightarrow> 'd redis_store \<Rightarrow> time \<Rightarrow> string \<Rightarrow> ('d, auth_error, refresh_session) call" where
  "RedisRefreshStore_Get cd sha256 s t rawToken =
     fetch cd (session_setters (codec_clock cd)) zero_session (client s) t (refresh_key sha256 s rawToken)"

definition RedisRefreshStore_Delete ::
  "(string \<Rightarrow> string) \<Rightarrow> 'd redis_store \<Rightarrow> time \<Rightarrow> string \<Rightarrow> ('d, auth_error, unit) call" where
  "RedisRefreshStore_Delete sha256 s t rawToken =
     client_result (DEL (client s) t (refresh_key sha256 s rawToken))"

definition redis_refresh_store ::
  "json_codec \<Rightarrow> (string \<Rightarrow> string) \<Rightarrow> 'd redis_client \<Rightarrow> 'd refresh_token_store" where
  "redis_refresh_store cd sha256 c =
     \<lparr>refresh_token_store.Save = RedisRefreshStore_Save cd sha256 (NewRedisRefreshStore c),
      Get = RedisRefreshStore_Get cd sha256 (NewRedisRefreshStore c),
      Delete = RedisRefreshStore_Delete sha256 (NewRedisRefreshStore c)\<rparr>"

section \<open>OTPStateStore\<close>

definition NewRedisOTPStateStore :: "'d redis_client \<Rightarrow> 'd redis_store" where
  "NewRedisOTPStateStore c = \<lparr>client = c, prefix = ''auth:otp_state:''\<rparr>"

definition otp_state_key :: "'d redis_store \<Rightarrow> string \<Rightarrow> string" where
  "otp_state_key s key = prefix s @ key"

definition RedisOTPStateStore_Save ::
  "json_codec \<Rightarrow> 'd redis_store \<Rightarrow> time \<Rightarrow> string \<Rightarrow> otp_request_state \<Rightarrow> ('d, auth_error, unit) call" where
  "RedisOTPStateStore_Save cd s t key st =
     save_until (otp_state_Marshal (codec_clock cd) st) (otp_request_state.ExpiresAt st) ErrTokenExpired t
       (\<lambda>payload ttl. SET (client s) t (otp_state_key s key) (Document payload) ttl)"

definition RedisOTPStateStore_Get ::
  "json_codec \<Rightarrow> 'd redis_store \<Rightarrow> time \<Rightarrow> string \<Rightarrow> ('d, auth_error, otp_request_state) call" where
  "RedisOTPStateStore_Get cd s t key =
     fetch cd (otp_state_setters (codec_clock cd)) zero_otp_state (client s) t (otp_state_key s key)"

definition RedisOTPStateStore_Delete ::
  "'d redis_store \<Rightarrow> time \<Rightarrow> string \<Rightarrow> ('d, auth_error, unit) call" where
  "RedisOTPStateStore_Delete s t key = client_result (DEL (client s) t (otp_state_key s key))"

definition redis_otp_store :: "json_codec \<Rightarrow> 'd redis_client \<Rightarrow> 'd otp_state_store" where
  "redis_otp_store cd c =
     \<lparr>otp_state_store.Save = RedisOTPStateStore_Save cd (NewRedisOTPStateStore c),
      Get = RedisOTPStateStore_Get cd (NewRedisOTPStateStore c),
      Delete = RedisOTPStateStore_Delete (NewRedisOTPStateStore c)\<rparr>"

section \<open>PendingSignupStore\<close>

definition NewRedisPendingSignupStore :: "'d redis_client \<Rightarrow> 'd redis_store" where
  "NewRedisPendingSignupStore c = \<lparr>client = c, prefix = ''auth:pending_signup:''\<rparr>"

definition signupKey :: "'d redis_store \<Rightarrow> string \<Rightarrow> string" where
  "signupKey s mobile = prefix s @ ''mobile:'' @ mobile"

definition usernameKey :: "'d redis_store \<Rightarrow> string \<Rightarrow> string" where
  "usernameKey s username = prefix s @ ''username:'' @ username"

definition emailKey :: "'d redis_store \<Rightarrow> string \<Rightarrow> string" where
  "emailKey s email = prefix s @ ''email:'' @ email"

definition mobileIndexKey :: "'d redis_store \<Rightarrow> string \<Rightarrow> string" where
  "mobileIndexKey s mobile = prefix s @ ''index_mobile:'' @ mobile"

definition RedisPending_Save ::
  "json_codec \<Rightarrow> 'd redis_store \<Rightarrow> time \<Rightarrow> pending_signup \<Rightarrow> ('d, auth_error, unit) call" where
  "RedisPending_Save cd s t signup =
     (let mobile = pending_signup.Mobile signup in
      save_until (signup_Marshal (codec_clock cd) signup) (pending_signup.ExpiresAt signup)
        ErrPendingSignupExpired t
        (\<lambda>payload ttl. TxPipeline (client s) t
          [SetCmd (signupKey s mobile) (Document payload) ttl,
           SetCmd (usernameKey s (pending_signup.Username signup)) (Text mobile) ttl,
           SetCmd (emailKey s (pending_signup.Email signup)) (Text mobile) ttl,
           SetCmd (mobileIndexKey s mobile) (Text mobile) ttl]))"

definition RedisPending_GetByMobile ::
  "json_codec \<Rightarrow> 'd redis_store \<Rightarrow> time \<Rightarrow> string \<Rightarrow> ('d, auth_error, pending_signup) call" where
  "RedisPending_GetByMobile cd s t mobile =
     fetch cd (signup_setters (codec_clock cd)) zero_signup (client s) t (signupKey s mobile)"

definition RedisPending_DeleteByMobile ::
  "json_codec \<Rightarrow> 'd redis_store \<Rightarrow> time \<Rightarrow> string \<Rightarrow> ('d, auth_error, unit) call" where
  "RedisPending_DeleteByMobile cd s t mobile = do {
     r \<leftarrow> RedisPending_GetByMobile cd s t mobile;
     case r of
       Inl e \<Rightarrow> if e = ErrCacheMiss then ok () else err e
     | Inr signup \<Rightarrow> client_result (TxPipeline (client s) t
         [DelCmd (signupKey s mobile), DelCmd (usernameKey s (pending_signup.Username signup)),
          DelCmd (emailKey s (pending_signup.Email signup)),
          DelCmd (mobileIndexKey s (pending_signup.Mobile signup))]) }"

definition redis_getIndex ::
  "json_codec \<Rightarrow> 'd redis_store \<Rightarrow> time \<Rightarrow> string \<Rightarrow> ('d, auth_error, string) call" where
  "redis_getIndex cd s t key = do {
     r \<leftarrow> GET (client s) t key;
     case r of
       Inl RedisNil \<Rightarrow> err ErrCacheMiss
     | Inl e \<Rightarrow> err (redis_to_auth e)
     | Inr v \<Rightarrow> ok (bytes_text cd v) }"

definition redis_pending_store :: "json_codec \<Rightarrow> 'd redis_client \<Rightarrow> 'd pending_signup_store" where
  "redis_pending_store cd c =
     (let s = NewRedisPendingSignupStore c in
      \<lparr>pending_signup_store.Save = RedisPending_Save cd s,
       GetByMobile = RedisPending_GetByMobile cd s,
       DeleteByMobile = RedisPending_DeleteByMobile cd s,
       GetMobileByUsername = (\<lambda>t username. redis_getIndex cd s t (usernameKey s username)),
       GetMobileByEmail = (\<lambda>t email. redis_getIndex cd s t (emailKey s email)),
       GetMobileByMobile = (\<lambda>t mobile. redis_getIndex cd s t (mobileIndexKey s mobile))\<rparr>)"

section \<open>RateLimiter\<close>

definition NewRedisRateLimiter :: "'d redis_client \<Rightarrow> 'd redis_store" where
  "NewRedisRateLimiter c = \<lparr>client = c, prefix = ''auth:rate_limit:''\<rparr>"

definition RedisRateLimiter_Allow ::
  "'d redis_store \<Rightarrow> time \<Rightarrow> string \<Rightarrow> rate_limit_rule \<Rightarrow> ('d, auth_error, bool) call" where
  "RedisRateLimiter_Allow l t key rule =
     (if Limit rule \<le> 0 \<or> Window rule \<le> 0 then ok True
      else
        let redisKey = prefix l @ key in
        call_ok (client_result (INCR (client l) t redisKey)) (\<lambda>count.
        if count = 1
        then call_ok (client_result (EXPIRE (client l) t redisKey (Window rule))) (\<lambda>_. ok (count \<le> Limit rule))
        else ok (count \<le> Limit rule)))"

definition redis_rate_limiter :: "'d redis_client \<Rightarrow> 'd rate_limiter" where
  "redis_rate_limiter c = \<lparr>Allow = RedisRateLimiter_Allow (NewRedisRateLimiter c)\<rparr>"

section \<open>UserCache\<close>

definition NewRedisUserCache :: "'d redis_client \<Rightarrow> 'd redis_store" where
  "NewRedisUserCache c = \<lparr>client = c, prefix = ''auth:user:''\<rparr>"

definition user_cacheKey :: "'d redis_store \<Rightarrow> string \<Rightarrow> string" where
  "user_cacheKey s username = prefix s @ username"

definition RedisUserCache_GetUser ::
  "json_codec \<Rightarrow> 'd redis_store \<Rightarrow> time \<Rightarrow> string \<Rightarrow> ('d, auth_error, user) call" where
  "RedisUserCache_GetUser cd s t username =
     fetch cd (user_setters (codec_clock cd)) zero_user (client s) t (user_cacheKey s username)"

definition RedisUserCache_SetUser ::
  "json_codec \<Rightarrow> duration \<Rightarrow> 'd redis_store \<Rightarrow> time \<Rightarrow> user \<Rightarrow> ('d, auth_error, unit) call" where
  "RedisUserCache_SetUser cd ttl s t u =
     (case user_Marshal (codec_clock cd) u of
        Inl e \<Rightarrow> err e
      | Inr payload \<Rightarrow>
          client_result (SET (client s) t (user_cacheKey s (user.Username u)) (Document payload) ttl))"

definition RedisUserCache_DeleteUser ::
  "'d redis_store \<Rightarrow> time \<Rightarrow> string \<Rightarrow> ('d, auth_error, unit) call" where
  "RedisUserCache_DeleteUser s t username = client_result (DEL (client s) t (user_cacheKey s username))"

definition redis_user_cache :: "json_codec \<Rightarrow> duration \<Rightarrow> 'd redis_client \<Rightarrow> 'd user_cache" where
  "redis_user_cache cd ttl c =
     (let s = NewRedisUserCache c in
      \<lparr>GetUser = RedisUserCache_GetUser cd s, SetUser = RedisUserCache_SetUser cd ttl s,
       DeleteUser = RedisUserCache_DeleteUser s\<rparr>)"

text \<open>\<open>Ping\<close>, used by the readiness check.\<close>

definition redis_Ping :: "'d redis_client \<Rightarrow> time \<Rightarrow> ('d, auth_error, unit) call" where
  "redis_Ping c t = client_result (PING c t)"

section \<open>Round trips of documents\<close>

lemma fold_key_ascii:
  assumes "\<forall>c \<in> set k. byte c < (128 :: nat)"
  shows "fold_key k = map (\<lambda>c. if 65 \<le> (byte c :: nat) \<and> byte c \<le> (90 :: nat) then char_of (byte c + (32 :: nat)) else c) k"
proof -
  have "fold_key k = concat (map (\<lambda>c. encode_rune (fold_rune (byte c))) k)"
    using assms by (simp add: fold_key_def chunks_ascii comp_def)
  also have "\<dots> = concat (map (\<lambda>c. [if 65 \<le> (byte c :: nat) \<and> byte c \<le> (90 :: nat) then char_of (byte c + (32 :: nat)) else c]) k)"
    using assms by (intro arg_cong [where f = concat] map_cong) (auto simp: fold_rune_def encode_ascii)
  also have "\<dots> = map (\<lambda>c. if 65 \<le> (byte c :: nat) \<and> byte c \<le> (90 :: nat) then char_of (byte c + (32 :: nat)) else c) k"
    by (induction k) simp_all
  finally show ?thesis .
qed

lemma user_keys [simp]:
  "fold_key ''ID'' = ''id''" "fold_key ''Username'' = ''username''" "fold_key ''Email'' = ''email''"
  "fold_key ''Mobile'' = ''mobile''" "fold_key ''MobileVerified'' = ''mobileverified''"
  "fold_key ''Role'' = ''role''" "fold_key ''IsProfileComplete'' = ''isprofilecomplete''"
  "fold_key ''CreatedAt'' = ''createdat''" "fold_key ''UpdatedAt'' = ''updatedat''"
  by (simp_all add: fold_key_ascii char_of_def bit_Suc_0_iff)

lemmas document_simps = marshalled_def json_time_def json_string_def is_utf8_def fold_key_plain plain_name_def

definition plain_session :: "refresh_session \<Rightarrow> bool" where
  "plain_session s \<longleftrightarrow> is_utf8 (refresh_session.TokenID s) \<and> is_utf8 (refresh_session.Username s) \<and>
     refresh_session.UserID s < 2 ^ 64"

definition plain_signup :: "pending_signup \<Rightarrow> bool" where
  "plain_signup p \<longleftrightarrow> is_utf8 (pending_signup.Username p) \<and> is_utf8 (pending_signup.PasswordHash p) \<and>
     is_utf8 (pending_signup.Email p) \<and> is_utf8 (pending_signup.Mobile p) \<and>
     min_int64 \<le> pending_signup.ResendCount p \<and> pending_signup.ResendCount p \<le> max_int64"

definition plain_user :: "user \<Rightarrow> bool" where
  "plain_user u \<longleftrightarrow> is_utf8 (user.Username u) \<and> is_utf8 (user.Email u) \<and> is_utf8 (user.Mobile u) \<and>
     is_utf8 (user.Role u) \<and> user.ID u < 2 ^ 64"

lemma session_Marshal_Inr:
  "session_Marshal ct s = Inr j \<Longrightarrow> clock_text_ok ct \<Longrightarrow> plain_session s \<Longrightarrow>
     unmarshal (session_setters ct) j zero_session = Some s"
  by (cases s) (auto simp: session_Marshal_def session_setters_def zero_session_def plain_session_def
      document_simps split: if_splits)

lemma signup_Marshal_Inr:
  "signup_Marshal ct p = Inr j \<Longrightarrow> clock_text_ok ct \<Longrightarrow> plain_signup p \<Longrightarrow>
     unmarshal (signup_setters ct) j zero_signup = Some p"
  by (cases p) (auto simp: signup_Marshal_def signup_setters_def zero_signup_def plain_signup_def
      document_simps split: if_splits)

lemma user_Marshal_Inr:
  "user_Marshal ct u = Inr j \<Longrightarrow> clock_text_ok ct \<Longrightarrow> plain_user u \<Longrightarrow>
     unmarshal (user_setters ct) j zero_user = Some u"
  by (cases u) (auto simp: user_Marshal_def user_setters_def zero_user_def plain_user_def
      document_simps split: if_splits)

section \<open>Reading and writing on a server\<close>

lemma run_fetch [go_eval]:
  "run_state (fetch cd setters zero c t k) d =
     (case run_state (GET c t k) d of
        (Inl RedisNil, d') \<Rightarrow> (Inl ErrCacheMiss, d')
      | (Inl e, d') \<Rightarrow> (Inl (redis_to_auth e), d')
      | (Inr v, d') \<Rightarrow> (case decode cd setters zero v of
          None \<Rightarrow> Inl (ErrOther ''json: cannot unmarshal'') | Some x \<Rightarrow> Inr x, d'))"
  by (simp add: fetch_def split: prod.split sum.split redis_error.split option.split)

lemma save_until_run:
  assumes "run_state (save_until payload expires expired t write) d = (u, d')"
  obtains e where "u = Inl e" "d' = d"
  | doc w where "payload = Inr doc" "t < expires" "run_state (write doc (time_Sub expires t)) d = (w, d')"
      "u = (case w of Inl e \<Rightarrow> Inl (redis_to_auth e) | Inr x \<Rightarrow> Inr x)"
proof (cases payload)
  case (Inl e)
  with assms that(1) [of e] show thesis by (auto simp: save_until_def)
next
  case (Inr doc)
  show thesis
  proof (cases "expires \<le> t")
    case True
    with assms Inr that(1) [of expired] show thesis by (auto simp: save_until_def)
  next
    case False
    obtain w d1 where w: "run_state (write doc (time_Sub expires t)) d = (w, d1)" by fastforce
    with assms Inr False have "d1 = d'" "u = (case w of Inl e \<Rightarrow> Inl (redis_to_auth e) | Inr x \<Rightarrow> Inr x)"
      by (auto simp: save_until_def Let_def run_client_result split: sum.splits)
    with that(2) [OF Inr _ _ this(2)] w False show thesis by simp
  qed
qed

context redis_server begin

lemma fetch_decays: "run_state (fetch cd st z c t k) d = (r, d') \<Longrightarrow> decays t (keys d) (keys d')"
  by (cases "run_state (GET c t k) d") (auto simp: go_eval dest!: GET split: sum.splits redis_error.splits)

lemma fetch_Inr:
  "run_state (fetch cd st z c t k) d = (Inr x, d') \<Longrightarrow>
     \<exists>v dl. keys d k = Some (v, dl) \<and> alive t dl \<and> decode cd st z v = Some x"
  by (cases "run_state (GET c t k) d")
    (auto simp: go_eval dest!: GET split: sum.splits redis_error.splits option.splits)

lemma fetch_miss:
  "run_state (fetch cd st z c t k) d = (Inl ErrCacheMiss, d') \<Longrightarrow> live_entry t (keys d) k = None"
  by (cases "run_state (GET c t k) d")
    (auto simp: go_eval dest!: GET split: sum.splits redis_error.splits option.splits)

lemma fetch_error:
  "run_state (fetch cd st z c t k) d = (Inl e, d') \<Longrightarrow> e = ErrCacheMiss \<or> (\<exists>m. e = ErrOther m)"
  by (cases "run_state (GET c t k) d")
    (auto simp: go_eval split: sum.splits redis_error.splits option.splits)

lemma fetch_found:
  assumes "keys d k = Some (v, dl)" and "decode cd st z v = Some x"
    and "run_state (fetch cd st z c t k) d = (r, d')"
  shows "(\<forall>y. r = Inr y \<longrightarrow> y = x \<and> alive t dl) \<and> (r = Inl ErrCacheMiss \<longrightarrow> \<not> alive t dl)"
  using assms fetch_Inr [of cd st z t k d _ d'] fetch_miss [of cd st z t k d d']
  by (auto simp: live_entry_def)

end

text \<open>The documents under the keys of a store.\<close>

definition doc_view ::
  "json_codec \<Rightarrow> (string \<times> 'v setter) list \<Rightarrow> 'v \<Rightarrow> keyspace \<Rightarrow> string \<rightharpoonup> 'v" where
  "doc_view cd setters zero m k = Option.bind (m k) (\<lambda>(v, _). decode cd setters zero v)"

lemma doc_view_le: "m' \<subseteq>\<^sub>m m \<Longrightarrow> doc_view cd st z m' \<subseteq>\<^sub>m doc_view cd st z m"
  unfolding map_le_def doc_view_def by (metis bind.bind_lzero domIff)

lemma doc_view_mono: "(\<And>k e. m' k = Some e \<Longrightarrow> m k = Some e) \<Longrightarrow> doc_view cd st z m' \<subseteq>\<^sub>m doc_view cd st z m"
  by (rule doc_view_le) (auto simp: map_le_def)

sublocale redis_server \<subseteq> refresh: volatile_store
  "RedisRefreshStore_Save cd sha256 (NewRedisRefreshStore c)"
  "RedisRefreshStore_Get cd sha256 (NewRedisRefreshStore c)"
  "RedisRefreshStore_Delete sha256 (NewRedisRefreshStore c)"
  "\<lambda>d. doc_view cd (session_setters (codec_clock cd)) zero_session (keys d)"
  "refresh_key sha256 (NewRedisRefreshStore c)"
  for cd sha256
proof unfold_locales
  let ?s = "NewRedisRefreshStore c"
  show "doc_view cd (session_setters (codec_clock cd)) zero_session (keys s) (refresh_key sha256 ?s k) = Some v"
    if "run_state (RedisRefreshStore_Get cd sha256 ?s t k) s = (Inr v, s')" for t k s v s'
    using that by (auto simp: RedisRefreshStore_Get_def NewRedisRefreshStore_def doc_view_def dest: fetch_Inr)
  show "doc_view cd (session_setters (codec_clock cd)) zero_session (keys s') \<subseteq>\<^sub>m
      doc_view cd (session_setters (codec_clock cd)) zero_session (keys s)"
    if "run_state (RedisRefreshStore_Get cd sha256 ?s t k) s = (r, s')" for t k s r s'
    using that by (auto simp: RedisRefreshStore_Get_def NewRedisRefreshStore_def intro!: doc_view_le
        dest: fetch_decays decays_le)
  show "doc_view cd (session_setters (codec_clock cd)) zero_session (keys s') k' = None"
    if "run_state (RedisRefreshStore_Save cd sha256 ?s t k v) s = (u, s')" "k' \<noteq> refresh_key sha256 ?s k"
      "doc_view cd (session_setters (codec_clock cd)) zero_session (keys s) k' = None" for t k v s u s' k'
    using that(1) unfolding RedisRefreshStore_Save_def
  proof (cases rule: save_until_run)
    case (2 doc w)
    from SET [OF 2(3) [unfolded NewRedisRefreshStore_def redis_store.simps]] that(2,3)
    show ?thesis
      by (cases "keys s' k'") (auto simp: doc_view_def NewRedisRefreshStore_def dest: outcome_SetCmd_other)
  qed (use that(3) in simp)
  show "doc_view cd (session_setters (codec_clock cd)) zero_session (keys s') \<subseteq>\<^sub>m
      doc_view cd (session_setters (codec_clock cd)) zero_session (keys s)"
    if "run_state (RedisRefreshStore_Delete sha256 ?s t k) s = (u, s')" for t k s u s'
    using that
    by (intro doc_view_mono) (auto simp: RedisRefreshStore_Delete_def go_eval NewRedisRefreshStore_def
        split: prod.splits sum.splits dest!: DEL dest: outcome_DelCmd_le)
  show "doc_view cd (session_setters (codec_clock cd)) zero_session (keys s') (refresh_key sha256 ?s k) = None"
    if "run_state (RedisRefreshStore_Delete sha256 ?s t k) s = (Inr (), s')" for t k s s'
    using that
    by (auto simp: RedisRefreshStore_Delete_def go_eval NewRedisRefreshStore_def doc_view_def
        split: prod.splits sum.splits dest!: DEL outcome_DelCmd_gone)
qed

section \<open>The user cache\<close>

context redis_server begin

lemma user_cache_contract:
  assumes "clock_text_ok (codec_clock cd)"
  shows "cache_contract plain_user (redis_user_cache cd ttl c)
    (\<lambda>d n. doc_view cd (user_setters (codec_clock cd)) zero_user (keys d) (user_cacheKey (NewRedisUserCache c) n))"
    (is "cache_contract _ ?c ?view")
  unfolding cache_contract_def
proof (intro conjI allI impI)
  note d = redis_user_cache_def NewRedisUserCache_def Let_def
  have le: "?view d' \<subseteq>\<^sub>m ?view d" if "\<And>k e. keys d' k = Some e \<Longrightarrow> keys d k = Some e" for d d'
    using doc_view_mono [of "keys d'" "keys d" cd "user_setters (codec_clock cd)" zero_user, OF that]
    by (auto simp: map_le_def dom_def)
  show "?view d' \<subseteq>\<^sub>m ?view d" if "run_state (GetUser ?c t n) d = (r, d')" for t n d r d'
    using that by (intro le) (auto simp: d RedisUserCache_GetUser_def dest: fetch_decays decays_Some)
  show "?view d n = Some u" if "run_state (GetUser ?c t n) d = (r, d')" "r = Inr u" for t n d r d' u
    using that by (auto simp: d RedisUserCache_GetUser_def doc_view_def dest: fetch_Inr)
  show "?view d' \<subseteq>\<^sub>m ?view d" if "run_state (DeleteUser ?c t n) d = (r, d')" for t n d r d'
    using that by (intro le) (auto simp: d RedisUserCache_DeleteUser_def go_eval
        split: prod.splits sum.splits dest!: DEL dest: outcome_DelCmd_le)
  show "?view d n = Some x \<or> n = user.Username u \<and> x = u"
    if "run_state (SetUser ?c t u) d = (r, d')" "plain_user u" "?view d' n = Some x" for t u d r d' n x
  proof (cases "user_Marshal (codec_clock cd) u")
    case (Inl e)
    with that show ?thesis by (auto simp: d RedisUserCache_SetUser_def)
  next
    case (Inr doc)
    let ?k = "user_cacheKey (NewRedisUserCache c) (user.Username u)"
    from that(1) Inr obtain w where "run_state (SET c t ?k (Document doc) ttl) d = (w, d')"
      by (auto simp: d RedisUserCache_SetUser_def go_eval split: prod.splits sum.splits)
    then have out: "outcome t [SetCmd ?k (Document doc) ttl] (keys d) (keys d') w" by (rule SET)
    note hit = that(3)
    have dec: "decode cd (user_setters (codec_clock cd)) zero_user (Document doc) = Some u"
      using user_Marshal_Inr [OF Inr assms that(2)] by (simp add: decode_def bytes_json_def)
    obtain v dl where v: "keys d' (user_cacheKey (NewRedisUserCache c) n) = Some (v, dl)"
      "decode cd (user_setters (codec_clock cd)) zero_user v = Some x"
      using hit by (cases "keys d' (user_cacheKey (NewRedisUserCache c) n)") (auto simp: doc_view_def)
    show ?thesis
    proof (cases "n = user.Username u")
      case True
      with v outcome_SetCmd_same [OF out, of v dl] dec show ?thesis by (auto simp: doc_view_def)
    next
      case False
      with v outcome_SetCmd_other [OF out _ v(1)] show ?thesis
        by (simp add: doc_view_def user_cacheKey_def)
    qed
  qed
qed

end

section \<open>The rate limiter\<close>

lemma outcome_ExpireCmd_other:
  assumes "outcome t [ExpireCmd k' w] m m' r" and "k' \<noteq> k" and "m k = Some (v, dl)" and "alive t dl"
  shows "m' k = Some (v, dl)"
proof -
  obtain m1 where d: "decays t m1 m'" and e: "effects t [ExpireCmd k' w] m m1 \<or> (m1 = m \<and> Sum_Type.isl r)"
    by (rule outcomeE [OF assms(1)])
  from e assms(2,3) have "m1 k = Some (v, dl)" by (auto split: option.split_asm)
  from decays_alive [OF d this assms(4)] show ?thesis .
qed

text \<open>The calls of a history that are admitted.\<close>

fun redis_admitted ::
  "'d redis_store \<Rightarrow> rate_limit_rule \<Rightarrow> string \<Rightarrow> (time \<times> string) list \<Rightarrow> 'd \<Rightarrow> nat" where
  "redis_admitted l r k [] d = 0"
| "redis_admitted l r k ((t, k') # es) d =
     (case run_state (RedisRateLimiter_Allow l t k' r) d of (res, d') \<Rightarrow>
        (if k' = k \<and> res = Inr True then 1 else 0) + redis_admitted l r k es d')"

context redis_server begin

lemma Allow_counts:
  assumes l: "client l = c" and "rule_active r" and "keys d (prefix l @ k) = Some (Counter n, dl)" and "1 \<le> n"
    and "alive t dl" and "run_state (RedisRateLimiter_Allow l t k' r) d = (res, d')"
  shows "\<exists>n'. keys d' (prefix l @ k) = Some (Counter n', dl) \<and> n \<le> n' \<and>
    (k' = k \<longrightarrow> res = Inr True \<longrightarrow> n' = n + 1 \<and> n' \<le> Limit r)"
proof -
  let ?k = "prefix l @ k" and ?k' = "prefix l @ k'"
  obtain i d1 where i: "run_state (INCR c t ?k') d = (i, d1)" by fastforce
  have grow: "\<exists>n'. keys d1 ?k = Some (Counter n', dl) \<and> n \<le> n'"
  proof (cases i)
    case (Inl e)
    with INCR [OF i] assms(3,5) show ?thesis
      by (auto dest: decays_alive counter_after_incr)
  next
    case (Inr x)
    with INCR [OF i] have "carried_out t [IncrCmd ?k'] (keys d) (keys d1)"
      by (auto simp: carried_out_def)
    from counter_after_incr [OF this assms(3,5)] show ?thesis .
  qed
  show ?thesis
  proof (cases "k' = k")
    case True
    have count: "keys d1 ?k = Some (Counter x, dl) \<and> x = n + 1" if "i = Inr x" for x
      using INCR [OF i] assms(3,5) True that by (auto simp: live_entry_def dest: decays_alive)
    show ?thesis
    proof (cases i)
      case (Inl e)
      with assms(2,6) i grow show ?thesis
        by (auto simp: l Let_def RedisRateLimiter_Allow_def rule_active_def go_eval)
    next
      case (Inr x)
      with assms(2,4,6) i count [OF Inr] True show ?thesis
        by (auto simp: l Let_def RedisRateLimiter_Allow_def rule_active_def go_eval)
    qed
  next
    case False
    have "keys d' ?k = keys d1 ?k \<or> (\<exists>w u d2. run_state (EXPIRE c t ?k' w) d1 = (u, d2) \<and> keys d' = keys d2)"
      using assms(2,6) i
      by (auto simp: l Let_def RedisRateLimiter_Allow_def rule_active_def go_eval
          split: sum.splits prod.splits if_splits)
    then show ?thesis
    proof (elim disjE exE conjE)
      fix w u d2
      assume "run_state (EXPIRE c t ?k' w) d1 = (u, d2)" and d': "keys d' = keys d2"
      from outcome_ExpireCmd_other [OF EXPIRE [OF this(1)]] grow d' assms(5) False
      show ?thesis by auto
    qed (use grow False in auto)
  qed
qed

lemma admitted_by_counter:
  assumes l: "client l = c" and "rule_active r" and "keys d (prefix l @ k) = Some (Counter n, dl)" and "1 \<le> n"
    and "\<forall>(t, k') \<in> set es. alive t dl"
  shows "redis_admitted l r k es d \<le> nat (Limit r - n)"
  using assms(3-5)
proof (induction es arbitrary: d n)
  case (Cons e es)
  obtain t k' where e: "e = (t, k')" by fastforce
  obtain res d' where run: "run_state (RedisRateLimiter_Allow l t k' r) d = (res, d')"
    by fastforce
  have "alive t dl" using Cons.prems(3) by (simp add: e)
  from Allow_counts [OF assms(1,2) Cons.prems(1,2) this run] obtain n' where
    n': "keys d' (prefix l @ k) = Some (Counter n', dl)" "n \<le> n'"
    "k' = k \<Longrightarrow> res = Inr True \<Longrightarrow> n' = n + 1 \<and> n' \<le> Limit r" by blast
  have "redis_admitted l r k es d' \<le> nat (Limit r - n')"
    by (rule Cons.IH [OF n'(1)]) (use Cons.prems n'(2) in \<open>auto simp: e\<close>)
  with n'(2,3) run show ?case by (auto simp: e)
qed simp

end

section \<open>The pending signups\<close>

lemma pending_keys:
  "signupKey s m \<noteq> usernameKey s u" "signupKey s m \<noteq> emailKey s e" "signupKey s m \<noteq> mobileIndexKey s n"
  "usernameKey s u \<noteq> emailKey s e" "usernameKey s u \<noteq> mobileIndexKey s n" "emailKey s e \<noteq> mobileIndexKey s n"
  by (simp_all add: signupKey_def usernameKey_def emailKey_def mobileIndexKey_def)

lemmas pending_key_neqs [simp] = pending_keys pending_keys [symmetric]

lemma effects_sets:
  assumes "effects t [SetCmd k1 v1 ttl, SetCmd k2 v2 ttl, SetCmd k3 v3 ttl, SetCmd k4 v4 ttl] m m1"
    and "0 < ttl" and "distinct [k1, k2, k3, k4]" and "(k, v) \<in> {(k1, v1), (k2, v2), (k3, v3), (k4, v4)}"
  shows "\<exists>d. rounded Millisecond t ttl d \<and> m1 k = Some (v, Some d)"
  using assms by (auto simp: new_deadline_def)

context redis_server begin

lemma getIndex_absent:
  assumes "keys d k = None" and "client s = c"
  shows "Sum_Type.isl (fst (run_state (redis_getIndex cd s t k) d))"
proof -
  obtain g d1 where g: "run_state (GET c t k) d = (g, d1)" by fastforce
  from GET [OF g] assms g show ?thesis
    by (cases g) (auto simp: redis_getIndex_def split: redis_error.splits)
qed

lemma fetch_absent:
  assumes "keys d k = None"
  shows "Sum_Type.isl (fst (run_state (fetch cd st z c t k) d))"
proof -
  obtain g d1 where g: "run_state (GET c t k) d = (g, d1)" by fastforce
  from GET [OF g] assms g show ?thesis
    by (cases g) (auto simp: go_eval split: redis_error.splits)
qed

lemma pending_saved:
  assumes "client s = c" and "run_state (RedisPending_Save cd s t p) d = (Inr (), d')"
    and "time_Sub (pending_signup.ExpiresAt p) t = pending_signup.ExpiresAt p - t"
    and "pending_signup.ExpiresAt p - t \<ge> Millisecond"
  obtains doc m1 where "signup_Marshal (codec_clock cd) p = Inr doc" "decays t m1 (keys d')"
    "\<And>k v. (k, v) \<in> {(signupKey s (pending_signup.Mobile p), Document doc),
        (usernameKey s (pending_signup.Username p), Text (pending_signup.Mobile p)),
        (emailKey s (pending_signup.Email p), Text (pending_signup.Mobile p)),
        (mobileIndexKey s (pending_signup.Mobile p), Text (pending_signup.Mobile p))} \<Longrightarrow>
      \<exists>x. m1 k = Some (v, Some x) \<and> pending_signup.ExpiresAt p - Millisecond < x \<and> x \<le> pending_signup.ExpiresAt p"
  using assms(2) unfolding RedisPending_Save_def Let_def
proof (cases rule: save_until_run)
  case (2 doc w)
  let ?m = "pending_signup.Mobile p" and ?ttl = "pending_signup.ExpiresAt p - t"
  have "w = Inr ()" using 2(4) by (cases w) auto
  with TxPipeline [OF 2(3) [unfolded assms(1)]] assms(3) obtain m1 where
    e: "effects t [SetCmd (signupKey s ?m) (Document doc) ?ttl,
      SetCmd (usernameKey s (pending_signup.Username p)) (Text ?m) ?ttl,
      SetCmd (emailKey s (pending_signup.Email p)) (Text ?m) ?ttl,
      SetCmd (mobileIndexKey s ?m) (Text ?m) ?ttl] (keys d) m1" and dc: "decays t m1 (keys d')"
    by (auto simp del: effects.simps simp: outcome_def carried_out_def)
  have "0 < ?ttl" using 2(2) by simp
  note set = effects_sets [OF e this]
  show thesis
  proof (rule that [OF 2(1) dc])
    fix k v
    assume kv: "(k, v) \<in> {(signupKey s ?m, Document doc),
        (usernameKey s (pending_signup.Username p), Text ?m), (emailKey s (pending_signup.Email p), Text ?m),
        (mobileIndexKey s ?m, Text ?m)}"
    with set [of k v] obtain x where "rounded Millisecond t ?ttl x" "m1 k = Some (v, Some x)" by auto
    with assms(4) show "\<exists>x. m1 k = Some (v, Some x) \<and> pending_signup.ExpiresAt p - Millisecond < x \<and>
        x \<le> pending_signup.ExpiresAt p"
      by (auto simp: rounded_def)
  qed
qed simp

end

context redis_server begin

lemmas refresh_revoked = refresh.revoked

lemma session_roundtrip:
  assumes "clock_text_ok (codec_clock cd)" and "plain_session session"
    and "refresh_session.ExpiresAt session - t \<le> max_int64"
    and "run_state (RedisRefreshStore_Save cd sha256 (NewRedisRefreshStore c) t tok session) d = (Inr (), d')"
    and "run_state (RedisRefreshStore_Get cd sha256 (NewRedisRefreshStore c) t' tok) d' = (r, d'')"
    and "t \<le> t'"
  shows "(\<exists>m. r = Inl (ErrOther m)) \<or>
    r = Inr session \<and> t' \<le> refresh_session.ExpiresAt session + Millisecond \<or>
    r = Inl ErrCacheMiss \<and> refresh_session.ExpiresAt session - Millisecond < t'"
  using assms(4) unfolding RedisRefreshStore_Save_def
proof (cases rule: save_until_run)
  case (2 doc w)
  let ?k = "refresh_key sha256 (NewRedisRefreshStore c) tok"
  have "w = Inr ()" using 2(4) by (cases w) auto
  with SET [of t ?k "Document doc"] 2(3) obtain m1 dl where
    dc: "decays t m1 (keys d')" and m1: "m1 ?k = Some (Document doc, dl)"
    and dl: "new_deadline t (time_Sub (refresh_session.ExpiresAt session) t)
      (Option.bind (live_entry t (keys d) ?k) snd) dl"
    by (fastforce simp: NewRedisRefreshStore_def outcome_def carried_out_def)
  have sub: "time_Sub (refresh_session.ExpiresAt session) t = refresh_session.ExpiresAt session - t"
    using 2(2) assms(3) by (simp add: time_Sub_def min_int64_def)
  with dl 2(2) obtain x where x: "dl = Some x" "refresh_session.ExpiresAt session - Millisecond < x"
    "x \<le> refresh_session.ExpiresAt session + Millisecond"
    by (auto simp: new_deadline_def rounded_def max_def Millisecond_def split: if_splits)
  have dec: "decode cd (session_setters (codec_clock cd)) zero_session (Document doc) = Some session"
    using session_Marshal_Inr [OF 2(1) assms(1,2)] by (simp add: decode_def bytes_json_def)
  have get: "run_state (fetch cd (session_setters (codec_clock cd)) zero_session c t' ?k) d' = (r, d'')"
    using assms(5) by (simp add: RedisRefreshStore_Get_def NewRedisRefreshStore_def)
  show ?thesis
  proof (cases "keys d' ?k")
    case None
    with dc m1 have "\<not> alive t dl" by (auto dest: decays_alive)
    with x 2(2) have "refresh_session.ExpiresAt session - Millisecond < t" by (simp add: alive_def)
    moreover have "r = Inl ErrCacheMiss \<or> (\<exists>m. r = Inl (ErrOther m))"
      using get None by (cases r) (auto dest: fetch_error fetch_Inr)
    moreover note assms(6)
    ultimately show ?thesis by auto
  next
    case (Some e)
    with decays_Some [OF dc this] m1 have "keys d' ?k = Some (Document doc, dl)" by simp
    from fetch_found [OF this dec get] x get show ?thesis
      by (cases r) (auto simp: alive_def dest: fetch_error)
  qed
qed simp

end

text \<open>
  A signup is reserved when each lookup that gets a reply finds it, released when none finds
  anything.
\<close>

definition found_or_fails :: "auth_error + 'a \<Rightarrow> 'a \<Rightarrow> bool" where
  "found_or_fails r x \<longleftrightarrow> r = Inr x \<or> (\<exists>m. r = Inl (ErrOther m))"

definition reserved_at :: "json_codec \<Rightarrow> 'd redis_store \<Rightarrow> time \<Rightarrow> pending_signup \<Rightarrow> 'd \<Rightarrow> bool" where
  "reserved_at cd s t p d \<longleftrightarrow>
     (let m = pending_signup.Mobile p; index = (\<lambda>k. fst (run_state (redis_getIndex cd s t k) d)) in
      found_or_fails (fst (run_state (RedisPending_GetByMobile cd s t m) d)) p \<and>
      found_or_fails (index (usernameKey s (pending_signup.Username p))) m \<and>
      found_or_fails (index (emailKey s (pending_signup.Email p))) m \<and>
      found_or_fails (index (mobileIndexKey s m)) m)"

definition released_at :: "json_codec \<Rightarrow> 'd redis_store \<Rightarrow> time \<Rightarrow> pending_signup \<Rightarrow> 'd \<Rightarrow> bool" where
  "released_at cd s t p d \<longleftrightarrow>
     (let m = pending_signup.Mobile p; index = (\<lambda>k. fst (run_state (redis_getIndex cd s t k) d)) in
      Sum_Type.isl (fst (run_state (RedisPending_GetByMobile cd s t m) d)) \<and>
      Sum_Type.isl (index (usernameKey s (pending_signup.Username p))) \<and>
      Sum_Type.isl (index (emailKey s (pending_signup.Email p))) \<and>
      Sum_Type.isl (index (mobileIndexKey s m)))"

context redis_server begin

lemma fetch_alive:
  assumes "keys d k = Some (v, dl)" and "decode cd st z v = Some x" and "alive t dl"
  shows "found_or_fails (fst (run_state (fetch cd st z c t k) d)) x"
proof -
  obtain r d' where run: "run_state (fetch cd st z c t k) d = (r, d')" by fastforce
  from fetch_found [OF assms(1,2) run] assms(3) run show ?thesis
    by (cases r) (auto simp: found_or_fails_def dest: fetch_error)
qed

lemma getIndex_alive:
  assumes "keys d k = Some (Text m, dl)" and "alive t dl" and "client s = c"
  shows "found_or_fails (fst (run_state (redis_getIndex cd s t k) d)) m"
proof -
  obtain g d1 where g: "run_state (GET c t k) d = (g, d1)" by fastforce
  from GET [OF g] assms g show ?thesis
    by (cases g) (auto simp: redis_getIndex_def live_entry_def bytes_text_def found_or_fails_def
        split: redis_error.splits)
qed

lemma pending_reserved:
  assumes s: "client s = c" and "clock_text_ok (codec_clock cd)" and "plain_signup p"
    and "t + Millisecond \<le> pending_signup.ExpiresAt p" and "pending_signup.ExpiresAt p - t \<le> max_int64"
    and "run_state (RedisPending_Save cd s t p) d = (Inr (), d1)"
    and "t \<le> t'" and "t' \<le> pending_signup.ExpiresAt p - Millisecond"
    and "run_state (RedisPending_DeleteByMobile cd s t' (pending_signup.Mobile p)) d1 = (u, d2)"
  shows "reserved_at cd s t' p d1 \<and>
    (case u of Inr _ \<Rightarrow> released_at cd s t'' p d2 | Inl e \<Rightarrow> \<exists>m. e = ErrOther m)"
proof -
  let ?m = "pending_signup.Mobile p"
  let ?entries = "{(usernameKey s (pending_signup.Username p), Text ?m), (emailKey s (pending_signup.Email p), Text ?m),
    (mobileIndexKey s ?m, Text ?m)}"
  have sub: "time_Sub (pending_signup.ExpiresAt p) t = pending_signup.ExpiresAt p - t"
    using assms(4,5) by (simp add: time_Sub_def min_int64_def Millisecond_def)
  obtain doc m1 where doc: "signup_Marshal (codec_clock cd) p = Inr doc" and dc: "decays t m1 (keys d1)"
    and m1: "\<And>k v. (k, v) \<in> insert (signupKey s ?m, Document doc) ?entries \<Longrightarrow>
      \<exists>x. m1 k = Some (v, Some x) \<and> pending_signup.ExpiresAt p - Millisecond < x \<and> x \<le> pending_signup.ExpiresAt p"
    by (rule pending_saved [OF s assms(6) sub]) (use assms(4) in auto)
  have kept: "\<exists>dl. keys d1 k = Some (v, dl) \<and> alive t' dl" if kv: "(k, v) \<in> insert (signupKey s ?m, Document doc) ?entries" for k v
  proof -
    obtain x where x: "m1 k = Some (v, Some x)" "pending_signup.ExpiresAt p - Millisecond < x" using m1 [OF kv] by blast
    with assms(7,8) have "alive t' (Some x)" "alive t (Some x)" by (auto simp: alive_def)
    with decays_alive [OF dc x(1)] show ?thesis by blast
  qed
  have dec: "decode cd (signup_setters (codec_clock cd)) zero_signup (Document doc) = Some p"
    using signup_Marshal_Inr [OF doc assms(2,3)] by (simp add: decode_def bytes_json_def)
  obtain dl where "keys d1 (signupKey s ?m) = Some (Document doc, dl)" "alive t' dl" using kept by blast
  then have get: "found_or_fails (fst (run_state (RedisPending_GetByMobile cd s t' ?m) d1)) p"
    using fetch_alive [OF _ dec] by (simp add: RedisPending_GetByMobile_def s)
  have index: "found_or_fails (fst (run_state (redis_getIndex cd s t' k) d1)) ?m" if "(k, Text ?m) \<in> ?entries" for k
  proof -
    from kept [of k "Text ?m"] that obtain dl where "keys d1 k = Some (Text ?m, dl)" "alive t' dl" by blast
    then show ?thesis by (rule getIndex_alive [OF _ _ s])
  qed
  have "reserved_at cd s t' p d1"
    unfolding reserved_at_def Let_def by (intro conjI get index) simp_all
  moreover have "case u of Inr _ \<Rightarrow> released_at cd s t'' p d2 | Inl e \<Rightarrow> \<exists>m. e = ErrOther m"
  proof -
    obtain g d3 where g: "run_state (RedisPending_GetByMobile cd s t' ?m) d1 = (g, d3)" by fastforce
    with get consider "g = Inr p" | m where "g = Inl (ErrOther m)" by (auto simp: found_or_fails_def)
    then show ?thesis
    proof cases
      case 1
      let ?dels = "[DelCmd (signupKey s ?m), DelCmd (usernameKey s (pending_signup.Username p)),
        DelCmd (emailKey s (pending_signup.Email p)), DelCmd (mobileIndexKey s ?m)]"
      obtain w d4 where w: "run_state (TxPipeline c t' ?dels) d3 = (w, d4)" by fastforce
      with g 1 assms(9) have u: "u = (case w of Inl e \<Rightarrow> Inl (redis_to_auth e) | Inr x \<Rightarrow> Inr x)" "d2 = d4"
        by (auto simp: RedisPending_DeleteByMobile_def go_eval s split: sum.splits)
      show ?thesis
      proof (cases w)
        case (Inl e)
        with u show ?thesis by (cases e) auto
      next
        case (Inr x)
        with TxPipeline [OF w] obtain m2 where "effects t' ?dels (keys d3) m2" "decays t' m2 (keys d4)"
          by (auto simp del: effects.simps simp: outcome_def carried_out_def)
        then have "keys d4 (signupKey s ?m) = None" "keys d4 (usernameKey s (pending_signup.Username p)) = None"
          "keys d4 (emailKey s (pending_signup.Email p)) = None" "keys d4 (mobileIndexKey s ?m) = None"
          by (simp_all add: decays_None)
        then have "released_at cd s t'' p d4"
          by (simp add: released_at_def Let_def RedisPending_GetByMobile_def s fetch_absent getIndex_absent)
        with u Inr show ?thesis by simp
      qed
    qed (use g assms(9) in \<open>auto simp: RedisPending_DeleteByMobile_def\<close>)
  qed
  ultimately show ?thesis by simp
qed

end

section \<open>A small codec and keyspace\<close>

definition demo_codec :: json_codec where
  "demo_codec = \<lparr>codec_clock = demo_clock, doc_text = (\<lambda>_. []), text_doc = (\<lambda>_. None)\<rparr>"

definition demo_keys :: keyspace where
  "demo_keys = [''auth:refresh:'' @ hex_encode ''tok'' \<mapsto> (Text ''{}'', None)]"

definition demo_signup :: pending_signup where
  "demo_signup = \<lparr>pending_signup.Username = ''asha'', PasswordHash = ''$pw'', Email = ''a@x'',
     Mobile = ''+919876543210'', ResendCount = 0, LastSentAt = 5, ExpiresAt = 2 * Second\<rparr>"

lemma demo_codec_ok: "clock_text_ok (codec_clock demo_codec)"
  by (simp add: demo_codec_def demo_clock_ok)

lemma demo_redis_server: "redis_server demo_redis (\<lambda>m. m)"
  by (rule demo_redis.redis_server_axioms)

lemma demo_server:
  "run_state (SET demo_redis t k v ttl) m = (Inr (), demo_apply t (SetCmd k v ttl) m)"
  "run_state (DEL demo_redis t k) m = (Inr (), m(k := None))"
  "run_state (TxPipeline demo_redis t [SetCmd k1 v1 u, SetCmd k2 v2 u, SetCmd k3 v3 u, SetCmd k4 v4 u]) m =
     (Inr (), fold (demo_apply t) [SetCmd k1 v1 u, SetCmd k2 v2 u, SetCmd k3 v3 u, SetCmd k4 v4 u] m)"
  "client (NewRedisRefreshStore c) = c" "client (NewRedisPendingSignupStore c) = c"
  "client (NewRedisRateLimiter c) = c"
  by (simp_all add: demo_redis_def demo_tx_def demo_step_def NewRedisRefreshStore_def
      NewRedisPendingSignupStore_def NewRedisRateLimiter_def)

section \<open>Properties\<close>

text \<open>
  C33. A deleted refresh token stays deleted on Redis.  On any server that behaves as
  documented, even one that loses replies, once \<open>Delete\<close> has reported success no later
  \<open>Get\<close> of the token finds a session, whatever other operations run in between, as long as
  none of them saves a token with the same digest.
\<close>

theorem Redis_refresh_revoked:
  assumes "redis_server c keys"
    and "run_state (RedisRefreshStore_Delete sha256 (NewRedisRefreshStore c) t tok) d = (Inr (), d1)"
    and "\<forall>(t, op) \<in> set ops. \<forall>k v. op = SaveOp k v \<longrightarrow>
      refresh_key sha256 (NewRedisRefreshStore c) k \<noteq> refresh_key sha256 (NewRedisRefreshStore c) tok"
  shows "\<exists>e d2. run_state (RedisRefreshStore_Get cd sha256 (NewRedisRefreshStore c) t' tok)
    (run_ops (RedisRefreshStore_Save cd sha256 (NewRedisRefreshStore c))
      (RedisRefreshStore_Get cd sha256 (NewRedisRefreshStore c))
      (RedisRefreshStore_Delete sha256 (NewRedisRefreshStore c)) ops d1) = (Inl e, d2)"
  by (rule redis_server.refresh_revoked [OF assms])

lemma Redis_refresh_revoked_witness:
  "\<exists>e d2. run_state (RedisRefreshStore_Get demo_codec (\<lambda>x. x) (NewRedisRefreshStore demo_redis) 9 ''tok'')
    (run_ops (RedisRefreshStore_Save demo_codec (\<lambda>x. x) (NewRedisRefreshStore demo_redis))
      (RedisRefreshStore_Get demo_codec (\<lambda>x. x) (NewRedisRefreshStore demo_redis))
      (RedisRefreshStore_Delete (\<lambda>x. x) (NewRedisRefreshStore demo_redis))
      [(7, GetOp ''tok''), (8, SaveOp ''other'' demo_session)]
      (snd (run_state (RedisRefreshStore_Delete (\<lambda>x. x) (NewRedisRefreshStore demo_redis) 6 ''tok'')
        demo_keys))) = (Inl e, d2)"
proof -
  obtain d1 where d1: "run_state (RedisRefreshStore_Delete (\<lambda>x. x) (NewRedisRefreshStore demo_redis) 6 ''tok'')
      demo_keys = (Inr (), d1)"
    by (simp add: RedisRefreshStore_Delete_def demo_server go_eval)
  have "\<forall>(t, op) \<in> set [(7, GetOp ''tok''), (8, SaveOp ''other'' demo_session)]. \<forall>k v. op = SaveOp k v \<longrightarrow>
      refresh_key (\<lambda>x. x) (NewRedisRefreshStore demo_redis) k \<noteq>
      refresh_key (\<lambda>x. x) (NewRedisRefreshStore demo_redis) ''tok''"
    by (simp add: refresh_key_def hex_encode_def)
  from Redis_refresh_revoked [OF demo_redis_server d1 this] show ?thesis by (simp add: d1)
qed

text \<open>
  A session survives its trip through Redis.  After a successful \<open>Save\<close> of a session with
  valid UTF-8 strings, a lookup either fails for want of a reply or answers with exactly that
  session; it is found until a millisecond before its expiry and never after its deadline,
  which is at most a millisecond later.
\<close>

theorem Redis_session_roundtrip:
  assumes "redis_server c keys" and "clock_text_ok (codec_clock cd)" and "plain_session session"
    and "refresh_session.ExpiresAt session - t \<le> max_int64"
    and "run_state (RedisRefreshStore_Save cd sha256 (NewRedisRefreshStore c) t tok session) d = (Inr (), d')"
    and "t \<le> t'"
    and "run_state (RedisRefreshStore_Get cd sha256 (NewRedisRefreshStore c) t' tok) d' = (r, d'')"
  shows "(\<exists>m. r = Inl (ErrOther m)) \<or>
    r = Inr session \<and> t' \<le> refresh_session.ExpiresAt session + Millisecond \<or>
    r = Inl ErrCacheMiss \<and> refresh_session.ExpiresAt session - Millisecond < t'"
  by (rule redis_server.session_roundtrip [OF assms(1-5,7,6)])

lemma Redis_session_roundtrip_witness:
  "\<exists>d' r d''. run_state (RedisRefreshStore_Save demo_codec (\<lambda>x. x) (NewRedisRefreshStore demo_redis) 5 ''tok''
       demo_session) Map.empty = (Inr (), d') \<and>
     run_state (RedisRefreshStore_Get demo_codec (\<lambda>x. x) (NewRedisRefreshStore demo_redis) 2000000 ''tok'') d' = (r, d'') \<and>
     r \<noteq> Inr demo_session"
proof -
  have y: "year_ok 500" by (simp add: year_ok_def Day_def Second_def)
  obtain u d' where save: "run_state (RedisRefreshStore_Save demo_codec (\<lambda>x. x) (NewRedisRefreshStore demo_redis) 5
      ''tok'' demo_session) Map.empty = (u, d')" by fastforce
  have u: "u = Inr ()"
    using save y by (auto simp: RedisRefreshStore_Save_def save_until_def session_Marshal_def marshalled_def
        json_time_def demo_session_def demo_server go_eval simp del: demo_apply.simps)
  obtain r d'' where get: "run_state (RedisRefreshStore_Get demo_codec (\<lambda>x. x) (NewRedisRefreshStore demo_redis)
      2000000 ''tok'') d' = (r, d'')" by fastforce
  have "plain_session demo_session"
    by (simp add: plain_session_def demo_session_def valid_text_ascii)
  moreover have "refresh_session.ExpiresAt demo_session - 5 \<le> max_int64" "refresh_session.ExpiresAt demo_session = 500"
    by (simp_all add: demo_session_def max_int64_def)
  ultimately show ?thesis
    using Redis_session_roundtrip [OF demo_redis_server demo_codec_ok _ _ save [unfolded u] _ get] save u get
    by (auto simp: Millisecond_def)
qed

text \<open>
  C34. A pending signup reserves its identities on Redis.  After a successful \<open>Save\<close>, lookups by
  mobile, username and email either fail for want of a reply or find the signup and its
  mobile, until a millisecond before its expiry.  \<open>DeleteByMobile\<close> in that time either fails
  for want of a reply, or from then on none of them finds anything.
\<close>

theorem Redis_pending_reserves:
  assumes "redis_server c keys" and "clock_text_ok (codec_clock cd)" and "plain_signup p"
    and "t + Millisecond \<le> pending_signup.ExpiresAt p" and "pending_signup.ExpiresAt p - t \<le> max_int64"
    and "run_state (RedisPending_Save cd (NewRedisPendingSignupStore c) t p) d = (Inr (), d1)"
    and "t \<le> t'" and "t' \<le> pending_signup.ExpiresAt p - Millisecond"
    and "run_state (RedisPending_DeleteByMobile cd (NewRedisPendingSignupStore c) t' (pending_signup.Mobile p)) d1 = (u, d2)"
  shows "reserved_at cd (NewRedisPendingSignupStore c) t' p d1 \<and>
    (case u of Inr _ \<Rightarrow> released_at cd (NewRedisPendingSignupStore c) t'' p d2
     | Inl e \<Rightarrow> \<exists>m. e = ErrOther m)"
  by (rule redis_server.pending_reserved [OF assms(1) _ assms(2-)]) (simp add: NewRedisPendingSignupStore_def)

lemma Redis_pending_reserves_witness:
  "\<exists>u d1 d2. run_state (RedisPending_Save demo_codec (NewRedisPendingSignupStore demo_redis) 5 demo_signup)
       Map.empty = (Inr (), d1) \<and>
     run_state (RedisPending_DeleteByMobile demo_codec (NewRedisPendingSignupStore demo_redis) 6 ''+919876543210'') d1 =
       (u, d2) \<and>
     reserved_at demo_codec (NewRedisPendingSignupStore demo_redis) 6 demo_signup d1"
proof -
  have "year_ok 5" "year_ok (2 * Second)" by (simp_all add: year_ok_def Day_def Second_def)
  then obtain d1 where save: "run_state (RedisPending_Save demo_codec (NewRedisPendingSignupStore demo_redis) 5
      demo_signup) Map.empty = (Inr (), d1)"
    by (simp add: RedisPending_Save_def save_until_def signup_Marshal_def marshalled_def json_time_def
        demo_signup_def demo_server go_eval Second_def Let_def del: demo_apply.simps fold_simps)
  obtain u d2 where del: "run_state (RedisPending_DeleteByMobile demo_codec (NewRedisPendingSignupStore demo_redis) 6
      (pending_signup.Mobile demo_signup)) d1 = (u, d2)" by fastforce
  have "plain_signup demo_signup"
    by (simp add: plain_signup_def demo_signup_def valid_text_ascii min_int64_def max_int64_def)
  from Redis_pending_reserves [OF demo_redis_server demo_codec_ok this _ _ save _ _ del] save del
  show ?thesis by (auto simp: demo_signup_def Millisecond_def Second_def max_int64_def)
qed

text \<open>
  A counter bounds what it admits.  While the entry of a key is alive, the limiter on Redis
  admits at most as many further calls for the key as the limit leaves, whatever calls for
  other keys run in between and whether or not replies are lost.  The same holds of an entry
  without a deadline, which a failed \<open>Expire\<close> leaves behind: once its counter has reached
  the limit, no call for the key is ever admitted again.
\<close>

theorem Redis_limiter_window:
  assumes "redis_server c keys" and "rule_active r"
    and "keys d (prefix (NewRedisRateLimiter c) @ k) = Some (Counter n, dl)" and "1 \<le> n"
    and "\<forall>(t, k') \<in> set es. alive t dl"
  shows "redis_admitted (NewRedisRateLimiter c) r k es d \<le> nat (Limit r - n)"
  by (rule redis_server.admitted_by_counter [OF assms(1) _ assms(2-5)]) (simp add: NewRedisRateLimiter_def)

definition lossy_redis :: "keyspace redis_client" where
  "lossy_redis = demo_redis\<lparr>EXPIRE := \<lambda>_ _ _. err (RedisError ''i/o timeout'')\<rparr>"

lemma lossy_redis_server: "redis_server lossy_redis (\<lambda>m. m)"
  using demo_redis_server unfolding redis_server_def
  by (simp add: lossy_redis_def outcome_def)

lemma Redis_limiter_window_witness:
  "\<exists>d. run_state (RedisRateLimiter_Allow (NewRedisRateLimiter lossy_redis) 5 ''k'' \<lparr>Limit = 1, Window = Second\<rparr>)
       Map.empty = (Inl (ErrOther ''i/o timeout''), d) \<and>
     redis_admitted (NewRedisRateLimiter lossy_redis) \<lparr>Limit = 1, Window = Second\<rparr> ''k''
       [(10 ^ 18, ''k''), (10 ^ 19, ''k'')] d = 0"
proof -
  let ?r = "\<lparr>Limit = 1, Window = Second\<rparr>"
  obtain d where d: "run_state (RedisRateLimiter_Allow (NewRedisRateLimiter lossy_redis) 5 ''k'' ?r) Map.empty =
      (Inl (ErrOther ''i/o timeout''), d)"
    and k: "d (prefix (NewRedisRateLimiter lossy_redis) @ ''k'') = Some (Counter 1, None)"
    by (simp add: RedisRateLimiter_Allow_def NewRedisRateLimiter_def lossy_redis_def demo_redis_def go_eval
        live_entry_def Second_def Let_def)
  have "rule_active ?r" by (simp add: rule_active_def Second_def)
  from Redis_limiter_window [where keys = "\<lambda>m. m" and d = d and k = "''k''" and n = 1 and dl = None
      and es = "[(10 ^ 18, ''k''), (10 ^ 19, ''k'')]", OF lossy_redis_server this k] d show ?thesis by (auto simp: alive_def)
qed



end
