(* ===== verification/Redis_Separation.thy ===== *)
theory Redis_Separation
  imports Redis_Stores
begin

text \<open>
  Five stores share one Redis.  Each writes below a prefix of its own, so what one store does,
  whether the server replies or not, leaves the live entries of the others alone.  This is
  what allows the rest of the development to give every store a state of its own.
\<close>

section \<open>The calls\<close>

datatype redis_part = Sessions | OTPStates | PendingSignups | RateLimits | CachedUsers

fun part_prefix :: "redis_part \<Rightarrow> string" where
  "part_prefix Sessions = ''auth:refresh:''"
| "part_prefix OTPStates = ''auth:otp_state:''"
| "part_prefix PendingSignups = ''auth:pending_signup:''"
| "part_prefix RateLimits = ''auth:rate_limit:''"
| "part_prefix CachedUsers = ''auth:user:''"

datatype redis_call =
    SessionSave string refresh_session | SessionGet string | SessionDelete string
  | OTPStateSave string otp_request_state | OTPStateGet string | OTPStateDelete string
  | PendingSave pending_signup | PendingGet string | PendingDelete string
  | PendingByUsername string | PendingByEmail string | PendingByMobile string
  | LimiterAllow string rate_limit_rule
  | CacheGet string | CacheSet duration user | CacheDelete string

fun part_of :: "redis_call \<Rightarrow> redis_part" where
  "part_of (SessionSave _ _) = Sessions" | "part_of (SessionGet _) = Sessions" | "part_of (SessionDelete _) = Sessions"
| "part_of (OTPStateSave _ _) = OTPStates" | "part_of (OTPStateGet _) = OTPStates"
| "part_of (OTPStateDelete _) = OTPStates"
| "part_of (PendingSave _) = PendingSignups" | "part_of (PendingGet _) = PendingSignups"
| "part_of (PendingDelete _) = PendingSignups" | "part_of (PendingByUsername _) = PendingSignups"
| "part_of (PendingByEmail _) = PendingSignups" | "part_of (PendingByMobile _) = PendingSignups"
| "part_of (LimiterAllow _ _) = RateLimits"
| "part_of (CacheGet _) = CachedUsers" | "part_of (CacheSet _ _) = CachedUsers" | "part_of (CacheDelete _) = CachedUsers"

text \<open>A call at a reading of the clock; its answer is dropped.\<close>

definition answered :: "('d, 'a) state \<Rightarrow> ('d, unit) state" where
  "answered m = ignoring m (State_Monad.return ())"

fun perform ::
  "json_codec \<Rightarrow> (string \<Rightarrow> string) \<Rightarrow> 'd redis_client \<Rightarrow> time \<Rightarrow> redis_call \<Rightarrow> ('d, unit) state" where
  "perform cd sha c t (SessionSave tok x) = answered (RedisRefreshStore_Save cd sha (NewRedisRefreshStore c) t tok x)"
| "perform cd sha c t (SessionGet tok) = answered (RedisRefreshStore_Get cd sha (NewRedisRefreshStore c) t tok)"
| "perform cd sha c t (SessionDelete tok) = answered (RedisRefreshStore_Delete sha (NewRedisRefreshStore c) t tok)"
| "perform cd sha c t (OTPStateSave k x) = answered (RedisOTPStateStore_Save cd (NewRedisOTPStateStore c) t k x)"
| "perform cd sha c t (OTPStateGet k) = answered (RedisOTPStateStore_Get cd (NewRedisOTPStateStore c) t k)"
| "perform cd sha c t (OTPStateDelete k) = answered (RedisOTPStateStore_Delete (NewRedisOTPStateStore c) t k)"
| "perform cd sha c t (PendingSave p) = answered (RedisPending_Save cd (NewRedisPendingSignupStore c) t p)"
| "perform cd sha c t (PendingGet m) = answered (RedisPending_GetByMobile cd (NewRedisPendingSignupStore c) t m)"
| "perform cd sha c t (PendingDelete m) = answered (RedisPending_DeleteByMobile cd (NewRedisPendingSignupStore c) t m)"
| "perform cd sha c t (PendingByUsername x) =
     answered (GetMobileByUsername (redis_pending_store cd c) t x)"
| "perform cd sha c t (PendingByEmail x) = answered (GetMobileByEmail (redis_pending_store cd c) t x)"
| "perform cd sha c t (PendingByMobile x) = answered (GetMobileByMobile (redis_pending_store cd c) t x)"
| "perform cd sha c t (LimiterAllow k r) = answered (RedisRateLimiter_Allow (NewRedisRateLimiter c) t k r)"
| "perform cd sha c t (CacheGet u) = answered (RedisUserCache_GetUser cd (NewRedisUserCache c) t u)"
| "perform cd sha c t (CacheSet ttl u) = answered (RedisUserCache_SetUser cd ttl (NewRedisUserCache c) t u)"
| "perform cd sha c t (CacheDelete u) = answered (RedisUserCache_DeleteUser (NewRedisUserCache c) t u)"

fun perform_all ::
  "json_codec \<Rightarrow> (string \<Rightarrow> string) \<Rightarrow> 'd redis_client \<Rightarrow> (time \<times> redis_call) list \<Rightarrow> ('d, unit) state" where
  "perform_all cd sha c [] = State_Monad.return ()"
| "perform_all cd sha c ((t, call) # calls) = do { _ \<leftarrow> perform cd sha c t call; perform_all cd sha c calls }"

section \<open>What a call leaves alone\<close>

text \<open>
  An entry that stays as it is, or vanishes when it is dead at one of the times; and the
  keyspaces that differ only below a prefix, up to such entries.
\<close>

definition spared :: "time set \<Rightarrow> (redis_value \<times> time option) option \<Rightarrow> (redis_value \<times> time option) option \<Rightarrow> bool" where
  "spared ts e e' \<longleftrightarrow> e' = e \<or> (e' = None \<and> (\<exists>v dl. e = Some (v, dl) \<and> (\<exists>t \<in> ts. \<not> alive t dl)))"

definition spares :: "time \<Rightarrow> string \<Rightarrow> keyspace \<Rightarrow> keyspace \<Rightarrow> bool" where
  "spares t p m m' \<longleftrightarrow> (\<forall>k. \<not> HasPrefix k p \<longrightarrow> spared {t} (m k) (m' k))"

lemma spared_trans: "spared ts e1 e2 \<Longrightarrow> spared us e2 e3 \<Longrightarrow> spared (ts \<union> us) e1 e3"
  by (auto simp: spared_def)

lemma spares_refl: "spares t p m m"
  by (simp add: spares_def spared_def)

lemma spares_trans: "spares t p m1 m2 \<Longrightarrow> spares t p m2 m3 \<Longrightarrow> spares t p m1 m3"
  unfolding spares_def using spared_trans [of "{t}" _ _ "{t}"] by auto

lemma decays_spares: "decays t m m' \<Longrightarrow> spares t p m m'"
  unfolding spares_def spared_def
proof (intro allI impI)
  fix k
  assume d: "decays t m m'"
  show "m' k = m k \<or> (m' k = None \<and> (\<exists>v dl. m k = Some (v, dl) \<and> (\<exists>t \<in> {t}. \<not> alive t dl)))"
  proof (cases "m k")
    case None
    with decays_None [OF d] show ?thesis by simp
  next
    case (Some e)
    obtain v dl where e: "e = (v, dl)" by fastforce
    from Some e decays_alive [OF d, of k v dl] decays_Some [OF d, of k] show ?thesis
      by (cases "m' k") auto
  qed
qed

fun command_key :: "redis_command \<Rightarrow> string" where
  "command_key (SetCmd k _ _) = k"
| "command_key (DelCmd k) = k"
| "command_key (IncrCmd k) = k"
| "command_key (ExpireCmd k _) = k"

lemma effect_spares: "effect t cmd m n m' \<Longrightarrow> HasPrefix (command_key cmd) p \<Longrightarrow> spares t p m m'"
proof -
  assume e: "effect t cmd m n m'" and p: "HasPrefix (command_key cmd) p"
  have "m' k = m k" if "\<not> HasPrefix k p" for k
  proof -
    have "k \<noteq> command_key cmd" using that p by auto
    with e show ?thesis
      by (cases cmd) (auto split: option.split_asm prod.split_asm redis_value.split_asm)
  qed
  then show ?thesis by (simp add: spares_def spared_def)
qed

lemma effects_spares: "effects t cs m m' \<Longrightarrow> \<forall>cmd \<in> set cs. HasPrefix (command_key cmd) p \<Longrightarrow> spares t p m m'"
proof (induction cs arbitrary: m)
  case (Cons cmd cs)
  then show ?case by (auto intro: spares_trans [OF effect_spares])
qed (simp add: spares_refl)

lemma outcome_spares:
  "outcome t cs m m' r \<Longrightarrow> \<forall>cmd \<in> set cs. HasPrefix (command_key cmd) p \<Longrightarrow> spares t p m m'"
  by (erule outcomeE) (auto intro: spares_trans [OF effects_spares] decays_spares)

text \<open>Every key of a store has the prefix of its part.\<close>

lemma own_keys:
  "HasPrefix (refresh_key sha (NewRedisRefreshStore c) tok) (part_prefix Sessions)"
  "HasPrefix (otp_state_key (NewRedisOTPStateStore c) k) (part_prefix OTPStates)"
  "HasPrefix (signupKey (NewRedisPendingSignupStore c) x) (part_prefix PendingSignups)"
  "HasPrefix (usernameKey (NewRedisPendingSignupStore c) x) (part_prefix PendingSignups)"
  "HasPrefix (emailKey (NewRedisPendingSignupStore c) x) (part_prefix PendingSignups)"
  "HasPrefix (mobileIndexKey (NewRedisPendingSignupStore c) x) (part_prefix PendingSignups)"
  "HasPrefix (prefix (NewRedisRateLimiter c) @ x) (part_prefix RateLimits)"
  "HasPrefix (user_cacheKey (NewRedisUserCache c) x) (part_prefix CachedUsers)"
  by (simp_all add: refresh_key_def otp_state_key_def signupKey_def usernameKey_def emailKey_def mobileIndexKey_def
      user_cacheKey_def NewRedisRefreshStore_def NewRedisOTPStateStore_def NewRedisPendingSignupStore_def
      NewRedisRateLimiter_def NewRedisUserCache_def HasPrefix_def)

lemma store_clients:
  "client (NewRedisRefreshStore c) = c" "client (NewRedisOTPStateStore c) = c"
  "client (NewRedisPendingSignupStore c) = c" "client (NewRedisRateLimiter c) = c" "client (NewRedisUserCache c) = c"
  by (simp_all add: NewRedisRefreshStore_def NewRedisOTPStateStore_def NewRedisPendingSignupStore_def
      NewRedisRateLimiter_def NewRedisUserCache_def)

context redis_server begin

text \<open>The frame of every computation below a prefix.\<close>

definition frame :: "time \<Rightarrow> string \<Rightarrow> 'd \<Rightarrow> 'd \<Rightarrow> bool" where
  "frame t p d d' \<longleftrightarrow> spares t p (keys d) (keys d')"

lemma frame_reflp: "reflp (frame t p)"
  by (simp add: reflp_def frame_def spares_refl)

lemma frame_transp: "transp (frame t p)"
  unfolding transp_def frame_def using spares_trans by blast

lemma keeps_fetch: "keeps (frame t p) (fetch cd st z c t k)"
  by (rule keepsI) (auto simp: frame_def dest: fetch_decays decays_spares)

lemma keeps_GET: "keeps (frame t p) (GET c t k)"
  by (rule keepsI) (auto simp: frame_def dest: GET decays_spares)

lemma keeps_client_result: "keeps R m \<Longrightarrow> keeps R (client_result m)"
  by (simp add: keeps_def run_client_result split: prod.split sum.split) (metis snd_conv)

lemma keeps_SET: "HasPrefix k p \<Longrightarrow> keeps (frame t p) (client_result (SET c t k v ttl))"
  by (intro keeps_client_result keepsI) (auto simp: frame_def dest!: SET intro: outcome_spares)

lemma keeps_DEL: "HasPrefix k p \<Longrightarrow> keeps (frame t p) (client_result (DEL c t k))"
  by (intro keeps_client_result keepsI) (auto simp: frame_def dest!: DEL intro: outcome_spares)

lemma keeps_EXPIRE: "HasPrefix k p \<Longrightarrow> keeps (frame t p) (client_result (EXPIRE c t k w))"
  by (intro keeps_client_result keepsI) (auto simp: frame_def dest!: EXPIRE intro: outcome_spares)

lemma keeps_TxPipeline:
  "\<forall>cmd \<in> set cs. HasPrefix (command_key cmd) p \<Longrightarrow> keeps (frame t p) (client_result (TxPipeline c t cs))"
  by (intro keeps_client_result keepsI) (auto simp: frame_def dest!: TxPipeline intro: outcome_spares)

lemma keeps_INCR:
  assumes "HasPrefix k p"
  shows "keeps (frame t p) (client_result (INCR c t k))"
proof (intro keeps_client_result keepsI)
  fix d i d'
  assume "run_state (INCR c t k) d = (i, d')"
  from INCR [OF this] assms show "frame t p d d'"
    by (auto simp: frame_def carried_out_def simp del: effect.simps split: sum.splits
        intro: decays_spares spares_trans [OF effect_spares] spares_trans [OF effects_spares])
qed

lemma keeps_save_until:
  "(\<And>doc ttl. keeps (frame t p) (client_result (write doc ttl))) \<Longrightarrow>
     keeps (frame t p) (save_until payload expires expired t write)"
  unfolding save_until_def Let_def
  by (auto intro!: keeps_intros keeps_return frame_reflp)

lemma keeps_getIndex: "client st = c \<Longrightarrow> keeps (frame t p) (redis_getIndex cd st t k)"
  unfolding redis_getIndex_def
  by (rule keeps_bind [OF frame_transp])
    (auto intro!: keeps_GET keeps_return frame_reflp split: sum.split redis_error.split)

lemma keeps_answered: "keeps (frame t p) m \<Longrightarrow> keeps (frame t p) (answered m)"
  unfolding answered_def by (intro keeps_ignoring frame_transp keeps_return frame_reflp)

lemma keeps_pending_delete:
  "keeps (frame t (part_prefix PendingSignups)) (RedisPending_DeleteByMobile cd (NewRedisPendingSignupStore c) t m)"
  unfolding RedisPending_DeleteByMobile_def RedisPending_GetByMobile_def store_clients
  by (intro keeps_bind [OF frame_transp] keeps_fetch keeps_sum keeps_if keeps_return frame_reflp keeps_TxPipeline)
    (simp add: own_keys del: part_prefix.simps)

lemma keeps_allow:
  "keeps (frame t (part_prefix RateLimits)) (RedisRateLimiter_Allow (NewRedisRateLimiter c) t k r)"
  unfolding RedisRateLimiter_Allow_def store_clients Let_def
  by (intro keeps_if keeps_call_ok [OF frame_reflp frame_transp] keeps_return frame_reflp keeps_INCR keeps_EXPIRE own_keys)

lemma keeps_pending_save:
  "keeps (frame t (part_prefix PendingSignups)) (RedisPending_Save cd (NewRedisPendingSignupStore c) t p)"
  unfolding RedisPending_Save_def store_clients Let_def
  by (intro keeps_save_until keeps_TxPipeline) (simp add: own_keys del: part_prefix.simps)

lemmas store_op_defs = RedisRefreshStore_Save_def RedisRefreshStore_Get_def RedisRefreshStore_Delete_def
  RedisOTPStateStore_Save_def RedisOTPStateStore_Get_def RedisOTPStateStore_Delete_def
  RedisPending_GetByMobile_def RedisUserCache_GetUser_def RedisUserCache_SetUser_def RedisUserCache_DeleteUser_def
  redis_pending_store_def Let_def store_clients

lemma perform_frame: "keeps (frame t (part_prefix (part_of call))) (perform cd sha c t call)"
  by (cases call; simp only: perform.simps part_of.simps store_op_defs pending_signup_store.simps;
      intro keeps_answered keeps_pending_delete keeps_pending_save keeps_allow keeps_save_until keeps_SET keeps_DEL
        keeps_fetch keeps_getIndex keeps_sum keeps_return frame_reflp own_keys store_clients)

text \<open>Calls of other parts at any times leave an entry as it is, or let it vanish when it is dead.\<close>

lemma perform_all_spares:
  assumes "\<forall>(t, call) \<in> set calls. \<not> HasPrefix k (part_prefix (part_of call))"
    and "run_state (perform_all cd sha c calls) d = ((), d')"
  shows "spared (fst ` set calls) (keys d k) (keys d' k)"
  using assms
proof (induction calls arbitrary: d)
  case Nil
  then show ?case by (simp add: spared_def)
next
  case (Cons tc calls)
  obtain t call where tc: "tc = (t, call)" by fastforce
  obtain d1 where d1: "run_state (perform cd sha c t call) d = ((), d1)" by (metis surj_pair old.unit.exhaust)
  from keepsD [OF perform_frame d1] have "spares t (part_prefix (part_of call)) (keys d) (keys d1)"
    by (simp add: frame_def)
  with Cons.prems(1) have first: "spared {t} (keys d k) (keys d1 k)" by (simp add: spares_def tc)
  have "run_state (perform_all cd sha c calls) d1 = ((), d')" using Cons.prems(2) d1 by (simp add: tc)
  with Cons.IH [of d1] Cons.prems(1) have "spared (fst ` set calls) (keys d1 k) (keys d' k)" by simp
  from spared_trans [OF first this] show ?case by (simp add: tc)
qed

end

lemma part_prefixes:
  assumes "HasPrefix k (part_prefix p)" and "HasPrefix k (part_prefix q)"
  shows "p = q"
proof -
  let ?n = "min (length (part_prefix p)) (length (part_prefix q))"
  have "take ?n (part_prefix r) = take ?n k" if "HasPrefix k (part_prefix r)" "?n \<le> length (part_prefix r)" for r
    using that unfolding HasPrefix_def by (metis min.absorb1 take_take)
  from this [OF assms(1)] this [OF assms(2)] have "take ?n (part_prefix p) = take ?n (part_prefix q)" by simp
  then show "p = q" by (cases p; cases q) simp_all
qed

section \<open>Properties\<close>

text \<open>
  C36. The stores that share one Redis do not interfere.  Whatever calls are made on the other
  four stores, at whatever times and whether the server replies or loses replies, every entry
  below the prefix of a store is left as it is, may vanish only if it was dead at the time of
  one of the calls, and none appears: a session,
  a pending signup, a resend state, a counter or a cached user is changed by its own store only.
\<close>

theorem redis_stores_separate:
  assumes server: "redis_server c keys"
    and other: "\<forall>(t, call) \<in> set calls. part_of call \<noteq> part"
    and below: "HasPrefix k (part_prefix part)"
    and run: "run_state (perform_all cd sha c calls) d = ((), d')"
  shows "spared (fst ` set calls) (keys d k) (keys d' k)"
proof -
  have "\<forall>(t, call) \<in> set calls. \<not> HasPrefix k (part_prefix (part_of call))"
    using other below part_prefixes by blast
  from redis_server.perform_all_spares [OF server this run] show ?thesis .
qed

lemma unit_answer: obtains s' where "m = ((), s')"
  by (cases m) auto

lemma redis_stores_separate_witness:
  "\<exists>d'. run_state (perform_all demo_codec (\<lambda>x. x) demo_redis
      [(5, SessionSave ''tok'' demo_session), (6, PendingDelete ''+919876543210''), (7, LimiterAllow ''k'' \<lparr>Limit = 1, Window = Second\<rparr>)])
      [''auth:user:asha'' \<mapsto> (Text ''x'', Some 9)] = ((), d') \<and> d' ''auth:user:asha'' = Some (Text ''x'', Some 9)"
proof -
  let ?calls = "[(5, SessionSave ''tok'' demo_session), (6, PendingDelete ''+919876543210''),
    (7, LimiterAllow ''k'' \<lparr>Limit = 1, Window = Second\<rparr>)]"
  let ?d = "[''auth:user:asha'' \<mapsto> (Text ''x'', Some (9::int))]"
  obtain d' where run: "run_state (perform_all demo_codec (\<lambda>x. x) demo_redis ?calls) ?d = ((), d')"
    by (rule unit_answer)
  have other: "\<forall>(t, call) \<in> set ?calls. part_of call \<noteq> CachedUsers" by simp
  have below: "HasPrefix ''auth:user:asha'' (part_prefix CachedUsers)" by (simp add: HasPrefix_def)
  have "spared (fst ` set ?calls) (?d ''auth:user:asha'') (d' ''auth:user:asha'')"
    by (rule redis_stores_separate [OF demo_redis_server other below run])
  moreover have "fst ` set ?calls = {5, 6, 7}" by simp
  ultimately have "d' ''auth:user:asha'' = Some (Text ''x'', Some 9)" by (simp only: spared_def) (simp add: alive_def)
  with run show ?thesis by blast
qed

end
