(* ===== verification/Auth_Sessions.thy ===== *)
theory Auth_Sessions
  imports Demo_World
begin

text \<open>
  Lemmas on the session side of the service: what \<open>IssueTokenPair\<close>, \<open>Refresh\<close>,
  \<open>Logout\<close> and \<open>AuthenticateAccessToken\<close> do to the world, for every refresh-token store
  that keeps the contract, and the properties of the service over the in-process store.
\<close>

section \<open>The contract of the refresh-token store\<close>

locale refresh_contract =
  expiring_store save get del view digest refresh_session.ExpiresAt
  for save :: "time \<Rightarrow> string \<Rightarrow> refresh_session \<Rightarrow> ('r, auth_error, unit) call"
    and get :: "time \<Rightarrow> string \<Rightarrow> ('r, auth_error, refresh_session) call"
    and del :: "time \<Rightarrow> string \<Rightarrow> ('r, auth_error, unit) call"
    and view :: "'r \<Rightarrow> string \<rightharpoonup> refresh_session"
    and digest :: "string \<Rightarrow> string"
begin

lemma IssueTokenPair_Inr:
  assumes "refreshStore s = Some \<lparr>refresh_token_store.Save = save, Get = get, Delete = del\<rparr>"
    and "run_state (IssueTokenPair s u) w = (Inr p, w')"
  obtains m session x' where "tokenManager s = Some m"
    "run_state (GenerateTokenPair (crypto (libs s)) m (clock w (ticks w)) u) (outside w) =
       (Inr (p, session), x')"
    "view (refresh_tokens w') = (view (refresh_tokens w))(digest (RefreshToken p) \<mapsto> session)"
    "users w' = users w" "pending w' = pending w" "login_otps w' = login_otps w" "outside w' = x'"
    "clock w' = clock w" "ticks w' = ticks w + 2"
proof -
  from assms obtain m where m: "tokenManager s = Some m"
    by (auto simp: IssueTokenPair_def split: option.splits)
  with assms obtain session x' w1 r1 where
    g: "run_state (GenerateTokenPair (crypto (libs s)) m (clock w (ticks w)) u) (outside w) =
       (Inr (p, session), x')" and
    sv: "run_state (save (clock w (Suc (ticks w))) (RefreshToken p) session) (refresh_tokens w) =
       (Inr (), r1)" and
    w': "w' = w\<lparr>ticks := ticks w + 2, outside := x', refresh_tokens := r1\<rparr>"
    by (auto simp: IssueTokenPair_def go_eval split: prod.splits sum.splits)
  from save_result [OF sv] have
    "view (refresh_tokens w') = (view (refresh_tokens w))(digest (RefreshToken p) \<mapsto> session)"
    by (auto simp: w' split: if_splits)
  with m g show thesis by (rule that) (simp_all add: w')
qed

lemma Refresh_Inr:
  assumes "refreshStore s = Some \<lparr>refresh_token_store.Save = save, Get = get, Delete = del\<rparr>"
    and "run_state (Refresh s tok) w = (Inr (u, p), w')"
  obtains session us m session' x' where "TrimSpace tok \<noteq> []"
    "view (refresh_tokens w) (digest (TrimSpace tok)) = Some session"
    "clock w (ticks w) \<le> refresh_session.ExpiresAt session"
    "clock w (Suc (ticks w)) \<le> refresh_session.ExpiresAt session"
    "run_state (GetUserDetailsByUsername (repo s) (clock w (ticks w + 2))
       (refresh_session.Username session)) (users w) = (Inr u, us)"
    "tokenManager s = Some m"
    "run_state (GenerateTokenPair (crypto (libs s)) m (clock w (ticks w + 4)) u) (outside w) =
       (Inr (p, session'), x')"
    "view (refresh_tokens w') = (view (refresh_tokens w))
       (digest (TrimSpace tok) := None, digest (RefreshToken p) \<mapsto> session')"
    "users w' = us" "pending w' = pending w" "login_otps w' = login_otps w"
proof -
  let ?k = "TrimSpace tok"
  from assms have ne: "?k \<noteq> []" by (auto simp: Refresh_def)
  with assms obtain session where
    g: "run_state (get (clock w (ticks w)) ?k) (refresh_tokens w) = (Inr session, refresh_tokens w)"
    and live: "clock w (Suc (ticks w)) \<le> refresh_session.ExpiresAt session"
    by (rule_tac get_cases [of "refresh_tokens w" ?k "clock w (ticks w)"])
      (auto simp: Refresh_def go_eval Let_def isCacheMiss_def time_After_def split: if_splits prod.splits)
  with assms ne obtain us r1 r2 where
    l: "run_state (GetUserDetailsByUsername (repo s) (clock w (ticks w + 2))
       (refresh_session.Username session)) (users w) = (Inr u, us)" and
    d: "run_state (del (clock w (ticks w + 3)) ?k) (refresh_tokens w) = (r1, r2)" and
    i: "run_state (IssueTokenPair s u)
       (w\<lparr>users := us, ticks := ticks w + 4, refresh_tokens := r2\<rparr>) = (Inr p, w')"
    by (auto simp: Refresh_def go_eval Let_def time_After_def eval_nat_numeral
        split: prod.splits sum.splits if_splits)
  from get_Inr [OF g] have v: "view (refresh_tokens w) (digest ?k) = Some session"
    and l0: "clock w (ticks w) \<le> refresh_session.ExpiresAt session" by auto
  from del_result [OF d] have v2: "view r2 = (view (refresh_tokens w))(digest ?k := None)" by simp
  obtain m session' x' where
    "tokenManager s = Some m"
    "run_state (GenerateTokenPair (crypto (libs s)) m (clock w (ticks w + 4)) u) (outside w) =
       (Inr (p, session'), x')"
    "view (refresh_tokens w') = (view r2)(digest (RefreshToken p) \<mapsto> session')"
    "users w' = us" "pending w' = pending w" "login_otps w' = login_otps w"
    by (rule IssueTokenPair_Inr [OF assms(1) i]) simp
  with that [OF ne v l0 live l] v2 show thesis by simp
qed

lemma Refresh_miss:
  assumes "refreshStore s = Some \<lparr>refresh_token_store.Save = save, Get = get, Delete = del\<rparr>"
    and "TrimSpace tok \<noteq> []" and "view (refresh_tokens w) (digest (TrimSpace tok)) = None"
  shows "run_state (Refresh s tok) w = (Inl ErrInvalidRefreshToken, w\<lparr>ticks := Suc (ticks w)\<rparr>)"
  using assms get_none [OF assms(3)] by (simp add: Refresh_def go_eval Let_def isCacheMiss_def)

lemma Logout_run:
  assumes "refreshStore s = Some \<lparr>refresh_token_store.Save = save, Get = get, Delete = del\<rparr>"
    and "TrimSpace tok \<noteq> []" and "run_state (Logout s tok) w = (r, w')"
  shows "r = Inr () \<and> view (refresh_tokens w') =
      (view (refresh_tokens w))(digest (TrimSpace tok) := None) \<and>
    users w' = users w \<and> pending w' = pending w \<and> login_otps w' = login_otps w \<and>
    outside w' = outside w"
proof -
  obtain r1 r2 where
    d: "run_state (del (clock w (ticks w)) (TrimSpace tok)) (refresh_tokens w) = (r1, r2)" by fastforce
  with assms show ?thesis by (auto simp: Logout_def go_eval Let_def dest: del_result)
qed

lemma Refresh_live:
  assumes "refreshStore s = Some \<lparr>refresh_token_store.Save = save, Get = get, Delete = del\<rparr>"
    and "TrimSpace tok \<noteq> []" and "view (refresh_tokens w) (digest (TrimSpace tok)) = Some session"
    and "clock w (ticks w) \<le> refresh_session.ExpiresAt session"
    and "clock w (Suc (ticks w)) \<le> refresh_session.ExpiresAt session"
    and "run_state (GetUserDetailsByUsername (repo s) (clock w (ticks w + 2))
       (refresh_session.Username session)) (users w) = (Inr v, us)"
  shows "\<exists>w1. fst (run_state (Refresh s tok) w) =
      map_sum id (\<lambda>p. (v, p)) (fst (run_state (IssueTokenPair s v) w1)) \<and>
    users w1 = us \<and> outside w1 = outside w \<and> clock w1 = clock w \<and> ticks w1 = ticks w + 4"
proof -
  obtain r1 r2 where
    d: "run_state (del (clock w (ticks w + 3)) (TrimSpace tok)) (refresh_tokens w) = (r1, r2)"
    by fastforce
  let ?w1 = "w\<lparr>users := us, ticks := ticks w + 4, refresh_tokens := r2\<rparr>"
  have "fst (run_state (Refresh s tok) w) =
      map_sum id (\<lambda>p. (v, p)) (fst (run_state (IssueTokenPair s v) ?w1))"
    using assms d get_live [OF assms(3,4)]
    by (auto simp: Refresh_def go_eval Let_def time_After_def eval_nat_numeral
        split: prod.splits sum.splits)
  then show ?thesis by (intro exI [of _ ?w1]) simp
qed

end

section \<open>Refresh tokens are what TrimSpace leaves alone\<close>

lemma base64_alphabet_ascii:
  assumes "c \<in> set base64_alphabet"
  shows "byte c < (128 :: nat) \<and> \<not> is_space (byte c)"
proof -
  have "\<forall>c \<in> set base64_alphabet. byte c < (128 :: nat) \<and> \<not> is_space (byte c)"
    by (simp add: base64_alphabet_def is_space_def space_ranges_def)
  with assms show ?thesis by blast
qed

lemma TrimSpace_plain:
  assumes "\<forall>c \<in> set s. byte c < (128 :: nat) \<and> \<not> is_space (byte c)"
  shows "TrimSpace s = s"
proof -
  have "trim_by (\<lambda>c. is_space (byte c)) s = s"
    using assms by (intro trim_by_id) (metis hd_in_set last_in_set)
  with assms show ?thesis by (simp add: TrimSpace_ascii is_ascii_def)
qed

lemma TrimSpace_token: "TrimSpace (base64url a @ ''.'' @ base64url b) = base64url a @ ''.'' @ base64url b"
proof (rule TrimSpace_plain, rule ballI)
  fix c assume "c \<in> set (base64url a @ ''.'' @ base64url b)"
  then have "c \<in> set base64_alphabet \<or> c = CHR ''.''"
    using base64url_alphabet [of a] base64url_alphabet [of b] by auto
  then show "byte c < (128 :: nat) \<and> \<not> is_space (byte c)"
    using base64_alphabet_ascii by (elim disjE) (simp_all add: is_space_def space_ranges_def)
qed

lemma generated_token:
  assumes "crypto_ok lib" and "run_state (GenerateTokenPair lib m now u) x = (Inr (p, s), x')"
  shows "TrimSpace (RefreshToken p) = RefreshToken p \<and> RefreshToken p \<noteq> [] \<and>
    refresh_session.Username s = user.Username u \<and> refresh_session.UserID s = user.ID u \<and>
    refresh_session.ExpiresAt s = now + refreshTokenTTL m"
proof -
  obtain raw tid x1 x2 where raw: "run_state (randomToken lib 32) x1 = (Inr raw, x2)"
    and tid: "run_state (randomToken lib 24) x2 = (Inr tid, x')"
    and p: "RefreshToken p = tid @ ''.'' @ raw"
    and s: "s = \<lparr>TokenID = tid, UserID = user.ID u, Username = user.Username u,
       ExpiresAt = now + refreshTokenTTL m\<rparr>"
    by (rule GenerateTokenPair_Inr [OF assms(2)]) simp
  obtain a b where "raw = base64url a" "tid = base64url b"
    by (metis randomToken_Inr [OF assms(1) raw] randomToken_Inr [OF assms(1) tid])
  with TrimSpace_token [of b a] show ?thesis by (simp add: p s)
qed

interpretation mem_sessions: refresh_contract
  "RefreshStore_Save sha256" "RefreshStore_Get sha256" "RefreshStore_Delete sha256"
  sessions "tokenKey sha256"
  for sha256
  by unfold_locales

section \<open>A demonstration token\<close>

lemma demo_old:
  "TrimSpace ''old'' = ''old''"
  "GetUserDetailsByUsername (repo demo_service) t ''asha'' = demo_find (\<lambda>u. user.Username u = ''asha'')"
  "run_state (demo_find (\<lambda>u. user.Username u = ''asha'')) (users demo_world) =
     (Inr demo_user, users demo_world)"
  by (rule TrimSpace_plain)
    (simp_all add: is_space_def space_ranges_def demo_service_def demo_repo_simps)

lemma demo_refresh: "\<exists>p w'. run_state (Refresh demo_service ''old'') demo_world = (Inr (demo_user, p), w')"
proof -
  have s: "refreshStore demo_service = Some (memory_refresh_store (\<lambda>x. x))"
    "tokenManager demo_service = Some demo_manager" "libs demo_service = demo_libs"
    by (simp_all add: demo_service_def)
  note st = s(1) [unfolded memory_refresh_store_def]
  have v: "sessions (refresh_tokens demo_world) (tokenKey (\<lambda>x. x) (TrimSpace ''old'')) = Some demo_session"
    by (simp add: demo_old demo_world_def)
  have ne: "TrimSpace ''old'' \<noteq> []" by (simp add: demo_old)
  have live: "clock demo_world (ticks demo_world) \<le> refresh_session.ExpiresAt demo_session"
    "clock demo_world (Suc (ticks demo_world)) \<le> refresh_session.ExpiresAt demo_session"
    by (simp_all add: demo_world_def demo_session_def)
  have look: "run_state (GetUserDetailsByUsername (repo demo_service) (clock demo_world (ticks demo_world + 2))
      (refresh_session.Username demo_session)) (users demo_world) = (Inr demo_user, users demo_world)"
    using demo_old(2,3) by (simp add: demo_session_def)
  obtain v1 where v1: "clock v1 = clock demo_world" "ticks v1 = ticks demo_world + 4"
    and r: "fst (run_state (Refresh demo_service ''old'') demo_world) =
      map_sum id (\<lambda>p. (demo_user, p)) (fst (run_state (IssueTokenPair demo_service demo_user) v1))"
    using mem_sessions.Refresh_live [OF st ne v live look] by blast
  have "ticks v1 < 900" "clock v1 = (\<lambda>n. 5 + int n)" using v1 by (simp_all add: demo_world_def)
  from demo_issue [OF this s(2,1,3), of demo_user] r show ?thesis
    by (cases "run_state (Refresh demo_service ''old'') demo_world") auto
qed

section \<open>Properties\<close>

text \<open>
  C7. Refresh rotates.  When \<open>Refresh\<close> returns a user and a pair, the presented token was
  filed and alive, the user is the one the repository has for its session, and the store has
  changed in exactly two places: the presented token is gone and the new one is filed for
  the user.  Presenting the old token again, at whatever time, is rejected.
\<close>

theorem Refresh_rotates:
  assumes "refreshStore s = Some (memory_refresh_store sha256)"
    and "run_state (Refresh s tok) w = (Inr (u, p), w')"
    and "tokenKey sha256 (RefreshToken p) \<noteq> tokenKey sha256 (TrimSpace tok)"
  shows "\<exists>session session'.
    sessions (refresh_tokens w) (tokenKey sha256 (TrimSpace tok)) = Some session \<and>
    clock w (ticks w) \<le> refresh_session.ExpiresAt session \<and>
    run_state (GetUserDetailsByUsername (repo s) (clock w (ticks w + 2))
      (refresh_session.Username session)) (users w) = (Inr u, users w') \<and>
    sessions (refresh_tokens w') = (sessions (refresh_tokens w))
      (tokenKey sha256 (TrimSpace tok) := None, tokenKey sha256 (RefreshToken p) \<mapsto> session') \<and>
    refresh_session.UserID session' = user.ID u \<and>
    refresh_session.Username session' = user.Username u \<and>
    (\<forall>v. refresh_tokens v = refresh_tokens w' \<longrightarrow>
       fst (run_state (Refresh s tok) v) = Inl ErrInvalidRefreshToken)"
proof -
  note st = assms(1) [unfolded memory_refresh_store_def]
  obtain session us m session' x' where ne: "TrimSpace tok \<noteq> []"
    and old: "sessions (refresh_tokens w) (tokenKey sha256 (TrimSpace tok)) = Some session"
      "clock w (ticks w) \<le> refresh_session.ExpiresAt session"
    and user: "run_state (GetUserDetailsByUsername (repo s) (clock w (ticks w + 2))
       (refresh_session.Username session)) (users w) = (Inr u, us)" "users w' = us"
    and gen: "run_state (GenerateTokenPair (crypto (libs s)) m (clock w (ticks w + 4)) u) (outside w) =
       (Inr (p, session'), x')"
    and new: "sessions (refresh_tokens w') = (sessions (refresh_tokens w))
       (tokenKey sha256 (TrimSpace tok) := None, tokenKey sha256 (RefreshToken p) \<mapsto> session')"
    by (rule mem_sessions.Refresh_Inr [OF st assms(2)])
  have "fst (run_state (Refresh s tok) v) = Inl ErrInvalidRefreshToken"
    if "refresh_tokens v = refresh_tokens w'" for v
    using mem_sessions.Refresh_miss [OF st ne, of v] that new assms(3) by simp
  moreover have "refresh_session.UserID session' = user.ID u"
    "refresh_session.Username session' = user.Username u"
    by (rule GenerateTokenPair_Inr [OF gen], simp)+
  ultimately show ?thesis using old user new by blast
qed

lemma Refresh_rotates_witness:
  "\<exists>p w'. run_state (Refresh demo_service ''old'') demo_world = (Inr (demo_user, p), w') \<and>
     fst (run_state (Refresh demo_service ''old'') (w'\<lparr>ticks := 100\<rparr>)) = Inl ErrInvalidRefreshToken"
proof -
  obtain p w' where run: "run_state (Refresh demo_service ''old'') demo_world = (Inr (demo_user, p), w')"
    using demo_refresh by blast
  have st: "refreshStore demo_service = Some (memory_refresh_store (\<lambda>x. x))"
    by (simp add: demo_service_def)
  obtain m session x' where
    "run_state (GenerateTokenPair demo_crypto m (clock demo_world (ticks demo_world + 4)) demo_user)
       (outside demo_world) = (Inr (p, session), x')"
    by (rule mem_sessions.Refresh_Inr [OF st [unfolded memory_refresh_store_def] run])
      (simp add: demo_service_simps)
  then have "length (RefreshToken p) = 76"
    by (rule GenerateTokenPair_Inr)
      (auto simp: randomToken_def call_ok_Inr demo_crypto_def length_base64url)
  then have "length (tokenKey (\<lambda>x. x) (RefreshToken p)) \<noteq> length (tokenKey (\<lambda>x. x) (TrimSpace ''old''))"
    by (simp add: tokenKey_def hex_encode_def length_concat comp_def demo_old sum_list_triv)
  then have "tokenKey (\<lambda>x. x) (RefreshToken p) \<noteq> tokenKey (\<lambda>x. x) (TrimSpace ''old'')" by metis
  from Refresh_rotates [OF st run this] run show ?thesis by auto
qed

text \<open>
  C16. A pair that was issued can be refreshed.  Until the refresh token expires, presenting it
  to a store that still holds it succeeds whenever the repository has a user of that name and
  a new pair can be made, and the new pair is for the user the repository now has.
\<close>

theorem Refresh_accepts_issued:
  assumes "refreshStore s = Some (memory_refresh_store sha256)" and "tokenManager s = Some m"
    and "crypto_ok (crypto (libs s))"
    and "run_state (IssueTokenPair s u) w = (Inr p, w')"
    and "refresh_tokens v = refresh_tokens w'"
    and "clock v (ticks v) \<le> clock w (ticks w) + refreshTokenTTL m"
    and "clock v (Suc (ticks v)) \<le> clock w (ticks w) + refreshTokenTTL m"
    and "run_state (GetUserDetailsByUsername (repo s) (clock v (ticks v + 2)) (user.Username u))
      (users v) = (Inr u', us)"
  shows "\<exists>v1. users v1 = us \<and> outside v1 = outside v \<and> clock v1 = clock v \<and> ticks v1 = ticks v + 4 \<and>
    fst (run_state (Refresh s (RefreshToken p)) v) =
      map_sum id (\<lambda>p'. (u', p')) (fst (run_state (IssueTokenPair s u') v1))"
proof -
  note st = assms(1) [unfolded memory_refresh_store_def]
  obtain session x' where
    gen: "run_state (GenerateTokenPair (crypto (libs s)) m (clock w (ticks w)) u) (outside w) =
       (Inr (p, session), x')"
    and new: "sessions (refresh_tokens w') =
      (sessions (refresh_tokens w))(tokenKey sha256 (RefreshToken p) \<mapsto> session)"
    by (rule mem_sessions.IssueTokenPair_Inr [OF st assms(4)]) (use assms(2) in simp)
  note tok = generated_token [OF assms(3) gen]
  show ?thesis
    using mem_sessions.Refresh_live [OF st, of "RefreshToken p" v session u' us] tok new assms by auto
qed

lemma Refresh_accepts_issued_witness:
  "\<exists>p w' p'. run_state (IssueTokenPair demo_service demo_user) demo_world = (Inr p, w') \<and>
     fst (run_state (Refresh demo_service (RefreshToken p)) w') = Inr (demo_user, p')"
proof -
  have s: "refreshStore demo_service = Some (memory_refresh_store (\<lambda>x. x))"
    "tokenManager demo_service = Some demo_manager" "libs demo_service = demo_libs"
    by (simp_all add: demo_service_def)
  have c: "crypto_ok (crypto (libs demo_service))"
    by (simp add: demo_service_simps demo_crypto_ok)
  have d: "ticks demo_world < 900" "clock demo_world = (\<lambda>n. 5 + int n)" by (simp_all add: demo_world_def)
  obtain p w' where run: "run_state (IssueTokenPair demo_service demo_user) demo_world = (Inr p, w')"
    and w': "ticks w' = ticks demo_world + 2" "clock w' = clock demo_world" "users w' = users demo_world"
    using demo_issue [OF d s(2,1,3), of demo_user] by blast
  have live: "clock w' (ticks w') \<le> clock demo_world (ticks demo_world) + refreshTokenTTL demo_manager"
    "clock w' (Suc (ticks w')) \<le> clock demo_world (ticks demo_world) + refreshTokenTTL demo_manager"
    by (simp_all add: w' demo_world_def demo_manager_def Second_def)
  have look: "run_state (GetUserDetailsByUsername (repo demo_service) (clock w' (ticks w' + 2))
      (user.Username demo_user)) (users w') = (Inr demo_user, users demo_world)"
    using demo_old(2,3) by (simp add: w' demo_user_def)
  obtain v1 where v1: "clock v1 = clock w'" "ticks v1 = ticks w' + 4"
    and r: "fst (run_state (Refresh demo_service (RefreshToken p)) w') =
      map_sum id (\<lambda>p'. (demo_user, p')) (fst (run_state (IssueTokenPair demo_service demo_user) v1))"
    using Refresh_accepts_issued [OF s(1,2) c run refl live look] by blast
  have "ticks v1 < 900" "clock v1 = (\<lambda>n. 5 + int n)" using v1 w' d by (simp_all add: demo_world_def)
  from demo_issue [OF this s(2,1,3), of demo_user] r run show ?thesis by auto
qed

text \<open>
  A refresh token belongs to a username, not to a user.  The user identifier filed with
  the session plays no part in \<open>Refresh\<close>: with any other identifier in its place the same
  user is returned with the same tokens.  So a token issued before its user was renamed
  yields, once the old name is taken again, tokens for the new holder of the name.
\<close>

theorem Refresh_ignores_UserID:
  assumes "refreshStore s = Some (memory_refresh_store sha256)"
    and "sessions (refresh_tokens w) (tokenKey sha256 (TrimSpace tok)) = Some session"
  shows "fst (run_state (Refresh s tok) (w\<lparr>refresh_tokens := (refresh_tokens w)\<lparr>sessions :=
      (sessions (refresh_tokens w))
        (tokenKey sha256 (TrimSpace tok) \<mapsto> session\<lparr>refresh_session.UserID := n\<rparr>)\<rparr>\<rparr>)) =
    fst (run_state (Refresh s tok) w)"
  using assms
  by (auto simp: Refresh_def go_eval Let_def memory_refresh_store_def RefreshStore_Get_def
      RefreshStore_Delete_def split: prod.splits sum.splits)

lemma Refresh_ignores_UserID_witness:
  "\<exists>p. fst (run_state (Refresh demo_service ''old'') (demo_world\<lparr>refresh_tokens :=
      (refresh_tokens demo_world)\<lparr>sessions := (sessions (refresh_tokens demo_world))
        (tokenKey (\<lambda>x. x) ''old'' \<mapsto> demo_session\<lparr>refresh_session.UserID := 9\<rparr>)\<rparr>\<rparr>)) = Inr (demo_user, p)"
proof -
  have "refreshStore demo_service = Some (memory_refresh_store (\<lambda>x. x))"
    by (simp add: demo_service_def)
  moreover have "sessions (refresh_tokens demo_world) (tokenKey (\<lambda>x. x) (TrimSpace ''old'')) = Some demo_session"
    by (simp add: demo_old demo_world_def)
  ultimately show ?thesis
    using Refresh_ignores_UserID [of demo_service "\<lambda>x. x" demo_world "''old''" demo_session 9]
      demo_refresh by (auto simp: demo_old)
qed

text \<open>
  Logout revokes.  Logging out with a refresh token succeeds, removes that session and no
  other, and from then on the token is rejected by \<open>Refresh\<close>.
\<close>

theorem Logout_revokes:
  assumes "refreshStore s = Some (memory_refresh_store sha256)"
    and "TrimSpace tok \<noteq> []" and "run_state (Logout s tok) w = (r, w')"
  shows "r = Inr () \<and>
    sessions (refresh_tokens w') = (sessions (refresh_tokens w))(tokenKey sha256 (TrimSpace tok) := None) \<and>
    (\<forall>v. refresh_tokens v = refresh_tokens w' \<longrightarrow>
       fst (run_state (Refresh s tok) v) = Inl ErrInvalidRefreshToken)"
proof -
  note st = assms(1) [unfolded memory_refresh_store_def]
  have l: "r = Inr ()"
    "sessions (refresh_tokens w') = (sessions (refresh_tokens w))(tokenKey sha256 (TrimSpace tok) := None)"
    using mem_sessions.Logout_run [OF st assms(2,3)] by blast+
  then show ?thesis using mem_sessions.Refresh_miss [OF st assms(2)] by simp
qed

lemma Logout_revokes_witness:
  "\<exists>w'. run_state (Logout demo_service ''old'') demo_world = (Inr (), w') \<and>
     fst (run_state (Refresh demo_service ''old'') w') = Inl ErrInvalidRefreshToken"
proof -
  obtain r w' where run: "run_state (Logout demo_service ''old'') demo_world = (r, w')" by fastforce
  have "refreshStore demo_service = Some (memory_refresh_store (\<lambda>x. x))" "TrimSpace ''old'' \<noteq> []"
    by (simp_all add: demo_service_def demo_old)
  from Logout_revokes [OF this run] run show ?thesis by auto
qed

end
