(* ===== verification/Auth_Signup.thy ===== *)
theory Auth_Signup
  imports Auth_Sessions
begin

text \<open>
  Lemmas on the sign-up side of the service, for every pending signup store that keeps the
  contract, and the properties over the in-process store: sign-up reserves an identity, sends
  one code, and creates an account only for an approved code.
\<close>

section \<open>Lookups\<close>

text \<open>Between two views only expired signups have gone.\<close>

definition only_expired_gone ::
  "time \<Rightarrow> (string \<rightharpoonup> pending_signup) \<Rightarrow> (string \<rightharpoonup> pending_signup) \<Rightarrow> bool" where
  "only_expired_gone t v v' \<longleftrightarrow>
     (\<forall>m. v' m = v m \<or> (\<exists>p. v m = Some p \<and> v' m = None \<and> pending_signup.ExpiresAt p < t))"

lemma only_expired_gone_refl [simp]: "only_expired_gone t v v"
  by (simp add: only_expired_gone_def)

lemma only_expired_gone_trans:
  "only_expired_gone t v v' \<Longrightarrow> only_expired_gone t' v' v'' \<Longrightarrow> t \<le> t' \<Longrightarrow> only_expired_gone t' v v''"
  unfolding only_expired_gone_def by (metis order_less_le_trans option.distinct(1))

lemma only_expired_gone_Some: "only_expired_gone t v v' \<Longrightarrow> v' m = Some p \<Longrightarrow> v m = Some p"
  unfolding only_expired_gone_def by (metis option.distinct(1))

lemma only_expired_gone_del:
  "v m = Some p \<Longrightarrow> pending_signup.ExpiresAt p < t \<Longrightarrow> only_expired_gone t v (v(m := None))"
  by (auto simp: only_expired_gone_def)

context pending_contract
begin

lemma GetByMobile_run:
  assumes "wf p" and "run_state (GetByMobile st t m) p = (r, p')"
  shows "wf p' \<and> only_expired_gone t (view p) (view p') \<and> (\<forall>k. k \<noteq> m \<longrightarrow> view p' k = view p k) \<and>
    ((\<exists>s. r = Inr s \<and> p' = p \<and> view p m = Some s \<and> t \<le> pending_signup.ExpiresAt s) \<or>
     (r = Inl ErrCacheMiss \<and> view p' m = None))"
proof (cases "view p m")
  case None
  with get_none [OF assms(1) this] assms show ?thesis by auto
next
  case (Some s)
  show ?thesis
  proof (cases "t \<le> pending_signup.ExpiresAt s")
    case True
    with get_live [OF assms(1) Some] Some assms show ?thesis by auto
  next
    case False
    then have e: "pending_signup.ExpiresAt s < t" by simp
    from get_stale [OF assms(1) Some this] assms(2) have "wf p'" "r = Inl ErrCacheMiss"
      "view p' = (view p)(m := None)" by auto
    with only_expired_gone_del [of "view p" m s t] Some e show ?thesis by simp
  qed
qed

lemma via_index_run:
  assumes wf: "wf p" and found: "\<exists>found. run_state look p = run_state (via_index (GetByMobile st t) found) p \<and>
      (\<forall>m. found = Some m \<longleftrightarrow> (\<exists>s. view p m = Some s \<and> Q s m))"
    and run: "run_state look p = (r, p')"
  shows "wf p' \<and> only_expired_gone t (view p) (view p') \<and>
    ((\<exists>m s. r = Inr m \<and> p' = p \<and> view p m = Some s \<and> Q s m \<and> t \<le> pending_signup.ExpiresAt s) \<or>
     (r = Inl ErrCacheMiss \<and> (\<forall>m s. view p' m = Some s \<longrightarrow> \<not> Q s m)))"
proof -
  obtain found where eq: "run_state look p = run_state (via_index (GetByMobile st t) found) p"
    and idx: "\<And>m. found = Some m \<longleftrightarrow> (\<exists>s. view p m = Some s \<and> Q s m)"
    using found by blast
  show ?thesis
  proof (cases found)
    case None
    with eq run have "r = Inl ErrCacheMiss" "p' = p" by (simp_all add: via_index_def)
    with wf idx None show ?thesis by auto
  next
    case (Some m)
    then obtain s where s: "view p m = Some s" "Q s m" using idx by blast
    obtain q p1 where g: "run_state (GetByMobile st t m) p = (q, p1)" by fastforce
    with eq run Some have r: "p' = p1" "r = map_sum id (\<lambda>_. m) q"
      by (auto simp: via_index_def run_call_ok split: sum.splits)
    note get = GetByMobile_run [OF wf g]
    show ?thesis
    proof (cases q)
      case (Inr x)
      with get r s show ?thesis by auto
    next
      case (Inl e)
      with get have "view p1 m = None" "only_expired_gone t (view p) (view p1)" by auto
      then have "\<not> Q s' m'" if "view p1 m' = Some s'" for m' s'
        using that only_expired_gone_Some idx Some by (metis option.inject option.distinct(1))
      with get r Inl show ?thesis by auto
    qed
  qed
qed

end

section \<open>The availability checks\<close>

text \<open>What the checks may change: the repository's and the store's private states, and the clock.\<close>

definition checked :: "('u, 'r, 'p, 'o, 'x) world \<Rightarrow> ('u, 'r, 'p, 'o, 'x) world \<Rightarrow> bool" where
  "checked w w' \<longleftrightarrow> refresh_tokens w' = refresh_tokens w \<and> login_otps w' = login_otps w \<and>
     outside w' = outside w \<and> clock w' = clock w"

lemma checked_refl [simp]: "checked w w"
  by (simp add: checked_def)

lemma unless_taken_run:
  assumes "run_state (unless_taken (on_users f) e k) w = (r, w')"
  obtains e' us where "r = Inl e'" "w' = w\<lparr>ticks := Suc (ticks w), users := us\<rparr>"
  | us where "run_state k (w\<lparr>ticks := Suc (ticks w), users := us\<rparr>) = (r, w')"
proof -
  obtain q us where f: "run_state (f (clock w (ticks w))) (users w) = (q, us)" by fastforce
  with assms that show thesis
    by (auto simp: unless_taken_def go_eval split: sum.splits if_splits)
qed

lemma unique_identities_mobile:
  "unique_identities v \<Longrightarrow> v m = Some p \<Longrightarrow> pending_signup.Mobile p = m"
  by (simp add: unique_identities_def)

lemma unique_identities_free: "unique_identities v \<Longrightarrow> v m = Some p \<Longrightarrow> free_identity v p"
  unfolding unique_identities_def free_identity_def by metis

text \<open>
  No pending signup expires between the clock readings from number \<open>a\<close> up to \<open>a + n\<close>: each is
  alive or expired at all of them as it is at time \<open>t0\<close>.
\<close>

definition quiet ::
  "time \<Rightarrow> (string \<rightharpoonup> pending_signup) \<Rightarrow> (nat \<Rightarrow> time) \<Rightarrow> nat \<Rightarrow> nat \<Rightarrow> bool" where
  "quiet t0 v c a n \<longleftrightarrow> (\<forall>m p i. v m = Some p \<longrightarrow> a \<le> i \<longrightarrow> i < a + n \<longrightarrow>
     (c i \<le> pending_signup.ExpiresAt p \<longleftrightarrow> t0 \<le> pending_signup.ExpiresAt p))"

lemma quiet_sub:
  "quiet t0 v c a n \<Longrightarrow> only_expired_gone t v v' \<Longrightarrow> a \<le> a' \<Longrightarrow> a' + n' \<le> a + n \<Longrightarrow>
     quiet t0 v' c a' n'"
  unfolding quiet_def by (meson add_leD1 le_trans less_le_trans only_expired_gone_Some)

lemma quiet_gone:
  "quiet t0 v c a n \<Longrightarrow> only_expired_gone (c i) v v' \<Longrightarrow> a \<le> i \<Longrightarrow> i < a + n \<Longrightarrow>
     only_expired_gone t0 v v'"
  unfolding quiet_def only_expired_gone_def by (meson not_le)

context pending_contract
begin

lemma pendingConflict_live:
  assumes "pendingSignupStore s = st" "wf (pending w)"
    and "view (pending w) m = Some p" "clock w (ticks w) \<le> pending_signup.ExpiresAt p"
  shows "\<exists>e. run_state (pendingConflict s m a b c) w = (Inl e, w\<lparr>ticks := Suc (ticks w)\<rparr>)"
  using get_live [OF assms(2-4)] assms(1) by (simp add: pendingConflict_def go_eval)

lemma unless_pending_run:
  assumes st: "pendingSignupStore s = st" and wf: "wf (pending w)"
    and q: "quiet t0 (view (pending w)) (clock w) (ticks w) 2"
    and look: "\<exists>found. run_state (f (clock w (ticks w))) (pending w) =
        run_state (via_index (GetByMobile st (clock w (ticks w))) found) (pending w) \<and>
      (\<forall>m. found = Some m \<longleftrightarrow> (\<exists>x. view (pending w) m = Some x \<and> Q x m))"
    and run: "run_state (unless_pending (on_pending f) (\<lambda>m. pendingConflict s m a b c) k) w = (r, w')"
  obtains e' where "r = Inl e'" "w' = w\<lparr>ticks := ticks w + 2\<rparr>"
  | ps where "run_state k (w\<lparr>ticks := Suc (ticks w), pending := ps\<rparr>) = (r, w')" "wf ps"
      "only_expired_gone t0 (view (pending w)) (view ps)" "\<forall>m x. view ps m = Some x \<longrightarrow> \<not> Q x m"
proof -
  obtain g ps where f: "run_state (f (clock w (ticks w))) (pending w) = (g, ps)" by fastforce
  note look = via_index_run [OF wf look f]
  have gone: "only_expired_gone t0 (view (pending w)) (view ps)"
    using look by (intro quiet_gone [OF q]) auto
  from look consider
    m x where "g = Inr m" "ps = pending w" "view (pending w) m = Some x"
      "clock w (ticks w) \<le> pending_signup.ExpiresAt x"
    | "g = Inl ErrCacheMiss" "\<forall>m x. view ps m = Some x \<longrightarrow> \<not> Q x m" by blast
  then show thesis
  proof cases
    case 1
    let ?w1 = "w\<lparr>ticks := Suc (ticks w)\<rparr>"
    have "clock w (Suc (ticks w)) \<le> pending_signup.ExpiresAt x"
      using q 1(3,4) unfolding quiet_def by (metis add_2_eq_Suc' le_refl lessI less_SucI le_SucI)
    then obtain e where "run_state (pendingConflict s m a b c) ?w1 = (Inl e, ?w1\<lparr>ticks := Suc (Suc (ticks w))\<rparr>)"
      using pendingConflict_live [OF st, of ?w1 m x a b c] wf 1 by auto
    moreover have "run_state (on_pending f) w = (Inr m, ?w1)" using f 1 by (simp add: run_on_pending)
    ultimately show thesis using run that(1) by (auto simp: unless_pending_def)
  next
    case 2
    then have "run_state k (w\<lparr>ticks := Suc (ticks w), pending := ps\<rparr>) = (r, w')"
      using f run by (simp add: unless_pending_def run_on_pending isCacheMiss_def)
    then show thesis using that(2) look gone 2 by blast
  qed
qed

lemma ensure_run:
  assumes st: "pendingSignupStore s = st" and wf: "wf (pending w)"
    and q: "quiet t0 (view (pending w)) (clock w) (ticks w) 7"
    and run: "run_state (ensureSignupAvailability s req) w = (r, w')"
  shows "wf (pending w') \<and> only_expired_gone t0 (view (pending w)) (view (pending w')) \<and>
    checked w w' \<and> (r = Inr () \<longrightarrow> ticks w' = ticks w + 6 \<and>
      (\<forall>m x. view (pending w') m = Some x \<longrightarrow> m \<noteq> register_request.Mobile req \<and>
         pending_signup.Username x \<noteq> register_request.Username req \<and>
         pending_signup.Email x \<noteq> register_request.Email req))"
  (is "?goal r w'")
proof -
  define conflict where "conflict = (\<lambda>mobile. pendingConflict s mobile (register_request.Mobile req)
            (register_request.Username req) (register_request.Email req))"
  define k5 where "k5 = unless_pending (on_pending (\<lambda>t.
          GetMobileByMobile (pendingSignupStore s) t (register_request.Mobile req))) conflict (ok ())"
  define k4 where "k4 = unless_pending (on_pending (\<lambda>t.
          GetMobileByEmail (pendingSignupStore s) t (register_request.Email req))) conflict k5"
  define k3 where "k3 = unless_pending (on_pending (\<lambda>t.
          GetMobileByUsername (pendingSignupStore s) t (register_request.Username req))) conflict k4"
  have stop: "?goal (Inl e) (w\<lparr>ticks := j, users := us\<rparr>)" for e j us
    using wf by (simp add: checked_def)
  note u = unless_taken_run
  have "?goal r w' \<or> (\<exists>us. run_state k3 (w\<lparr>ticks := ticks w + 3, users := us\<rparr>) = (r, w'))"
    using run stop unfolding ensureSignupAvailability_def Let_def
      conflict_def [symmetric] k5_def [symmetric] k4_def [symmetric] k3_def [symmetric]
    by (elim u) (auto elim!: u simp: eval_nat_numeral)
  then show ?thesis
  proof
    assume "\<exists>us. run_state k3 (w\<lparr>ticks := ticks w + 3, users := us\<rparr>) = (r, w')"
    then obtain us where k3: "run_state k3 (w\<lparr>ticks := ticks w + 3, users := us\<rparr>) = (r, w')" ..
    let ?un = "register_request.Username req" and ?em = "register_request.Email req"
      and ?mo = "register_request.Mobile req" and ?v = "view (pending w)"
    define w3 where "w3 = w\<lparr>ticks := ticks w + 3, users := us\<rparr>"
    have w3: "wf (pending w3)" "pending w3 = pending w" "ticks w3 = ticks w + 3" "checked w w3"
      using wf by (simp_all add: w3_def checked_def)
    have q3: "quiet t0 (view (pending w3)) (clock w3) (ticks w3) 2"
      using quiet_sub [OF q only_expired_gone_refl] w3 by (simp add: checked_def)
    show ?thesis
    proof (rule unless_pending_run [OF st w3(1) q3 _ k3 [folded w3_def, unfolded k3_def conflict_def]])
      show "\<exists>found. run_state (GetMobileByUsername (pendingSignupStore s) (clock w3 (ticks w3)) ?un) (pending w3) =
          run_state (via_index (GetByMobile st (clock w3 (ticks w3))) found) (pending w3) \<and>
        (\<forall>m. found = Some m \<longleftrightarrow> (\<exists>x. view (pending w3) m = Some x \<and> pending_signup.Username x = ?un))"
        unfolding st by (rule by_username [OF w3(1)])
    next
      fix e assume "r = Inl e" "w' = w3\<lparr>ticks := ticks w3 + 2\<rparr>"
      with w3 show ?thesis by (simp add: checked_def)
    next
      fix p4 assume k4: "run_state k4 (w3\<lparr>ticks := Suc (ticks w3), pending := p4\<rparr>) = (r, w')"
        and p4: "wf p4" "only_expired_gone t0 (view (pending w3)) (view p4)"
        "\<forall>m x. view p4 m = Some x \<longrightarrow> pending_signup.Username x \<noteq> ?un"
      define w4 where "w4 = w3\<lparr>ticks := Suc (ticks w3), pending := p4\<rparr>"
      have w4: "wf (pending w4)" "ticks w4 = ticks w + 4" "checked w w4"
        "only_expired_gone t0 ?v (view (pending w4))"
        using p4 w3 by (simp_all add: w4_def checked_def)
      have q4: "quiet t0 (view (pending w4)) (clock w4) (ticks w4) 2"
        using quiet_sub [OF q w4(4)] w4 by (simp add: checked_def)
      show ?thesis
      proof (rule unless_pending_run [OF st w4(1) q4 _ k4 [folded w4_def, unfolded k4_def conflict_def]])
        show "\<exists>found. run_state (GetMobileByEmail (pendingSignupStore s) (clock w4 (ticks w4)) ?em) (pending w4) =
            run_state (via_index (GetByMobile st (clock w4 (ticks w4))) found) (pending w4) \<and>
          (\<forall>m. found = Some m \<longleftrightarrow> (\<exists>x. view (pending w4) m = Some x \<and> pending_signup.Email x = ?em))"
          unfolding st by (rule by_email [OF w4(1)])
      next
        fix e assume "r = Inl e" "w' = w4\<lparr>ticks := ticks w4 + 2\<rparr>"
        with w4 show ?thesis by (simp add: checked_def)
      next
        fix p5 assume k5: "run_state k5 (w4\<lparr>ticks := Suc (ticks w4), pending := p5\<rparr>) = (r, w')"
          and p5: "wf p5" "only_expired_gone t0 (view (pending w4)) (view p5)"
          "\<forall>m x. view p5 m = Some x \<longrightarrow> pending_signup.Email x \<noteq> ?em"
        define w5 where "w5 = w4\<lparr>ticks := Suc (ticks w4), pending := p5\<rparr>"
        have w5: "wf (pending w5)" "ticks w5 = ticks w + 5" "checked w w5"
          "only_expired_gone t0 ?v (view (pending w5))"
          using p5 w4 only_expired_gone_trans [OF w4(4) p5(2)] by (simp_all add: w5_def checked_def)
        have q5: "quiet t0 (view (pending w5)) (clock w5) (ticks w5) 2"
          using quiet_sub [OF q w5(4)] w5 by (simp add: checked_def)
        show ?thesis
        proof (rule unless_pending_run [OF st w5(1) q5 _ k5 [folded w5_def, unfolded k5_def conflict_def]])
          show "\<exists>found. run_state (GetMobileByMobile (pendingSignupStore s) (clock w5 (ticks w5)) ?mo) (pending w5) =
              run_state (via_index (GetByMobile st (clock w5 (ticks w5))) found) (pending w5) \<and>
            (\<forall>m. found = Some m \<longleftrightarrow> (\<exists>x. view (pending w5) m = Some x \<and> m = ?mo))"
            unfolding st by (rule by_mobile [OF w5(1)])
        next
          fix e assume "r = Inl e" "w' = w5\<lparr>ticks := ticks w5 + 2\<rparr>"
          with w5 show ?thesis by (simp add: checked_def)
        next
          fix p6 assume k6: "run_state (ok ()) (w5\<lparr>ticks := Suc (ticks w5), pending := p6\<rparr>) = (r, w')"
            and p6: "wf p6" "only_expired_gone t0 (view (pending w5)) (view p6)"
            "\<forall>m x. view p6 m = Some x \<longrightarrow> m \<noteq> ?mo"
          then have w': "wf (pending w')" "ticks w' = ticks w + 6" "checked w w'" "pending w' = p6"
            "only_expired_gone t0 ?v (view (pending w'))"
            using w5 only_expired_gone_trans [OF w5(4) p6(2)] by (auto simp: checked_def)
          have "view p4 m = Some x \<and> view p5 m = Some x" if "view p6 m = Some x" for m x
            using that p5(2) p6(2) by (auto simp: w4_def w5_def dest: only_expired_gone_Some)
          with w' p4(3) p5(3) p6(3) show ?thesis by blast
        qed
      qed
    qed
  qed
qed

lemma RequestSignupOTP_run:
  assumes st: "pendingSignupStore s = st" and wf: "wf (pending w)"
    and q: "quiet t0 (view (pending w)) (clock w) (ticks w) 7"
    and run: "run_state (RequestSignupOTP s req) w = (r, w')"
  shows "wf (pending w') \<and> refresh_tokens w' = refresh_tokens w \<and> login_otps w' = login_otps w \<and>
    (r = Inr () \<longrightarrow> (\<exists>n hash x v. normalizeSignupRequest req = Inr n \<and>
      run_state (bcrypt_Generate (libs s) (register_request.Password n)) (outside w) = (Inr hash, x) \<and>
      run_state (SendVerification (otpProvider s) (register_request.Mobile n)) x = (Inr (), outside w') \<and>
      only_expired_gone t0 (view (pending w)) v \<and>
      (\<forall>m y. v m = Some y \<longrightarrow> m \<noteq> register_request.Mobile n \<and>
         pending_signup.Username y \<noteq> register_request.Username n \<and>
         pending_signup.Email y \<noteq> register_request.Email n) \<and>
      view (pending w') = v(register_request.Mobile n \<mapsto>
        \<lparr>pending_signup.Username = register_request.Username n, PasswordHash = hash,
         Email = register_request.Email n, Mobile = register_request.Mobile n, ResendCount = 0,
         LastSentAt = clock w (ticks w + 6),
         ExpiresAt = clock w (ticks w + 6) + PendingSignupTTL (otpConfig s)\<rparr>)))"
proof (cases "normalizeSignupRequest req")
  case (Inl e)
  with run wf show ?thesis by (auto simp: RequestSignupOTP_def)
next
  case (Inr n)
  obtain q1 w1 where e: "run_state (ensureSignupAvailability s n) w = (q1, w1)" by fastforce
  note en = ensure_run [OF st wf q e]
  show ?thesis
  proof (cases q1)
    case (Inl e')
    with run Inr e en show ?thesis by (auto simp: RequestSignupOTP_def run_call_ok checked_def)
  next
    case (Inr u)
    then have w1: "wf (pending w1)" "ticks w1 = ticks w + 6" "checked w w1"
      "only_expired_gone t0 (view (pending w)) (view (pending w1))"
      "\<forall>m x. view (pending w1) m = Some x \<longrightarrow> m \<noteq> register_request.Mobile n \<and>
         pending_signup.Username x \<noteq> register_request.Username n \<and>
         pending_signup.Email x \<noteq> register_request.Email n" using en by auto
    obtain h x where h: "run_state (bcrypt_Generate (libs s) (register_request.Password n)) (outside w1) = (h, x)"
      by fastforce
    obtain g x2 where g: "run_state (SendVerification (otpProvider s) (register_request.Mobile n)) x = (g, x2)"
      by fastforce
    let ?p = "\<lambda>hash. \<lparr>pending_signup.Username = register_request.Username n, PasswordHash = hash,
         Email = register_request.Email n, Mobile = register_request.Mobile n, ResendCount = 0,
         LastSentAt = clock w (ticks w + 6),
         ExpiresAt = clock w (ticks w + 6) + PendingSignupTTL (otpConfig s)\<rparr>"
    show ?thesis
    proof (cases h)
      case (Inl e')
      with run \<open>normalizeSignupRequest req = Inr n\<close> e Inr h w1 show ?thesis
        by (auto simp: RequestSignupOTP_def run_call_ok run_on_outside checked_def)
    next
      case (Inr hash)
      show ?thesis
      proof (cases g)
        case (Inl e')
        with run \<open>normalizeSignupRequest req = Inr n\<close> e \<open>q1 = Inr u\<close> h g Inr w1 show ?thesis
          by (auto simp: RequestSignupOTP_def go_eval checked_def)
      next
        case (Inr v)
        obtain sv p2 where save: "run_state (pending_signup_store.Save st (clock w (ticks w + 7)) (?p hash))
            (pending w1) = (sv, p2)" by fastforce
        have res: "r = sv" "w' = w1\<lparr>outside := x2, ticks := ticks w + 8, pending := p2\<rparr>"
          using run \<open>normalizeSignupRequest req = Inr n\<close> e \<open>q1 = Inr u\<close> h g Inr \<open>h = Inr hash\<close> w1 save st
          by (auto simp: RequestSignupOTP_def go_eval checked_def eval_nat_numeral)
        show ?thesis
        proof (cases "clock w (ticks w + 7) < pending_signup.ExpiresAt (?p hash)")
          case False
          then have "sv = Inl ErrPendingSignupExpired" "p2 = pending w1"
            using save save_dead [of "?p hash" "clock w (ticks w + 7)" "pending w1"] by auto
          with res w1 show ?thesis by (auto simp: checked_def)
        next
          case True
          have "free_identity (view (pending w1)) (?p hash)"
            using w1(5) by (auto simp: free_identity_def)
          from save_live [OF w1(1) True this] save have "sv = Inr ()" "wf p2"
            "view p2 = (view (pending w1))(register_request.Mobile n \<mapsto> ?p hash)" by auto
          with res w1 h g Inr \<open>h = Inr hash\<close> \<open>normalizeSignupRequest req = Inr n\<close> show ?thesis
            by (auto simp: checked_def intro!: exI [of _ "view (pending w1)"])
        qed
      qed
    qed
  qed
qed

lemma ResendSignupOTP_run:
  assumes st: "pendingSignupStore s = st" and wf: "wf (pending w)"
    and m: "NormalizeIndianMobile (otp_request.Mobile req) = Inr mobile"
    and run: "run_state (ResendSignupOTP s req) w = (r, w')"
  shows "wf (pending w') \<and> (\<forall>k. k \<noteq> mobile \<longrightarrow> view (pending w') k = view (pending w) k) \<and>
    ((\<exists>e. r = Inl e) \<and> (view (pending w') mobile = None \<or> view (pending w') mobile = view (pending w) mobile) \<or>
     r = Inr () \<and> (\<exists>p now. view (pending w) mobile = Some p \<and>
       (0 < MaxResends (otpConfig s) \<longrightarrow> pending_signup.ResendCount p < MaxResends (otpConfig s)) \<and>
       view (pending w') mobile = Some (p\<lparr>pending_signup.ResendCount := int64 (pending_signup.ResendCount p + 1),
         pending_signup.LastSentAt := now\<rparr>)))"
proof -
  obtain g p1 where g: "run_state (GetByMobile st (clock w (ticks w)) mobile) (pending w) = (g, p1)" by fastforce
  note get = GetByMobile_run [OF wf g]
  show ?thesis
  proof (cases g)
    case (Inl e)
    have "\<exists>e. r = Inl e" "pending w' = p1"
      using run m st g Inl by (auto simp: ResendSignupOTP_def go_eval split: if_splits)
    then show ?thesis using get Inl by auto
  next
    case (Inr p)
    with get have p1: "p1 = pending w" and p: "view (pending w) mobile = Some p" by auto
    obtain v w1 where v: "run_state (validateResendWindow (otpConfig s) (pending_signup.LastSentAt p)
      (pending_signup.ResendCount p)) (w\<lparr>ticks := Suc (ticks w), pending := pending w\<rparr>) = (v, w1)"
      by fastforce
    then have w1: "pending w1 = pending w"
      and lim: "v = Inr () \<Longrightarrow> 0 < MaxResends (otpConfig s) \<Longrightarrow> pending_signup.ResendCount p < MaxResends (otpConfig s)"
      by (auto simp: validateResendWindow_def run_Now Let_def split: if_splits)
    obtain h x where h: "run_state (SendVerification (otpProvider s) mobile) (outside w1) = (h, x)" by fastforce
    show ?thesis
    proof (cases "v = Inr () \<and> h = Inr ()")
      case False
      then have "(\<exists>e. r = Inl e) \<and> pending w' = pending w"
        using run m st g Inr p1 v h w1
        by (cases v; cases h) (auto simp: ResendSignupOTP_def go_eval)
      with wf show ?thesis by auto
    next
      case True
      let ?t = "clock w1 (ticks w1)"
      let ?p = "p\<lparr>pending_signup.ResendCount := int64 (pending_signup.ResendCount p + 1),
         pending_signup.LastSentAt := ?t\<rparr>"
      obtain sv p2 where save: "run_state (pending_signup_store.Save st (clock w1 (Suc (ticks w1))) ?p)
          (pending w) = (sv, p2)" by fastforce
      have res: "r = sv" "pending w' = p2"
        using run m st g Inr p1 v h w1 True save by (auto simp: ResendSignupOTP_def go_eval)
      show ?thesis
      proof (cases "clock w1 (Suc (ticks w1)) < pending_signup.ExpiresAt p")
        case False
        then have "sv = Inl ErrPendingSignupExpired" "p2 = pending w"
          using save save_dead [of ?p "clock w1 (Suc (ticks w1))" "pending w"] by auto
        with res wf show ?thesis by auto
      next
        case live: True
        have mob: "pending_signup.Mobile p = mobile"
          using wf_unique [OF wf] p by (rule unique_identities_mobile)
        have "free_identity (view (pending w)) ?p"
          using unique_identities_free [OF wf_unique [OF wf] p] by (simp add: free_identity_def)
        with save_live [OF wf, of "clock w1 (Suc (ticks w1))" ?p] live save mob
        have "sv = Inr ()" "wf p2" "view p2 = (view (pending w))(mobile \<mapsto> ?p)" by auto
        with res p lim True show ?thesis by auto
      qed
    qed
  qed
qed

end

section \<open>Frames that hold for every service\<close>

lemma IssueTokenPair_frame:
  "run_state (IssueTokenPair s u) w = (r, w') \<Longrightarrow>
     users w' = users w \<and> pending w' = pending w \<and> login_otps w' = login_otps w"
  by (auto simp: IssueTokenPair_def go_eval split: option.splits prod.splits sum.splits)

text \<open>The account \<open>VerifySignupOTP\<close> asks the repository for.\<close>

definition verified_account :: "pending_signup \<Rightarrow> user" where
  "verified_account p =
     \<lparr>user.ID = 0, Username = pending_signup.Username p, Email = pending_signup.Email p,
      Mobile = pending_signup.Mobile p, MobileVerified = True, Role = RoleCustomer,
      IsProfileComplete = True, CreatedAt = 0, UpdatedAt = 0\<rparr>"

lemma VerifySignupOTP_run:
  assumes "run_state (VerifySignupOTP s req) w = (r, w')"
  obtains e where "r = Inl e" "users w' = users w"
  | mobile p p1 x h us where "NormalizeIndianMobile (otp_verify_request.Mobile req) = Inr mobile"
      "TrimSpace (Code req) \<noteq> []"
      "run_state (GetByMobile (pendingSignupStore s) (clock w (ticks w)) mobile) (pending w) = (Inr p, p1)"
      "clock w (Suc (ticks w)) \<le> pending_signup.ExpiresAt p"
      "run_state (CheckVerification (otpProvider s) mobile (TrimSpace (Code req))) (outside w) = (Inr True, x)"
      "run_state (RegisterUser (repo s) (clock w (ticks w + 2)) (verified_account p) (PasswordHash p))
         (users w) = (h, us)" "users w' = us"
      "case h of Inl e \<Rightarrow> r = Inl e | Inr u \<Rightarrow>
         (\<exists>d p2 w1. run_state (DeleteByMobile (pendingSignupStore s) (clock w (ticks w + 3)) mobile) p1 = (d, p2) \<and>
            pending w' = p2 \<and> w1 = w\<lparr>outside := x, users := us, ticks := ticks w + 4, pending := p2\<rparr> \<and>
            run_state (IssueTokenPair s u) w1 = (map_sum id snd r, w') \<and> (\<forall>y. r = Inr y \<longrightarrow> fst y = u))"
proof (cases "NormalizeIndianMobile (otp_verify_request.Mobile req)")
  case (Inl e)
  with assms that(1) show thesis by (auto simp: VerifySignupOTP_def)
next
  case (Inr mobile)
  show thesis
  proof (cases "TrimSpace (Code req) = []")
    case True
    with assms Inr that(1) show thesis by (auto simp: VerifySignupOTP_def)
  next
    case ne: False
    obtain g p1 where
      g: "run_state (GetByMobile (pendingSignupStore s) (clock w (ticks w)) mobile) (pending w) = (g, p1)" by fastforce
    show thesis
    proof (cases "\<exists>p. g = Inr p \<and> clock w (Suc (ticks w)) \<le> pending_signup.ExpiresAt p")
      case False
      with assms Inr ne g have "\<exists>e. r = Inl e" "users w' = users w"
        by (auto simp: VerifySignupOTP_def go_eval Let_def time_After_def split: sum.splits prod.splits if_splits)
      with that(1) show thesis by blast
    next
      case True
      then obtain p where p: "g = Inr p" "clock w (Suc (ticks w)) \<le> pending_signup.ExpiresAt p" by blast
      obtain c x where
        c: "run_state (CheckVerification (otpProvider s) mobile (TrimSpace (Code req))) (outside w) = (c, x)" by fastforce
      show thesis
      proof (cases "c = Inr True")
        case False
        with assms Inr ne g p c have "\<exists>e. r = Inl e" "users w' = users w"
          by (auto simp: VerifySignupOTP_def go_eval Let_def time_After_def split: sum.splits if_splits)
        with that(1) show thesis by blast
      next
        case ok: True
        obtain h us where
          h: "run_state (RegisterUser (repo s) (clock w (ticks w + 2)) (verified_account p) (PasswordHash p))
            (users w) = (h, us)" by fastforce
        show thesis
        proof (cases h)
          case (Inl e)
          with assms \<open>NormalizeIndianMobile (otp_verify_request.Mobile req) = Inr mobile\<close> ne g p c ok h
          have "r = Inl e" "users w' = us"
            by (auto simp: VerifySignupOTP_def go_eval Let_def time_After_def verified_account_def eval_nat_numeral)
          with that(2) \<open>NormalizeIndianMobile (otp_verify_request.Mobile req) = Inr mobile\<close> ne g p c ok h Inl
          show thesis by simp
        next
          case (Inr u)
          obtain d p2 where
            d: "run_state (DeleteByMobile (pendingSignupStore s) (clock w (ticks w + 3)) mobile) p1 = (d, p2)" by fastforce
          let ?w1 = "w\<lparr>outside := x, users := us, ticks := ticks w + 4, pending := p2\<rparr>"
          obtain t w2 where t: "run_state (IssueTokenPair s u) ?w1 = (t, w2)" by fastforce
          then have "r = map_sum id (\<lambda>p. (u, p)) t" "w' = w2"
            using assms \<open>NormalizeIndianMobile (otp_verify_request.Mobile req) = Inr mobile\<close> ne g p c ok h d Inr
            by (auto simp: VerifySignupOTP_def go_eval Let_def time_After_def verified_account_def eval_nat_numeral
                split: sum.splits prod.splits)
          with IssueTokenPair_frame [OF t] t that(2) [OF \<open>NormalizeIndianMobile (otp_verify_request.Mobile req) = Inr mobile\<close> ne, of p p1 x h us] g p c ok h d Inr
          show thesis by (auto simp: map_sum_def split: sum.splits)
        qed
      qed
    qed
  qed
qed

lemma VerifySignupOTP_ok:
  assumes "NormalizeIndianMobile (otp_verify_request.Mobile req) = Inr mobile"
    and "TrimSpace (Code req) \<noteq> []"
    and "run_state (GetByMobile (pendingSignupStore s) (clock w (ticks w)) mobile) (pending w) = (Inr p, p1)"
    and "clock w (Suc (ticks w)) \<le> pending_signup.ExpiresAt p"
    and "run_state (CheckVerification (otpProvider s) mobile (TrimSpace (Code req))) (outside w) = (Inr True, x)"
    and "run_state (RegisterUser (repo s) (clock w (ticks w + 2)) (verified_account p) (PasswordHash p))
       (users w) = (Inr u, us)"
    and "run_state (DeleteByMobile (pendingSignupStore s) (clock w (ticks w + 3)) mobile) p1 = (d, p2)"
    and "run_state (IssueTokenPair s u)
       (w\<lparr>outside := x, users := us, ticks := ticks w + 4, pending := p2\<rparr>) = (Inr t, w')"
  shows "run_state (VerifySignupOTP s req) w = (Inr (u, t), w')"
  using assms
  by (simp add: VerifySignupOTP_def go_eval Let_def time_After_def verified_account_def eval_nat_numeral)

section \<open>A request in the small world\<close>

lemma demo_mobile:
  "NormalizeIndianMobile ''9876543210'' = Inr ''+919876543210''"
proof -
  have a: "is_ascii ''9876543210''" by (simp add: is_ascii_def)
  have "TrimSpace ''9876543210'' = ''9876543210''"
    by (rule TrimSpace_plain) (simp add: is_space_def space_ranges_def)
  then show ?thesis
    unfolding NormalizeIndianMobile_ascii_spec [OF a] by (simp add: mobile_syntax_def digit_def)
qed

definition demo_request :: register_request where
  "demo_request = \<lparr>register_request.Username = ''bala'', Password = ''pw'', Email = ''b@x'',
     Mobile = ''9876543210'', ClientType = ''web''\<rparr>"

lemma demo_normalize:
  "normalizeSignupRequest demo_request = Inr (demo_request\<lparr>register_request.Mobile := ''+919876543210''\<rparr>)"
proof -
  have "TrimSpace ''bala'' = ''bala''" "TrimSpace ''b@x'' = ''b@x''"
    by (rule TrimSpace_plain, simp add: is_space_def space_ranges_def)+
  moreover have "ToLower ''b@x'' = ''b@x''" by (rule ToLower_plain) (simp add: plain_name_def)
  ultimately show ?thesis
    by (simp add: normalizeSignupRequest_def demo_request_def demo_mobile)
qed

lemma demo_signup: "\<exists>w'. run_state (RequestSignupOTP demo_service demo_request) demo_world = (Inr (), w')"
proof -
  have "run_state (ensureSignupAvailability demo_service
      (demo_request\<lparr>register_request.Mobile := ''+919876543210''\<rparr>)) demo_world =
    (Inr (), demo_world\<lparr>ticks := 6\<rparr>)"
    by (simp add: ensureSignupAvailability_def unless_taken_def unless_pending_def go_eval
        demo_service_def demo_repo_simps demo_request_def memory_pending_store_def getIndexLocked_def
        NewPendingSignupStore_def isCacheMiss_def Let_def)
  then show ?thesis
    by (simp add: RequestSignupOTP_def demo_normalize go_eval demo_service_simps demo_world_def
        memory_pending_store_def PendingSignupStore_Save_def Let_def Second_def)
qed

section \<open>Properties\<close>



text \<open>
  C8. No account without an approved code.  Whatever the repository, the stores and the
  provider do, \<open>VerifySignupOTP\<close> changes the repository only when the provider approved the
  presented code for the normalised mobile and an unexpired pending signup was found for it;
  and then only by registering exactly that signup, as a verified customer.
\<close>

theorem VerifySignupOTP_needs_code:
  assumes "run_state (VerifySignupOTP s req) w = (r, w')" and "users w' \<noteq> users w"
  shows "\<exists>mobile p p1 x h.
    NormalizeIndianMobile (otp_verify_request.Mobile req) = Inr mobile \<and>
    run_state (GetByMobile (pendingSignupStore s) (clock w (ticks w)) mobile) (pending w) = (Inr p, p1) \<and>
    clock w (Suc (ticks w)) \<le> pending_signup.ExpiresAt p \<and>
    run_state (CheckVerification (otpProvider s) mobile (TrimSpace (Code req))) (outside w) = (Inr True, x) \<and>
    run_state (RegisterUser (repo s) (clock w (ticks w + 2))
      \<lparr>user.ID = 0, Username = pending_signup.Username p, Email = pending_signup.Email p,
       Mobile = pending_signup.Mobile p, MobileVerified = True, Role = RoleCustomer,
       IsProfileComplete = True, CreatedAt = 0, UpdatedAt = 0\<rparr> (PasswordHash p)) (users w) = (h, users w')"
  by (rule VerifySignupOTP_run [OF assms(1)]) (use assms(2) in \<open>auto simp: verified_account_def\<close>)

text \<open>A world with one pending signup.\<close>

definition demo_pending :: pending_signup where
  "demo_pending = \<lparr>pending_signup.Username = ''bala'', PasswordHash = ''$pw'', Email = ''b@x'',
     Mobile = ''+919876543210'', ResendCount = 0, LastSentAt = 1, ExpiresAt = 900\<rparr>"

definition pending_world :: "(demo_users, refresh_store, pending_store, otp_store, unit) world" where
  "pending_world = demo_world\<lparr>pending :=
     \<lparr>signups = [''+919876543210'' \<mapsto> demo_pending], byUsername = [''bala'' \<mapsto> ''+919876543210''],
      byEmail = [''b@x'' \<mapsto> ''+919876543210''], byMobile = [''+919876543210'' \<mapsto> ''+919876543210'']\<rparr>\<rparr>"

definition demo_verify :: otp_verify_request where
  "demo_verify = \<lparr>otp_verify_request.Mobile = ''9876543210'', Code = ''1234'', ClientType = ''web''\<rparr>"

lemma pending_world_wf: "pending_wf (pending pending_world)"
  by (auto simp: pending_world_def pending_wf_def index_exact_def demo_pending_def)

lemma demo_sel:
  "pendingSignupStore demo_service = memory_pending_store" "repo demo_service = demo_repo"
  "otpProvider demo_service =
     \<lparr>SendVerification = (\<lambda>_. ok ()), CheckVerification = (\<lambda>_ c. ok (c = ''1234''))\<rparr>"
  "otpConfig demo_service = demo_otp_config" "libs demo_service = demo_libs"
  "loginOTPStore demo_service = memory_otp_store"
  by (simp_all add: demo_service_def)

lemma demo_verified:
  "\<exists>u p w'. run_state (VerifySignupOTP demo_service demo_verify) pending_world = (Inr (u, p), w') \<and>
     users w' \<noteq> users pending_world"
proof -
  let ?u = "(verified_account demo_pending)\<lparr>user.ID := 2, CreatedAt := 7, UpdatedAt := 7\<rparr>"
  let ?w = "pending_world\<lparr>ticks := 4, users := \<lparr>rows = [(demo_user, ''$pw''), (?u, ''$pw'')], links = []\<rparr>,
      pending := deleteLocked ''+919876543210'' (pending pending_world)\<rparr>"
  obtain p w' where i: "run_state (IssueTokenPair demo_service ?u) ?w = (Inr p, w')" and u: "users w' = users ?w"
    using demo_issue [of ?w demo_service "\<lambda>x. x" ?u]
    by (auto simp: demo_world_def pending_world_def demo_service_def)
  have code: "TrimSpace (Code demo_verify) = ''1234''"
    by (simp add: demo_verify_def) (rule TrimSpace_plain, simp add: is_space_def space_ranges_def)
  have m: "NormalizeIndianMobile (otp_verify_request.Mobile demo_verify) = Inr ''+919876543210''"
    by (simp add: demo_verify_def demo_mobile)
  have "run_state (VerifySignupOTP demo_service demo_verify) pending_world = (Inr (?u, p), w')"
  proof (rule VerifySignupOTP_ok [OF m])
    show "run_state (GetByMobile (pendingSignupStore demo_service) (clock pending_world (ticks pending_world))
        ''+919876543210'') (pending pending_world) = (Inr demo_pending, pending pending_world)"
      by (simp add: demo_sel memory_pending_store_def getByMobileLocked_def pending_world_def
          demo_world_def demo_pending_def time_After_def)
    show "run_state (RegisterUser (repo demo_service) (clock pending_world (ticks pending_world + 2))
        (verified_account demo_pending) (PasswordHash demo_pending)) (users pending_world) =
        (Inr ?u, \<lparr>rows = [(demo_user, ''$pw''), (?u, ''$pw'')], links = []\<rparr>)"
      by (simp add: demo_sel demo_repo_def demo_add_def pending_world_def demo_world_def demo_pending_def Let_def)
    show "run_state (DeleteByMobile (pendingSignupStore demo_service) (clock pending_world (ticks pending_world + 3))
        ''+919876543210'') (pending pending_world) =
        (Inr (), deleteLocked ''+919876543210'' (pending pending_world))"
      by (simp add: demo_sel memory_pending_store_def PendingSignupStore_DeleteByMobile_def)
    show "run_state (IssueTokenPair demo_service ?u) (pending_world\<lparr>outside := outside pending_world,
        users := \<lparr>rows = [(demo_user, ''$pw''), (?u, ''$pw'')], links = []\<rparr>,
        ticks := ticks pending_world + 4, pending := deleteLocked ''+919876543210'' (pending pending_world)\<rparr>) =
      (Inr p, w')"
      using i by (simp add: pending_world_def demo_world_def)
  qed (simp_all add: code demo_sel pending_world_def demo_world_def demo_pending_def)
  with u show ?thesis by (auto simp: pending_world_def demo_world_def)
qed

lemma VerifySignupOTP_needs_code_witness:
  "\<exists>r w'. run_state (VerifySignupOTP demo_service demo_verify) pending_world = (r, w') \<and>
     users w' \<noteq> users pending_world \<and>
     (\<exists>mobile p p1. NormalizeIndianMobile ''9876543210'' = Inr mobile \<and>
        run_state (getByMobileLocked 5 mobile) (pending pending_world) = (Inr p, p1))"
proof -
  obtain u p w' where run: "run_state (VerifySignupOTP demo_service demo_verify) pending_world = (Inr (u, p), w')"
    and new: "users w' \<noteq> users pending_world" using demo_verified by blast
  from VerifySignupOTP_needs_code [OF run new] obtain mobile q p1 where
    "NormalizeIndianMobile ''9876543210'' = Inr mobile"
    "run_state (getByMobileLocked 5 mobile) (pending pending_world) = (Inr q, p1)"
    by (auto simp: demo_verify_def demo_sel memory_pending_store_def pending_world_def demo_world_def)
  with run new show ?thesis by blast
qed

text \<open>
  C11. A completed sign-up consumes its reservation.  When \<open>VerifySignupOTP\<close> returns a user and
  tokens, an unexpired pending signup was filed under the normalised mobile, the provider
  approved the code, the user is what the repository registered for it, and the reservation
  is gone while all others are kept and the store stays well-formed.
\<close>

theorem VerifySignupOTP_completes:
  assumes "pendingSignupStore s = memory_pending_store" and "pending_wf (pending w)"
    and "run_state (VerifySignupOTP s req) w = (Inr (u, t), w')"
  shows "\<exists>mobile p x. NormalizeIndianMobile (otp_verify_request.Mobile req) = Inr mobile \<and>
    signups (pending w) mobile = Some p \<and> clock w (Suc (ticks w)) \<le> pending_signup.ExpiresAt p \<and>
    run_state (CheckVerification (otpProvider s) mobile (TrimSpace (Code req))) (outside w) = (Inr True, x) \<and>
    run_state (RegisterUser (repo s) (clock w (ticks w + 2)) (verified_account p) (PasswordHash p))
      (users w) = (Inr u, users w') \<and>
    signups (pending w') = (signups (pending w))(mobile := None) \<and> pending_wf (pending w')"
proof (rule VerifySignupOTP_run [OF assms(3)])
  fix e assume "Inr (u, t) = (Inl e :: auth_error + user \<times> token_pair)"
  then show ?thesis by simp
next
  fix mobile p p1 x h us
  assume n: "NormalizeIndianMobile (otp_verify_request.Mobile req) = Inr mobile"
    and g: "run_state (GetByMobile (pendingSignupStore s) (clock w (ticks w)) mobile) (pending w) = (Inr p, p1)"
    and l: "clock w (Suc (ticks w)) \<le> pending_signup.ExpiresAt p"
    and c: "run_state (CheckVerification (otpProvider s) mobile (TrimSpace (Code req))) (outside w) = (Inr True, x)"
    and h: "run_state (RegisterUser (repo s) (clock w (ticks w + 2)) (verified_account p) (PasswordHash p))
         (users w) = (h, us)" "users w' = us"
    and rest: "case h of Inl e \<Rightarrow> Inr (u, t) = Inl e | Inr v \<Rightarrow>
         (\<exists>d p2 w1. run_state (DeleteByMobile (pendingSignupStore s) (clock w (ticks w + 3)) mobile) p1 = (d, p2) \<and>
            pending w' = p2 \<and> w1 = w\<lparr>outside := x, users := us, ticks := ticks w + 4, pending := p2\<rparr> \<and>
            run_state (IssueTokenPair s v) w1 = (map_sum id snd (Inr (u, t)), w') \<and>
            (\<forall>y. Inr (u, t) = (Inr y :: auth_error + user \<times> token_pair) \<longrightarrow> fst y = v))"
  from rest obtain d where u: "h = Inr u"
    and d: "run_state (DeleteByMobile memory_pending_store (clock w (ticks w + 3)) mobile) p1 = (d, pending w')"
    by (cases h) (auto simp: assms(1))
  have p: "p1 = pending w" "signups (pending w) mobile = Some p"
    using mem_pending.GetByMobile_run [OF assms(2) g [unfolded assms(1)]] by auto
  have "signups (pending w') = (signups (pending w))(mobile := None)" "pending_wf (pending w')"
    using mem_pending.delete [OF assms(2), of "clock w (ticks w + 3)" mobile] d p(1) by auto
  with n p(2) l c h u show ?thesis by blast
qed

lemma VerifySignupOTP_completes_witness:
  "\<exists>u p w'. run_state (VerifySignupOTP demo_service demo_verify) pending_world = (Inr (u, p), w') \<and>
     signups (pending w') = Map.empty"
proof -
  obtain u p w' where run: "run_state (VerifySignupOTP demo_service demo_verify) pending_world = (Inr (u, p), w')"
    using demo_verified by blast
  from VerifySignupOTP_completes [OF demo_sel(1) pending_world_wf run]
  have "signups (pending w') = (signups (pending pending_world))(''+919876543210'' := None)"
    by (auto simp: demo_verify_def demo_mobile)
  then have "signups (pending w') = Map.empty" by (simp add: pending_world_def)
  with run show ?thesis by blast
qed

section \<open>Resending\<close>

text \<open>The resends that succeed for one mobile in a sequence of requests.\<close>

fun resends :: "('u, 'r, 'p, 'o, 'x) service \<Rightarrow> string \<Rightarrow> otp_request list \<Rightarrow>
    ('u, 'r, 'p, 'o, 'x) world \<Rightarrow> nat" where
  "resends s mobile [] w = 0"
| "resends s mobile (req # reqs) w =
     (case run_state (ResendSignupOTP s req) w of (r, w') \<Rightarrow>
        (if NormalizeIndianMobile (otp_request.Mobile req) = Inr mobile \<and> r = Inr () then 1 else 0) +
        resends s mobile reqs w')"

lemma resends_bound:
  assumes "pendingSignupStore s = memory_pending_store" and "pending_wf (pending w)"
    and "0 < MaxResends (otpConfig s)" and "MaxResends (otpConfig s) \<le> max_int64"
    and "\<And>p. signups (pending w) mobile = Some p \<Longrightarrow> 0 \<le> pending_signup.ResendCount p"
  shows "resends s mobile reqs w \<le> (case signups (pending w) mobile of None \<Rightarrow> 0
    | Some p \<Rightarrow> nat (MaxResends (otpConfig s) - pending_signup.ResendCount p))"
  using assms(2,5)
proof (induction reqs arbitrary: w)
  case (Cons req reqs)
  let ?max = "MaxResends (otpConfig s)"
  let ?left = "\<lambda>w. case signups (pending w) mobile of None \<Rightarrow> 0
    | Some p \<Rightarrow> nat (?max - pending_signup.ResendCount p)"
  obtain r w' where run: "run_state (ResendSignupOTP s req) w = (r, w')" by fastforce
  show ?case
  proof (cases "NormalizeIndianMobile (otp_request.Mobile req)")
    case (Inl e)
    with run have "r = Inl e" "w' = w" by (auto simp: ResendSignupOTP_def)
    with Cons run show ?thesis by simp
  next
    case (Inr m)
    note res = mem_pending.ResendSignupOTP_run [OF assms(1) Cons.prems(1) Inr run]
    then have wf': "pending_wf (pending w')" by blast
    show ?thesis
    proof (cases "m = mobile \<and> r = Inr ()")
      case False
      then have "signups (pending w') mobile = None \<or> signups (pending w') mobile = signups (pending w) mobile"
        using res by (cases "m = mobile") auto
      moreover have "resends s mobile reqs w' \<le> ?left w'"
        using res Cons.prems calculation by (intro Cons.IH) auto
      ultimately show ?thesis using run Inr False by auto
    next
      case True
      then obtain p now where p: "signups (pending w) mobile = Some p" "pending_signup.ResendCount p < ?max"
        "signups (pending w') mobile = Some (p\<lparr>pending_signup.ResendCount := int64 (pending_signup.ResendCount p + 1),
         pending_signup.LastSentAt := now\<rparr>)" using res assms(3) by auto
      have "int64 (pending_signup.ResendCount p + 1) = pending_signup.ResendCount p + 1"
        using p(2) assms(4) Cons.prems(2) [OF p(1)] by (intro int64_id) (simp_all add: min_int64_def)
      with p have p': "signups (pending w') mobile = Some (p\<lparr>pending_signup.ResendCount :=
          pending_signup.ResendCount p + 1, pending_signup.LastSentAt := now\<rparr>)" by simp
      have "resends s mobile reqs w' \<le> ?left w'"
        by (rule Cons.IH [OF wf']) (use Cons.prems(2) [OF p(1)] p' in simp)
      with run Inr True p(1,2) p' show ?thesis by simp
    qed
  qed
qed simp

text \<open>
  C12. Resends are bounded.  For a pending signup that has been resent \<open>n\<close> times, any sequence of
  resend requests, for it and for other mobiles, succeeds for it at most \<open>MaxResends - n\<close>
  more times; without a pending signup it never does.
\<close>

theorem ResendSignupOTP_bounded:
  assumes "pendingSignupStore s = memory_pending_store" and "pending_wf (pending w)"
    and "0 < MaxResends (otpConfig s)" and "MaxResends (otpConfig s) \<le> max_int64"
    and "\<And>p. signups (pending w) mobile = Some p \<Longrightarrow> 0 \<le> pending_signup.ResendCount p"
  shows "resends s mobile reqs w \<le> (case signups (pending w) mobile of None \<Rightarrow> 0
    | Some p \<Rightarrow> nat (MaxResends (otpConfig s) - pending_signup.ResendCount p))"
  using assms by (rule resends_bound)

lemma ResendSignupOTP_bounded_witness:
  "resends demo_service ''+919876543210'' (replicate 10 \<lparr>otp_request.Mobile = ''9876543210'', ClientType = []\<rparr>)
     pending_world \<le> 3"
  using ResendSignupOTP_bounded [OF demo_sel(1) pending_world_wf, of "''+919876543210''"
    "replicate 10 \<lparr>otp_request.Mobile = ''9876543210'', ClientType = []\<rparr>"]
  by (simp add: demo_sel demo_otp_config_def max_int64_def pending_world_def demo_pending_def
      del: replicate.simps)

section \<open>A signup that expires during the checks\<close>

definition early_pending :: pending_signup where
  "early_pending = \<lparr>pending_signup.Username = ''bala'', PasswordHash = ''h'', Email = ''c@x'',
     Mobile = ''m1'', ResendCount = 0, LastSentAt = 1, ExpiresAt = 8\<rparr>"

definition late_pending :: pending_signup where
  "late_pending = \<lparr>pending_signup.Username = ''chitra'', PasswordHash = ''h'', Email = ''b@x'',
     Mobile = ''m2'', ResendCount = 0, LastSentAt = 1, ExpiresAt = 900\<rparr>"

definition race_store :: pending_store where
  "race_store =
     \<lparr>signups = [''m1'' \<mapsto> early_pending, ''m2'' \<mapsto> late_pending],
      byUsername = [''bala'' \<mapsto> ''m1'', ''chitra'' \<mapsto> ''m2''],
      byEmail = [''c@x'' \<mapsto> ''m1'', ''b@x'' \<mapsto> ''m2''],
      byMobile = [''m1'' \<mapsto> ''m1'', ''m2'' \<mapsto> ''m2'']\<rparr>"

lemma race_store_wf: "pending_wf race_store"
  by (auto simp: race_store_def pending_wf_def index_exact_def early_pending_def late_pending_def)

lemma race_ensure:
  "run_state (ensureSignupAvailability demo_service
      (demo_request\<lparr>register_request.Mobile := ''+919876543210''\<rparr>)) (demo_world\<lparr>pending := race_store\<rparr>) =
    (Inr (), demo_world\<lparr>ticks := 5, pending := deleteLocked ''m1'' race_store\<rparr>)"
proof -
  have "run_state (on_pending (\<lambda>t. getIndexLocked t byUsername ''bala''))
      (demo_world\<lparr>ticks := 3, pending := race_store\<rparr>) =
    (Inr ''m1'', demo_world\<lparr>ticks := 4, pending := race_store\<rparr>)"
    by (simp add: go_eval getIndexLocked_def getByMobileLocked_def race_store_def early_pending_def
        time_After_def demo_world_def)
  moreover have "run_state (on_pending (\<lambda>t. getByMobileLocked t ''m1''))
      (demo_world\<lparr>ticks := 4, pending := race_store\<rparr>) =
    (Inl ErrCacheMiss, demo_world\<lparr>ticks := 5, pending := deleteLocked ''m1'' race_store\<rparr>)"
    by (simp add: go_eval getByMobileLocked_def race_store_def early_pending_def
        time_After_def demo_world_def)
  moreover have "run_state (on_users (\<lambda>t. demo_find (\<lambda>u. user.Username u = ''bala'')))
      (demo_world\<lparr>pending := race_store\<rparr>) =
      (Inl ErrUserNotFound, demo_world\<lparr>ticks := 1, pending := race_store\<rparr>)"
    "run_state (on_users (\<lambda>t. demo_find (\<lambda>u. user.Email u = ''b@x'')))
      (demo_world\<lparr>ticks := 1, pending := race_store\<rparr>) =
      (Inl ErrUserNotFound, demo_world\<lparr>ticks := 2, pending := race_store\<rparr>)"
    "run_state (on_users (\<lambda>t. demo_find (\<lambda>u. user.Mobile u = ''+919876543210'')))
      (demo_world\<lparr>ticks := 2, pending := race_store\<rparr>) =
      (Inl ErrUserNotFound, demo_world\<lparr>ticks := 3, pending := race_store\<rparr>)"
    by (simp_all add: go_eval demo_repo_simps)
  ultimately show ?thesis
    by (simp add: ensureSignupAvailability_def unless_taken_def unless_pending_def pendingConflict_def
        demo_sel demo_request_def memory_pending_store_def demo_repo_def isCacheMiss_def Let_def)
qed

text \<open>
  The availability checks can be cut short.  When the signup found by username expires
  before \<open>pendingConflict\<close> looks at it, the identity counts as available although the checks of
  email and mobile were not made: here a sign-up succeeds and two live signups then hold the
  same email, so the store is no longer well-formed.
\<close>

theorem RequestSignupOTP_expiry_race:
  "pending_wf race_store \<and>
   (\<exists>w' p. run_state (RequestSignupOTP demo_service demo_request) (demo_world\<lparr>pending := race_store\<rparr>) =
        (Inr (), w') \<and>
      signups (pending w') ''m2'' = Some late_pending \<and>
      signups (pending w') ''+919876543210'' = Some p \<and>
      pending_signup.Email p = pending_signup.Email late_pending \<and> \<not> pending_wf (pending w'))"
proof -
  let ?p = "\<lparr>pending_signup.Username = ''bala'', PasswordHash = ''$pw'', Email = ''b@x'',
     Mobile = ''+919876543210'', ResendCount = 0, LastSentAt = 10, ExpiresAt = 10 + 600 * Second\<rparr>"
  have sel: "clock demo_world = (\<lambda>n. 5 + int n)" "outside demo_world = ()"
    "signups race_store ''+919876543210'' = None"
    "register_request.Username demo_request = ''bala''" "register_request.Email demo_request = ''b@x''"
    "register_request.Password demo_request = ''pw''"
    by (simp_all add: demo_world_def race_store_def demo_request_def)
  obtain w' where run: "run_state (RequestSignupOTP demo_service demo_request) (demo_world\<lparr>pending := race_store\<rparr>) =
        (Inr (), w')" and
    view: "signups (pending w') = (signups (deleteLocked ''m1'' race_store))(''+919876543210'' \<mapsto> ?p)"
    by (simp add: RequestSignupOTP_def demo_normalize race_ensure go_eval demo_sel demo_libs_def sel
        demo_otp_config_def memory_pending_store_def PendingSignupStore_Save_def Let_def Second_def)
  then have v: "signups (pending w') ''m2'' = Some late_pending"
    "signups (pending w') ''+919876543210'' = Some ?p"
    by (simp_all add: race_store_def)
  have "\<not> pending_wf (pending w')"
  proof
    assume "pending_wf (pending w')"
    then have "unique_identities (signups (pending w'))" by (rule mem_pending.wf_unique)
    moreover have "pending_signup.Email late_pending = ''b@x''" by (simp add: late_pending_def)
    ultimately show False using v unfolding unique_identities_def by fastforce
  qed
  with run v race_store_wf show ?thesis by (auto simp: late_pending_def)
qed

end
