(* ===== verification/Auth_Login.thy ===== *)
theory Auth_Login
  imports Auth_Signup
begin

text \<open>
  Properties of the logins of the service (password, one-time password, Google), of profile
  completion and of the status query, for every repository and every store.
\<close>

section \<open>Password login\<close>


section \<open>Login by one-time password\<close>


lemma demo_unknown_mobile:
  "run_state (GetUserByMobile (repo demo_service) t ''+919876543210'') (users demo_world) =
     (Inl ErrUserNotFound, users demo_world)"
  by (simp add: demo_sel demo_repo_simps)


text \<open>
  C15. A login by code needs the code and a verified mobile.  When \<open>VerifyLoginOTP\<close> returns a
  user and tokens, the user is the repository's for the normalised mobile, the mobile is
  verified, and the provider approved the presented code for it.
\<close>

theorem VerifyLoginOTP_needs_code:
  assumes "run_state (VerifyLoginOTP s req) w = (Inr (u, t), w')"
  shows "\<exists>m us x. NormalizeIndianMobile (otp_verify_request.Mobile req) = Inr m \<and>
    run_state (GetUserByMobile (repo s) (clock w (ticks w)) m) (users w) = (Inr u, us) \<and>
    MobileVerified u \<and>
    run_state (CheckVerification (otpProvider s) m (TrimSpace (Code req))) (outside w) = (Inr True, x)"
  using assms
  by (auto simp: VerifyLoginOTP_def go_eval Let_def split: prod.splits sum.splits if_splits)

lemma demo_own_mobile: "NormalizeIndianMobile ''9642560235'' = Inr ''+919642560235''"
proof -
  have a: "is_ascii ''9642560235''" by (simp add: is_ascii_def)
  have "TrimSpace ''9642560235'' = ''9642560235''"
    by (rule TrimSpace_plain) (simp add: is_space_def space_ranges_def)
  then show ?thesis
    unfolding NormalizeIndianMobile_ascii_spec [OF a] by (simp add: mobile_syntax_def digit_def)
qed

lemma demo_code: "TrimSpace ''1234'' = ''1234''"
  by (rule TrimSpace_plain) (simp add: is_space_def space_ranges_def)

lemma VerifyLoginOTP_needs_code_witness:
  "\<exists>t w'. run_state (VerifyLoginOTP demo_service
      \<lparr>otp_verify_request.Mobile = ''9642560235'', Code = ''1234'', ClientType = []\<rparr>) demo_world =
      (Inr (demo_user, t), w') \<and> MobileVerified demo_user"
proof -
  let ?w = "demo_world\<lparr>ticks := 2\<rparr>"
  obtain t w' where i: "run_state (IssueTokenPair demo_service demo_user) ?w = (Inr t, w')"
    using demo_issue [of ?w demo_service "\<lambda>x. x" demo_user]
    by (auto simp: demo_world_def demo_service_def)
  have g: "run_state (GetUserByMobile (repo demo_service) t ''+919642560235'') (users demo_world) =
      (Inr demo_user, users demo_world)" for t
    by (simp add: demo_sel demo_repo_simps)
  have l: "run_state (otp_state_store.Delete (loginOTPStore demo_service) t k) (login_otps demo_world) =
      (Inr (), login_otps demo_world)" for t k
    by (simp add: demo_sel memory_otp_store_def OTPStateStore_Delete_def demo_world_def NewOTPStateStore_def)
  have "MobileVerified demo_user" by (simp add: demo_user_def)
  then have run: "run_state (VerifyLoginOTP demo_service
      \<lparr>otp_verify_request.Mobile = ''9642560235'', Code = ''1234'', ClientType = []\<rparr>) demo_world =
      (Inr (demo_user, t), w')"
    using i g l demo_sel(3)
    by (simp add: VerifyLoginOTP_def demo_own_mobile demo_code go_eval demo_world_def eval_nat_numeral)
  from VerifyLoginOTP_needs_code [OF this] run show ?thesis by blast
qed

section \<open>Google\<close>

text \<open>
  C17. Whom a Google login signs in.  When \<open>GoogleLogin\<close> returns a user and tokens, Google
  answered the code with an identity, and the user is the one linked to that identity; or,
  if none is linked, the one the repository has for the email of the identity, who is linked
  to it without a password or code being asked for; or else an account just created for it,
  with an incomplete profile.
\<close>

theorem GoogleLogin_identity:
  assumes "run_state (GoogleLogin s code) w = (Inr (u, t), w')"
  shows "\<exists>tok x1 srv x2 info x3.
    run_state (oauth2_Exchange (libs s) (googleConfig s) code) (outside w) = (Inr tok, x1) \<and>
    run_state (google_NewService (libs s) (googleConfig s) tok) x1 = (Inr srv, x2) \<and>
    run_state (google_Userinfo (libs s) srv) x2 = (Inr info, x3) \<and>
    (\<exists>u0 exists us. run_state (GetSSOAccount (repo s) (clock w (ticks w)) ''google'' (Id info)) (users w) =
        (Inr (u0, exists), us) \<and>
      (if exists then u = u0
       else (case run_state (GetUserByEmail (repo s) (clock w (Suc (ticks w))) (google_userinfo.Email info)) us of
           (Inr u1, us1) \<Rightarrow> u = u1 \<and>
             (\<exists>us2. run_state (LinkSSOAccount (repo s) (clock w (ticks w + 2)) (user.ID u1)
                \<lparr>sso_account.UserID = 0, Provider = ''google'', ProviderID = Id info,
                 Email = google_userinfo.Email info\<rparr>) us1 = (Inr (), us2))
         | (Inl e, us1) \<Rightarrow> e = ErrUserNotFound \<and>
             (\<exists>name t' us2 us3. run_state (CreateSSOUser (repo s) t'
                \<lparr>user.ID = 0, Username = name, Email = google_userinfo.Email info, Mobile = [],
                 MobileVerified = False, Role = RoleCustomer, IsProfileComplete = False,
                 CreatedAt = 0, UpdatedAt = 0\<rparr>
                \<lparr>sso_account.UserID = 0, Provider = ''google'', ProviderID = Id info,
                 Email = google_userinfo.Email info\<rparr>) us2 = (Inr u, us3)))))"
proof -
  obtain tok x1 where 1: "run_state (oauth2_Exchange (libs s) (googleConfig s) code) (outside w) = (Inr tok, x1)"
    using assms by (auto simp: GoogleLogin_def run_call_ok run_on_outside split: prod.splits sum.splits)
  obtain srv x2 where 2: "run_state (google_NewService (libs s) (googleConfig s) tok) x1 = (Inr srv, x2)"
    using assms 1 by (auto simp: GoogleLogin_def run_call_ok run_on_outside split: prod.splits sum.splits)
  obtain info x3 where 3: "run_state (google_Userinfo (libs s) srv) x2 = (Inr info, x3)"
    using assms 1 2 by (auto simp: GoogleLogin_def run_call_ok run_on_outside split: prod.splits sum.splits)
  obtain u0 exists us where 4: "run_state (GetSSOAccount (repo s) (clock w (ticks w)) ''google'' (Id info)) (users w) =
      (Inr (u0, exists), us)"
    using assms 1 2 3 by (auto simp: GoogleLogin_def go_eval split: prod.splits sum.splits)
  obtain g us1 where 5: "run_state (GetUserByEmail (repo s) (clock w (Suc (ticks w))) (google_userinfo.Email info)) us = (g, us1)"
    by fastforce
  note steps = GoogleLogin_def go_eval Let_def eval_nat_numeral
  show ?thesis
  proof (cases exists)
    case True
    with assms 1 2 3 4 have "u = u0" by (auto simp: steps split: prod.splits sum.splits)
    with 1 2 3 4 True show ?thesis by auto
  next
    case False
    show ?thesis
    proof (cases g)
      case (Inr u1)
      then have "u = u1 \<and> (\<exists>us2. run_state (LinkSSOAccount (repo s) (clock w (ticks w + 2)) (user.ID u1)
          \<lparr>sso_account.UserID = 0, Provider = ''google'', ProviderID = Id info,
           Email = google_userinfo.Email info\<rparr>) us1 = (Inr (), us2))"
        using assms 1 2 3 4 5 False by (auto simp: steps split: prod.splits sum.splits)
      with 1 2 3 4 5 Inr False show ?thesis by auto
    next
      case (Inl e)
      then have "e = ErrUserNotFound" using assms 1 2 3 4 5 False by (auto simp: steps split: if_splits)
      moreover have "\<exists>name t' us2 us3. run_state (CreateSSOUser (repo s) t'
            \<lparr>user.ID = 0, Username = name, Email = google_userinfo.Email info, Mobile = [],
             MobileVerified = False, Role = RoleCustomer, IsProfileComplete = False,
             CreatedAt = 0, UpdatedAt = 0\<rparr>
            \<lparr>sso_account.UserID = 0, Provider = ''google'', ProviderID = Id info,
             Email = google_userinfo.Email info\<rparr>) us2 = (Inr u, us3)"
        using assms 1 2 3 4 5 False Inl
        by (fastforce simp: steps split: prod.splits sum.splits if_splits)
      ultimately show ?thesis using 1 2 3 4 5 Inl False by auto
    qed
  qed
qed

section \<open>Profile completion\<close>

text \<open>
  C18. Completing a profile.  When \<open>CompleteProfile\<close> returns a user and tokens, the profile was
  not complete before, the trimmed name and the normalised mobile were not found to be
  another user's, and exactly the name, the mobile and the completeness of the user were
  changed and written back: the new mobile is as verified as the old one was.
\<close>

theorem CompleteProfile_effect:
  assumes "run_state (CompleteProfile s i name mobile) w = (Inr (u, t), w')"
  shows "\<exists>u0 us0 m r1 us1 r2 us2.
    run_state (GetUserByID (repo s) (clock w (ticks w)) i) (users w) = (Inr u0, us0) \<and>
    \<not> user.IsProfileComplete u0 \<and> TrimSpace name \<noteq> [] \<and> NormalizeIndianMobile mobile = Inr m \<and>
    run_state (GetUserDetailsByUsername (repo s) (clock w (ticks w + 1)) (TrimSpace name)) us0 = (r1, us1) \<and>
    \<not> taken_by_other i r1 \<and>
    run_state (GetUserByMobile (repo s) (clock w (ticks w + 2)) m) us1 = (r2, us2) \<and>
    \<not> taken_by_other i r2 \<and>
    u = u0\<lparr>user.Username := TrimSpace name, user.Mobile := m, user.IsProfileComplete := True\<rparr> \<and>
    MobileVerified u = MobileVerified u0 \<and>
    run_state (UpdateUser (repo s) (clock w (ticks w + 3)) u) us2 = (Inr (), users w')"
  using assms
proof -
  obtain r0 us0 where 0: "run_state (GetUserByID (repo s) (clock w (ticks w)) i) (users w) = (r0, us0)" by fastforce
  with assms obtain u0 where u0: "r0 = Inr u0" "\<not> user.IsProfileComplete u0" "TrimSpace name \<noteq> []"
    by (auto simp: CompleteProfile_def go_eval Let_def split: sum.splits if_splits)
  with assms 0 obtain m where m: "NormalizeIndianMobile mobile = Inr m"
    by (auto simp: CompleteProfile_def go_eval Let_def split: sum.splits if_splits)
  obtain r1 us1 where 1: "run_state (GetUserDetailsByUsername (repo s) (clock w (ticks w + 1)) (TrimSpace name)) us0 =
      (r1, us1)" by fastforce
  obtain r2 us2 where 2: "run_state (GetUserByMobile (repo s) (clock w (ticks w + 2)) m) us1 = (r2, us2)" by fastforce
  let ?u = "u0\<lparr>user.Username := TrimSpace name, user.Mobile := m, user.IsProfileComplete := True\<rparr>"
  obtain r3 us3 where 3: "run_state (UpdateUser (repo s) (clock w (ticks w + 3)) ?u) us2 = (r3, us3)" by fastforce
  have free1: "\<not> taken_by_other i r1"
    using assms 0 u0 m 1 by (auto simp: CompleteProfile_def go_eval Let_def eval_nat_numeral)
  then have "\<not> taken_by_other i r2"
    using assms 0 u0 m 1 2 by (auto simp: CompleteProfile_def go_eval Let_def eval_nat_numeral)
  note free = free1 this
  then have res: "r3 = Inr () \<and> u = ?u \<and> users w' = us3"
    using assms 0 u0 m 1 2 3
    by (auto simp: CompleteProfile_def go_eval Let_def eval_nat_numeral dest!: IssueTokenPair_frame
        split: sum.splits prod.splits)
  show ?thesis
    by (rule exI [of _ u0], rule exI [of _ us0], rule exI [of _ m], rule exI [of _ r1],
        rule exI [of _ us1], rule exI [of _ r2], rule exI [of _ us2])
      (use 0 u0 m 1 2 3 free res in auto)
qed

text \<open>A user who has signed in with Google and not completed the profile.\<close>

definition demo_guest :: user where
  "demo_guest = demo_user\<lparr>user.Username := ''g'', user.Mobile := [], MobileVerified := False,
     user.IsProfileComplete := False\<rparr>"

definition guest_world :: "(demo_users, refresh_store, pending_store, otp_store, unit) world" where
  "guest_world = demo_world\<lparr>users := \<lparr>rows = [(demo_guest, [])], links = [(''gid'', 7)]\<rparr>\<rparr>"

definition completed_guest :: user where
  "completed_guest = demo_guest\<lparr>user.Username := ''bala'', user.Mobile := ''+919876543210'',
     user.IsProfileComplete := True\<rparr>"

lemma demo_bala: "TrimSpace ''bala'' = ''bala''"
  by (rule TrimSpace_plain) (simp add: is_space_def space_ranges_def)

lemma demo_complete:
  "\<exists>t w'. run_state (CompleteProfile demo_service 7 ''bala'' ''9876543210'') guest_world =
     (Inr (completed_guest, t), w')"
proof -
  let ?us = "users guest_world"
  let ?us' = "\<lparr>rows = [(completed_guest, [])], links = [(''gid'', 7)]\<rparr>"
  let ?w = "guest_world\<lparr>ticks := 4, users := ?us'\<rparr>"
  obtain t w' where i: "run_state (IssueTokenPair demo_service completed_guest) ?w = (Inr t, w')"
    using demo_issue [of ?w demo_service "\<lambda>x. x" completed_guest]
    by (auto simp: demo_world_def guest_world_def demo_service_def)
  have "run_state (GetUserByID demo_repo t 7) ?us = (Inr demo_guest, ?us)"
    "run_state (GetUserDetailsByUsername demo_repo t ''bala'') ?us = (Inl ErrUserNotFound, ?us)"
    "run_state (GetUserByMobile demo_repo t ''+919876543210'') ?us = (Inl ErrUserNotFound, ?us)"
    "run_state (UpdateUser demo_repo t completed_guest) ?us = (Inr (), ?us')" for t
    by (simp_all add: demo_repo_def demo_find_def guest_world_def demo_guest_def completed_guest_def demo_user_def)
  moreover have "\<not> user.IsProfileComplete demo_guest" by (simp add: demo_guest_def)
  moreover have "ticks guest_world = 0" by (simp add: guest_world_def demo_world_def)
  ultimately have "run_state (CompleteProfile demo_service 7 ''bala'' ''9876543210'') guest_world =
     (Inr (completed_guest, t), w')"
    using i
    by (simp add: CompleteProfile_def go_eval demo_sel demo_bala demo_mobile taken_by_other_def
        completed_guest_def [symmetric] eval_nat_numeral Let_def)
  then show ?thesis by blast
qed

lemma CompleteProfile_effect_witness:
  "\<exists>t w'. run_state (CompleteProfile demo_service 7 ''bala'' ''9876543210'') guest_world =
     (Inr (completed_guest, t), w') \<and> \<not> MobileVerified completed_guest"
proof -
  obtain t w' where run: "run_state (CompleteProfile demo_service 7 ''bala'' ''9876543210'') guest_world =
     (Inr (completed_guest, t), w')" using demo_complete by blast
  have g: "run_state (GetUserByID (repo demo_service) (clock guest_world (ticks guest_world)) 7) (users guest_world) =
      (Inr demo_guest, users guest_world)"
    by (simp add: demo_sel demo_repo_def demo_find_def guest_world_def demo_guest_def demo_user_def)
  from CompleteProfile_effect [OF run] g have "MobileVerified completed_guest = MobileVerified demo_guest"
    by auto
  with run show ?thesis by (auto simp: demo_guest_def)
qed

lemma GoogleLogin_identity_witness:
  "\<exists>t w'. run_state (GoogleLogin demo_service ''gid'') guest_world = (Inr (demo_guest, t), w')"
proof -
  let ?w = "guest_world\<lparr>outside := (), ticks := 1\<rparr>"
  let ?us = "users guest_world"
  obtain t w' where i: "run_state (IssueTokenPair demo_service demo_guest) ?w = (Inr t, w')"
    using demo_issue [of ?w demo_service "\<lambda>x. x" demo_guest]
    by (auto simp: demo_world_def guest_world_def demo_service_def)
  have link: "run_state (GetSSOAccount demo_repo t ''google'' ''gid'') ?us = (Inr (demo_guest, True), ?us)" for t
    by (simp add: demo_repo_def demo_find_def guest_world_def demo_guest_def demo_user_def run_call_ok)
  have "ticks guest_world = 0" by (simp add: guest_world_def demo_world_def)
  with i link obtain u where run: "run_state (GoogleLogin demo_service ''gid'') guest_world = (Inr (u, t), w')"
    by (simp add: GoogleLogin_def go_eval demo_sel demo_libs_def)
  have "u = demo_guest"
    using GoogleLogin_identity [OF run] link by (auto simp: demo_sel demo_libs_def)
  with run show ?thesis by blast
qed

end
