(* ===== verification/Auth_Http.thy ===== *)
theory Auth_Http
  imports Auth_Login Http
begin

text \<open>
  \<open>auth/http/handler.go\<close>: the routes under \<open>/auth\<close>.  The state of the server is the world of the
  service and the private state of the rate limiter.  A handler takes a request and the
  submission bound from its body and returns the response it writes; the audit log is
  in \<open>Audit_Log\<close>.  The texts of timestamps are a parameter of the handler.
\<close>

section \<open>The handler\<close>

record cookie_config =
  RefreshTokenName :: string
  Domain :: string
  Path :: string
  Secure :: bool
  HTTPOnly :: bool
  SameSite :: same_site
  CSRFCookieName :: string
  CSRFHeaderName :: string
  CSRFCookiePath :: string
  CSRFCookieSecure :: bool
  CSRFCookieSameSite :: same_site

record ('u, 'r, 'p, 'o, 'x, 'l) handler =
  service :: "('u, 'r, 'p, 'o, 'x) service"
  cookies :: cookie_config
  limiter :: "'l rate_limiter option"
  limits :: otp_rate_limit_config
  rfc3339 :: "time \<Rightarrow> string"

definition default_cookies :: "cookie_config \<Rightarrow> cookie_config" where
  "default_cookies cfg = cfg
     \<lparr>RefreshTokenName := (if RefreshTokenName cfg = [] then ''refresh_token'' else RefreshTokenName cfg),
      Path := (if Path cfg = [] then ''/auth'' else Path cfg),
      SameSite := (if SameSite cfg = SameSiteUnset then SameSiteLaxMode else SameSite cfg),
      CSRFCookieName := (if CSRFCookieName cfg = [] then ''csrf_token'' else CSRFCookieName cfg),
      CSRFCookiePath := (if CSRFCookiePath cfg = [] then ''/auth'' else CSRFCookiePath cfg),
      CSRFHeaderName := (if CSRFHeaderName cfg = [] then ''X-CSRF-Token'' else CSRFHeaderName cfg),
      CSRFCookieSameSite := (if CSRFCookieSameSite cfg = SameSiteUnset then SameSiteLaxMode
        else CSRFCookieSameSite cfg)\<rparr>"

definition NewWithLimiter ::
  "('u, 'r, 'p, 'o, 'x) service \<Rightarrow> cookie_config \<Rightarrow> 'l rate_limiter option \<Rightarrow> otp_rate_limit_config \<Rightarrow>
     (time \<Rightarrow> string) \<Rightarrow> ('u, 'r, 'p, 'o, 'x, 'l) handler" where
  "NewWithLimiter s cfg lmt rules fmt =
     \<lparr>service = s, cookies = default_cookies cfg, limiter = lmt, limits = rules, rfc3339 = fmt\<rparr>"

text \<open>Without a limiter every code request is admitted; the zero limits are never read.\<close>

definition NewHandler ::
  "('u, 'r, 'p, 'o, 'x) service \<Rightarrow> cookie_config \<Rightarrow> (time \<Rightarrow> string) \<Rightarrow> ('u, 'r, 'p, 'o, 'x, 'l) handler" where
  "NewHandler s cfg =
     (let zero = \<lparr>rate_limit_rule.Limit = 0, Window = 0\<rparr> in
      NewWithLimiter s cfg None \<lparr>RequestIP = zero, RequestMobile = zero, VerifyIP = zero, VerifyMobile = zero\<rparr>)"

type_synonym ('u, 'r, 'p, 'o, 'x, 'l, 'a) http_action =
  "(('u, 'r, 'p, 'o, 'x) world \<times> 'l, 'a) state"

definition in_service ::
  "(('u, 'r, 'p, 'o, 'x) world, 'a) state \<Rightarrow> ('u, 'r, 'p, 'o, 'x, 'l, 'a) http_action" where
  "in_service m = State (\<lambda>(w, l). case run_state m w of (r, w') \<Rightarrow> (r, (w', l)))"

text \<open>A call to the limiter, which reads the clock on its side.\<close>

definition on_limiter ::
  "(time \<Rightarrow> ('l, auth_error, 'a) call) \<Rightarrow> ('u, 'r, 'p, 'o, 'x, 'l, auth_error + 'a) http_action" where
  "on_limiter m = do { t \<leftarrow> in_service Now;
     State (\<lambda>(w, l). case run_state (m t) l of (r, l') \<Rightarrow> (r, (w, l'))) }"

section \<open>Bodies\<close>

record signup_request_body =
  Username :: string
  Password :: string
  Email :: string
  Mobile :: string
  ClientType :: string

record password_login_request_body =
  Username :: string
  Password :: string
  ClientType :: string

record otp_request_body =
  Mobile :: string
  ClientType :: string

record otp_verify_request_body =
  Mobile :: string
  Code :: string
  ClientType :: string

record signup_status_request_body =
  Mobile :: string

record refresh_request =
  RefreshToken :: string
  ClientType :: string

record complete_profile_request_body =
  Username :: string
  Mobile :: string
  ClientType :: string

record user_response =
  ID :: nat
  Username :: string
  Email :: string
  Mobile :: string
  MobileVerified :: bool
  Role :: role
  IsProfileComplete :: bool
  CreatedAt :: string
  UpdatedAt :: string

record auth_response =
  User :: user_response
  Tokens :: token_pair

record message_response =
  Message :: string
  RequestId :: string

record signup_status_response =
  Status :: string
  RequestId :: string

datatype auth_body =
    ErrorBody error_response
  | AuthBody auth_response
  | UserBody user_response
  | MessageBody message_response
  | StatusBody signup_status_response

type_synonym ('u, 'r, 'p, 'o, 'x, 'l) http_handler =
  "('u, 'r, 'p, 'o, 'x, 'l, auth_body response) http_action"

definition toUserResponse :: "(time \<Rightarrow> string) \<Rightarrow> user \<Rightarrow> user_response" where
  "toUserResponse fmt u =
     \<lparr>user_response.ID = user.ID u, Username = user.Username u, Email = user.Email u,
      Mobile = user.Mobile u, MobileVerified = user.MobileVerified u, Role = user.Role u,
      IsProfileComplete = user.IsProfileComplete u,
      CreatedAt = (if time_IsZero (user.CreatedAt u) then [] else fmt (user.CreatedAt u)),
      UpdatedAt = (if time_IsZero (user.UpdatedAt u) then [] else fmt (user.UpdatedAt u))\<rparr>"

section \<open>Errors\<close>

text \<open>The switch of \<open>writeServiceError\<close>.\<close>

definition error_status :: "auth_error \<Rightarrow> int" where
  "error_status e =
     (if e \<in> {ErrInvalidUsername, ErrInvalidPassword, ErrInvalidEmail, ErrInvalidMobile, ErrInvalidOTPCode,
          ErrInvalidMobileFormat, ErrUserNotFound, ErrProfileAlreadyComplete} then 400
      else if e \<in> {ErrInvalidRefreshToken, ErrInvalidToken, ErrUnauthorized, ErrTokenExpired,
          ErrInvalidCredentials, ErrMobileNotVerified} then 401
      else if e \<in> {ErrUsernameAlreadyExists, ErrEmailAlreadyExists, ErrMobileAlreadyExists,
          ErrUserAlreadyExists, ErrSignupVerificationPending} then 409
      else if e \<in> {ErrOTPResendTooSoon, ErrOTPResendLimitReached} then 429
      else if e = ErrOTPTooManyRequests then 429
      else if e = ErrPendingSignupExpired then 410
      else if e = ErrOTPProviderUnavailable then 502
      else 500)"

definition writeServiceError :: "request \<Rightarrow> auth_error \<Rightarrow> auth_body response" where
  "writeServiceError c e =
     (let status = error_status e in
      if 500 \<le> status then respond status (ErrorBody \<lparr>error_response.Error = ''internal server error'',
        RequestID = requestIDFromContext c, Details = Map.empty\<rparr>)
      else respond status (ErrorBody \<lparr>error_response.Error = error_message e,
        RequestID = requestIDFromContext c, Details = Map.empty\<rparr>))"

section \<open>Tokens in cookies\<close>

definition newCSRFToken ::
  "('u, 'r, 'p, 'o, 'x, 'l) handler \<Rightarrow> ('u, 'r, 'p, 'o, 'x, 'l, auth_error + string) http_action" where
  "newCSRFToken h =
     call_ok (in_service (on_outside (rand_Read (crypto (libs (service h))) 32)))
       (\<lambda>data. ok (hex_encode data))"

definition setRefreshTokenCookie :: "cookie_config \<Rightarrow> string \<Rightarrow> int \<Rightarrow> cookie" where
  "setRefreshTokenCookie cfg refreshToken maxAgeSeconds =
     \<lparr>cookie.Name = RefreshTokenName cfg, Value = refreshToken, Path = cookie_config.Path cfg,
      Domain = cookie_config.Domain cfg, MaxAge = maxAgeSeconds, HttpOnly = HTTPOnly cfg,
      Secure = cookie_config.Secure cfg, SameSite = cookie_config.SameSite cfg\<rparr>"

definition clearRefreshTokenCookie :: "cookie_config \<Rightarrow> cookie" where
  "clearRefreshTokenCookie cfg =
     \<lparr>cookie.Name = RefreshTokenName cfg, Value = [], Path = cookie_config.Path cfg,
      Domain = cookie_config.Domain cfg, MaxAge = -1, HttpOnly = HTTPOnly cfg,
      Secure = cookie_config.Secure cfg, SameSite = cookie_config.SameSite cfg\<rparr>"

definition setCSRFCookie :: "cookie_config \<Rightarrow> string \<Rightarrow> int \<Rightarrow> cookie" where
  "setCSRFCookie cfg csrfToken maxAgeSeconds =
     \<lparr>cookie.Name = CSRFCookieName cfg, Value = csrfToken, Path = CSRFCookiePath cfg,
      Domain = cookie_config.Domain cfg, MaxAge = maxAgeSeconds, HttpOnly = False,
      Secure = CSRFCookieSecure cfg, SameSite = CSRFCookieSameSite cfg\<rparr>"

definition clearCSRFCookie :: "cookie_config \<Rightarrow> cookie" where
  "clearCSRFCookie cfg =
     \<lparr>cookie.Name = CSRFCookieName cfg, Value = [], Path = CSRFCookiePath cfg,
      Domain = cookie_config.Domain cfg, MaxAge = -1, HttpOnly = False,
      Secure = CSRFCookieSecure cfg, SameSite = CSRFCookieSameSite cfg\<rparr>"

text \<open>The cookies set and the token pair left for the body.\<close>

definition applyRefreshTokenTransport ::
  "('u, 'r, 'p, 'o, 'x, 'l) handler \<Rightarrow> string \<Rightarrow> token_pair \<Rightarrow>
     ('u, 'r, 'p, 'o, 'x, 'l, cookie list \<times> token_pair) http_action" where
  "applyRefreshTokenTransport h clientType tokens =
     (if clientType \<noteq> ''web'' then State_Monad.return ([], tokens)
      else do {
        csrf \<leftarrow> newCSRFToken h;
        case csrf of
          Inl _ \<Rightarrow> State_Monad.return ([], tokens)
        | Inr csrfToken \<Rightarrow> State_Monad.return
            ([setRefreshTokenCookie (cookies h) (token_pair.RefreshToken tokens) (RefreshTokenExpiresIn tokens),
              setCSRFCookie (cookies h) csrfToken (RefreshTokenExpiresIn tokens)],
             tokens\<lparr>token_pair.RefreshToken := []\<rparr>) })"

definition refreshTokenForClient ::
  "('u, 'r, 'p, 'o, 'x, 'l) handler \<Rightarrow> request \<Rightarrow> string \<Rightarrow> string \<Rightarrow> auth_error + string" where
  "refreshTokenForClient h c clientType requestToken =
     (if clientType = ''web'' then
        (case Cookie c (RefreshTokenName (cookies h)) of
           None \<Rightarrow> Inl ErrInvalidRefreshToken
         | Some ck \<Rightarrow> if TrimSpace ck = [] then Inl ErrInvalidRefreshToken else Inr ck)
      else if TrimSpace requestToken = [] then Inl ErrInvalidRefreshToken
      else Inr requestToken)"

definition requireCSRFFromWeb ::
  "('u, 'r, 'p, 'o, 'x, 'l) handler \<Rightarrow> request \<Rightarrow> string \<Rightarrow> auth_error option" where
  "requireCSRFFromWeb h c clientType =
     (if clientType \<noteq> ''web'' then None
      else case Cookie c (CSRFCookieName (cookies h)) of
        None \<Rightarrow> Some ErrUnauthorized
      | Some cookieToken \<Rightarrow>
          if TrimSpace cookieToken = [] then Some ErrUnauthorized
          else let headerToken = TrimSpace (Header c (CSRFHeaderName (cookies h))) in
            if headerToken = [] \<or> headerToken \<noteq> cookieToken then Some ErrUnauthorized else None)"

definition bearerToken :: "string \<Rightarrow> string" where
  "bearerToken header =
     (let token = TrimSpace header in
      if HasPrefix (ToLower token) ''bearer '' then TrimSpace (drop 7 token) else token)"

text \<open>The end of the handlers that hand out tokens.\<close>

definition write_auth_response ::
  "('u, 'r, 'p, 'o, 'x, 'l) handler \<Rightarrow> int \<Rightarrow> string \<Rightarrow> user \<times> token_pair \<Rightarrow>
     ('u, 'r, 'p, 'o, 'x, 'l) http_handler" where
  "write_auth_response h status clientType result = (case result of (u, tokens) \<Rightarrow> do {
     (cks, tokens') \<leftarrow> applyRefreshTokenTransport h clientType tokens;
     State_Monad.return ((respond status (AuthBody \<lparr>User = toUserResponse (rfc3339 h) u,
       Tokens = tokens'\<rparr>))\<lparr>SetCookies := cks\<rparr>) })"

section \<open>Rate limits\<close>

definition enforceRateLimit ::
  "('u, 'r, 'p, 'o, 'x, 'l) handler \<Rightarrow> request \<Rightarrow> string \<Rightarrow> string \<Rightarrow> rate_limit_rule \<Rightarrow> rate_limit_rule \<Rightarrow>
     ('u, 'r, 'p, 'o, 'x, 'l, auth_error + unit) http_action" where
  "enforceRateLimit h c action mobile ipRule mobileRule =
     (case limiter h of
        None \<Rightarrow> ok ()
      | Some lmt \<Rightarrow>
          call_ok (on_limiter (\<lambda>t. Allow lmt t (''otp:'' @ action @ '':ip:'' @ ClientIP c) ipRule)) (\<lambda>allowed.
          if \<not> allowed then err ErrOTPTooManyRequests
          else case NormalizeIndianMobile mobile of
            Inl _ \<Rightarrow> ok ()
          | Inr normalizedMobile \<Rightarrow>
              call_ok (on_limiter (\<lambda>t. Allow lmt t (''otp:'' @ action @ '':mobile:'' @ normalizedMobile) mobileRule))
                (\<lambda>allowed. if \<not> allowed then err ErrOTPTooManyRequests else ok ())))"

definition enforceOTPRequestLimit ::
  "('u, 'r, 'p, 'o, 'x, 'l) handler \<Rightarrow> request \<Rightarrow> string \<Rightarrow> ('u, 'r, 'p, 'o, 'x, 'l, auth_error + unit) http_action" where
  "enforceOTPRequestLimit h c mobile =
     enforceRateLimit h c ''request'' mobile (RequestIP (limits h)) (RequestMobile (limits h))"

definition enforceOTPVerifyLimit ::
  "('u, 'r, 'p, 'o, 'x, 'l) handler \<Rightarrow> request \<Rightarrow> string \<Rightarrow> ('u, 'r, 'p, 'o, 'x, 'l, auth_error + unit) http_action" where
  "enforceOTPVerifyLimit h c mobile =
     enforceRateLimit h c ''verify'' mobile (VerifyIP (limits h)) (VerifyMobile (limits h))"

text \<open>\<open>if err != nil { h.writeServiceError(c, err); return }\<close>.\<close>

definition or_service_error ::
  "request \<Rightarrow> ('u, 'r, 'p, 'o, 'x, 'l, auth_error + 'a) http_action \<Rightarrow>
     ('a \<Rightarrow> ('u, 'r, 'p, 'o, 'x, 'l) http_handler) \<Rightarrow> ('u, 'r, 'p, 'o, 'x, 'l) http_handler" where
  "or_service_error c m k = do {
     r \<leftarrow> m;
     case r of Inl e \<Rightarrow> State_Monad.return (writeServiceError c e) | Inr x \<Rightarrow> k x }"

text \<open>\<open>if err := h.decodeAndValidateJSON(c, &req); err != nil { return }\<close>.\<close>

definition with_body ::
  "request \<Rightarrow> 'b submission \<Rightarrow> ('b \<Rightarrow> ('u, 'r, 'p, 'o, 'x, 'l) http_handler) \<Rightarrow>
     ('u, 'r, 'p, 'o, 'x, 'l) http_handler" where
  "with_body c sub k =
     (case decodeAndValidateJSON ErrorBody c sub of Inl r \<Rightarrow> State_Monad.return r | Inr req \<Rightarrow> k req)"

definition write_message :: "request \<Rightarrow> int \<Rightarrow> string \<Rightarrow> ('u, 'r, 'p, 'o, 'x, 'l) http_handler" where
  "write_message c status m = State_Monad.return
     (respond status (MessageBody \<lparr>Message = m, RequestId = requestIDFromContext c\<rparr>))"

section \<open>Sign-up\<close>

definition handleRequestSignupOTP ::
  "('u, 'r, 'p, 'o, 'x, 'l) handler \<Rightarrow> request \<Rightarrow> signup_request_body submission \<Rightarrow>
     ('u, 'r, 'p, 'o, 'x, 'l) http_handler" where
  "handleRequestSignupOTP h c sub = with_body c sub (\<lambda>req.
     or_service_error c (enforceOTPRequestLimit h c (signup_request_body.Mobile req)) (\<lambda>_.
     or_service_error c (in_service (RequestSignupOTP (service h)
       \<lparr>register_request.Username = signup_request_body.Username req,
        Password = signup_request_body.Password req, Email = signup_request_body.Email req,
        Mobile = signup_request_body.Mobile req, ClientType = signup_request_body.ClientType req\<rparr>)) (\<lambda>_.
     write_message c 202 ''otp sent to mobile number'')))"

definition handleVerifySignupOTP ::
  "('u, 'r, 'p, 'o, 'x, 'l) handler \<Rightarrow> request \<Rightarrow> otp_verify_request_body submission \<Rightarrow>
     ('u, 'r, 'p, 'o, 'x, 'l) http_handler" where
  "handleVerifySignupOTP h c sub = with_body c sub (\<lambda>req.
     or_service_error c (enforceOTPVerifyLimit h c (otp_verify_request_body.Mobile req)) (\<lambda>_.
     or_service_error c (in_service (VerifySignupOTP (service h)
       \<lparr>otp_verify_request.Mobile = otp_verify_request_body.Mobile req,
        Code = otp_verify_request_body.Code req,
        ClientType = otp_verify_request_body.ClientType req\<rparr>)) (\<lambda>result.
     write_auth_response h 201 (otp_verify_request_body.ClientType req) result)))"

definition handleResendSignupOTP ::
  "('u, 'r, 'p, 'o, 'x, 'l) handler \<Rightarrow> request \<Rightarrow> otp_request_body submission \<Rightarrow>
     ('u, 'r, 'p, 'o, 'x, 'l) http_handler" where
  "handleResendSignupOTP h c sub = with_body c sub (\<lambda>req.
     or_service_error c (enforceOTPRequestLimit h c (otp_request_body.Mobile req)) (\<lambda>_.
     or_service_error c (in_service (ResendSignupOTP (service h)
       \<lparr>otp_request.Mobile = otp_request_body.Mobile req, ClientType = otp_request_body.ClientType req\<rparr>)) (\<lambda>_.
     write_message c 202 ''otp resent to mobile number'')))"

definition handleSignupStatus ::
  "('u, 'r, 'p, 'o, 'x, 'l) handler \<Rightarrow> request \<Rightarrow> signup_status_request_body submission \<Rightarrow>
     ('u, 'r, 'p, 'o, 'x, 'l) http_handler" where
  "handleSignupStatus h c sub = with_body c sub (\<lambda>req.
     or_service_error c (in_service (SignupStatus (service h) (signup_status_request_body.Mobile req))) (\<lambda>st.
     State_Monad.return (respond 200 (StatusBody \<lparr>signup_status_response.Status = st,
       RequestId = requestIDFromContext c\<rparr>))))"

section \<open>Login\<close>

definition handlePasswordLogin ::
  "('u, 'r, 'p, 'o, 'x, 'l) handler \<Rightarrow> request \<Rightarrow> password_login_request_body submission \<Rightarrow>
     ('u, 'r, 'p, 'o, 'x, 'l) http_handler" where
  "handlePasswordLogin h c sub = with_body c sub (\<lambda>req.
     or_service_error c (in_service (Login (service h)
       \<lparr>password_login_request.Username = password_login_request_body.Username req,
        Password = password_login_request_body.Password req,
        ClientType = password_login_request_body.ClientType req\<rparr>)) (\<lambda>result.
     write_auth_response h 200 (password_login_request_body.ClientType req) result))"

definition handleRequestLoginOTP ::
  "('u, 'r, 'p, 'o, 'x, 'l) handler \<Rightarrow> request \<Rightarrow> otp_request_body submission \<Rightarrow>
     ('u, 'r, 'p, 'o, 'x, 'l) http_handler" where
  "handleRequestLoginOTP h c sub = with_body c sub (\<lambda>req.
     or_service_error c (enforceOTPRequestLimit h c (otp_request_body.Mobile req)) (\<lambda>_.
     or_service_error c (in_service (RequestLoginOTP (service h)
       \<lparr>otp_request.Mobile = otp_request_body.Mobile req, ClientType = otp_request_body.ClientType req\<rparr>)) (\<lambda>_.
     write_message c 202 ''if the account is eligible, an otp has been sent'')))"

definition handleResendLoginOTP ::
  "('u, 'r, 'p, 'o, 'x, 'l) handler \<Rightarrow> request \<Rightarrow> otp_request_body submission \<Rightarrow>
     ('u, 'r, 'p, 'o, 'x, 'l) http_handler" where
  "handleResendLoginOTP h c sub = with_body c sub (\<lambda>req.
     or_service_error c (enforceOTPRequestLimit h c (otp_request_body.Mobile req)) (\<lambda>_.
     or_service_error c (in_service (ResendLoginOTP (service h)
       \<lparr>otp_request.Mobile = otp_request_body.Mobile req, ClientType = otp_request_body.ClientType req\<rparr>)) (\<lambda>_.
     write_message c 202 ''if the account is eligible, an otp has been sent'')))"

definition handleVerifyLoginOTP ::
  "('u, 'r, 'p, 'o, 'x, 'l) handler \<Rightarrow> request \<Rightarrow> otp_verify_request_body submission \<Rightarrow>
     ('u, 'r, 'p, 'o, 'x, 'l) http_handler" where
  "handleVerifyLoginOTP h c sub = with_body c sub (\<lambda>req.
     or_service_error c (enforceOTPVerifyLimit h c (otp_verify_request_body.Mobile req)) (\<lambda>_.
     or_service_error c (in_service (VerifyLoginOTP (service h)
       \<lparr>otp_verify_request.Mobile = otp_verify_request_body.Mobile req,
        Code = otp_verify_request_body.Code req,
        ClientType = otp_verify_request_body.ClientType req\<rparr>)) (\<lambda>result.
     write_auth_response h 200 (otp_verify_request_body.ClientType req) result)))"

section \<open>Sessions\<close>

definition handleRefresh ::
  "('u, 'r, 'p, 'o, 'x, 'l) handler \<Rightarrow> request \<Rightarrow> refresh_request submission \<Rightarrow>
     ('u, 'r, 'p, 'o, 'x, 'l) http_handler" where
  "handleRefresh h c sub = with_body c sub (\<lambda>req.
     case refreshTokenForClient h c (refresh_request.ClientType req) (refresh_request.RefreshToken req) of
       Inl e \<Rightarrow> State_Monad.return (writeServiceError c e)
     | Inr refreshToken \<Rightarrow>
         (case requireCSRFFromWeb h c (refresh_request.ClientType req) of
            Some e \<Rightarrow> State_Monad.return (writeServiceError c e)
          | None \<Rightarrow>
              or_service_error c (in_service (Refresh (service h) refreshToken)) (\<lambda>result.
              write_auth_response h 200 (refresh_request.ClientType req) result)))"

definition handleLogout ::
  "('u, 'r, 'p, 'o, 'x, 'l) handler \<Rightarrow> request \<Rightarrow> refresh_request submission \<Rightarrow>
     ('u, 'r, 'p, 'o, 'x, 'l) http_handler" where
  "handleLogout h c sub = with_body c sub (\<lambda>req.
     case refreshTokenForClient h c (refresh_request.ClientType req) (refresh_request.RefreshToken req) of
       Inl e \<Rightarrow> State_Monad.return (writeServiceError c e)
     | Inr refreshToken \<Rightarrow>
         (case requireCSRFFromWeb h c (refresh_request.ClientType req) of
            Some e \<Rightarrow> State_Monad.return (writeServiceError c e)
          | None \<Rightarrow>
              or_service_error c (in_service (Logout (service h) refreshToken)) (\<lambda>_.
              State_Monad.return ((respond_empty 204)\<lparr>SetCookies :=
                (if refresh_request.ClientType req = ''web''
                 then [clearRefreshTokenCookie (cookies h), clearCSRFCookie (cookies h)] else [])\<rparr>))))"

section \<open>Access tokens\<close>

text \<open>The two middlewares hand a value to the handler behind them.\<close>

definition requireAccessToken ::
  "('u, 'r, 'p, 'o, 'x, 'l) handler \<Rightarrow> request \<Rightarrow> (string \<Rightarrow> ('u, 'r, 'p, 'o, 'x, 'l) http_handler) \<Rightarrow>
     ('u, 'r, 'p, 'o, 'x, 'l) http_handler" where
  "requireAccessToken h c next =
     or_service_error c (in_service (AuthenticateAccessToken (service h) (bearerToken (Header c ''Authorization''))))
       (\<lambda>claims.
        if \<not> access_claims.IsProfileComplete claims then State_Monad.return (writeServiceError c ErrUnauthorized)
        else next (Subject claims))"

definition requirePartialAccessToken ::
  "('u, 'r, 'p, 'o, 'x, 'l) handler \<Rightarrow> request \<Rightarrow> (nat \<Rightarrow> ('u, 'r, 'p, 'o, 'x, 'l) http_handler) \<Rightarrow>
     ('u, 'r, 'p, 'o, 'x, 'l) http_handler" where
  "requirePartialAccessToken h c next =
     or_service_error c (in_service (AuthenticateAccessToken (service h) (bearerToken (Header c ''Authorization''))))
       (\<lambda>claims. or_service_error c (in_service (ValidateCurrentUser (service h) (Subject claims)))
       (\<lambda>u. next (user.ID u)))"

definition handleMe ::
  "('u, 'r, 'p, 'o, 'x, 'l) handler \<Rightarrow> request \<Rightarrow> string \<Rightarrow> ('u, 'r, 'p, 'o, 'x, 'l) http_handler" where
  "handleMe h c username =
     or_service_error c (in_service (ValidateCurrentUser (service h) username)) (\<lambda>u.
     State_Monad.return (respond 200 (UserBody (toUserResponse (rfc3339 h) u))))"

definition handleCompleteProfile ::
  "('u, 'r, 'p, 'o, 'x, 'l) handler \<Rightarrow> request \<Rightarrow> complete_profile_request_body submission \<Rightarrow> nat \<Rightarrow>
     ('u, 'r, 'p, 'o, 'x, 'l) http_handler" where
  "handleCompleteProfile h c sub userID = with_body c sub (\<lambda>req.
     or_service_error c (in_service (CompleteProfile (service h) userID
       (complete_profile_request_body.Username req) (complete_profile_request_body.Mobile req))) (\<lambda>result.
     write_auth_response h 200 (complete_profile_request_body.ClientType req) result))"

section \<open>Google\<close>

definition handleGoogleLoginRedirect ::
  "('u, 'r, 'p, 'o, 'x, 'l) handler \<Rightarrow> ('u, 'r, 'p, 'o, 'x, 'l) http_handler" where
  "handleGoogleLoginRedirect h =
     State_Monad.return ((respond_empty 307)\<lparr>Location := Some (GetGoogleAuthURL (service h))\<rparr>)"

definition handleGoogleCallback ::
  "('u, 'r, 'p, 'o, 'x, 'l) handler \<Rightarrow> request \<Rightarrow> ('u, 'r, 'p, 'o, 'x, 'l) http_handler" where
  "handleGoogleCallback h c =
     (let code = (case Query c ''code'' of Some v \<Rightarrow> v | None \<Rightarrow> []);
          clientType = (case Query c ''client_type'' of Some v \<Rightarrow> v | None \<Rightarrow> ''web'') in
      if code = [] then State_Monad.return (writeServiceError c (ErrOther ''missing code''))
      else or_service_error c (in_service (GoogleLogin (service h) code)) (\<lambda>result.
        write_auth_response h 200 clientType result))"

text \<open>The routes with a middleware.\<close>

definition route_me :: "('u, 'r, 'p, 'o, 'x, 'l) handler \<Rightarrow> request \<Rightarrow> ('u, 'r, 'p, 'o, 'x, 'l) http_handler" where
  "route_me h c = requireAccessToken h c (handleMe h c)"

definition route_complete_profile ::
  "('u, 'r, 'p, 'o, 'x, 'l) handler \<Rightarrow> request \<Rightarrow> complete_profile_request_body submission \<Rightarrow>
     ('u, 'r, 'p, 'o, 'x, 'l) http_handler" where
  "route_complete_profile h c sub = requirePartialAccessToken h c (handleCompleteProfile h c sub)"

section \<open>The audit log\<close>

text \<open>How a mobile appears in it.\<close>

definition maskMobile :: "string \<Rightarrow> string" where
  "maskMobile mobile0 =
     (let mobile = TrimSpace mobile0 in
      if mobile = [] then []
      else if length mobile \<le> 4 then ''****''
      else replicate (length mobile - 4) CHR ''*'' @ drop (length mobile - 4) mobile)"

section \<open>Running the handlers\<close>

lemma run_in_service [go_eval]:
  "run_state (in_service m) (w, l) = (case run_state m w of (r, w') \<Rightarrow> (r, (w', l)))"
  by (simp add: in_service_def split: prod.split)

lemma run_on_limiter [go_eval]:
  "run_state (on_limiter m) (w, l) =
     (case run_state (m (clock w (ticks w))) l of (r, l') \<Rightarrow> (r, (w\<lparr>ticks := Suc (ticks w)\<rparr>, l')))"
  by (simp add: on_limiter_def go_eval split: prod.split)

lemma run_or_service_error [go_eval]:
  "run_state (or_service_error c m k) s =
     (case run_state m s of (Inl e, s') \<Rightarrow> (writeServiceError c e, s') | (Inr x, s') \<Rightarrow> run_state (k x) s')"
  by (simp add: or_service_error_def split: prod.split sum.split)

lemma run_with_body:
  "run_state (with_body c sub k) s =
     (case decodeAndValidateJSON ErrorBody c sub of Inl r \<Rightarrow> (r, s) | Inr req \<Rightarrow> run_state (k req) s)"
  by (simp add: with_body_def split: sum.split)

lemma writeServiceError_sel [simp]:
  "response.Status (writeServiceError c e) = error_status e" "SetCookies (writeServiceError c e) = []"
  by (simp_all add: writeServiceError_def Let_def)

lemma error_status_ne_2xx: "error_status e \<notin> {200, 201, 202, 204}"
  by (simp add: error_status_def)

lemma writeServiceError_body: "\<exists>b. Body (writeServiceError c e) = Some (ErrorBody b)"
  by (simp add: writeServiceError_def Let_def)

lemma decode_body: "decodeAndValidateJSON ErrorBody c sub = Inl r \<Longrightarrow>
    response.Status r = 400 \<and> SetCookies r = [] \<and> (\<exists>e. Body r = Some (ErrorBody e))"
  using decode_Inl by blast

lemmas http_eval = go_eval run_with_body

text \<open>A request the limiter does not admit ends there; one it admits goes on.\<close>

definition admits ::
  "('u, 'r, 'p, 'o, 'x, 'l) handler \<Rightarrow> 'l rate_limiter \<Rightarrow> request \<Rightarrow> string \<Rightarrow> string \<Rightarrow> rate_limit_rule \<Rightarrow>
     rate_limit_rule \<Rightarrow> time \<Rightarrow> time \<Rightarrow> 'l \<Rightarrow> 'l \<Rightarrow> bool" where
  "admits h lmt c action mobile ipRule mobileRule t t2 l l2 \<longleftrightarrow>
     (\<exists>l1. run_state (Allow lmt t (''otp:'' @ action @ '':ip:'' @ ClientIP c) ipRule) l = (Inr True, l1) \<and>
       (case NormalizeIndianMobile mobile of
          Inl _ \<Rightarrow> l2 = l1
        | Inr n \<Rightarrow> run_state (Allow lmt t2 (''otp:'' @ action @ '':mobile:'' @ n) mobileRule) l1 = (Inr True, l2)))"

lemma enforceRateLimit_cases:
  assumes "limiter h = Some lmt"
    and "run_state (enforceRateLimit h c action mobile ipRule mobileRule) (w, l) = (r, (w', l'))"
  shows "w' = w\<lparr>ticks := ticks w'\<rparr> \<and>
    (r = Inr () \<longrightarrow> admits h lmt c action mobile ipRule mobileRule
      (clock w (ticks w)) (clock w (Suc (ticks w))) l l')"
proof -
  obtain a l1 where a: "run_state (Allow lmt (clock w (ticks w)) (''otp:'' @ action @ '':ip:'' @ ClientIP c) ipRule) l
      = (a, l1)" by fastforce
  show ?thesis
  proof (cases "a = Inr True")
    case False
    with a assms show ?thesis
      by (cases a) (auto simp: enforceRateLimit_def http_eval)
  next
    case True
    show ?thesis
    proof (cases "NormalizeIndianMobile mobile")
      case (Inl e)
      with a True assms show ?thesis by (auto simp: enforceRateLimit_def http_eval admits_def)
    next
      case (Inr n)
      obtain b l2 where b: "run_state (Allow lmt (clock w (Suc (ticks w)))
          (''otp:'' @ action @ '':mobile:'' @ n) mobileRule) l1 = (b, l2)" by fastforce
      with a True Inr assms show ?thesis
        by (cases b) (auto simp: enforceRateLimit_def http_eval admits_def split: if_splits)
    qed
  qed
qed

end
