(* ===== verification/Auth_Guards.thy ===== *)
theory Auth_Guards
  imports Auth_Http
begin

text \<open>
  What the HTTP layer of \<open>auth/http\<close> guarantees around the service: protection of cookie
  sessions against forged requests, refresh tokens kept out of bodies, rate limits before
  codes are sent, opaque error responses and the access-token guard.
\<close>

section \<open>Forged requests\<close>

lemma requireCSRF_blocks:
  assumes "\<nexists>tok. Cookie c (CSRFCookieName (cookies h)) = Some tok \<and> tok \<noteq> [] \<and>
      TrimSpace (Header c (CSRFHeaderName (cookies h))) = tok"
  shows "requireCSRFFromWeb h c ''web'' = Some ErrUnauthorized"
  using assms by (auto simp: requireCSRFFromWeb_def Let_def split: option.split)

lemma refreshTokenForClient_Inl:
  "refreshTokenForClient h c ct tok = Inl e \<Longrightarrow> e = ErrInvalidRefreshToken"
  by (auto simp: refreshTokenForClient_def split: if_splits option.splits)

text \<open>
  C26. A browser session cannot be used by a forged request.  Unless the request carries the
  CSRF cookie and repeats its value in the CSRF header, \<open>/auth/refresh\<close> and \<open>/auth/logout\<close>
  answer a web client with 400 or 401 and set no cookie, and nothing on the server changes.
\<close>

theorem web_session_needs_csrf:
  assumes "Bound sub = Some req" and "refresh_request.ClientType req = ''web''"
    and "\<nexists>tok. Cookie c (CSRFCookieName (cookies h)) = Some tok \<and> tok \<noteq> [] \<and>
      TrimSpace (Header c (CSRFHeaderName (cookies h))) = tok"
  shows "\<exists>r. run_state (handleRefresh h c sub) s = (r, s) \<and> run_state (handleLogout h c sub) s = (r, s) \<and>
    response.Status r \<in> {400, 401} \<and> SetCookies r = []"
proof (cases "decodeAndValidateJSON ErrorBody c sub")
  case (Inl r)
  with decode_body [OF this] show ?thesis
    by (simp add: handleRefresh_def handleLogout_def run_with_body)
next
  case (Inr req')
  then have req: "req' = req" using assms(1) by (simp add: decode_Inr)
  show ?thesis
  proof (cases "refreshTokenForClient h c ''web'' (refresh_request.RefreshToken req)")
    case (Inl e)
    with refreshTokenForClient_Inl [OF this] Inr req assms(2) show ?thesis
      by (simp add: handleRefresh_def handleLogout_def run_with_body error_status_def)
  next
    case token: (Inr tok)
    with Inr req assms(2) requireCSRF_blocks [OF assms(3)] show ?thesis
      by (simp add: handleRefresh_def handleLogout_def run_with_body error_status_def)
  qed
qed

section \<open>Refresh tokens of browsers\<close>

lemma run_newCSRFToken [go_eval]:
  "run_state (newCSRFToken h) (w, l) =
     (case run_state (rand_Read (crypto (libs (service h))) 32) (outside w) of
        (Inl e, x) \<Rightarrow> (Inl e, (w\<lparr>outside := x\<rparr>, l))
      | (Inr d, x) \<Rightarrow> (Inr (hex_encode d), (w\<lparr>outside := x\<rparr>, l)))"
  by (auto simp: newCSRFToken_def go_eval split: prod.split sum.split)

text \<open>What \<open>write_auth_response\<close> sends to a browser when the entropy source works and when it fails.\<close>

lemma web_response:
  assumes "run_state (write_auth_response h st ''web'' (u, p)) (w, l) = (r, s')"
  shows "(\<exists>csrf. SetCookies r = [setRefreshTokenCookie (cookies h) (token_pair.RefreshToken p) (RefreshTokenExpiresIn p),
        setCSRFCookie (cookies h) csrf (RefreshTokenExpiresIn p)] \<and>
      Body r = Some (AuthBody \<lparr>User = toUserResponse (rfc3339 h) u, Tokens = p\<lparr>token_pair.RefreshToken := []\<rparr>\<rparr>)) \<or>
    (\<exists>e x'. run_state (rand_Read (crypto (libs (service h))) 32) (outside w) = (Inl e, x') \<and> SetCookies r = [] \<and>
      Body r = Some (AuthBody \<lparr>User = toUserResponse (rfc3339 h) u, Tokens = p\<rparr>))"
  using assms
  by (auto simp: write_auth_response_def applyRefreshTokenTransport_def go_eval split: prod.splits sum.splits)

lemma other_client_response:
  assumes "ct \<noteq> ''web''"
  shows "run_state (write_auth_response h st ct (u, p)) s =
    (respond st (AuthBody \<lparr>User = toUserResponse (rfc3339 h) u, Tokens = p\<rparr>), s)"
  using assms by (simp add: write_auth_response_def applyRefreshTokenTransport_def respond_def)

text \<open>An authenticated answer was written by \<open>write_auth_response\<close>.\<close>

lemma service_writes:
  assumes "run_state (or_service_error c (in_service m) (\<lambda>x. write_auth_response h st ct x)) s = (r, s')"
    and "Body r = Some (AuthBody a)"
  shows "\<exists>u p w l. run_state (write_auth_response h st ct (u, p)) (w, l) = (r, s')"
proof -
  obtain w l where s: "s = (w, l)" by (metis surj_pair)
  obtain y w1 where y: "run_state m w = (y, w1)" by fastforce
  show ?thesis
  proof (cases y)
    case (Inl e)
    with assms y s writeServiceError_body [of c e] show ?thesis by (auto simp: go_eval)
  next
    case (Inr x)
    with assms y s have "run_state (write_auth_response h st ct x) (w1, l) = (r, s')" by (simp add: go_eval)
    then show ?thesis by (metis surj_pair)
  qed
qed

lemma with_body_auth:
  assumes "run_state (with_body c sub k) s = (r, s')" and "Body r = Some (AuthBody a)"
  obtains req where "Bound sub = Some req" "run_state (k req) s = (r, s')"
  using assms decode_body [of c sub r]
  by (cases "decodeAndValidateJSON ErrorBody c sub") (auto simp: run_with_body decode_Inr)

lemma limited_auth:
  assumes "run_state (or_service_error c (enforceRateLimit h c act mob r1 r2) k) s = (r, s')"
    and "Body r = Some (AuthBody a)"
  obtains s1 where "run_state (k ()) s1 = (r, s')"
proof -
  obtain y s1 where y: "run_state (enforceRateLimit h c act mob r1 r2) s = (y, s1)" by (metis surj_pair)
  show thesis
  proof (cases y)
    case (Inl e)
    with assms y writeServiceError_body [of c e] show thesis by (auto simp: go_eval)
  next
    case (Inr x)
    with assms y that show thesis by (simp add: go_eval)
  qed
qed

text \<open>An authenticated answer was written by \<open>write_auth_response\<close> for the client type of the body.\<close>

lemma handler_writes:
  assumes "Body r = Some (AuthBody a)"
  shows "run_state (handlePasswordLogin h c login) s = (r, s') \<Longrightarrow>
      \<exists>b st x w l. Bound login = Some b \<and> run_state (write_auth_response h st
        (password_login_request_body.ClientType b) x) (w, l) = (r, s')"
    and "run_state (handleVerifySignupOTP h c verify) s = (r, s') \<Longrightarrow>
      \<exists>b st x w l. Bound verify = Some b \<and> run_state (write_auth_response h st
        (otp_verify_request_body.ClientType b) x) (w, l) = (r, s')"
    and "run_state (handleVerifyLoginOTP h c verify) s = (r, s') \<Longrightarrow>
      \<exists>b st x w l. Bound verify = Some b \<and> run_state (write_auth_response h st
        (otp_verify_request_body.ClientType b) x) (w, l) = (r, s')"
    and "run_state (handleRefresh h c refresh) s = (r, s') \<Longrightarrow>
      \<exists>b st x w l. Bound refresh = Some b \<and> run_state (write_auth_response h st
        (refresh_request.ClientType b) x) (w, l) = (r, s')"
    and "run_state (handleCompleteProfile h c profile uid) s = (r, s') \<Longrightarrow>
      \<exists>b st x w l. Bound profile = Some b \<and> run_state (write_auth_response h st
        (complete_profile_request_body.ClientType b) x) (w, l) = (r, s')"
proof -
  show "\<exists>b st x w l. Bound login = Some b \<and> run_state (write_auth_response h st
        (password_login_request_body.ClientType b) x) (w, l) = (r, s')"
    if "run_state (handlePasswordLogin h c login) s = (r, s')"
    by (rule with_body_auth [OF that [unfolded handlePasswordLogin_def] assms])
      (blast dest: service_writes [OF _ assms])
  show "\<exists>b st x w l. Bound verify = Some b \<and> run_state (write_auth_response h st
        (otp_verify_request_body.ClientType b) x) (w, l) = (r, s')"
    if "run_state (handleVerifySignupOTP h c verify) s = (r, s')"
    by (rule with_body_auth [OF that [unfolded handleVerifySignupOTP_def enforceOTPVerifyLimit_def] assms],
        erule limited_auth [OF _ assms]) (blast dest: service_writes [OF _ assms])
  show "\<exists>b st x w l. Bound verify = Some b \<and> run_state (write_auth_response h st
        (otp_verify_request_body.ClientType b) x) (w, l) = (r, s')"
    if "run_state (handleVerifyLoginOTP h c verify) s = (r, s')"
    by (rule with_body_auth [OF that [unfolded handleVerifyLoginOTP_def enforceOTPVerifyLimit_def] assms],
        erule limited_auth [OF _ assms]) (blast dest: service_writes [OF _ assms])
  show "\<exists>b st x w l. Bound profile = Some b \<and> run_state (write_auth_response h st
        (complete_profile_request_body.ClientType b) x) (w, l) = (r, s')"
    if "run_state (handleCompleteProfile h c profile uid) s = (r, s')"
    by (rule with_body_auth [OF that [unfolded handleCompleteProfile_def] assms])
      (blast dest: service_writes [OF _ assms])
  show "\<exists>b st x w l. Bound refresh = Some b \<and> run_state (write_auth_response h st
        (refresh_request.ClientType b) x) (w, l) = (r, s')"
    if run: "run_state (handleRefresh h c refresh) s = (r, s')"
  proof -
    obtain b where b: "Bound refresh = Some b" and
      k: "run_state (case refreshTokenForClient h c (refresh_request.ClientType b) (refresh_request.RefreshToken b) of
        Inl e \<Rightarrow> State_Monad.return (writeServiceError c e)
      | Inr refreshToken \<Rightarrow>
         (case requireCSRFFromWeb h c (refresh_request.ClientType b) of
            Some e \<Rightarrow> State_Monad.return (writeServiceError c e)
          | None \<Rightarrow>
              or_service_error c (in_service (Refresh (service h) refreshToken))
                (\<lambda>x. write_auth_response h 200 (refresh_request.ClientType b) x))) s = (r, s')"
      by (rule with_body_auth [OF run [unfolded handleRefresh_def] assms])
    from k assms writeServiceError_body [of c] have
      "\<exists>tok. run_state (or_service_error c (in_service (Refresh (service h) tok))
          (\<lambda>x. write_auth_response h 200 (refresh_request.ClientType b) x)) s = (r, s')"
      by (auto split: sum.splits option.splits) (metis auth_body.distinct(1) option.inject)+
    with b show ?thesis by (blast dest: service_writes [OF _ assms])
  qed
qed


section \<open>A handler in the small world\<close>

definition demo_cookies :: cookie_config where
  "demo_cookies = \<lparr>RefreshTokenName = ''refresh_token'', Domain = [], Path = ''/auth'', Secure = True,
     HTTPOnly = True, SameSite = SameSiteLaxMode, CSRFCookieName = ''csrf_token'',
     CSRFHeaderName = ''X-CSRF-Token'', CSRFCookiePath = ''/auth'', CSRFCookieSecure = True,
     CSRFCookieSameSite = SameSiteLaxMode\<rparr>"

definition demo_rule :: rate_limit_rule where
  "demo_rule = \<lparr>Limit = 1, Window = 60 * Second\<rparr>"

definition demo_handler ::
  "(demo_users, refresh_store, pending_store, otp_store, unit, limiter) handler" where
  "demo_handler = NewWithLimiter demo_service demo_cookies (Some memory_rate_limiter)
     \<lparr>RequestIP = demo_rule, RequestMobile = demo_rule, VerifyIP = demo_rule, VerifyMobile = demo_rule\<rparr>
     (\<lambda>_. [])"

lemma demo_handler_sel [simp]:
  "service demo_handler = demo_service" "cookies demo_handler = demo_cookies"
  "limiter demo_handler = Some memory_rate_limiter"
  by (simp_all add: demo_handler_def NewWithLimiter_def default_cookies_def demo_cookies_def)

lemma demo_entropy: "\<exists>d x'. run_state (rand_Read (crypto (libs (service demo_handler))) 32) x = (Inr d, x')"
  by (simp add: demo_service_def demo_libs_def demo_crypto_def)

definition demo_login :: "password_login_request_body submission" where
  "demo_login = \<lparr>Bound = Some \<lparr>password_login_request_body.Username = ''asha'', Password = ''pw'',
     ClientType = ''web''\<rparr>, Checked = StructValid\<rparr>"

lemma demo_Login:
  "\<exists>p w'. run_state (Login demo_service \<lparr>password_login_request.Username = ''asha'', Password = ''pw'',
     ClientType = ''web''\<rparr>) demo_world = (Inr (demo_user, p), w')"
proof -
  have t: "TrimSpace ''asha'' = ''asha''" by (rule TrimSpace_plain) (simp add: is_space_def space_ranges_def)
  have "run_state (ValidateLogin demo_service ''asha'' ''pw'') demo_world =
      (Inr demo_user, demo_world\<lparr>ticks := 2\<rparr>)"
    by (simp add: ValidateLogin_def t go_eval demo_sel demo_libs_def demo_repo_simps eval_nat_numeral)
  moreover obtain p w' where "run_state (IssueTokenPair demo_service demo_user) (demo_world\<lparr>ticks := 2\<rparr>) = (Inr p, w')"
    using demo_issue [of "demo_world\<lparr>ticks := 2\<rparr>" demo_service "\<lambda>x. x" demo_user]
    by (auto simp: demo_world_def demo_service_def)
  ultimately show ?thesis by (simp add: Login_def go_eval)
qed

lemma demo_web_login:
  "\<exists>r s' a. run_state (handlePasswordLogin demo_handler c demo_login) (demo_world, l) = (r, s') \<and>
     Body r = Some (AuthBody a)"
proof -
  obtain p w1 where "run_state (Login demo_service \<lparr>password_login_request.Username = ''asha'', Password = ''pw'',
     ClientType = ''web''\<rparr>) demo_world = (Inr (demo_user, p), w1)" using demo_Login by blast
  moreover have "decodeAndValidateJSON ErrorBody c demo_login = Inr \<lparr>password_login_request_body.Username = ''asha'',
      Password = ''pw'', ClientType = ''web''\<rparr>"
    by (simp add: decode_Inr demo_login_def)
  ultimately have "run_state (handlePasswordLogin demo_handler c demo_login) (demo_world, l) =
      run_state (write_auth_response demo_handler 200 ''web'' (demo_user, p)) (w1, l)"
    by (simp add: handlePasswordLogin_def run_with_body go_eval)
  moreover obtain r s' where "run_state (write_auth_response demo_handler 200 ''web'' (demo_user, p)) (w1, l) = (r, s')"
    by (metis surj_pair)
  ultimately show ?thesis using web_response by fastforce
qed


text \<open>
  If the entropy source fails while the CSRF token is made, the refresh token of a browser is
  left in the body and no cookie is set.
\<close>

lemma csrf_failure_leaks:
  assumes "run_state (rand_Read (crypto (libs (service h))) 32) (outside w) = (Inl e, x)"
  shows "run_state (write_auth_response h st ''web'' (u, p)) (w, l) =
    (respond st (AuthBody \<lparr>User = toUserResponse (rfc3339 h) u, Tokens = p\<rparr>), (w\<lparr>outside := x\<rparr>, l))"
  using assms
  by (simp add: write_auth_response_def applyRefreshTokenTransport_def go_eval respond_def)

text \<open>A CSRF cookie and header that agree let a request through to the service.\<close>

lemma web_session_needs_csrf_witness:
  "\<exists>r. run_state (handleRefresh demo_handler (demo_request_of (\<lambda>_. []) (\<lambda>n. Some n))
        \<lparr>Bound = Some \<lparr>refresh_request.RefreshToken = [], ClientType = ''web''\<rparr>, Checked = StructValid\<rparr>)
      (demo_world, NewRateLimiter) = (r, (demo_world, NewRateLimiter)) \<and> response.Status r \<in> {400, 401}"
proof -
  let ?c = "demo_request_of (\<lambda>_. []) (\<lambda>n. Some n)"
  let ?sub = "\<lparr>Bound = Some \<lparr>refresh_request.RefreshToken = [], ClientType = ''web''\<rparr>, Checked = StructValid\<rparr>"
  have bad: "\<nexists>tok. Cookie ?c (CSRFCookieName (cookies demo_handler)) = Some tok \<and> tok \<noteq> [] \<and>
      TrimSpace (Header ?c (CSRFHeaderName (cookies demo_handler))) = tok"
    by (simp add: demo_request_of_def demo_cookies_def)
  have "\<exists>r. run_state (handleRefresh demo_handler ?c ?sub) (demo_world, NewRateLimiter) =
        (r, (demo_world, NewRateLimiter)) \<and>
      run_state (handleLogout demo_handler ?c ?sub) (demo_world, NewRateLimiter) =
        (r, (demo_world, NewRateLimiter)) \<and> response.Status r \<in> {400, 401} \<and> SetCookies r = []"
    by (rule web_session_needs_csrf [where req = "\<lparr>refresh_request.RefreshToken = [], ClientType = ''web''\<rparr>", OF _ _ bad])
      simp_all
  then show ?thesis by blast
qed

section \<open>Rate limits\<close>

lemma limited_handler:
  assumes "limiter h = Some lmt"
    and "run_state (or_service_error c (enforceOTPRequestLimit h c mob) k) (w, l) = (r, (w', l'))"
  shows "w' = w\<lparr>ticks := ticks w'\<rparr> \<and> SetCookies r = [] \<and> (\<exists>e. Body r = Some (ErrorBody e)) \<or>
    (\<exists>l2. admits h lmt c ''request'' mob (RequestIP (limits h)) (RequestMobile (limits h))
       (clock w (ticks w)) (clock w (Suc (ticks w))) l l2)"
proof -
  obtain y w1 l1 where y: "run_state (enforceOTPRequestLimit h c mob) (w, l) = (y, (w1, l1))" by (metis surj_pair)
  note cases = enforceRateLimit_cases [OF assms(1) y [unfolded enforceOTPRequestLimit_def]]
  show ?thesis
  proof (cases y)
    case (Inl e)
    with assms(2) y have "r = writeServiceError c e" "w' = w1" by (simp_all add: go_eval)
    with cases writeServiceError_body [of c e] show ?thesis by auto
  next
    case (Inr x)
    with cases show ?thesis by auto
  qed
qed

lemma limited_with_body:
  assumes "limiter h = Some lmt" and "Bound sub = Some req"
    and "run_state (with_body c sub (\<lambda>req. or_service_error c (enforceOTPRequestLimit h c (mob req)) (k req))) (w, l) =
      (r, (w', l'))"
  shows "w' = w\<lparr>ticks := ticks w'\<rparr> \<and> SetCookies r = [] \<and> (\<exists>e. Body r = Some (ErrorBody e)) \<or>
    (\<exists>l2. admits h lmt c ''request'' (mob req) (RequestIP (limits h)) (RequestMobile (limits h))
       (clock w (ticks w)) (clock w (Suc (ticks w))) l l2)"
proof (cases "decodeAndValidateJSON ErrorBody c sub")
  case (Inl b)
  with assms(3) have "r = b" "w' = w" by (simp_all add: run_with_body)
  with decode_body [OF Inl] show ?thesis by auto
next
  case (Inr q)
  with assms(2) have "q = req" by (simp add: decode_Inr)
  with assms(3) Inr have "run_state (or_service_error c (enforceOTPRequestLimit h c (mob req)) (k req)) (w, l) =
      (r, (w', l'))" by (simp add: run_with_body)
  from limited_handler [OF assms(1) this] show ?thesis .
qed

text \<open>
  C28. No code is requested without admission.  When a limiter is configured, a request to send
  or resend a sign-up or login code leaves everything but the clock and the limiter as it was
  and answers with an error, unless the limiter admitted the address of the client and then,
  if the mobile is well-formed, the normalised mobile.
\<close>

theorem otp_needs_admission:
  assumes "limiter h = Some lmt" and "Bound sub = Some req" and "Bound signup = Some sreq"
    and "(handler, mobile) \<in> {(handleResendSignupOTP h c sub, otp_request_body.Mobile req),
      (handleRequestLoginOTP h c sub, otp_request_body.Mobile req),
      (handleResendLoginOTP h c sub, otp_request_body.Mobile req),
      (handleRequestSignupOTP h c signup, signup_request_body.Mobile sreq)}"
    and "run_state handler (w, l) = (r, (w', l'))"
  shows "w' = w\<lparr>ticks := ticks w'\<rparr> \<and> SetCookies r = [] \<and> (\<exists>e. Body r = Some (ErrorBody e)) \<or>
    (\<exists>l1 l2 t. run_state (Allow lmt (clock w (ticks w)) (''otp:request:ip:'' @ ClientIP c) (RequestIP (limits h))) l =
        (Inr True, l1) \<and>
      (case NormalizeIndianMobile mobile of
         Inl _ \<Rightarrow> True
       | Inr n \<Rightarrow> run_state (Allow lmt t (''otp:request:mobile:'' @ n) (RequestMobile (limits h))) l1 = (Inr True, l2)))"
proof -
  have "w' = w\<lparr>ticks := ticks w'\<rparr> \<and> SetCookies r = [] \<and> (\<exists>e. Body r = Some (ErrorBody e)) \<or>
    (\<exists>l2. admits h lmt c ''request'' mobile (RequestIP (limits h)) (RequestMobile (limits h))
       (clock w (ticks w)) (clock w (Suc (ticks w))) l l2)"
  proof -
    consider "handler = handleResendSignupOTP h c sub" "mobile = otp_request_body.Mobile req"
      | "handler = handleRequestLoginOTP h c sub" "mobile = otp_request_body.Mobile req"
      | "handler = handleResendLoginOTP h c sub" "mobile = otp_request_body.Mobile req"
      | "handler = handleRequestSignupOTP h c signup" "mobile = signup_request_body.Mobile sreq"
      using assms(4) by blast
    then show ?thesis
    proof cases
      case 1
      from assms(5) [unfolded 1(1) handleResendSignupOTP_def] show ?thesis
        unfolding 1(2) by (rule limited_with_body [where mob = otp_request_body.Mobile, OF assms(1,2)])
    next
      case 2
      from assms(5) [unfolded 2(1) handleRequestLoginOTP_def] show ?thesis
        unfolding 2(2) by (rule limited_with_body [where mob = otp_request_body.Mobile, OF assms(1,2)])
    next
      case 3
      from assms(5) [unfolded 3(1) handleResendLoginOTP_def] show ?thesis
        unfolding 3(2) by (rule limited_with_body [where mob = otp_request_body.Mobile, OF assms(1,2)])
    next
      case 4
      from assms(5) [unfolded 4(1) handleRequestSignupOTP_def] show ?thesis
        unfolding 4(2) by (rule limited_with_body [where mob = signup_request_body.Mobile, OF assms(1,3)])
    qed
  qed
  then show ?thesis
  proof
    assume "\<exists>l2. admits h lmt c ''request'' mobile (RequestIP (limits h)) (RequestMobile (limits h))
       (clock w (ticks w)) (clock w (Suc (ticks w))) l l2"
    then obtain l1 l2 where l1: "run_state (Allow lmt (clock w (ticks w))
        (''otp:'' @ ''request'' @ '':ip:'' @ ClientIP c) (RequestIP (limits h))) l = (Inr True, l1)"
      and l2: "case NormalizeIndianMobile mobile of Inl _ \<Rightarrow> l2 = l1
        | Inr n \<Rightarrow> run_state (Allow lmt (clock w (Suc (ticks w)))
            (''otp:'' @ ''request'' @ '':mobile:'' @ n) (RequestMobile (limits h))) l1 = (Inr True, l2)"
      unfolding admits_def by blast
    show ?thesis
      by (intro disjI2 exI conjI, use l1 in simp) (use l2 in \<open>auto split: sum.splits\<close>)
  qed blast
qed

text \<open>A limiter whose window for the demo address is used up.\<close>

definition exhausted :: limiter where
  "exhausted = \<lparr>windows = [''otp:request:ip:10.0.0.1'' \<mapsto> \<lparr>count = 1, expiresAt = 100\<rparr>]\<rparr>"

lemma otp_needs_admission_witness:
  "\<exists>r w' l'. run_state (handleResendSignupOTP demo_handler (demo_request_of (\<lambda>_. []) (\<lambda>_. None))
        \<lparr>Bound = Some \<lparr>otp_request_body.Mobile = ''9876543210'', ClientType = ''web''\<rparr>, Checked = StructValid\<rparr>)
      (demo_world, exhausted) = (r, (w', l')) \<and> w' = demo_world\<lparr>ticks := ticks w'\<rparr> \<and>
    (\<exists>e. Body r = Some (ErrorBody e))"
proof -
  let ?c = "demo_request_of (\<lambda>_. []) (\<lambda>_. None)"
  let ?b = "\<lparr>otp_request_body.Mobile = ''9876543210'', ClientType = ''web''\<rparr>"
  let ?sub = "\<lparr>Bound = Some ?b, Checked = StructValid\<rparr>"
  let ?sreq = "\<lparr>signup_request_body.Username = [], Password = [], Email = [], Mobile = [], ClientType = []\<rparr>"
  obtain r w' l' where run: "run_state (handleResendSignupOTP demo_handler ?c ?sub) (demo_world, exhausted) =
      (r, (w', l'))" by (metis surj_pair)
  have denied: "run_state (Allow memory_rate_limiter (clock demo_world (ticks demo_world))
      (''otp:request:ip:'' @ ClientIP ?c) (RequestIP (limits demo_handler))) exhausted \<noteq> (Inr True, l1)" for l1
    by (simp add: memory_rate_limiter_def RateLimiter_Allow_def exhausted_def demo_handler_def NewWithLimiter_def
        demo_rule_def demo_request_of_def demo_world_def Let_def time_IsZero_def time_After_def Second_def int64_def)
  from otp_needs_admission [where handler = "handleResendSignupOTP demo_handler ?c ?sub"
      and signup = "\<lparr>Bound = Some ?sreq, Checked = StructValid\<rparr>" and sreq = ?sreq and req = ?b and sub = ?sub
      and mobile = "''9876543210''" and h = demo_handler and c = ?c, OF _ _ _ _ run] denied
  have "w' = demo_world\<lparr>ticks := ticks w'\<rparr> \<and> (\<exists>e. Body r = Some (ErrorBody e))"
    by simp
  with run show ?thesis by blast
qed

section \<open>Error responses\<close>

text \<open>
  C31. Error responses disclose nothing internal.  Every error of the service is answered with
  one of seven statuses; a message below 500 is the fixed text of a sentinel error, and every
  error from elsewhere (database, network, cryptography), as well as a cache miss, becomes
  ``internal server error'' with status 500.
\<close>

theorem writeServiceError_opaque:
  "\<exists>m. Body (writeServiceError c e) = Some (ErrorBody \<lparr>error_response.Error = m,
       RequestID = requestIDFromContext c, Details = Map.empty\<rparr>) \<and>
     response.Status (writeServiceError c e) \<in> {400, 401, 409, 410, 429, 500, 502} \<and>
     (response.Status (writeServiceError c e) < 500 \<longleftrightarrow> (\<nexists>t. e = ErrOther t) \<and>
        e \<notin> {ErrInvalidClientType, ErrCacheMiss, ErrInvalidJWEKey, ErrOTPProviderUnavailable}) \<and>
     m = (if response.Status (writeServiceError c e) < 500 then error_message e else ''internal server error'')"
  by (cases e) (simp_all add: writeServiceError_def error_status_def Let_def respond_def)

text \<open>
  A callback from Google without a code is answered as an internal error, not as a bad
  request.
\<close>

lemma google_callback_missing_code:
  assumes "Query c ''code'' = None"
  shows "run_state (handleGoogleCallback h c) s = (writeServiceError c (ErrOther ''missing code''), s)"
    and "response.Status (writeServiceError c (ErrOther ''missing code'')) = 500"
  using assms by (simp_all add: handleGoogleCallback_def error_status_def)

section \<open>Access tokens\<close>

text \<open>Tokens of the demo library are printable.\<close>

definition printable :: "string \<Rightarrow> bool" where
  "printable s \<longleftrightarrow> (\<forall>c \<in> set s. byte c < (128 :: nat) \<and> \<not> is_space (byte c))"

lemma printable_text: "printable s \<Longrightarrow> printable (demo_text s)"
  by (auto simp: printable_def demo_text_def is_space_def space_ranges_def)

lemma printable_Cons: "printable (c # s) \<longleftrightarrow> byte c < (128 :: nat) \<and> \<not> is_space (byte c) \<and> printable s"
  by (simp add: printable_def)

lemma printable_Nil: "printable []"
  by (simp add: printable_def)

lemmas printable_eval = printable_Cons printable_Nil is_space_def space_ranges_def

lemma printable_append [simp]: "printable (s @ t) \<longleftrightarrow> printable s \<and> printable t"
  by (auto simp: printable_def)

lemma printable_fields:
  "demo_fields fs = Some s \<Longrightarrow> (\<forall>(k, v) \<in> set fs. printable k \<and> (\<forall>t. v = JString t \<longrightarrow> printable t)) \<Longrightarrow>
     printable s"
proof (induction fs arbitrary: s)
  case Nil
  then show ?case by (auto simp: printable_eval)
next
  case (Cons f fs)
  obtain k v where f: "f = (k, v)" by fastforce
  with Cons.prems obtain a b where a: "demo_value v = Some a" and b: "demo_fields fs = Some b"
    and s: "s = CHR ''k'' # demo_text k @ a @ b"
    by (auto split: option.splits)
  have "printable b" using Cons.IH [OF b] Cons.prems(2) by auto
  moreover have "printable a" using a Cons.prems(2) f printable_text
    by (cases v) (auto simp: printable_eval split: if_splits)
  moreover have "printable (demo_text k)" using Cons.prems(2) f printable_text by auto
  ultimately show ?case by (simp add: s printable_eval)
qed

lemma run_authenticate:
  "run_state (AuthenticateAccessToken s token) w =
     (case tokenManager s of None \<Rightarrow> (Inl ErrUnauthorized, w)
      | Some m \<Rightarrow> (ParseAccessToken (crypto (libs s)) m (clock w (ticks w)) token, w\<lparr>ticks := Suc (ticks w)\<rparr>))"
  by (simp add: AuthenticateAccessToken_def go_eval split: option.split)

lemma run_route_me:
  "run_state (route_me h c) (w, l) =
     (case tokenManager (service h) of None \<Rightarrow> (writeServiceError c ErrUnauthorized, (w, l))
      | Some m \<Rightarrow>
         (case ParseAccessToken (crypto (libs (service h))) m (clock w (ticks w))
             (bearerToken (Header c ''Authorization'')) of
            Inl e \<Rightarrow> (writeServiceError c e, (w\<lparr>ticks := Suc (ticks w)\<rparr>, l))
          | Inr claims \<Rightarrow>
              if \<not> access_claims.IsProfileComplete claims
              then (writeServiceError c ErrUnauthorized, (w\<lparr>ticks := Suc (ticks w)\<rparr>, l))
              else (case run_state (ValidateCurrentUser (service h) (Subject claims)) (w\<lparr>ticks := Suc (ticks w)\<rparr>) of
                 (Inl e, w') \<Rightarrow> (writeServiceError c e, (w', l))
               | (Inr u, w') \<Rightarrow> (respond 200 (UserBody (toUserResponse (rfc3339 h) u)), (w', l)))))"
  by (simp add: route_me_def requireAccessToken_def handleMe_def go_eval run_authenticate
      split: option.split sum.split prod.split)

text \<open>The scheme word is removed from a token without spaces at its ends.\<close>

lemma chunks_Cons_ascii: "byte c < (128 :: nat) \<Longrightarrow> chunks (c # s) = (byte c, [c]) # chunks s"
  by (simp add: chunks.simps decode_rune.simps Let_def)

lemma bearerToken_Bearer:
  assumes "TrimSpace tok = tok" and "tok \<noteq> []"
  shows "bearerToken (''Bearer '' @ tok) = tok"
proof -
  let ?P = "\<lambda>(r, b :: string). is_space r"
  let ?pre = "map (\<lambda>c. (byte c, [c])) ''Bearer ''"
  have ch: "chunks (''Bearer '' @ tok) = ?pre @ chunks tok" by (simp add: chunks_Cons_ascii)
  have t: "chunks tok = trim_by ?P (chunks tok)" using chunks_TrimSpace [of tok] assms(1) by simp
  have ne: "chunks tok \<noteq> []" using assms(2) by simp
  have "\<not> ?P (last (chunks tok))" using trim_by_ends(2) [of ?P "chunks tok"] t ne by metis
  then have "trim_by ?P (?pre @ chunks tok) = ?pre @ chunks tok"
    using ne by (intro trim_by_id) (simp add: is_space_def space_ranges_def)
  then have "TrimSpace (''Bearer '' @ tok) = concat (map snd (chunks (''Bearer '' @ tok)))"
    by (simp only: TrimSpace_def ch)
  then have trim: "TrimSpace (''Bearer '' @ tok) = ''Bearer '' @ tok" by simp
  have "ToLower (''Bearer '' @ tok) = ''bearer '' @ ToLower tok"
    unfolding ToLower_def ch by (simp add: rune_lower_def encode_ascii char_of_def bit_Suc_0_iff)
  then have "HasPrefix (ToLower (''Bearer '' @ tok)) ''bearer ''" by (simp add: HasPrefix_def)
  then show ?thesis
    unfolding bearerToken_def Let_def trim using assms(1) by simp
qed

text \<open>An access token that was just issued is accepted by \<open>/auth/me\<close>.\<close>

lemma run_me_issued:
  assumes "run_state (IssueTokenPair (service h) u) w0 = (Inr p, w1)"
    and "tokenManager (service h) = Some m" and "crypto_ok (crypto (libs (service h)))"
    and "is_utf8 (user.Username u)" and "is_utf8 (user.Role u)" and "user.IsProfileComplete u"
    and "Header c ''Authorization'' = ''Bearer '' @ AccessToken p"
    and "TrimSpace (AccessToken p) = AccessToken p" and "AccessToken p \<noteq> []"
    and "clock w (ticks w) \<le> clock w0 (ticks w0) + accessTokenTTL m"
    and "run_state (GetUserDetailsByUsername (repo (service h)) (clock w (Suc (ticks w)))
       (TrimSpace (user.Username u))) (users w) = (Inr v, us)"
  shows "\<exists>w'. run_state (route_me h c) (w, l) =
    (respond 200 (UserBody (toUserResponse (rfc3339 h) v)), (w', l))"
proof -
  obtain s x x' where "run_state (GenerateTokenPair (crypto (libs (service h))) m (clock w0 (ticks w0)) u) x =
      (Inr (p, s), x')"
    using assms(1,2)
    by (auto simp: IssueTokenPair_def go_eval call_ok_Inr split: option.splits prod.splits sum.splits)
  from ParseAccessToken_generated [OF assms(3) this assms(4,5) refl] assms(10)
  have "ParseAccessToken (crypto (libs (service h))) m (clock w (ticks w)) (AccessToken p) =
      Inr (access_claims_for m (clock w0 (ticks w0)) u)" by simp
  then show ?thesis
    using assms(2,6,7,11) bearerToken_Bearer [OF assms(8,9)]
    by (simp add: run_route_me access_claims_for_def ValidateCurrentUser_def go_eval)
qed


text \<open>
  C29. Only the bearer of a valid access token is told who she is.  A successful answer of
  \<open>/auth/me\<close> means that the token in the \<open>Authorization\<close> header was decrypted with the key of
  the server, had not expired, and claims a complete profile; the answer is the user of that
  name, and neither sessions nor pending signups are touched.
\<close>

theorem route_me_guard:
  assumes "run_state (route_me h c) (w, l) = (r, (w', l'))" and "response.Status r = 200"
  shows "\<exists>m claims u. tokenManager (service h) = Some m \<and>
    decrypt (crypto (libs (service h))) m (bearerToken (Header c ''Authorization'')) = Inr claims \<and>
    access_claims.TokenType claims = ''access'' \<and>
    clock w (ticks w) \<le> access_claims.ExpiresAt claims \<and> access_claims.IsProfileComplete claims \<and>
    fst (run_state (GetUserDetailsByUsername (repo (service h)) (clock w (Suc (ticks w))) (TrimSpace (Subject claims)))
      (users w)) = Inr u \<and>
    Body r = Some (UserBody (toUserResponse (rfc3339 h) u)) \<and>
    refresh_tokens w' = refresh_tokens w \<and> pending w' = pending w \<and> l' = l"
proof -
  have ne: "error_status e \<noteq> 200" for e using error_status_ne_2xx [of e] by simp
  obtain m where m: "tokenManager (service h) = Some m"
    using assms ne by (cases "tokenManager (service h)") (auto simp: run_route_me)
  obtain claims where p: "ParseAccessToken (crypto (libs (service h))) m (clock w (ticks w))
      (bearerToken (Header c ''Authorization'')) = Inr claims"
    using assms ne m by (cases "ParseAccessToken (crypto (libs (service h))) m (clock w (ticks w))
      (bearerToken (Header c ''Authorization''))") (auto simp: run_route_me)
  obtain a us where a: "run_state (GetUserDetailsByUsername (repo (service h)) (clock w (Suc (ticks w)))
      (TrimSpace (Subject claims))) (users w) = (a, us)" by fastforce
  show ?thesis
    using assms ne m p a
    by (cases a) (auto simp: run_route_me ValidateCurrentUser_def go_eval ParseAccessToken_def time_After_def
        split: if_splits sum.splits)
qed

text \<open>
  C30. A token pair works at once.  After \<open>IssueTokenPair\<close> has returned a pair for a user with a
  complete profile, a request to \<open>/auth/me\<close> that presents the access token as a bearer token
  before its lifetime is over is answered with status 200 and the user the repository then
  has under that name.
\<close>

theorem me_accepts_issued:
  assumes "run_state (IssueTokenPair (service h) u) w0 = (Inr p, w1)"
    and "tokenManager (service h) = Some m" and "crypto_ok (crypto (libs (service h)))"
    and "is_utf8 (user.Username u)" and "is_utf8 (user.Role u)" and "user.IsProfileComplete u"
    and "Header c ''Authorization'' = ''Bearer '' @ AccessToken p"
    and "TrimSpace (AccessToken p) = AccessToken p" and "AccessToken p \<noteq> []"
    and "clock w (ticks w) \<le> clock w0 (ticks w0) + accessTokenTTL m"
    and "run_state (GetUserDetailsByUsername (repo (service h)) (clock w (Suc (ticks w)))
       (TrimSpace (user.Username u))) (users w) = (Inr v, us)"
  shows "\<exists>w'. run_state (route_me h c) (w, l) =
    (respond 200 (UserBody (toUserResponse (rfc3339 h) v)), (w', l))"
  by (rule run_me_issued [OF assms])

lemma demo_token_printable:
  assumes "run_state (encrypt demo_crypto demo_manager (access_claims_for demo_manager t demo_user)) () = (Inr tok, ())"
  shows "printable tok \<and> tok \<noteq> []"
proof -
  obtain i e fs s where tok: "tok = demo_text (jweKey demo_manager) @ s" and s: "demo_fields fs = Some s"
    and fs: "fs = [(''sub'', json_string ''asha''), (''typ'', json_string ''access''),
       (''role'', json_string ''customer''), (''is_profile_complete'', JBool True),
       (''iat'', JString (time_text demo_clock i)), (''exp'', JString (time_text demo_clock e))]"
    using assms
    by (auto simp: encrypt_def demo_crypto_def claims_Marshal_def access_claims_for_def demo_user_def json_time_def
        split: option.splits if_splits)
  have key: "printable (jweKey demo_manager)"
    by (simp add: demo_manager_def printable_def is_space_def space_ranges_def)
  have strs: "json_string ''asha'' = JString ''asha''" "json_string ''access'' = JString ''access''"
    "json_string ''customer'' = JString ''customer''"
    by (simp_all add: json_string_def valid_text_ascii [unfolded is_utf8_def])
  have time: "printable (time_text demo_clock n)" for n
    by (simp add: demo_clock_def printable_def is_space_def space_ranges_def)
  have "printable s"
    by (rule printable_fields [OF s]) (simp add: fs strs time printable_eval)
  moreover have "demo_text k \<noteq> []" for k by (simp add: demo_text_def)
  ultimately show ?thesis using printable_text [OF key] by (simp add: tok)
qed

text \<open>A token pair issued in the small world, and a request that presents its access token.\<close>

lemma demo_bearer:
  "\<exists>p w1. run_state (IssueTokenPair demo_service demo_user) demo_world = (Inr p, w1) \<and>
     TrimSpace (AccessToken p) = AccessToken p \<and> AccessToken p \<noteq> []"
proof -
  obtain p w1 where run: "run_state (IssueTokenPair demo_service demo_user) demo_world = (Inr p, w1)"
    using demo_issue [of demo_world demo_service "\<lambda>x. x" demo_user]
    by (auto simp: demo_world_def demo_service_def)
  then obtain s where "run_state (GenerateTokenPair demo_crypto demo_manager 5 demo_user) () = (Inr (p, s), ())"
    by (auto simp: IssueTokenPair_def demo_service_def demo_libs_def demo_world_def go_eval call_ok_Inr
        split: prod.splits sum.splits)
  then obtain tok where "run_state (encrypt demo_crypto demo_manager (access_claims_for demo_manager 5 demo_user)) () =
      (Inr tok, ())" "AccessToken p = tok"
    by (rule GenerateTokenPair_Inr) simp
  with demo_token_printable have "printable (AccessToken p)" "AccessToken p \<noteq> []" by auto
  moreover from this have "TrimSpace (AccessToken p) = AccessToken p"
    by (intro TrimSpace_plain) (simp add: printable_def)
  ultimately show ?thesis using run by blast
qed

definition bearer_request :: "token_pair \<Rightarrow> request" where
  "bearer_request p = demo_request_of (\<lambda>_. ''Bearer '' @ AccessToken p) (\<lambda>_. None)"

lemma demo_lookup:
  "run_state (GetUserDetailsByUsername (repo demo_service) t (TrimSpace (user.Username demo_user)))
     (users demo_world) = (Inr demo_user, users demo_world)"
proof -
  have "TrimSpace ''asha'' = ''asha''" by (rule TrimSpace_plain) (simp add: is_space_def space_ranges_def)
  then show ?thesis by (simp add: demo_sel demo_repo_simps)
qed

lemma demo_me_facts:
  "tokenManager (service demo_handler) = Some demo_manager"
  "crypto_ok (crypto (libs (service demo_handler)))"
  "is_utf8 (user.Username demo_user)" "is_utf8 (user.Role demo_user)" "user.IsProfileComplete demo_user"
  "Header (bearer_request p) ''Authorization'' = ''Bearer '' @ AccessToken p"
  by (simp_all add: demo_service_def demo_libs_def demo_crypto_ok is_utf8_demo_user bearer_request_def
      demo_request_of_def) (simp add: demo_user_def)

lemma demo_ttl: "clock demo_world (ticks demo_world) \<le> clock demo_world (ticks demo_world) + accessTokenTTL demo_manager"
  by (simp add: demo_manager_def Second_def)

lemma me_accepts_issued_witness:
  "\<exists>p w'. run_state (route_me demo_handler (bearer_request p)) (demo_world, NewRateLimiter) =
     (respond 200 (UserBody (toUserResponse (rfc3339 demo_handler) demo_user)), (w', NewRateLimiter))"
proof -
  obtain p w1 where p: "run_state (IssueTokenPair (service demo_handler) demo_user) demo_world = (Inr p, w1)"
    "TrimSpace (AccessToken p) = AccessToken p" "AccessToken p \<noteq> []"
    using demo_bearer by auto
  have "\<exists>w'. run_state (route_me demo_handler (bearer_request p)) (demo_world, NewRateLimiter) =
     (respond 200 (UserBody (toUserResponse (rfc3339 demo_handler) demo_user)), (w', NewRateLimiter))"
    by (rule me_accepts_issued [OF p(1) demo_me_facts p(2,3) demo_ttl])
      (simp only: demo_handler_sel demo_lookup)
  then show ?thesis by blast
qed

lemma route_me_guard_witness:
  "\<exists>p claims w'. run_state (route_me demo_handler (bearer_request p)) (demo_world, NewRateLimiter) =
     (respond 200 (UserBody (toUserResponse (rfc3339 demo_handler) demo_user)), (w', NewRateLimiter)) \<and>
     decrypt demo_crypto demo_manager (bearerToken (Header (bearer_request p) ''Authorization'')) = Inr claims \<and>
     access_claims.IsProfileComplete claims"
proof -
  obtain p w1 where p: "run_state (IssueTokenPair (service demo_handler) demo_user) demo_world = (Inr p, w1)"
    "TrimSpace (AccessToken p) = AccessToken p" "AccessToken p \<noteq> []"
    using demo_bearer by auto
  obtain w' where run: "run_state (route_me demo_handler (bearer_request p)) (demo_world, NewRateLimiter) =
     (respond 200 (UserBody (toUserResponse (rfc3339 demo_handler) demo_user)), (w', NewRateLimiter))"
    using run_me_issued [OF p(1) demo_me_facts p(2,3) demo_ttl] demo_lookup by (metis demo_handler_sel(1))
  from route_me_guard [OF run] run show ?thesis
    by (auto simp: demo_service_def demo_libs_def)
qed

end
