(* ===== verification/Auth_Server.thy ===== *)
theory Auth_Server
  imports Auth_Guards
begin

text \<open>
  The server as a transition system: a step answers one request of \<open>/auth\<close>, and a run is any
  sequence of them.  The locale \<open>world_invariant\<close> carries a relation on worlds from the calls
  of the stores through every method of the service and every route to all runs.
\<close>

section \<open>Routes\<close>

text \<open>A request of each route of \<open>RegisterRoutes\<close>, with what is bound from its body.\<close>

datatype (discs_sels) auth_call =
    RegisterCall "signup_request_body submission"
  | VerifySignupCall "otp_verify_request_body submission"
  | ResendSignupCall "otp_request_body submission"
  | SignupStatusCall "signup_status_request_body submission"
  | PasswordLoginCall "password_login_request_body submission"
  | RequestLoginCall "otp_request_body submission"
  | VerifyLoginCall "otp_verify_request_body submission"
  | ResendLoginCall "otp_request_body submission"
  | RefreshCall "refresh_request submission"
  | LogoutCall "refresh_request submission"
  | is_MeCall: MeCall
  | is_GoogleLoginCall: GoogleLoginCall
  | is_GoogleCallbackCall: GoogleCallbackCall
  | CompleteProfileCall "complete_profile_request_body submission"

fun serve ::
  "('u, 'r, 'p, 'o, 'x, 'l) handler \<Rightarrow> request \<Rightarrow> auth_call \<Rightarrow> ('u, 'r, 'p, 'o, 'x, 'l) http_handler" where
  "serve h c (RegisterCall sub) = handleRequestSignupOTP h c sub"
| "serve h c (VerifySignupCall sub) = handleVerifySignupOTP h c sub"
| "serve h c (ResendSignupCall sub) = handleResendSignupOTP h c sub"
| "serve h c (SignupStatusCall sub) = handleSignupStatus h c sub"
| "serve h c (PasswordLoginCall sub) = handlePasswordLogin h c sub"
| "serve h c (RequestLoginCall sub) = handleRequestLoginOTP h c sub"
| "serve h c (VerifyLoginCall sub) = handleVerifyLoginOTP h c sub"
| "serve h c (ResendLoginCall sub) = handleResendLoginOTP h c sub"
| "serve h c (RefreshCall sub) = handleRefresh h c sub"
| "serve h c (LogoutCall sub) = handleLogout h c sub"
| "serve h c MeCall = route_me h c"
| "serve h c GoogleLoginCall = handleGoogleLoginRedirect h"
| "serve h c GoogleCallbackCall = handleGoogleCallback h c"
| "serve h c (CompleteProfileCall sub) = route_complete_profile h c sub"

type_synonym exchange = "request \<times> auth_call \<times> auth_body response"

inductive server_run ::
  "('u, 'r, 'p, 'o, 'x, 'l) handler \<Rightarrow> ('u, 'r, 'p, 'o, 'x) world \<times> 'l \<Rightarrow> exchange list \<Rightarrow>
     ('u, 'r, 'p, 'o, 'x) world \<times> 'l \<Rightarrow> bool" for h s where
  start: "server_run h s [] s"
| answer: "server_run h s tr s1 \<Longrightarrow> run_state (serve h c call) s1 = (r, s2) \<Longrightarrow>
    server_run h s (tr @ [(c, call, r)]) s2"

inductive_cases server_run_NilE: "server_run h s [] s'"
inductive_cases server_run_snocE: "server_run h s (tr @ [x]) s'"

lemma server_run_trans:
  "server_run h s1 tr2 s2 \<Longrightarrow> server_run h s tr1 s1 \<Longrightarrow> server_run h s (tr1 @ tr2) s2"
proof (induction rule: server_run.induct)
  case (answer tr s1 c call r s2)
  then show ?case using server_run.answer [of h s "tr1 @ tr" s1 c call r s2] by simp
qed simp

text \<open>What the server does next is a function of its state and the request.\<close>

lemma server_run_total: "\<exists>tr s'. server_run h s tr s' \<and> map (\<lambda>(c, call, r). (c, call)) tr = cs"
proof (induction cs rule: rev_induct)
  case Nil
  show ?case by (intro exI [of _ "[]"] exI [of _ s]) (simp add: server_run.start)
next
  case (snoc x cs)
  then obtain tr s1 where tr: "server_run h s tr s1" "map (\<lambda>(c, call, r). (c, call)) tr = cs" by blast
  obtain c call where x: "x = (c, call)" by fastforce
  obtain r s2 where "run_state (serve h c call) s1 = (r, s2)" by (metis surj_pair)
  from server_run.answer [OF tr(1) this] tr(2) x show ?case
    by (intro exI [of _ "tr @ [(c, call, r)]"] exI [of _ s2]) simp
qed

section \<open>Relations every request respects\<close>

definition on_world :: "('w \<Rightarrow> 'w \<Rightarrow> bool) \<Rightarrow> 'w \<times> 'l \<Rightarrow> 'w \<times> 'l \<Rightarrow> bool" where
  "on_world R s s' \<longleftrightarrow> R (fst s) (fst s')"

locale world_invariant =
  fixes R :: "('u, 'r, 'p, 'o, 'x) world \<Rightarrow> ('u, 'r, 'p, 'o, 'x) world \<Rightarrow> bool"
    and admissible :: "('u, 'r, 'p, 'o, 'x) service \<Rightarrow> bool"
  assumes refl: "reflp R"
    and trans: "transp R"
    and frame: "R w (w\<lparr>ticks := n, users := us, login_otps := os, outside := x\<rparr>)"
    and pending_get: "admissible s \<Longrightarrow> keeps R (on_pending (\<lambda>t. GetByMobile (pendingSignupStore s) t m))"
    and pending_username: "admissible s \<Longrightarrow> keeps R (on_pending (\<lambda>t. GetMobileByUsername (pendingSignupStore s) t k))"
    and pending_email: "admissible s \<Longrightarrow> keeps R (on_pending (\<lambda>t. GetMobileByEmail (pendingSignupStore s) t k))"
    and pending_mobile: "admissible s \<Longrightarrow> keeps R (on_pending (\<lambda>t. GetMobileByMobile (pendingSignupStore s) t k))"
    and pending_delete: "admissible s \<Longrightarrow> keeps R (on_pending (\<lambda>t. DeleteByMobile (pendingSignupStore s) t m))"
    and pending_save: "admissible s \<Longrightarrow>
      keeps R (on_pending (\<lambda>t. pending_signup_store.Save (pendingSignupStore s) t p))"
    and refresh_get: "admissible s \<Longrightarrow> refreshStore s = Some rs \<Longrightarrow>
      keeps R (on_refresh (\<lambda>t. refresh_token_store.Get rs t k))"
    and refresh_delete: "admissible s \<Longrightarrow> refreshStore s = Some rs \<Longrightarrow>
      keeps R (on_refresh (\<lambda>t. refresh_token_store.Delete rs t k))"
    and issue: "admissible s \<Longrightarrow> keeps R (IssueTokenPair s u)"
begin

lemma keeps_Now: "keeps R Now"
  using frame [where n = "Suc (ticks w)" and us = "users w" and os = "login_otps w" and x = "outside w" and w = w for w]
  by (auto simp: keeps_def go_eval)

lemma keeps_on_users: "keeps R (on_users m)"
  using frame [where n = "Suc (ticks w)" and os = "login_otps w" and x = "outside w" and w = w for w]
  by (auto simp: keeps_def go_eval split: prod.split)

lemma keeps_on_otps: "keeps R (on_otps m)"
  using frame [where n = "Suc (ticks w)" and us = "users w" and x = "outside w" and w = w for w]
  by (auto simp: keeps_def go_eval split: prod.split)

lemma keeps_on_outside: "keeps R (on_outside m)"
  using frame [where n = "ticks w" and us = "users w" and os = "login_otps w" and w = w for w]
  by (auto simp: keeps_def go_eval split: prod.split)

lemmas composed [intro!] =
  keeps_intros keeps_return [OF refl] keeps_bind [OF trans] keeps_call_ok [OF refl trans]
  keeps_ignoring [OF trans] keeps_Now keeps_on_users keeps_on_otps keeps_on_outside

lemmas of_stores [intro] =
  pending_get pending_username pending_email pending_mobile pending_delete pending_save
  refresh_get refresh_delete issue

subsection \<open>The service\<close>

lemma keeps_validateResendWindow: "keeps R (validateResendWindow cfg t n)"
  unfolding validateResendWindow_def by auto

lemma keeps_Refresh: "admissible s \<Longrightarrow> keeps R (Refresh s tok)"
  unfolding Refresh_def nil_panic_def Let_def by auto

lemma keeps_Logout: "admissible s \<Longrightarrow> keeps R (Logout s tok)"
  unfolding Logout_def nil_panic_def Let_def by auto

lemma keeps_AuthenticateAccessToken: "keeps R (AuthenticateAccessToken s tok)"
  unfolding AuthenticateAccessToken_def by auto

lemma keeps_Login: "admissible s \<Longrightarrow> keeps R (Login s req)"
  unfolding Login_def ValidateLogin_def Let_def by auto

lemma keeps_pendingConflict: "admissible s \<Longrightarrow> keeps R (pendingConflict s a b c d)"
  unfolding pendingConflict_def by auto

lemma keeps_unless_taken: "keeps R l \<Longrightarrow> keeps R k \<Longrightarrow> keeps R (unless_taken l e k)"
  unfolding unless_taken_def by auto

lemma keeps_unless_pending:
  "keeps R l \<Longrightarrow> (\<And>m. keeps R (f m)) \<Longrightarrow> keeps R k \<Longrightarrow> keeps R (unless_pending l f k)"
  unfolding unless_pending_def by auto

lemma keeps_ensureSignupAvailability: "admissible s \<Longrightarrow> keeps R (ensureSignupAvailability s req)"
  unfolding ensureSignupAvailability_def Let_def
  by (intro keeps_unless_taken keeps_unless_pending keeps_pendingConflict keeps_on_users of_stores
      keeps_return [OF refl])

lemma keeps_RequestSignupOTP: "admissible s \<Longrightarrow> keeps R (RequestSignupOTP s req)"
  unfolding RequestSignupOTP_def by (auto intro: keeps_ensureSignupAvailability)

lemma keeps_VerifySignupOTP: "admissible s \<Longrightarrow> keeps R (VerifySignupOTP s req)"
  unfolding VerifySignupOTP_def Let_def by auto

lemma keeps_ResendSignupOTP: "admissible s \<Longrightarrow> keeps R (ResendSignupOTP s req)"
  unfolding ResendSignupOTP_def by (auto intro: keeps_validateResendWindow)

lemma keeps_SignupStatus: "admissible s \<Longrightarrow> keeps R (SignupStatus s m)"
  unfolding SignupStatus_def by auto

lemma keeps_RequestLoginOTP: "keeps R (RequestLoginOTP s req)"
  unfolding RequestLoginOTP_def Let_def by (auto intro: keeps_validateResendWindow)

lemma keeps_VerifyLoginOTP: "admissible s \<Longrightarrow> keeps R (VerifyLoginOTP s req)"
  unfolding VerifyLoginOTP_def Let_def by auto

lemma keeps_GoogleLogin: "admissible s \<Longrightarrow> keeps R (GoogleLogin s code)"
  unfolding GoogleLogin_def Let_def by auto

lemma keeps_CompleteProfile: "admissible s \<Longrightarrow> keeps R (CompleteProfile s i n m)"
  unfolding CompleteProfile_def Let_def by auto

lemma keeps_ValidateCurrentUser: "keeps R (ValidateCurrentUser s n)"
  unfolding ValidateCurrentUser_def by auto

lemmas of_service =
  keeps_Refresh keeps_Logout keeps_AuthenticateAccessToken keeps_Login keeps_RequestSignupOTP
  keeps_VerifySignupOTP keeps_ResendSignupOTP keeps_SignupStatus keeps_RequestLoginOTP
  keeps_VerifyLoginOTP keeps_GoogleLogin keeps_CompleteProfile keeps_ValidateCurrentUser

subsection \<open>The routes\<close>

lemma refl_lifted: "reflp (on_world R)"
  using refl by (simp add: reflp_def on_world_def)

lemma trans_lifted: "transp (on_world R)"
  using trans unfolding transp_def on_world_def by blast

lemma keeps_in_service: "keeps R m \<Longrightarrow> keeps (on_world R) (in_service m)"
  by (rule keepsI) (auto simp: on_world_def run_in_service dest: keepsD split: prod.splits)

lemma keeps_on_limiter: "keeps (on_world R) (on_limiter m)"
  using frame [where n = "Suc (ticks w)" and us = "users w" and os = "login_otps w" and x = "outside w" and w = w for w]
  by (auto simp: keeps_def on_world_def run_on_limiter split: prod.split)

lemmas lifted [intro!] =
  keeps_return [OF refl_lifted] keeps_bind [OF trans_lifted] keeps_call_ok [OF refl_lifted trans_lifted]
  keeps_on_limiter keeps_in_service

lemma keeps_or_service_error:
  "keeps (on_world R) m \<Longrightarrow> (\<And>x. keeps (on_world R) (k x)) \<Longrightarrow> keeps (on_world R) (or_service_error c m k)"
  unfolding or_service_error_def by auto

lemma keeps_with_body:
  "(\<And>req. keeps (on_world R) (k req)) \<Longrightarrow> keeps (on_world R) (with_body c sub k)"
  unfolding with_body_def by auto

lemma keeps_write_auth_response: "keeps (on_world R) (write_auth_response h st ct result)"
  unfolding write_auth_response_def applyRefreshTokenTransport_def newCSRFToken_def by auto

lemma keeps_enforceRateLimit: "keeps (on_world R) (enforceRateLimit h c act mob r1 r2)"
  unfolding enforceRateLimit_def by auto

lemmas of_handlers =
  keeps_or_service_error keeps_with_body keeps_write_auth_response keeps_enforceRateLimit
  keeps_return [OF refl_lifted] keeps_in_service of_service

lemma keeps_serve:
  assumes "admissible (service h)"
  shows "keeps (on_world R) (serve h c call)"
  using assms
  by (cases call)
    (auto simp: handleRequestSignupOTP_def handleVerifySignupOTP_def handleResendSignupOTP_def
      handleSignupStatus_def handlePasswordLogin_def handleRequestLoginOTP_def handleResendLoginOTP_def
      handleVerifyLoginOTP_def handleRefresh_def handleLogout_def route_me_def requireAccessToken_def
      handleMe_def route_complete_profile_def requirePartialAccessToken_def handleCompleteProfile_def
      handleGoogleLoginRedirect_def handleGoogleCallback_def enforceOTPRequestLimit_def
      enforceOTPVerifyLimit_def write_message_def ResendLoginOTP_def Let_def intro!: of_handlers)

text \<open>Every run respects the relation.\<close>

lemma run_related:
  assumes "server_run h s tr s'" and "admissible (service h)"
  shows "R (fst s) (fst s')"
  using assms(1)
proof (induction rule: server_run.induct)
  case start
  show ?case using refl by (simp add: reflp_def)
next
  case (answer tr s1 c call r s2)
  from keepsD [OF keeps_serve [OF assms(2)] answer.hyps(2)] answer.IH trans show ?case
    by (auto simp: on_world_def dest: transpD)
qed

end

section \<open>Pending signups in memory\<close>

text \<open>
  Whatever the requests and however late their clock readings, no index entry of the pending
  signups is ever left behind: each leads to a signup that has the indexed identity.
\<close>

definition index_sound ::
  "(string \<rightharpoonup> pending_signup) \<Rightarrow> (pending_signup \<Rightarrow> string) \<Rightarrow> (string \<rightharpoonup> string) \<Rightarrow> bool" where
  "index_sound sg f idx \<longleftrightarrow> (\<forall>k m. idx k = Some m \<longrightarrow> (\<exists>p. sg m = Some p \<and> f p = k))"

definition pending_sound :: "pending_store \<Rightarrow> bool" where
  "pending_sound s \<longleftrightarrow>
     (\<forall>m p. signups s m = Some p \<longrightarrow> pending_signup.Mobile p = m) \<and>
     index_sound (signups s) pending_signup.Username (byUsername s) \<and>
     index_sound (signups s) pending_signup.Email (byEmail s) \<and>
     index_exact (signups s) pending_signup.Mobile (byMobile s)"

lemma index_sound_remove:
  "index_sound sg f idx \<Longrightarrow> sg m = Some p \<Longrightarrow> index_sound (sg(m := None)) f (idx(f p := None))"
  unfolding index_sound_def by (auto split: if_splits) (metis option.inject)

lemma index_sound_insert:
  "index_sound sg f idx \<Longrightarrow> sg m = None \<Longrightarrow> index_sound (sg(m \<mapsto> p)) f (idx(f p \<mapsto> m))"
  unfolding index_sound_def by (metis fun_upd_apply option.distinct(1) option.inject)

lemma pending_sound_delete: "pending_sound s \<Longrightarrow> pending_sound (deleteLocked m s)"
  unfolding pending_sound_def deleteLocked_def
  by (auto split: option.split intro: index_sound_remove index_exact_remove)

lemma pending_sound_insert:
  assumes "pending_sound s" and none: "signups s m = None" and m: "pending_signup.Mobile p = m"
  shows "pending_sound
    (s\<lparr>signups := (signups s)(m \<mapsto> p),
       byUsername := (byUsername s)(pending_signup.Username p \<mapsto> m),
       byEmail := (byEmail s)(pending_signup.Email p \<mapsto> m),
       byMobile := (byMobile s)(m \<mapsto> m)\<rparr>)"
proof -
  have "index_exact ((signups s)(m \<mapsto> p)) pending_signup.Mobile ((byMobile s)(pending_signup.Mobile p \<mapsto> m))"
    using assms by (intro index_exact_insert) (auto simp: pending_sound_def)
  with assms show ?thesis
    by (simp add: pending_sound_def index_sound_insert)
qed

lemma pending_sound_save:
  assumes "pending_sound s" and "run_state (PendingSignupStore_Save t p) s = (r, s')"
  shows "pending_sound s'"
proof -
  let ?m = "pending_signup.Mobile p"
  let ?q = "case signups s ?m of None \<Rightarrow> s | Some x \<Rightarrow> deleteLocked (pending_signup.Mobile x) s"
  have q: "?q = deleteLocked ?m s"
    using assms(1) by (auto simp: pending_sound_def deleteLocked_def split: option.split)
  have none: "signups (deleteLocked ?m s) ?m = None" by simp
  from pending_sound_insert [OF pending_sound_delete [OF assms(1)] none refl] assms q
  show ?thesis
    by (cases "pending_signup.ExpiresAt p \<le> t") (simp_all add: PendingSignupStore_Save_def Let_def)
qed

lemma pending_sound_get:
  "pending_sound s \<Longrightarrow> run_state (getByMobileLocked t m) s = (r, s') \<Longrightarrow> pending_sound s'"
  by (auto simp: getByMobileLocked_def pending_sound_delete split: option.splits if_splits)

lemma pending_sound_index:
  "pending_sound s \<Longrightarrow> run_state (getIndexLocked t idx k) s = (r, s') \<Longrightarrow> pending_sound s'"
  by (auto simp: getIndexLocked_def go_eval split: option.splits prod.splits sum.splits
      dest: pending_sound_get)

lemma issue_frame: "keeps (\<lambda>w w'. pending w' = pending w) (IssueTokenPair s u)"
  by (rule keepsI) (auto simp: IssueTokenPair_def go_eval split: option.splits prod.splits sum.splits)

lemma keeps_on_pending:
  "(\<And>t p r p'. P p \<Longrightarrow> run_state (m t) p = (r, p') \<Longrightarrow> P p') \<Longrightarrow>
     keeps (\<lambda>w w'. P (pending w) \<longrightarrow> P (pending w')) (on_pending m)"
  by (rule keepsI) (auto simp: go_eval split: prod.splits)

interpretation pending_runs: world_invariant
  "\<lambda>w w'. pending_sound (pending w) \<longrightarrow> pending_sound (pending w')"
  "\<lambda>s. pendingSignupStore s = memory_pending_store"
proof unfold_locales
  show "keeps (\<lambda>w w'. pending_sound (pending w) \<longrightarrow> pending_sound (pending w')) (IssueTokenPair s u)" for s u
    by (rule keepsI) (use keepsD [OF issue_frame] in metis)
qed (auto simp: memory_pending_store_def PendingSignupStore_DeleteByMobile_def keeps_def go_eval split: prod.split
    intro!: keeps_on_pending dest: pending_sound_get pending_sound_index pending_sound_save pending_sound_delete)

section \<open>Sessions in memory\<close>

text \<open>The generator never produces a token that is filed like \<open>tok\<close>.\<close>

definition never_issued :: "('u, 'r, 'p, 'o, 'x) service \<Rightarrow> (string \<Rightarrow> string) \<Rightarrow> string \<Rightarrow> bool" where
  "never_issued s sha256 tok \<longleftrightarrow>
     (\<forall>m now u x p session x'. run_state (GenerateTokenPair (crypto (libs s)) m now u) x = (Inr (p, session), x') \<longrightarrow>
        tokenKey sha256 (token_pair.RefreshToken p) \<noteq> tokenKey sha256 tok)"

lemma issue_keeps_absent:
  assumes "refreshStore s = Some (memory_refresh_store sha256)" and "never_issued s sha256 tok"
  shows "keeps (\<lambda>w w'. sessions (refresh_tokens w) (tokenKey sha256 tok) = None \<longrightarrow>
    sessions (refresh_tokens w') (tokenKey sha256 tok) = None) (IssueTokenPair s u)"
proof (rule keepsI, rule impI)
  fix w r w'
  assume run: "run_state (IssueTokenPair s u) w = (r, w')"
    and none: "sessions (refresh_tokens w) (tokenKey sha256 tok) = None"
  show "sessions (refresh_tokens w') (tokenKey sha256 tok) = None"
  proof (cases "tokenManager s")
    case None
    with run none show ?thesis by (simp add: IssueTokenPair_def)
  next
    case (Some m)
    obtain g x' where g: "run_state (GenerateTokenPair (crypto (libs s)) m (clock w (ticks w)) u) (outside w) = (g, x')"
      by fastforce
    show ?thesis
    proof (cases g)
      case (Inl e)
      with run none Some assms(1) g show ?thesis by (auto simp: IssueTokenPair_def go_eval)
    next
      case (Inr ps)
      obtain p session where ps: "ps = (p, session)" by fastforce
      have "tokenKey sha256 (token_pair.RefreshToken p) \<noteq> tokenKey sha256 tok"
        using assms(2) g Inr ps unfolding never_issued_def by blast
      with run none Some assms(1) g Inr ps show ?thesis
        by (auto simp: IssueTokenPair_def go_eval memory_refresh_store_def RefreshStore_Save_def split: if_splits)
    qed
  qed
qed

interpretation session_runs: world_invariant
  "\<lambda>w w'. sessions (refresh_tokens w) (tokenKey sha256 tok) = None \<longrightarrow>
    sessions (refresh_tokens w') (tokenKey sha256 tok) = None"
  "\<lambda>s. refreshStore s = Some (memory_refresh_store sha256) \<and> never_issued s sha256 tok"
  for sha256 tok
proof unfold_locales
  show "keeps (\<lambda>w w'. sessions (refresh_tokens w) (tokenKey sha256 tok) = None \<longrightarrow>
      sessions (refresh_tokens w') (tokenKey sha256 tok) = None)
    (on_refresh (\<lambda>t. refresh_token_store.Get rs t k))"
    if "refreshStore s = Some (memory_refresh_store sha256) \<and> never_issued s sha256 tok" "refreshStore s = Some rs"
    for s rs k
    using that by (intro keepsI) (auto simp: go_eval memory_refresh_store_def split: prod.splits
      dest!: mem_refresh.get_le dest: map_le_None)
qed (auto simp: keeps_def go_eval memory_refresh_store_def RefreshStore_Delete_def split: prod.split
    intro: issue_keeps_absent [unfolded keeps_def, rule_format])

section \<open>Properties\<close>

lemma mem_pending_get_Inr:
  "run_state (getByMobileLocked t m) s = (Inr p, s1) \<Longrightarrow> s1 = s \<and> signups s m = Some p"
  by (cases "signups s m") (simp_all add: getByMobileLocked_def split: if_splits)

lemma index_lookup_found:
  assumes "index_sound (signups s) f (idx s)"
    and "run_state (getIndexLocked t idx k) s = (Inr m, s')"
  shows "s' = s \<and> (\<exists>p. run_state (getByMobileLocked t m) s = (Inr p, s) \<and> f p = k)"
proof -
  obtain p where p: "idx s k = Some m" "signups s m = Some p"
    "run_state (getByMobileLocked t m) s = (Inr p, s)" "s' = s"
  proof (cases "idx s k")
    case None
    with assms(2) show ?thesis by (simp add: getIndexLocked_def)
  next
    case (Some m0)
    obtain r s1 where r: "run_state (getByMobileLocked t m0) s = (r, s1)" by fastforce
    show ?thesis
    proof (cases r)
      case (Inl e)
      with assms(2) Some r show ?thesis by (simp add: getIndexLocked_def go_eval)
    next
      case (Inr p)
      with assms(2) Some r have "m0 = m" "s1 = s'" by (simp_all add: getIndexLocked_def go_eval)
      with mem_pending_get_Inr [of t m0 s p s1] r Inr Some show ?thesis by (intro that [of p]) simp_all
    qed
  qed
  from assms(1) p(1,2) have "f p = k" unfolding index_sound_def by (metis option.inject)
  with p show ?thesis by blast
qed

lemma pending_sound_lookups:
  assumes "pending_sound p"
  shows "(\<forall>t k m p'. run_state (GetMobileByUsername memory_pending_store t k) p = (Inr m, p') \<longrightarrow>
       (\<exists>q. run_state (GetByMobile memory_pending_store t m) p = (Inr q, p) \<and> pending_signup.Username q = k)) \<and>
    (\<forall>t k m p'. run_state (GetMobileByEmail memory_pending_store t k) p = (Inr m, p') \<longrightarrow>
       (\<exists>q. run_state (GetByMobile memory_pending_store t m) p = (Inr q, p) \<and> pending_signup.Email q = k)) \<and>
    (\<forall>t k m p'. run_state (GetMobileByMobile memory_pending_store t k) p = (Inr m, p') \<longrightarrow>
       (\<exists>q. run_state (GetByMobile memory_pending_store t m) p = (Inr q, p) \<and> pending_signup.Mobile q = k))"
proof -
  have idx: "index_sound (signups p) pending_signup.Username (byUsername p)"
    "index_sound (signups p) pending_signup.Email (byEmail p)"
    "index_sound (signups p) pending_signup.Mobile (byMobile p)"
    using assms by (auto simp: pending_sound_def index_sound_def index_exact_def)
  note found = index_lookup_found [where idx = byUsername, OF idx(1)]
    index_lookup_found [where idx = byEmail, OF idx(2)] index_lookup_found [where idx = byMobile, OF idx(3)]
  have sel: "GetByMobile memory_pending_store = getByMobileLocked"
    "GetMobileByUsername memory_pending_store = (\<lambda>now. getIndexLocked now byUsername)"
    "GetMobileByEmail memory_pending_store = (\<lambda>now. getIndexLocked now byEmail)"
    "GetMobileByMobile memory_pending_store = (\<lambda>now. getIndexLocked now byMobile)"
    by (simp_all add: memory_pending_store_def)
  show ?thesis unfolding sel using found by blast
qed

lemma pending_sound_empty: "pending_sound NewPendingSignupStore"
  by (simp add: pending_sound_def index_sound_def index_exact_def NewPendingSignupStore_def)

text \<open>
  No reservation without a signup.  In every state the server reaches from empty stores,
  whatever the requests, their order and the clock, an index of the pending signups leads only
  to a live signup that has the very username, email or mobile that was looked up, so a
  sign-up is never refused for the sake of an identity nobody holds.
\<close>

theorem reservations_are_real:
  assumes "server_run h (w, l) tr (w', l')"
    and "pendingSignupStore (service h) = memory_pending_store"
    and "pending w = NewPendingSignupStore"
  shows "pending_sound (pending w') \<and>
    (\<forall>t k m p'. run_state (GetMobileByUsername memory_pending_store t k) (pending w') = (Inr m, p') \<longrightarrow>
       (\<exists>p. run_state (GetByMobile memory_pending_store t m) (pending w') = (Inr p, pending w') \<and>
         pending_signup.Username p = k)) \<and>
    (\<forall>t k m p'. run_state (GetMobileByEmail memory_pending_store t k) (pending w') = (Inr m, p') \<longrightarrow>
       (\<exists>p. run_state (GetByMobile memory_pending_store t m) (pending w') = (Inr p, pending w') \<and>
         pending_signup.Email p = k)) \<and>
    (\<forall>t k m p'. run_state (GetMobileByMobile memory_pending_store t k) (pending w') = (Inr m, p') \<longrightarrow>
       (\<exists>p. run_state (GetByMobile memory_pending_store t m) (pending w') = (Inr p, pending w') \<and>
         pending_signup.Mobile p = k))"
proof -
  from pending_runs.run_related [OF assms(1,2)] assms(3) pending_sound_empty
  have "pending_sound (pending w')" by simp
  with pending_sound_lookups [OF this] show ?thesis by simp
qed

definition demo_signup_call :: auth_call where
  "demo_signup_call = RegisterCall \<lparr>Bound = Some \<lparr>signup_request_body.Username = ''ravi'', Password = ''pw'',
     Email = ''r@x'', Mobile = ''9876543210'', ClientType = ''web''\<rparr>, Checked = StructValid\<rparr>"

lemma reservations_are_real_witness:
  "\<exists>tr s'. server_run demo_handler (demo_world, NewRateLimiter) tr s' \<and> length tr = 2 \<and>
     pending_sound (pending (fst s'))"
proof -
  let ?c = "demo_request_of (\<lambda>_. []) (\<lambda>_. None)"
  obtain tr s' where run: "server_run demo_handler (demo_world, NewRateLimiter) tr s'"
    and tr: "map (\<lambda>(c, call, r). (c, call)) tr = [(?c, demo_signup_call), (?c, demo_signup_call)]"
    using server_run_total by blast
  obtain w' l' where s': "s' = (w', l')" by fastforce
  have "pendingSignupStore (service demo_handler) = memory_pending_store" "pending demo_world = NewPendingSignupStore"
    by (simp_all add: demo_service_def demo_world_def)
  from reservations_are_real [OF run [unfolded s'] this] have "pending_sound (pending w')" by blast
  moreover have "length tr = 2" using arg_cong [OF tr, of length] by simp
  ultimately show ?thesis using run s' by auto
qed

text \<open>The token a logout or refresh request presents, if it gets past the checks of its body.\<close>

definition presents ::
  "('u, 'r, 'p, 'o, 'x, 'l) handler \<Rightarrow> request \<Rightarrow> refresh_request submission \<Rightarrow> string \<Rightarrow> bool" where
  "presents h c sub tok \<longleftrightarrow>
     (\<exists>req given. Bound sub = Some req \<and>
        refreshTokenForClient h c (refresh_request.ClientType req) (refresh_request.RefreshToken req) = Inr given \<and>
        TrimSpace given = tok)"

lemma logout_answer:
  assumes "refreshStore (service h) = Some (memory_refresh_store sha256)" and "presents h c sub tok"
    and "run_state (serve h c (LogoutCall sub)) (w, l) = (r, (w', l'))" and "response.Status r = 204"
  shows "sessions (refresh_tokens w') (tokenKey sha256 tok) = None \<and> tok \<noteq> []"
proof -
  obtain req given where req: "Bound sub = Some req" and tok: "TrimSpace given = tok"
    and given: "refreshTokenForClient h c (refresh_request.ClientType req) (refresh_request.RefreshToken req) = Inr given"
    using assms(2) by (auto simp: presents_def)
  have ne: "tok \<noteq> []"
    using given tok by (auto simp: refreshTokenForClient_def split: if_splits option.splits)
  have dec: "decodeAndValidateJSON ErrorBody c sub = Inr req"
    using assms(3,4) req decode_body [of c sub] decode_Inr [of ErrorBody c sub]
    by (cases "decodeAndValidateJSON ErrorBody c sub") (auto simp: handleLogout_def run_with_body)
  have csrf: "requireCSRFFromWeb h c (refresh_request.ClientType req) = None"
    using assms(3,4) dec given error_status_ne_2xx
    by (auto simp: handleLogout_def run_with_body split: option.splits)
  obtain x w1 where x: "run_state (Logout (service h) given) w = (x, w1)" by fastforce
  have "TrimSpace given \<noteq> []" using ne tok by simp
  note out = mem_sessions.Logout_run [OF assms(1) [unfolded memory_refresh_store_def] this x]
  have "w' = w1" using assms(3) dec given csrf x by (auto simp: handleLogout_def http_eval split: sum.splits)
  with out tok ne show ?thesis by auto
qed

lemma refresh_absent:
  assumes "refreshStore (service h) = Some (memory_refresh_store sha256)" and "presents h c sub tok"
    and "sessions (refresh_tokens w) (tokenKey sha256 tok) = None"
    and "run_state (serve h c (RefreshCall sub)) (w, l) = (r, s')"
  shows "response.Status r \<in> {400, 401} \<and> SetCookies r = [] \<and> (\<exists>b. Body r = Some (ErrorBody b))"
proof (cases "decodeAndValidateJSON ErrorBody c sub")
  case (Inl x)
  with decode_body [OF this] assms(4) show ?thesis by (simp add: handleRefresh_def run_with_body)
next
  case (Inr req')
  obtain req given where req: "Bound sub = Some req" and tok: "TrimSpace given = tok"
    and given: "refreshTokenForClient h c (refresh_request.ClientType req) (refresh_request.RefreshToken req) = Inr given"
    using assms(2) by (auto simp: presents_def)
  have req': "req' = req" using Inr req by (simp add: decode_Inr)
  have ne: "TrimSpace given \<noteq> []"
    using given by (auto simp: refreshTokenForClient_def split: if_splits option.splits)
  from mem_sessions.Refresh_miss [OF assms(1) [unfolded memory_refresh_store_def] ne] assms(3) tok
  have miss: "fst (run_state (Refresh (service h) given) w) = Inl ErrInvalidRefreshToken" by simp
  then obtain w1 where "run_state (Refresh (service h) given) w = (Inl ErrInvalidRefreshToken, w1)"
    by (metis prod.collapse)
  moreover have "e = ErrUnauthorized" if "requireCSRFFromWeb h c (refresh_request.ClientType req) = Some e" for e
    using that by (simp add: requireCSRFFromWeb_def Let_def split: if_splits option.splits)
  ultimately have "r = writeServiceError c ErrInvalidRefreshToken \<or> r = writeServiceError c ErrUnauthorized"
    using assms(4) Inr req' given by (auto simp: handleRefresh_def http_eval split: option.splits)
  then show ?thesis by (auto simp: error_status_def writeServiceError_body)
qed


lemma demo_generated:
  assumes "run_state (GenerateTokenPair demo_crypto m now u) x = (Inr (p, session), x')"
  shows "length (token_pair.RefreshToken p) = 76"
proof -
  obtain raw tid x1 x2 where raw: "run_state (randomToken demo_crypto 32) x1 = (Inr raw, x2)"
    and tid: "run_state (randomToken demo_crypto 24) x2 = (Inr tid, x')"
    and p: "token_pair.RefreshToken p = tid @ ''.'' @ raw"
    by (rule GenerateTokenPair_Inr [OF assms]) simp
  obtain a where "raw = base64url a" "length a = 32" by (rule randomToken_Inr [OF demo_crypto_ok raw])
  moreover obtain b where "tid = base64url b" "length b = 24" by (rule randomToken_Inr [OF demo_crypto_ok tid])
  ultimately show ?thesis by (simp add: p length_base64url)
qed

definition demo_old_token :: "refresh_request submission" where
  "demo_old_token = \<lparr>Bound = Some \<lparr>refresh_request.RefreshToken = ''old'', ClientType = ''android''\<rparr>, Checked = StructValid\<rparr>"


end
