(* ===== verification/Processes.thy ===== *)
theory Processes
  imports Go_Prelude
begin

text \<open>
  Computations that share a state.  A process is a computation cut into actions, a pool is a
  list of processes over one state, and in every step of a pool one process performs its next
  action.  The theory shows when pools end, and carries relations between states through
  them: \<open>obeys\<close> when every action respects the relation by itself, \<open>guarantees\<close> when an action does so
  because of what its process has seen before and the others leave true.
\<close>

section \<open>Processes\<close>

datatype ('w, 'a) proc = Ret 'a | Act "'w \<Rightarrow> ('w, 'a) proc \<times> 'w"

primrec run_proc :: "('w, 'a) proc \<Rightarrow> 'w \<Rightarrow> 'a \<times> 'w" where
  "run_proc (Ret a) = (\<lambda>w. (a, w))"
| "run_proc (Act f) = (\<lambda>w. case map_prod run_proc id (f w) of (k, w') \<Rightarrow> k w')"

text \<open>An action and what follows it, and the idioms of the service over actions.\<close>

definition act :: "('w, 'a) state \<Rightarrow> ('a \<Rightarrow> ('w, 'b) proc) \<Rightarrow> ('w, 'b) proc" where
  "act m k = Act (\<lambda>w. case run_state m w of (x, w') \<Rightarrow> (k x, w'))"

definition act_ok ::
  "('w, 'e, 'a) call \<Rightarrow> ('a \<Rightarrow> ('w, 'e + 'b) proc) \<Rightarrow> ('w, 'e + 'b) proc" where
  "act_ok m k = act m (\<lambda>r. case r of Inl e \<Rightarrow> Ret (Inl e) | Inr x \<Rightarrow> k x)"

text \<open>Sequencing.\<close>

primrec bind_proc :: "('w, 'a) proc \<Rightarrow> ('a \<Rightarrow> ('w, 'b) proc) \<Rightarrow> ('w, 'b) proc" where
  "bind_proc (Ret a) = (\<lambda>k. k a)"
| "bind_proc (Act f) = (\<lambda>k. Act (\<lambda>w. case map_prod bind_proc id (f w) of (b, w') \<Rightarrow> (b k, w')))"

definition and_then ::
  "('w, 'e + 'a) proc \<Rightarrow> ('a \<Rightarrow> ('w, 'e + 'b) proc) \<Rightarrow> ('w, 'e + 'b) proc" where
  "and_then p k = bind_proc p (\<lambda>r. case r of Inl e \<Rightarrow> Ret (Inl e) | Inr x \<Rightarrow> k x)"

lemma run_act [go_eval]:
  "run_proc (act m k) w = (case run_state m w of (x, w') \<Rightarrow> run_proc (k x) w')"
  by (simp add: act_def split: prod.split)

lemma run_act_ok [go_eval]:
  "run_proc (act_ok m k) w =
     (case run_state m w of (Inl e, w') \<Rightarrow> (Inl e, w') | (Inr x, w') \<Rightarrow> run_proc (k x) w')"
  by (simp add: act_ok_def run_act split: prod.split sum.split)

lemma run_bind_proc [go_eval]:
  "run_proc (bind_proc p k) w = (case run_proc p w of (a, w') \<Rightarrow> run_proc (k a) w')"
proof (induction p arbitrary: w)
  case (Act f)
  obtain p1 w1 where f: "f w = (p1, w1)" by fastforce
  with Act.IH [OF rangeI [of f w], of p1 w1] show ?case by simp
qed simp

lemma run_and_then [go_eval]:
  "run_proc (and_then p k) w =
     (case run_proc p w of (Inl e, w') \<Rightarrow> (Inl e, w') | (Inr x, w') \<Rightarrow> run_proc (k x) w')"
  by (simp add: and_then_def run_bind_proc split: prod.split sum.split)

lemma run_map_proc [go_eval]: "run_proc (map_proc g p) w = map_prod g id (run_proc p w)"
proof (induction p arbitrary: w)
  case (Act f)
  obtain p1 w1 where f: "f w = (p1, w1)" by fastforce
  with Act.IH [OF rangeI [of f w], of p1 w1] show ?case by simp
qed simp

lemma map_proc_act [simp]: "map_proc g (act m k) = act m (\<lambda>x. map_proc g (k x))"
  by (simp add: act_def fun_eq_iff split: prod.split)

section \<open>Pools\<close>

type_synonym ('w, 'a) pool = "('w, 'a) proc list \<times> 'w"

inductive pool_step :: "('w, 'a) pool \<Rightarrow> ('w, 'a) pool \<Rightarrow> bool" where
  move: "i < length ps \<Longrightarrow> ps ! i = Act f \<Longrightarrow> f w = (p, w') \<Longrightarrow> pool_step (ps, w) (ps[i := p], w')"

inductive_cases pool_stepE: "pool_step (ps, w) (ps', w')"

inductive pool_run :: "('w, 'a) pool \<Rightarrow> nat \<Rightarrow> ('w, 'a) pool \<Rightarrow> bool" for c where
  stay: "pool_run c 0 c"
| step: "pool_run c n c1 \<Longrightarrow> pool_step c1 c2 \<Longrightarrow> pool_run c (Suc n) c2"

lemma pool_run_trans: "pool_run c1 n c2 \<Longrightarrow> pool_run c m c1 \<Longrightarrow> pool_run c (m + n) c2"
  by (induction rule: pool_run.induct) (auto intro: pool_run.step)

text \<open>A process that is let run on its own ends as \<open>run_proc\<close> says.\<close>

lemma run_alone:
  assumes "i < length ps" and "ps ! i = p" and "run_proc p w = (a, w')"
  shows "\<exists>n. pool_run (ps, w) n (ps[i := Ret a], w')"
  using assms
proof (induction p arbitrary: ps w)
  case (Ret b)
  then have "ps[i := Ret a] = ps" "w' = w" by (auto simp: list_update_same_conv)
  then show ?case by (auto intro: pool_run.stay exI [of _ 0])
next
  case (Act f)
  obtain p1 w1 where f: "f w = (p1, w1)" by fastforce
  then have run: "run_proc p1 w1 = (a, w')" using Act.prems(3) by simp
  have "\<exists>n. pool_run (ps[i := p1], w1) n (ps[i := p1, i := Ret a], w')"
    using Act.IH [OF rangeI [of f w], of p1 "ps[i := p1]" w1] f run Act.prems(1) by simp
  then obtain n where "pool_run (ps[i := p1], w1) n (ps[i := Ret a], w')" by auto
  moreover have "pool_run (ps, w) 1 (ps[i := p1], w1)"
    using Act.prems(1,2) f by (auto intro: pool_run.intros pool_step.move)
  ultimately show ?case using pool_run_trans by blast
qed

text \<open>Two processes that begin alike and both make their first action before either goes on.\<close>

lemma race:
  assumes "f w0 = (q1, w1)" and "f w1 = (q2, w2)"
    and "run_proc q1 w2 = (a, w3)" and "run_proc q2 w3 = (b, w4)"
  shows "\<exists>n. pool_run ([Act f, Act f], w0) n ([Ret a, Ret b], w4)"
proof -
  have "pool_run ([Act f, Act f], w0) (Suc (Suc 0)) ([q1, q2], w2)"
  proof (intro pool_run.step)
    show "pool_run ([Act f, Act f], w0) 0 ([Act f, Act f], w0)" by (rule pool_run.stay)
    show "pool_step ([Act f, Act f], w0) ([q1, Act f], w1)"
      using pool_step.move [of 0 "[Act f, Act f]" f w0 q1 w1] assms(1) by simp
    show "pool_step ([q1, Act f], w1) ([q1, q2], w2)"
      using pool_step.move [of 1 "[q1, Act f]" f w1 q2 w2] assms(2) by simp
  qed
  moreover obtain m k where "pool_run ([q1, q2], w2) m ([Ret a, q2], w3)"
    "pool_run ([Ret a, q2], w3) k ([Ret a, Ret b], w4)"
    using run_alone [of 0 "[q1, q2]" q1 w2 a w3] run_alone [of 1 "[Ret a, q2]" q2 w3 b w4] assms(3,4) by auto
  ultimately show ?thesis using pool_run_trans by blast
qed

section \<open>Bounded processes\<close>

text \<open>\<open>ends_within n p\<close>: whatever the other processes do to the world, \<open>p\<close> ends after at most \<open>n\<close> actions.\<close>

fun ends_within :: "nat \<Rightarrow> ('w, 'a) proc \<Rightarrow> bool" where
  "ends_within n (Ret a) = True"
| "ends_within 0 (Act f) = False"
| "ends_within (Suc n) (Act f) = (\<forall>w. ends_within n (fst (f w)))"

lemma ends_within_act: "0 < n \<Longrightarrow> (\<And>x. ends_within (n - 1) (k x)) \<Longrightarrow> ends_within n (act m k)"
  by (cases n) (simp_all add: act_def split: prod.split)

lemma ends_within_act_ok: "0 < n \<Longrightarrow> (\<And>x. ends_within (n - 1) (k x)) \<Longrightarrow> ends_within n (act_ok m k)"
  by (auto simp: act_ok_def intro!: ends_within_act split: sum.split)

lemma ends_within_mono: "ends_within n p \<Longrightarrow> n \<le> m \<Longrightarrow> ends_within m p"
proof (induction n p arbitrary: m rule: ends_within.induct)
  case (3 n f)
  then show ?case by (cases m) auto
qed simp_all

lemma ends_within_map_proc: "ends_within n p \<Longrightarrow> ends_within n (map_proc g p)"
proof (induction n p rule: ends_within.induct)
  case (3 n f)
  then show ?case by (auto simp: map_prod_def split: prod.split) (metis fst_conv)
qed simp_all

lemma ends_within_bind_proc:
  assumes "ends_within n p" and "\<And>a. ends_within m (k a)" and "n + m \<le> l"
  shows "ends_within l (bind_proc p k)"
proof -
  have "ends_within (n + m) (bind_proc p k)"
    using assms(1)
  proof (induction n p rule: ends_within.induct)
    case (1 n a)
    show ?case by (simp add: assms(2) ends_within_mono [of m])
  next
    case (3 n f)
    then show ?case by (auto simp: map_prod_def split: prod.split) (metis fst_conv)
  qed simp
  then show ?thesis using assms(3) by (rule ends_within_mono)
qed

lemma ends_within_and_then:
  "ends_within n p \<Longrightarrow> (\<And>x. ends_within m (k x)) \<Longrightarrow> n + m \<le> l \<Longrightarrow> ends_within l (and_then p k)"
  unfolding and_then_def by (rule ends_within_bind_proc) (auto split: sum.split)

text \<open>The number of actions that are left is a measure of the pool.\<close>

definition bounded_pool :: "nat list \<Rightarrow> ('w, 'a) proc list \<Rightarrow> bool" where
  "bounded_pool ns ps \<longleftrightarrow> list_all2 ends_within ns ps"

lemma pool_step_bounded:
  assumes "pool_step (ps, w) (ps', w')" and "bounded_pool ns ps"
  shows "\<exists>ns'. bounded_pool ns' ps' \<and> Suc (sum_list ns') = sum_list ns"
proof -
  obtain i f p where 1: "ps' = ps[i := p]" "i < length ps" "ps ! i = Act f" "f w = (p, w')"
    using assms(1) by (rule pool_stepE)
  have len: "length ns = length ps" and win: "ends_within (ns ! i) (Act f)"
    using assms(2) 1 by (auto simp: bounded_pool_def list_all2_conv_all_nth)
  from win obtain n where n: "ns ! i = Suc n" by (cases "ns ! i") simp_all
  have "ends_within n p" using win n 1(4) by (metis ends_within.simps(3) fst_conv)
  then have "bounded_pool (ns[i := n]) ps'"
    using assms(2) 1(1) by (simp add: bounded_pool_def list_all2_update_cong)
  moreover have "Suc (sum_list (ns[i := n])) = sum_list ns"
    using elem_le_sum_list [of i ns] 1(2) len n by (simp add: sum_list_update)
  ultimately show ?thesis by blast
qed

lemma pool_run_bounded:
  assumes "pool_run (ps, w) n c" and "bounded_pool ns ps"
  shows "\<exists>ns'. bounded_pool ns' (fst c) \<and> n + sum_list ns' = sum_list ns"
  using assms(1)
proof (induction rule: pool_run.induct)
  case stay
  with assms(2) show ?case by auto
next
  case (step n c1 c2)
  then obtain ns1 where ns1: "bounded_pool ns1 (fst c1)" "n + sum_list ns1 = sum_list ns" by blast
  from pool_step_bounded [of "fst c1" "snd c1" "fst c2" "snd c2" ns1] step.hyps(2) ns1
  obtain ns2 where "bounded_pool ns2 (fst c2)" "Suc (sum_list ns2) = sum_list ns1" by auto
  with ns1(2) show ?case by (intro exI [of _ ns2]) simp
qed

lemma pool_progress: "(\<exists>c'. pool_step (ps, w) c') \<longleftrightarrow> (\<exists>i < length ps. \<nexists>a. ps ! i = Ret a)"
proof
  assume "\<exists>i < length ps. \<nexists>a. ps ! i = Ret a"
  then obtain i f where "i < length ps" "ps ! i = Act f" by (metis proc.exhaust)
  moreover obtain p w' where "f w = (p, w')" by fastforce
  ultimately show "\<exists>c'. pool_step (ps, w) c'" by (blast intro: pool_step.move)
next
  assume "\<exists>c'. pool_step (ps, w) c'"
  then obtain ps' w' where "pool_step (ps, w) (ps', w')" by auto
  then show "\<exists>i < length ps. \<nexists>a. ps ! i = Ret a" by (auto elim!: pool_stepE)
qed

section \<open>Every pool comes to an end\<close>

lemma pool_completes:
  assumes "bounded_pool ns ps"
  shows "\<exists>m answers w'. pool_run (ps, w) m (map Ret answers, w') \<and> m \<le> sum_list ns"
  using assms
proof (induction "sum_list ns" arbitrary: ns ps w rule: less_induct)
  case less
  show ?case
  proof (cases "\<exists>c'. pool_step (ps, w) c'")
    case False
    then have "\<forall>i < length ps. \<exists>a. ps ! i = Ret a" using pool_progress [of ps w] by blast
    then have "ps = map Ret (map (\<lambda>p. SOME a. p = Ret a) ps)"
      by (intro nth_equalityI) (auto intro: someI2)
    then show ?thesis by (metis pool_run.stay zero_le)
  next
    case True
    then obtain ps1 w1 where step: "pool_step (ps, w) (ps1, w1)" by auto
    from pool_step_bounded [OF step less.prems] obtain ns1
      where ns1: "bounded_pool ns1 ps1" "Suc (sum_list ns1) = sum_list ns" by blast
    from less.hyps [OF _ ns1(1), of w1] ns1(2) obtain m answers w'
      where run: "pool_run (ps1, w1) m (map Ret answers, w')" "m \<le> sum_list ns1" by auto
    have "pool_run (ps, w) 1 (ps1, w1)" using step by (auto intro: pool_run.intros)
    from pool_run_trans [OF run(1) this] have "pool_run (ps, w) (Suc m) (map Ret answers, w')" by simp
    moreover have "Suc m \<le> sum_list ns" using run(2) ns1(2) by simp
    ultimately show ?thesis by blast
  qed
qed

section \<open>Relations all actions respect\<close>

inductive obeys :: "('w \<Rightarrow> 'w \<Rightarrow> bool) \<Rightarrow> ('w, 'a) proc \<Rightarrow> bool" for R where
  Ret: "obeys R (Ret a)"
| Act: "(\<And>w p w'. f w = (p, w') \<Longrightarrow> R w w' \<and> obeys R p) \<Longrightarrow> obeys R (Act f)"

inductive_cases obeys_ActE: "obeys R (Act f)"

lemma obeys_act:
  assumes "keeps R m" and "\<And>w x w'. run_state m w = (x, w') \<Longrightarrow> obeys R (k x)"
  shows "obeys R (act m k)"
  unfolding act_def by (rule obeys.Act) (auto split: prod.splits dest: keepsD [OF assms(1)] assms(2))

lemma obeys_act_ok:
  assumes "keeps R m" and "\<And>w x w'. run_state m w = (Inr x, w') \<Longrightarrow> obeys R (k x)"
  shows "obeys R (act_ok m k)"
  unfolding act_ok_def using assms
  by (intro obeys_act) (auto split: sum.split intro: obeys.Ret)

lemma obeys_map_proc: "obeys R p \<Longrightarrow> obeys R (map_proc g p)"
proof (induction rule: obeys.induct)
  case (Act f)
  show ?case by (simp, rule obeys.Act) (use Act in \<open>auto simp: map_prod_def split: prod.splits\<close>)
qed (simp add: obeys.Ret)

lemma obeys_bind_proc: "obeys R p \<Longrightarrow> (\<And>a. obeys R (k a)) \<Longrightarrow> obeys R (bind_proc p k)"
proof (induction rule: obeys.induct)
  case (Act f)
  show ?case by (simp, rule obeys.Act) (use Act in \<open>auto simp: map_prod_def split: prod.splits\<close>)
qed simp

lemma obeys_and_then: "obeys R p \<Longrightarrow> (\<And>x. obeys R (k x)) \<Longrightarrow> obeys R (and_then p k)"
  unfolding and_then_def by (rule obeys_bind_proc) (auto split: sum.split intro: obeys.Ret)

definition pool_obeys :: "('w \<Rightarrow> 'w \<Rightarrow> bool) \<Rightarrow> ('w, 'a) proc list \<Rightarrow> bool" where
  "pool_obeys R ps \<longleftrightarrow> (\<forall>p \<in> set ps. obeys R p)"

lemma pool_step_obeys:
  assumes "pool_step (ps, w) (ps', w')" and "pool_obeys R ps"
  shows "R w w' \<and> pool_obeys R ps'"
proof -
  obtain i f p where 1: "ps' = ps[i := p]" "i < length ps" "ps ! i = Act f" "f w = (p, w')"
    using assms(1) by (rule pool_stepE)
  then have "obeys R (Act f)" using assms(2) by (metis nth_mem pool_obeys_def)
  then have "R w w' \<and> obeys R p" by (rule obeys_ActE) (use 1(4) in blast)
  then show ?thesis
    using assms(2) 1(1) set_update_subset_insert [of ps i p] by (auto simp: pool_obeys_def)
qed

lemma pool_run_obeys:
  assumes "pool_run (ps, w) n c" and "pool_obeys R ps" and "reflp R" "transp R"
  shows "R w (snd c) \<and> pool_obeys R (fst c)"
  using assms(1)
proof (induction rule: pool_run.induct)
  case stay
  with assms(2,3) show ?case by (simp add: reflpD)
next
  case (step n c1 c2)
  from pool_step_obeys [of "fst c1" "snd c1" "fst c2" "snd c2" R] step assms(4) show ?case
    by (auto dest: transpD)
qed

section \<open>Rely and guarantee\<close>

text \<open>
  \<open>guarantees R K p\<close>: started where \<open>K\<close> holds, every action of \<open>p\<close> respects \<open>R\<close> provided the others
  respect it too.  What a process knows after an action is an assertion that \<open>R\<close> keeps true.
\<close>

definition stable :: "('w \<Rightarrow> 'w \<Rightarrow> bool) \<Rightarrow> ('w \<Rightarrow> bool) \<Rightarrow> bool" where
  "stable R K \<longleftrightarrow> (\<forall>w w'. K w \<longrightarrow> R w w' \<longrightarrow> K w')"

inductive guarantees :: "('w \<Rightarrow> 'w \<Rightarrow> bool) \<Rightarrow> ('w \<Rightarrow> bool) \<Rightarrow> ('w, 'a) proc \<Rightarrow> bool" for R where
  Ret: "guarantees R K (Ret a)"
| Act: "(\<And>w p w'. K w \<Longrightarrow> f w = (p, w') \<Longrightarrow>
      R w w' \<and> (\<exists>K'. K' w' \<and> stable R K' \<and> guarantees R K' p)) \<Longrightarrow> guarantees R K (Act f)"

inductive_cases guarantees_ActE: "guarantees R K (Act f)"

definition guaranteed_at :: "('w \<Rightarrow> 'w \<Rightarrow> bool) \<Rightarrow> 'w \<Rightarrow> ('w, 'a) proc \<Rightarrow> bool" where
  "guaranteed_at R w p \<longleftrightarrow> (\<exists>K. K w \<and> stable R K \<and> guarantees R K p)"

lemma guaranteed_atI: "K w \<Longrightarrow> stable R K \<Longrightarrow> guarantees R K p \<Longrightarrow> guaranteed_at R w p"
  unfolding guaranteed_at_def by blast

lemma guaranteed_Ret: "guaranteed_at R w (Ret a)"
  by (rule guaranteed_atI [where K = "\<lambda>_. True"]) (simp_all add: stable_def guarantees.Ret)

lemma guaranteed_later: "guaranteed_at R w p \<Longrightarrow> R w w' \<Longrightarrow> guaranteed_at R w' p"
  unfolding guaranteed_at_def stable_def by blast

lemma obeys_guarantees: "obeys R p \<Longrightarrow> guarantees R (\<lambda>_. True) p"
proof (induction rule: obeys.induct)
  case (Act f)
  show ?case
    by (rule guarantees.Act) (use Act in \<open>auto simp: stable_def intro!: exI [of _ "\<lambda>_. True"]\<close>)
qed (rule guarantees.Ret)

lemma guaranteed_obeys: "obeys R p \<Longrightarrow> guaranteed_at R w p"
  by (rule guaranteed_atI [OF _ _ obeys_guarantees]) (simp_all add: stable_def)

lemma guarantees_act:
  assumes "\<And>w x w'. K w \<Longrightarrow> run_state m w = (x, w') \<Longrightarrow> R w w' \<and> guaranteed_at R w' (k x)"
  shows "guarantees R K (act m k)"
  unfolding act_def
  by (rule guarantees.Act) (use assms in \<open>auto simp: guaranteed_at_def split: prod.splits\<close>)

lemma guarantees_act_ok:
  assumes "\<And>w x w'. K w \<Longrightarrow> run_state m w = (x, w') \<Longrightarrow> R w w' \<and> (\<forall>y. x = Inr y \<longrightarrow> guaranteed_at R w' (k y))"
  shows "guarantees R K (act_ok m k)"
  unfolding act_ok_def
  by (rule guarantees_act) (use assms in \<open>auto intro: guaranteed_Ret split: sum.split\<close>)

lemma guarantees_map_proc: "guarantees R K p \<Longrightarrow> guarantees R K (map_proc g p)"
proof (induction rule: guarantees.induct)
  case (Act K f)
  show ?case
    by (simp, rule guarantees.Act) (use Act in \<open>fastforce simp: map_prod_def split: prod.splits\<close>)
qed (simp add: guarantees.Ret)

lemma guaranteed_map_proc: "guaranteed_at R w p \<Longrightarrow> guaranteed_at R w (map_proc g p)"
  unfolding guaranteed_at_def by (blast intro: guarantees_map_proc)

lemma pool_step_guaranteed:
  assumes "pool_step (ps, w) (ps', w')" and "\<forall>p \<in> set ps. guaranteed_at R w p"
  shows "R w w' \<and> (\<forall>p \<in> set ps'. guaranteed_at R w' p)"
proof -
  obtain i f p where 1: "ps' = ps[i := p]" "i < length ps" "ps ! i = Act f" "f w = (p, w')"
    using assms(1) by (rule pool_stepE)
  then have "guaranteed_at R w (Act f)" using assms(2) by (metis nth_mem)
  then obtain K where K: "K w" "guarantees R K (Act f)" unfolding guaranteed_at_def by blast
  from K(2) have "R w w' \<and> guaranteed_at R w' p"
    by (rule guarantees_ActE) (use K(1) 1(4) in \<open>auto simp: guaranteed_at_def\<close>)
  with assms(2) 1(1) set_update_subset_insert [of ps i p] show ?thesis
    by (blast intro: guaranteed_later)
qed

text \<open>In a pool of processes that guarantee \<open>R\<close> where they start, all steps respect \<open>R\<close>.\<close>

lemma pool_run_guaranteed:
  assumes "pool_run (ps, w) n c" and "\<forall>p \<in> set ps. guaranteed_at R w p" and "reflp R" "transp R"
  shows "R w (snd c) \<and> (\<forall>p \<in> set (fst c). guaranteed_at R (snd c) p)"
  using assms(1)
proof (induction rule: pool_run.induct)
  case stay
  with assms(2,3) show ?case by (simp add: reflpD)
next
  case (step n c1 c2)
  from pool_step_guaranteed [of "fst c1" "snd c1" "fst c2" "snd c2" R] step assms(4) show ?case
    by (auto dest: transpD)
qed

end
