(* ===== verification/Service_Processes.thy ===== *)
theory Service_Processes
  imports Processes Auth_Service
begin

text \<open>
  The methods of \<open>auth/service/service.go\<close> cut into their actions.  The program handles every
  request in its own goroutine; what is atomic is a call to the repository or a store, which
  holds a mutex, is a transaction or one command, a call to a library and a reading of the
  clock.  Each process is the method of the same name with its actions made explicit: run
  alone it is the method, and whatever others do between its actions, it ends within the
  number of actions given here.
\<close>

type_synonym ('u, 'r, 'p, 'o, 'x, 'a) process =
  "(('u, 'r, 'p, 'o, 'x) world, auth_error + 'a) proc"

section \<open>Tokens\<close>

definition Issue_proc ::
  "('u, 'r, 'p, 'o, 'x) service \<Rightarrow> user \<Rightarrow> ('u, 'r, 'p, 'o, 'x, token_pair) process" where
  "Issue_proc s u =
     (case (tokenManager s, refreshStore s) of
        (Some m, Some rs) \<Rightarrow>
          act Now (\<lambda>now.
          act_ok (on_outside (GenerateTokenPair (crypto (libs s)) m now u)) (\<lambda>(tokenPair, session).
          act_ok (on_refresh (\<lambda>t. refresh_token_store.Save rs t (token_pair.RefreshToken tokenPair) session)) (\<lambda>_.
          Ret (Inr tokenPair))))
      | _ \<Rightarrow> Ret (Inl ErrUnauthorized))"

text \<open>The end of a method that signs the user in.\<close>

definition signed_in ::
  "('u, 'r, 'p, 'o, 'x) service \<Rightarrow> user \<Rightarrow> ('u, 'r, 'p, 'o, 'x, user \<times> token_pair) process" where
  "signed_in s u = map_proc (map_sum id (Pair u)) (Issue_proc s u)"

definition after_lookup ::
  "('u, 'r, 'p, 'o, 'x) service \<Rightarrow> 'r refresh_token_store \<Rightarrow> string \<Rightarrow> auth_error + refresh_session \<Rightarrow>
     ('u, 'r, 'p, 'o, 'x, user \<times> token_pair) process" where
  "after_lookup s rs refreshToken r =
     (case r of
        Inl e \<Rightarrow> Ret (Inl (if isCacheMiss e then ErrInvalidRefreshToken else e))
      | Inr session \<Rightarrow>
          act Now (\<lambda>now.
          if time_After now (refresh_session.ExpiresAt session)
          then act (on_refresh (\<lambda>t. refresh_token_store.Delete rs t refreshToken)) (\<lambda>_. Ret (Inl ErrTokenExpired))
          else
            act_ok (on_users (\<lambda>t. GetUserDetailsByUsername (repo s) t (refresh_session.Username session))) (\<lambda>u.
            act (on_refresh (\<lambda>t. refresh_token_store.Delete rs t refreshToken)) (\<lambda>_.
            signed_in s u))))"

definition Refresh_proc ::
  "('u, 'r, 'p, 'o, 'x) service \<Rightarrow> string \<Rightarrow> ('u, 'r, 'p, 'o, 'x, user \<times> token_pair) process" where
  "Refresh_proc s refreshToken0 =
     (let refreshToken = TrimSpace refreshToken0 in
      if refreshToken = [] then Ret (Inl ErrInvalidRefreshToken)
      else case refreshStore s of
        None \<Rightarrow> act nil_panic Ret
      | Some rs \<Rightarrow>
          act (on_refresh (\<lambda>t. refresh_token_store.Get rs t refreshToken)) (after_lookup s rs refreshToken))"

definition Logout_proc ::
  "('u, 'r, 'p, 'o, 'x) service \<Rightarrow> string \<Rightarrow> ('u, 'r, 'p, 'o, 'x, unit) process" where
  "Logout_proc s refreshToken0 =
     (let refreshToken = TrimSpace refreshToken0 in
      if refreshToken = [] then Ret (Inl ErrInvalidRefreshToken)
      else case refreshStore s of
        None \<Rightarrow> act nil_panic Ret
      | Some rs \<Rightarrow> act (on_refresh (\<lambda>t. refresh_token_store.Delete rs t refreshToken)) Ret)"

section \<open>Password login\<close>

definition ValidateLogin_proc ::
  "('u, 'r, 'p, 'o, 'x) service \<Rightarrow> string \<Rightarrow> string \<Rightarrow> ('u, 'r, 'p, 'o, 'x, user) process" where
  "ValidateLogin_proc s username0 password =
     (let username = TrimSpace username0 in
      if username = [] then Ret (Inl ErrInvalidUsername)
      else if password = [] then Ret (Inl ErrInvalidPassword)
      else act (on_users (\<lambda>t. GetUserDetailsByUsername (repo s) t username)) (\<lambda>r. case r of
          Inl e \<Rightarrow> Ret (Inl (if e = ErrUserNotFound then ErrInvalidCredentials else e))
        | Inr u \<Rightarrow> act (on_users (\<lambda>t. GetPasswordHashByUserID (repo s) t (user.ID u))) (\<lambda>h. case h of
              Inl _ \<Rightarrow> Ret (Inl ErrInvalidCredentials)
            | Inr passwordHash \<Rightarrow>
                Ret (if bcrypt_Compare (libs s) passwordHash password then Inr u
                     else Inl ErrInvalidCredentials))))"

definition Login_proc ::
  "('u, 'r, 'p, 'o, 'x) service \<Rightarrow> password_login_request \<Rightarrow>
     ('u, 'r, 'p, 'o, 'x, user \<times> token_pair) process" where
  "Login_proc s req =
     and_then (ValidateLogin_proc s (password_login_request.Username req) (password_login_request.Password req))
       (signed_in s)"

section \<open>Sign-up\<close>

definition pendingConflict_proc ::
  "('u, 'r, 'p, 'o, 'x) service \<Rightarrow> string \<Rightarrow> string \<Rightarrow> string \<Rightarrow> string \<Rightarrow>
     ('u, 'r, 'p, 'o, 'x, unit) process" where
  "pendingConflict_proc s pendingMobile requestedMobile requestedUsername requestedEmail =
     act (on_pending (\<lambda>t. GetByMobile (pendingSignupStore s) t pendingMobile)) (\<lambda>r. Ret (case r of
         Inl e \<Rightarrow> if isCacheMiss e then Inr () else Inl e
       | Inr p \<Rightarrow>
           if pending_signup.Mobile p = requestedMobile
             \<and> pending_signup.Username p = requestedUsername
             \<and> pending_signup.Email p = requestedEmail
           then Inl ErrSignupVerificationPending
           else if pending_signup.Username p = requestedUsername then Inl ErrUsernameAlreadyExists
           else if pending_signup.Email p = requestedEmail then Inl ErrEmailAlreadyExists
           else if pending_signup.Mobile p = requestedMobile then Inl ErrMobileAlreadyExists
           else Inl ErrSignupVerificationPending))"

definition unless_taken_proc ::
  "('u, 'r, 'p, 'o, 'x, user) action \<Rightarrow> auth_error \<Rightarrow> ('u, 'r, 'p, 'o, 'x, unit) process \<Rightarrow>
     ('u, 'r, 'p, 'o, 'x, unit) process" where
  "unless_taken_proc lookup taken k =
     act lookup (\<lambda>r. case r of
         Inr u \<Rightarrow> if user.ID u \<noteq> 0 then Ret (Inl taken) else k
       | Inl e \<Rightarrow> if e \<noteq> ErrUserNotFound then Ret (Inl e) else k)"

definition unless_pending_proc ::
  "('u, 'r, 'p, 'o, 'x, string) action \<Rightarrow> (string \<Rightarrow> ('u, 'r, 'p, 'o, 'x, unit) process) \<Rightarrow>
     ('u, 'r, 'p, 'o, 'x, unit) process \<Rightarrow> ('u, 'r, 'p, 'o, 'x, unit) process" where
  "unless_pending_proc lookup conflict k =
     act lookup (\<lambda>r. case r of
         Inr mobile \<Rightarrow> conflict mobile
       | Inl e \<Rightarrow> if \<not> isCacheMiss e then Ret (Inl e) else k)"

definition ensureSignupAvailability_proc ::
  "('u, 'r, 'p, 'o, 'x) service \<Rightarrow> register_request \<Rightarrow> ('u, 'r, 'p, 'o, 'x, unit) process" where
  "ensureSignupAvailability_proc s req =
     (let conflict = (\<lambda>mobile. pendingConflict_proc s mobile (register_request.Mobile req)
            (register_request.Username req) (register_request.Email req)) in
      unless_taken_proc (on_users (\<lambda>t. GetUserDetailsByUsername (repo s) t (register_request.Username req)))
        ErrUsernameAlreadyExists
      (unless_taken_proc (on_users (\<lambda>t. GetUserByEmail (repo s) t (register_request.Email req)))
        ErrEmailAlreadyExists
      (unless_taken_proc (on_users (\<lambda>t. GetUserByMobile (repo s) t (register_request.Mobile req)))
        ErrMobileAlreadyExists
      (unless_pending_proc (on_pending (\<lambda>t.
          GetMobileByUsername (pendingSignupStore s) t (register_request.Username req))) conflict
      (unless_pending_proc (on_pending (\<lambda>t.
          GetMobileByEmail (pendingSignupStore s) t (register_request.Email req))) conflict
      (unless_pending_proc (on_pending (\<lambda>t.
          GetMobileByMobile (pendingSignupStore s) t (register_request.Mobile req))) conflict
      (Ret (Inr ()))))))))"

definition RequestSignupOTP_proc ::
  "('u, 'r, 'p, 'o, 'x) service \<Rightarrow> register_request \<Rightarrow> ('u, 'r, 'p, 'o, 'x, unit) process" where
  "RequestSignupOTP_proc s req =
     (case normalizeSignupRequest req of
        Inl e \<Rightarrow> Ret (Inl e)
      | Inr normalized \<Rightarrow>
          and_then (ensureSignupAvailability_proc s normalized) (\<lambda>_.
          act_ok (on_outside (bcrypt_Generate (libs s) (register_request.Password normalized))) (\<lambda>passwordHash.
          act Now (\<lambda>now.
          act_ok (on_outside (SendVerification (otpProvider s) (register_request.Mobile normalized))) (\<lambda>_.
          act (on_pending (\<lambda>t. pending_signup_store.Save (pendingSignupStore s) t
            \<lparr>pending_signup.Username = register_request.Username normalized, PasswordHash = passwordHash,
             Email = register_request.Email normalized,
             Mobile = register_request.Mobile normalized, ResendCount = 0, LastSentAt = now,
             ExpiresAt = now + PendingSignupTTL (otpConfig s)\<rparr>)) Ret)))))"

text \<open>The user a pending signup becomes.\<close>

definition pending_user :: "pending_signup \<Rightarrow> user" where
  "pending_user p =
     \<lparr>user.ID = 0, Username = pending_signup.Username p,
      Email = pending_signup.Email p, Mobile = pending_signup.Mobile p,
      MobileVerified = True, Role = RoleCustomer, IsProfileComplete = True,
      CreatedAt = 0, UpdatedAt = 0\<rparr>"

definition VerifySignupOTP_proc ::
  "('u, 'r, 'p, 'o, 'x) service \<Rightarrow> otp_verify_request \<Rightarrow>
     ('u, 'r, 'p, 'o, 'x, user \<times> token_pair) process" where
  "VerifySignupOTP_proc s req =
     (case NormalizeIndianMobile (otp_verify_request.Mobile req) of
        Inl e \<Rightarrow> Ret (Inl e)
      | Inr mobile \<Rightarrow>
          let code = TrimSpace (Code req) in
          if code = [] then Ret (Inl ErrInvalidOTPCode)
          else act (on_pending (\<lambda>t. GetByMobile (pendingSignupStore s) t mobile)) (\<lambda>r. case r of
              Inl e \<Rightarrow> Ret (Inl (if isCacheMiss e then ErrPendingSignupExpired else e))
            | Inr p \<Rightarrow> act Now (\<lambda>now.
                if time_After now (pending_signup.ExpiresAt p)
                then act (on_pending (\<lambda>t. DeleteByMobile (pendingSignupStore s) t mobile))
                       (\<lambda>_. Ret (Inl ErrPendingSignupExpired))
                else
                  act_ok (on_outside (CheckVerification (otpProvider s) mobile code)) (\<lambda>approved.
                  if \<not> approved then Ret (Inl ErrInvalidOTPCode)
                  else
                    act_ok (on_users (\<lambda>t. RegisterUser (repo s) t (pending_user p) (PasswordHash p))) (\<lambda>u.
                    act (on_pending (\<lambda>t. DeleteByMobile (pendingSignupStore s) t mobile)) (\<lambda>_.
                    signed_in s u))))))"

definition validateResendWindow_proc ::
  "otp_config \<Rightarrow> time \<Rightarrow> int \<Rightarrow> ('u, 'r, 'p, 'o, 'x, unit) process" where
  "validateResendWindow_proc cfg lastSentAt resendCount =
     (if 0 < MaxResends cfg \<and> MaxResends cfg \<le> resendCount then Ret (Inl ErrOTPResendLimitReached)
      else if \<not> time_IsZero lastSentAt \<and> 0 < ResendCooldown cfg then
        act Now (\<lambda>t. Ret (if time_Sub t lastSentAt < ResendCooldown cfg then Inl ErrOTPResendTooSoon else Inr ()))
      else Ret (Inr ()))"

definition ResendSignupOTP_proc ::
  "('u, 'r, 'p, 'o, 'x) service \<Rightarrow> otp_request \<Rightarrow> ('u, 'r, 'p, 'o, 'x, unit) process" where
  "ResendSignupOTP_proc s req =
     (case NormalizeIndianMobile (otp_request.Mobile req) of
        Inl e \<Rightarrow> Ret (Inl e)
      | Inr mobile \<Rightarrow>
          act (on_pending (\<lambda>t. GetByMobile (pendingSignupStore s) t mobile)) (\<lambda>r. case r of
            Inl e \<Rightarrow> Ret (Inl (if isCacheMiss e then ErrPendingSignupExpired else e))
          | Inr p \<Rightarrow>
              and_then (validateResendWindow_proc (otpConfig s) (pending_signup.LastSentAt p)
                (pending_signup.ResendCount p)) (\<lambda>_.
              act_ok (on_outside (SendVerification (otpProvider s) mobile)) (\<lambda>_.
              act Now (\<lambda>now.
              act (on_pending (\<lambda>t. pending_signup_store.Save (pendingSignupStore s) t
                  (p\<lparr>pending_signup.ResendCount := int64 (pending_signup.ResendCount p + 1),
                     pending_signup.LastSentAt := now\<rparr>))) Ret)))))"

text \<open>The second half of \<open>SignupStatus\<close>: there is no live pending signup.\<close>

definition registered_status ::
  "('u, 'r, 'p, 'o, 'x) service \<Rightarrow> string \<Rightarrow> ('u, 'r, 'p, 'o, 'x, string) process" where
  "registered_status s normalized =
     act (on_users (\<lambda>t. GetUserByMobile (repo s) t normalized)) (\<lambda>q. Ret (case q of
         Inr u \<Rightarrow> Inr (if MobileVerified u then ''completed'' else ''expired'')
       | Inl e \<Rightarrow> if e \<noteq> ErrUserNotFound then Inl e else Inr ''expired''))"

definition SignupStatus_proc ::
  "('u, 'r, 'p, 'o, 'x) service \<Rightarrow> string \<Rightarrow> ('u, 'r, 'p, 'o, 'x, string) process" where
  "SignupStatus_proc s mobile =
     (case NormalizeIndianMobile mobile of
        Inl e \<Rightarrow> Ret (Inl e)
      | Inr normalized \<Rightarrow>
          act (on_pending (\<lambda>t. GetByMobile (pendingSignupStore s) t normalized)) (\<lambda>r. case r of
            Inr p \<Rightarrow> act Now (\<lambda>now.
              if time_Before now (pending_signup.ExpiresAt p) then Ret (Inr ''pending'')
              else registered_status s normalized)
          | Inl e \<Rightarrow> if \<not> isCacheMiss e then Ret (Inl e) else registered_status s normalized))"

section \<open>Login by one-time password\<close>

definition send_login_code ::
  "('u, 'r, 'p, 'o, 'x) service \<Rightarrow> string \<Rightarrow> int \<Rightarrow> ('u, 'r, 'p, 'o, 'x, unit) process" where
  "send_login_code s mobile resendCount =
     act_ok (on_outside (SendVerification (otpProvider s) mobile)) (\<lambda>_.
     act Now (\<lambda>now.
     act (on_otps (\<lambda>t. otp_state_store.Save (loginOTPStore s) t (loginOTPStateKey mobile)
       \<lparr>otp_request_state.Mobile = mobile, ResendCount = resendCount,
        LastSentAt = now, ExpiresAt = now + PendingSignupTTL (otpConfig s)\<rparr>)) Ret))"

definition RequestLoginOTP_proc ::
  "('u, 'r, 'p, 'o, 'x) service \<Rightarrow> otp_request \<Rightarrow> ('u, 'r, 'p, 'o, 'x, unit) process" where
  "RequestLoginOTP_proc s req =
     (case NormalizeIndianMobile (otp_request.Mobile req) of
        Inl _ \<Rightarrow> Ret (Inr ())
      | Inr mobile \<Rightarrow>
          act (on_users (\<lambda>t. GetUserByMobile (repo s) t mobile)) (\<lambda>r. case r of
            Inl e \<Rightarrow> Ret (if e = ErrUserNotFound then Inr () else Inl e)
          | Inr u \<Rightarrow>
              if \<not> MobileVerified u then Ret (Inr ())
              else act (on_otps (\<lambda>t. otp_state_store.Get (loginOTPStore s) t (loginOTPStateKey mobile))) (\<lambda>q. case q of
                Inr state \<Rightarrow>
                  bind_proc (validateResendWindow_proc (otpConfig s) (otp_request_state.LastSentAt state)
                    (otp_request_state.ResendCount state)) (\<lambda>v. case v of
                    Inl _ \<Rightarrow> Ret (Inr ())
                  | Inr _ \<Rightarrow> send_login_code s mobile (int64 (otp_request_state.ResendCount state + 1)))
              | Inl e \<Rightarrow> if \<not> isCacheMiss e then Ret (Inl e) else send_login_code s mobile 0)))"

definition VerifyLoginOTP_proc ::
  "('u, 'r, 'p, 'o, 'x) service \<Rightarrow> otp_verify_request \<Rightarrow>
     ('u, 'r, 'p, 'o, 'x, user \<times> token_pair) process" where
  "VerifyLoginOTP_proc s req =
     (case NormalizeIndianMobile (otp_verify_request.Mobile req) of
        Inl _ \<Rightarrow> Ret (Inl ErrInvalidCredentials)
      | Inr mobile \<Rightarrow>
          let code = TrimSpace (Code req) in
          if code = [] then Ret (Inl ErrInvalidOTPCode)
          else act (on_users (\<lambda>t. GetUserByMobile (repo s) t mobile)) (\<lambda>r. case r of
              Inl e \<Rightarrow> Ret (Inl (if e = ErrUserNotFound then ErrInvalidCredentials else e))
            | Inr u \<Rightarrow>
                if \<not> MobileVerified u then Ret (Inl ErrMobileNotVerified)
                else
                  act_ok (on_outside (CheckVerification (otpProvider s) mobile code)) (\<lambda>approved.
                  if \<not> approved then Ret (Inl ErrInvalidOTPCode)
                  else
                    act (on_otps (\<lambda>t. otp_state_store.Delete (loginOTPStore s) t (loginOTPStateKey mobile))) (\<lambda>_.
                    signed_in s u))))"

section \<open>Google\<close>

definition google_user :: "string \<Rightarrow> string \<Rightarrow> user" where
  "google_user username email =
     \<lparr>user.ID = 0, Username = username, Email = email,
      Mobile = [], MobileVerified = False, Role = RoleCustomer,
      IsProfileComplete = False, CreatedAt = 0, UpdatedAt = 0\<rparr>"

definition GoogleLogin_proc ::
  "('u, 'r, 'p, 'o, 'x) service \<Rightarrow> string \<Rightarrow> ('u, 'r, 'p, 'o, 'x, user \<times> token_pair) process" where
  "GoogleLogin_proc s code =
     act_ok (on_outside (oauth2_Exchange (libs s) (googleConfig s) code)) (\<lambda>tok.
     act_ok (on_outside (google_NewService (libs s) (googleConfig s) tok)) (\<lambda>oauth2Service.
     act_ok (on_outside (google_Userinfo (libs s) oauth2Service)) (\<lambda>userInfo.
     act_ok (on_users (\<lambda>t. GetSSOAccount (repo s) t ''google'' (Id userInfo))) (\<lambda>(u, exists).
     if exists then signed_in s u
     else
       let account = \<lparr>sso_account.UserID = 0, Provider = ''google'', ProviderID = Id userInfo,
                      Email = google_userinfo.Email userInfo\<rparr> in
       act (on_users (\<lambda>t. GetUserByEmail (repo s) t (google_userinfo.Email userInfo))) (\<lambda>r. case r of
         Inr u2 \<Rightarrow>
           act_ok (on_users (\<lambda>t. LinkSSOAccount (repo s) t (user.ID u2) account)) (\<lambda>_. signed_in s u2)
       | Inl e \<Rightarrow>
           if e \<noteq> ErrUserNotFound then Ret (Inl e)
           else
             let username0 = sso_username (google_userinfo.Email userInfo);
                 create = (\<lambda>username. act_ok (on_users (\<lambda>t. CreateSSOUser (repo s) t
                   (google_user username (google_userinfo.Email userInfo)) account)) (signed_in s)) in
             act (on_users (\<lambda>t. GetUserDetailsByUsername (repo s) t username0)) (\<lambda>q. case q of
               Inr _ \<Rightarrow> act Now (\<lambda>now. create (username0 @ ''_'' @ Itoa (go_rem (unix_seconds now) 1000)))
             | Inl _ \<Rightarrow> create username0))))))"

section \<open>Profile and access tokens\<close>

definition CompleteProfile_proc ::
  "('u, 'r, 'p, 'o, 'x) service \<Rightarrow> nat \<Rightarrow> string \<Rightarrow> string \<Rightarrow>
     ('u, 'r, 'p, 'o, 'x, user \<times> token_pair) process" where
  "CompleteProfile_proc s userID username0 mobile =
     act_ok (on_users (\<lambda>t. GetUserByID (repo s) t userID)) (\<lambda>u.
     if user.IsProfileComplete u then Ret (Inl ErrProfileAlreadyComplete)
     else let username = TrimSpace username0 in
       if username = [] then Ret (Inl ErrInvalidUsername)
       else case NormalizeIndianMobile mobile of
         Inl e \<Rightarrow> Ret (Inl e)
       | Inr normalizedMobile \<Rightarrow>
           act (on_users (\<lambda>t. GetUserDetailsByUsername (repo s) t username)) (\<lambda>r.
           if taken_by_other userID r then Ret (Inl ErrUsernameAlreadyExists)
           else
             act (on_users (\<lambda>t. GetUserByMobile (repo s) t normalizedMobile)) (\<lambda>q.
             if taken_by_other userID q then Ret (Inl ErrMobileAlreadyExists)
             else let u2 = u\<lparr>user.Username := username, user.Mobile := normalizedMobile,
                             user.IsProfileComplete := True\<rparr> in
               act_ok (on_users (\<lambda>t. UpdateUser (repo s) t u2)) (\<lambda>_. signed_in s u2))))"

definition AuthenticateAccessToken_proc ::
  "('u, 'r, 'p, 'o, 'x) service \<Rightarrow> string \<Rightarrow> ('u, 'r, 'p, 'o, 'x, access_claims) process" where
  "AuthenticateAccessToken_proc s token =
     (case tokenManager s of
        None \<Rightarrow> Ret (Inl ErrUnauthorized)
      | Some m \<Rightarrow> act Now (\<lambda>t. Ret (ParseAccessToken (crypto (libs s)) m t token)))"

definition ValidateCurrentUser_proc ::
  "('u, 'r, 'p, 'o, 'x) service \<Rightarrow> string \<Rightarrow> ('u, 'r, 'p, 'o, 'x, user) process" where
  "ValidateCurrentUser_proc s username =
     act (on_users (\<lambda>t. GetUserDetailsByUsername (repo s) t (TrimSpace username))) Ret"

section \<open>A request that is not disturbed\<close>

text \<open>Run without interruption, each process is the method of the service.\<close>

lemma Issue_proc_alone [go_eval]: "run_proc (Issue_proc s u) w = run_state (IssueTokenPair s u) w"
  by (simp add: Issue_proc_def IssueTokenPair_def go_eval split: option.split prod.split sum.split)

lemma signed_in_alone [go_eval]:
  "run_proc (signed_in s u) w = run_state (call_ok (IssueTokenPair s u) (\<lambda>tokens. ok (u, tokens))) w"
  by (simp add: signed_in_def go_eval split: prod.split sum.split)

lemma Refresh_proc_alone: "run_proc (Refresh_proc s tok) w = run_state (Refresh s tok) w"
  by (simp add: Refresh_proc_def Refresh_def after_lookup_def Let_def go_eval nil_panic_def
      split: option.split prod.split sum.split)

lemma Logout_proc_alone: "run_proc (Logout_proc s tok) w = run_state (Logout s tok) w"
  by (simp add: Logout_proc_def Logout_def Let_def go_eval nil_panic_def split: option.split prod.split)

lemma ValidateLogin_proc_alone [go_eval]:
  "run_proc (ValidateLogin_proc s n pw) w = run_state (ValidateLogin s n pw) w"
  by (simp add: ValidateLogin_proc_def ValidateLogin_def Let_def go_eval split: prod.split sum.split)

lemma Login_proc_alone: "run_proc (Login_proc s req) w = run_state (Login s req) w"
  by (simp add: Login_proc_def Login_def go_eval split: prod.split sum.split)

lemma pendingConflict_proc_alone [go_eval]:
  "run_proc (pendingConflict_proc s a b c d) w = run_state (pendingConflict s a b c d) w"
  by (simp add: pendingConflict_proc_def pendingConflict_def go_eval split: prod.split sum.split)

lemma unless_taken_proc_alone:
  "run_proc (unless_taken_proc l e p) w =
     (case run_state l w of
        (Inr u, w') \<Rightarrow> if user.ID u \<noteq> 0 then (Inl e, w') else run_proc p w'
      | (Inl e', w') \<Rightarrow> if e' \<noteq> ErrUserNotFound then (Inl e', w') else run_proc p w')"
  by (simp add: unless_taken_proc_def go_eval split: prod.split sum.split)

lemma unless_taken_alone:
  "(\<And>w. run_proc p w = run_state m w) \<Longrightarrow>
     run_proc (unless_taken_proc l e p) w = run_state (unless_taken l e m) w"
  by (simp add: unless_taken_proc_alone unless_taken_def go_eval split: prod.split sum.split)

lemma unless_pending_alone:
  "(\<And>x w. run_proc (f x) w = run_state (g x) w) \<Longrightarrow> (\<And>w. run_proc p w = run_state m w) \<Longrightarrow>
     run_proc (unless_pending_proc l f p) w = run_state (unless_pending l g m) w"
  by (simp add: unless_pending_proc_def unless_pending_def go_eval split: prod.split sum.split)

lemma ensureSignupAvailability_proc_alone [go_eval]:
  "run_proc (ensureSignupAvailability_proc s req) w = run_state (ensureSignupAvailability s req) w"
  unfolding ensureSignupAvailability_proc_def ensureSignupAvailability_def Let_def
  by (intro unless_taken_alone unless_pending_alone pendingConflict_proc_alone) simp

lemma RequestSignupOTP_proc_alone:
  "run_proc (RequestSignupOTP_proc s req) w = run_state (RequestSignupOTP s req) w"
  by (simp add: RequestSignupOTP_proc_def RequestSignupOTP_def go_eval split: prod.split sum.split)

lemma VerifySignupOTP_proc_alone:
  "run_proc (VerifySignupOTP_proc s req) w = run_state (VerifySignupOTP s req) w"
  by (simp add: VerifySignupOTP_proc_def VerifySignupOTP_def pending_user_def Let_def go_eval
      split: prod.split sum.split)

lemma validateResendWindow_proc_alone [go_eval]:
  "run_proc (validateResendWindow_proc cfg t n) w = run_state (validateResendWindow cfg t n) w"
  by (simp add: validateResendWindow_proc_def validateResendWindow_def go_eval)

lemma ResendSignupOTP_proc_alone:
  "run_proc (ResendSignupOTP_proc s req) w = run_state (ResendSignupOTP s req) w"
  by (simp add: ResendSignupOTP_proc_def ResendSignupOTP_def go_eval split: prod.split sum.split)

lemma SignupStatus_proc_alone: "run_proc (SignupStatus_proc s m) w = run_state (SignupStatus s m) w"
  by (simp add: SignupStatus_proc_def SignupStatus_def registered_status_def go_eval
      split: prod.split sum.split)

lemma RequestLoginOTP_proc_alone:
  "run_proc (RequestLoginOTP_proc s req) w = run_state (RequestLoginOTP s req) w"
  by (simp add: RequestLoginOTP_proc_def RequestLoginOTP_def send_login_code_def Let_def go_eval
      split: prod.split sum.split)

lemma VerifyLoginOTP_proc_alone:
  "run_proc (VerifyLoginOTP_proc s req) w = run_state (VerifyLoginOTP s req) w"
  by (simp add: VerifyLoginOTP_proc_def VerifyLoginOTP_def Let_def go_eval split: prod.split sum.split)

lemma GoogleLogin_proc_alone:
  "run_proc (GoogleLogin_proc s code) w = run_state (GoogleLogin s code) w"
  by (simp add: GoogleLogin_proc_def GoogleLogin_def google_user_def Let_def go_eval
      split: prod.split sum.split)

lemma CompleteProfile_proc_alone:
  "run_proc (CompleteProfile_proc s i n m) w = run_state (CompleteProfile s i n m) w"
  by (simp add: CompleteProfile_proc_def CompleteProfile_def Let_def go_eval split: prod.split sum.split)

lemma AuthenticateAccessToken_proc_alone:
  "run_proc (AuthenticateAccessToken_proc s tok) w = run_state (AuthenticateAccessToken s tok) w"
  by (simp add: AuthenticateAccessToken_proc_def AuthenticateAccessToken_def go_eval split: option.split)

lemma ValidateCurrentUser_proc_alone:
  "run_proc (ValidateCurrentUser_proc s n) w = run_state (ValidateCurrentUser s n) w"
  by (simp add: ValidateCurrentUser_proc_def ValidateCurrentUser_def go_eval split: prod.split)

section \<open>Requests\<close>

text \<open>A call of each method of the service, and answers of one type.\<close>

datatype service_request =
    LoginReq password_login_request
  | SignupReq register_request
  | VerifySignupReq otp_verify_request
  | ResendSignupReq otp_request
  | SignupStatusReq string
  | LoginCodeReq otp_request
  | VerifyLoginReq otp_verify_request
  | RefreshReq string
  | LogoutReq string
  | GoogleReq string
  | ProfileReq nat string string
  | AuthenticateReq string
  | CurrentUserReq string

datatype service_answer =
    Done
  | SignedIn user token_pair
  | StatusIs string
  | Claims access_claims
  | CurrentUser user

fun request_proc ::
  "('u, 'r, 'p, 'o, 'x) service \<Rightarrow> service_request \<Rightarrow> ('u, 'r, 'p, 'o, 'x, service_answer) process" where
  "request_proc s (LoginReq req) = map_proc (map_sum id (case_prod SignedIn)) (Login_proc s req)"
| "request_proc s (SignupReq req) = map_proc (map_sum id (\<lambda>_. Done)) (RequestSignupOTP_proc s req)"
| "request_proc s (VerifySignupReq req) = map_proc (map_sum id (case_prod SignedIn)) (VerifySignupOTP_proc s req)"
| "request_proc s (ResendSignupReq req) = map_proc (map_sum id (\<lambda>_. Done)) (ResendSignupOTP_proc s req)"
| "request_proc s (SignupStatusReq m) = map_proc (map_sum id StatusIs) (SignupStatus_proc s m)"
| "request_proc s (LoginCodeReq req) = map_proc (map_sum id (\<lambda>_. Done)) (RequestLoginOTP_proc s req)"
| "request_proc s (VerifyLoginReq req) = map_proc (map_sum id (case_prod SignedIn)) (VerifyLoginOTP_proc s req)"
| "request_proc s (RefreshReq tok) = map_proc (map_sum id (case_prod SignedIn)) (Refresh_proc s tok)"
| "request_proc s (LogoutReq tok) = map_proc (map_sum id (\<lambda>_. Done)) (Logout_proc s tok)"
| "request_proc s (GoogleReq code) = map_proc (map_sum id (case_prod SignedIn)) (GoogleLogin_proc s code)"
| "request_proc s (ProfileReq i n m) = map_proc (map_sum id (case_prod SignedIn)) (CompleteProfile_proc s i n m)"
| "request_proc s (AuthenticateReq tok) = map_proc (map_sum id Claims) (AuthenticateAccessToken_proc s tok)"
| "request_proc s (CurrentUserReq n) = map_proc (map_sum id CurrentUser) (ValidateCurrentUser_proc s n)"

text \<open>The most actions a request takes.\<close>

fun actions_of :: "service_request \<Rightarrow> nat" where
  "actions_of (LoginReq _) = 5"
| "actions_of (SignupReq _) = 11"
| "actions_of (VerifySignupReq _) = 8"
| "actions_of (ResendSignupReq _) = 5"
| "actions_of (SignupStatusReq _) = 3"
| "actions_of (LoginCodeReq _) = 6"
| "actions_of (VerifyLoginReq _) = 6"
| "actions_of (RefreshReq _) = 7"
| "actions_of (LogoutReq _) = 1"
| "actions_of (GoogleReq _) = 11"
| "actions_of (ProfileReq _ _ _) = 7"
| "actions_of (AuthenticateReq _) = 1"
| "actions_of (CurrentUserReq _) = 1"

section \<open>Every request ends\<close>

lemmas act_bounds = ends_within_act ends_within_act_ok

lemma Issue_proc_ends: "ends_within 3 (Issue_proc s u)"
  unfolding Issue_proc_def by (auto intro!: act_bounds split: option.split prod.split)

lemma signed_in_ends: "3 \<le> n \<Longrightarrow> ends_within n (signed_in s u)"
  unfolding signed_in_def
  by (rule ends_within_mono [OF ends_within_map_proc [OF Issue_proc_ends]])

lemma Refresh_proc_ends: "ends_within 7 (Refresh_proc s tok)"
  unfolding Refresh_proc_def after_lookup_def nil_panic_def Let_def
  by (auto intro!: act_bounds signed_in_ends split: option.split sum.split)

lemma Logout_proc_ends: "ends_within 1 (Logout_proc s tok)"
  unfolding Logout_proc_def nil_panic_def Let_def by (auto intro!: act_bounds split: option.split)

lemma ValidateLogin_proc_ends: "ends_within 2 (ValidateLogin_proc s n pw)"
  unfolding ValidateLogin_proc_def Let_def by (auto intro!: act_bounds split: sum.split)

lemma Login_proc_ends: "ends_within 5 (Login_proc s req)"
  unfolding Login_proc_def
  by (rule ends_within_and_then [OF ValidateLogin_proc_ends signed_in_ends [of 3]]) simp_all

lemma pendingConflict_proc_ends: "0 < n \<Longrightarrow> ends_within n (pendingConflict_proc s a b c d)"
  unfolding pendingConflict_proc_def by (auto intro!: act_bounds)

lemma unless_taken_proc_ends:
  "0 < n \<Longrightarrow> ends_within (n - 1) p \<Longrightarrow> ends_within n (unless_taken_proc l e p)"
  unfolding unless_taken_proc_def by (auto intro!: act_bounds split: sum.split)

lemma unless_pending_proc_ends:
  "0 < n \<Longrightarrow> (\<And>m. ends_within (n - 1) (f m)) \<Longrightarrow> ends_within (n - 1) p \<Longrightarrow>
     ends_within n (unless_pending_proc l f p)"
  unfolding unless_pending_proc_def by (auto intro!: act_bounds split: sum.split)

lemma ensureSignupAvailability_proc_ends: "ends_within 7 (ensureSignupAvailability_proc s req)"
  unfolding ensureSignupAvailability_proc_def Let_def
  by (intro unless_taken_proc_ends unless_pending_proc_ends pendingConflict_proc_ends) simp_all

lemma RequestSignupOTP_proc_ends: "ends_within 11 (RequestSignupOTP_proc s req)"
  unfolding RequestSignupOTP_proc_def
  by (auto intro!: act_bounds ends_within_and_then [OF ensureSignupAvailability_proc_ends, where m = 4] split: sum.split)

lemma VerifySignupOTP_proc_ends: "ends_within 8 (VerifySignupOTP_proc s req)"
  unfolding VerifySignupOTP_proc_def Let_def
  by (auto intro!: act_bounds signed_in_ends split: sum.split)

lemma validateResendWindow_proc_ends: "ends_within 1 (validateResendWindow_proc cfg t n)"
  unfolding validateResendWindow_proc_def by (auto intro!: act_bounds)

lemma ResendSignupOTP_proc_ends: "ends_within 5 (ResendSignupOTP_proc s req)"
  unfolding ResendSignupOTP_proc_def
  by (auto intro!: act_bounds ends_within_and_then [OF validateResendWindow_proc_ends, where m = 3] split: sum.split)

lemma SignupStatus_proc_ends: "ends_within 3 (SignupStatus_proc s m)"
  unfolding SignupStatus_proc_def registered_status_def
  by (auto intro!: act_bounds split: sum.split)

lemma send_login_code_ends: "3 \<le> n \<Longrightarrow> ends_within n (send_login_code s m c)"
  unfolding send_login_code_def by (auto intro!: act_bounds)

lemma RequestLoginOTP_proc_ends: "ends_within 6 (RequestLoginOTP_proc s req)"
  unfolding RequestLoginOTP_proc_def
  by (auto intro!: act_bounds send_login_code_ends
      ends_within_bind_proc [OF validateResendWindow_proc_ends, where m = 3] split: sum.split)

lemma VerifyLoginOTP_proc_ends: "ends_within 6 (VerifyLoginOTP_proc s req)"
  unfolding VerifyLoginOTP_proc_def Let_def
  by (auto intro!: act_bounds signed_in_ends split: sum.split)

lemma GoogleLogin_proc_ends: "ends_within 11 (GoogleLogin_proc s code)"
  unfolding GoogleLogin_proc_def Let_def
  by (auto intro!: act_bounds signed_in_ends split: sum.split prod.split)

lemma CompleteProfile_proc_ends: "ends_within 7 (CompleteProfile_proc s i n m)"
  unfolding CompleteProfile_proc_def Let_def
  by (auto intro!: act_bounds signed_in_ends split: sum.split)

lemma AuthenticateAccessToken_proc_ends: "ends_within 1 (AuthenticateAccessToken_proc s tok)"
  unfolding AuthenticateAccessToken_proc_def by (auto intro!: act_bounds split: option.split)

lemma ValidateCurrentUser_proc_ends: "ends_within 1 (ValidateCurrentUser_proc s n)"
  unfolding ValidateCurrentUser_proc_def by (auto intro!: act_bounds)

lemmas processes_end =
  Refresh_proc_ends Logout_proc_ends Login_proc_ends RequestSignupOTP_proc_ends VerifySignupOTP_proc_ends
  ResendSignupOTP_proc_ends SignupStatus_proc_ends RequestLoginOTP_proc_ends VerifyLoginOTP_proc_ends
  GoogleLogin_proc_ends CompleteProfile_proc_ends AuthenticateAccessToken_proc_ends ValidateCurrentUser_proc_ends

lemma request_proc_ends: "ends_within (actions_of req) (request_proc s req)"
  by (cases req) (simp_all only: request_proc.simps actions_of.simps ends_within_map_proc processes_end)

lemma bounded_requests: "bounded_pool (map actions_of reqs) (map (request_proc s) reqs)"
  by (induction reqs) (simp_all add: bounded_pool_def request_proc_ends del: request_proc.simps actions_of.simps)

end
