(* ===== verification/Auth_Concurrency.thy ===== *)
theory Auth_Concurrency
  imports Auth_Server Service_Processes
begin

text \<open>
  Requests that run at the same time: pools of the processes of \<open>Service_Processes\<close>, one for
  each request, whose actions are interleaved in any order.  All of them are answered, the
  pending signups stay sound and a logout stays final; a refresh and a resend, which look
  something up before they change it, can both happen twice.
\<close>

section \<open>Every request is answered\<close>


section \<open>Relations every action of the service respects\<close>

text \<open>
  As \<open>world_invariant\<close> does for methods that run undisturbed, the locale carries a relation
  from the single actions to every interleaving.  What a relation needs of the issuing of
  tokens and of the two writes of users that set a mobile is left to each use.
\<close>

definition sets_mobile :: "service_request \<Rightarrow> bool" where
  "sets_mobile req \<longleftrightarrow> (case req of VerifySignupReq _ \<Rightarrow> True | ProfileReq _ _ _ \<Rightarrow> True | _ \<Rightarrow> False)"

locale process_invariant =
  fixes R :: "('u, 'r, 'p, 'o, 'x) world \<Rightarrow> ('u, 'r, 'p, 'o, 'x) world \<Rightarrow> bool"
    and admissible :: "('u, 'r, 'p, 'o, 'x) service \<Rightarrow> bool"
  assumes refl: "reflp R"
    and now: "keeps R Now"
    and otp_get: "admissible s \<Longrightarrow> keeps R (on_otps (\<lambda>t. otp_state_store.Get (loginOTPStore s) t k))"
    and otp_save: "admissible s \<Longrightarrow> keeps R (on_otps (\<lambda>t. otp_state_store.Save (loginOTPStore s) t k v))"
    and otp_delete: "admissible s \<Longrightarrow> keeps R (on_otps (\<lambda>t. otp_state_store.Delete (loginOTPStore s) t k))"
    and user_by_name: "admissible s \<Longrightarrow> keeps R (on_users (\<lambda>t. GetUserDetailsByUsername (repo s) t n))"
    and user_by_email: "admissible s \<Longrightarrow> keeps R (on_users (\<lambda>t. GetUserByEmail (repo s) t n))"
    and user_by_mobile: "admissible s \<Longrightarrow> keeps R (on_users (\<lambda>t. GetUserByMobile (repo s) t n))"
    and user_by_id: "admissible s \<Longrightarrow> keeps R (on_users (\<lambda>t. GetUserByID (repo s) t i))"
    and password_hash: "admissible s \<Longrightarrow> keeps R (on_users (\<lambda>t. GetPasswordHashByUserID (repo s) t i))"
    and sso_account: "admissible s \<Longrightarrow> keeps R (on_users (\<lambda>t. GetSSOAccount (repo s) t n k))"
    and sso_link: "admissible s \<Longrightarrow> keeps R (on_users (\<lambda>t. LinkSSOAccount (repo s) t i a))"
    and sso_create: "admissible s \<Longrightarrow>
      keeps R (on_users (\<lambda>t. CreateSSOUser (repo s) t (google_user n e) a))"
    and pending_get: "admissible s \<Longrightarrow> keeps R (on_pending (\<lambda>t. GetByMobile (pendingSignupStore s) t k))"
    and pending_username: "admissible s \<Longrightarrow> keeps R (on_pending (\<lambda>t. GetMobileByUsername (pendingSignupStore s) t k))"
    and pending_email: "admissible s \<Longrightarrow> keeps R (on_pending (\<lambda>t. GetMobileByEmail (pendingSignupStore s) t k))"
    and pending_mobile: "admissible s \<Longrightarrow> keeps R (on_pending (\<lambda>t. GetMobileByMobile (pendingSignupStore s) t k))"
    and pending_delete: "admissible s \<Longrightarrow> keeps R (on_pending (\<lambda>t. DeleteByMobile (pendingSignupStore s) t k))"
    and pending_save: "admissible s \<Longrightarrow>
      keeps R (on_pending (\<lambda>t. pending_signup_store.Save (pendingSignupStore s) t p))"
    and refresh_get: "admissible s \<Longrightarrow> refreshStore s = Some rs \<Longrightarrow>
      keeps R (on_refresh (\<lambda>t. refresh_token_store.Get rs t k))"
    and refresh_delete: "admissible s \<Longrightarrow> refreshStore s = Some rs \<Longrightarrow>
      keeps R (on_refresh (\<lambda>t. refresh_token_store.Delete rs t k))"
    and bcrypt_call: "admissible s \<Longrightarrow> keeps R (on_outside (bcrypt_Generate (libs s) pw))"
    and send_call: "admissible s \<Longrightarrow> keeps R (on_outside (SendVerification (otpProvider s) k))"
    and check_call: "admissible s \<Longrightarrow> keeps R (on_outside (CheckVerification (otpProvider s) k c))"
    and exchange_call: "admissible s \<Longrightarrow> keeps R (on_outside (oauth2_Exchange (libs s) cfg c))"
    and google_call: "admissible s \<Longrightarrow> keeps R (on_outside (google_NewService (libs s) cfg tok))"
    and userinfo_call: "admissible s \<Longrightarrow> keeps R (on_outside (google_Userinfo (libs s) c))"
    and issue: "admissible s \<Longrightarrow> obeys R (Issue_proc s u)"
begin

lemmas actions [intro!] =
  now otp_get otp_save otp_delete user_by_name user_by_email user_by_mobile user_by_id password_hash sso_account sso_link sso_create
  pending_get pending_username pending_email pending_mobile pending_delete pending_save refresh_get
  refresh_delete bcrypt_call send_call check_call exchange_call google_call userinfo_call keeps_return [OF refl]

lemmas processes [intro!] =
  obeys_act obeys_act_ok obeys.Ret obeys_map_proc obeys_bind_proc obeys_and_then

lemma obeys_signed_in: "admissible s \<Longrightarrow> obeys R (signed_in s u)"
  unfolding signed_in_def by (auto intro: issue)

lemma obeys_Refresh_proc: "admissible s \<Longrightarrow> obeys R (Refresh_proc s tok)"
  unfolding Refresh_proc_def after_lookup_def nil_panic_def Let_def
  by (auto intro!: obeys_signed_in split: option.split sum.split)

lemma obeys_Logout_proc: "admissible s \<Longrightarrow> obeys R (Logout_proc s tok)"
  unfolding Logout_proc_def nil_panic_def Let_def by (auto split: option.split)

lemma obeys_Login_proc: "admissible s \<Longrightarrow> obeys R (Login_proc s req)"
  unfolding Login_proc_def ValidateLogin_proc_def Let_def
  by (auto intro!: obeys_signed_in split: sum.split)

lemma obeys_unless_taken_proc: "keeps R l \<Longrightarrow> obeys R p \<Longrightarrow> obeys R (unless_taken_proc l e p)"
  unfolding unless_taken_proc_def by (auto split: sum.split)

lemma obeys_unless_pending_proc:
  "keeps R l \<Longrightarrow> (\<And>m. obeys R (f m)) \<Longrightarrow> obeys R p \<Longrightarrow> obeys R (unless_pending_proc l f p)"
  unfolding unless_pending_proc_def by (auto split: sum.split)

lemma obeys_pendingConflict_proc: "admissible s \<Longrightarrow> obeys R (pendingConflict_proc s a b c d)"
  unfolding pendingConflict_proc_def by auto

lemma obeys_ensureSignupAvailability_proc: "admissible s \<Longrightarrow> obeys R (ensureSignupAvailability_proc s req)"
  unfolding ensureSignupAvailability_proc_def Let_def
  by (intro obeys_unless_taken_proc obeys_unless_pending_proc obeys_pendingConflict_proc obeys.Ret actions)

lemma obeys_RequestSignupOTP_proc: "admissible s \<Longrightarrow> obeys R (RequestSignupOTP_proc s req)"
  unfolding RequestSignupOTP_proc_def
  by (auto intro!: obeys_ensureSignupAvailability_proc split: sum.split)

lemma obeys_validateResendWindow_proc: "obeys R (validateResendWindow_proc cfg t n)"
  unfolding validateResendWindow_proc_def by auto

lemma obeys_ResendSignupOTP_proc: "admissible s \<Longrightarrow> obeys R (ResendSignupOTP_proc s req)"
  unfolding ResendSignupOTP_proc_def
  by (auto intro!: obeys_validateResendWindow_proc split: sum.split)

lemma obeys_SignupStatus_proc: "admissible s \<Longrightarrow> obeys R (SignupStatus_proc s m)"
  unfolding SignupStatus_proc_def registered_status_def by (auto split: sum.split)

lemma obeys_RequestLoginOTP_proc: "admissible s \<Longrightarrow> obeys R (RequestLoginOTP_proc s req)"
  unfolding RequestLoginOTP_proc_def send_login_code_def
  by (auto intro!: obeys_validateResendWindow_proc split: sum.split)

lemma obeys_VerifyLoginOTP_proc: "admissible s \<Longrightarrow> obeys R (VerifyLoginOTP_proc s req)"
  unfolding VerifyLoginOTP_proc_def Let_def by (auto intro!: obeys_signed_in split: sum.split)

lemma obeys_GoogleLogin_proc: "admissible s \<Longrightarrow> obeys R (GoogleLogin_proc s code)"
  unfolding GoogleLogin_proc_def Let_def by (auto intro!: obeys_signed_in split: sum.split prod.split)

lemma obeys_AuthenticateAccessToken_proc: "obeys R (AuthenticateAccessToken_proc s tok)"
  unfolding AuthenticateAccessToken_proc_def by (auto split: option.split)

lemma obeys_ValidateCurrentUser_proc: "admissible s \<Longrightarrow> obeys R (ValidateCurrentUser_proc s n)"
  unfolding ValidateCurrentUser_proc_def by auto

lemma obeys_VerifySignupOTP_proc:
  "admissible s \<Longrightarrow> (\<And>u h. keeps R (on_users (\<lambda>t. RegisterUser (repo s) t u h))) \<Longrightarrow>
     obeys R (VerifySignupOTP_proc s req)"
  unfolding VerifySignupOTP_proc_def Let_def by (auto intro!: obeys_signed_in split: sum.split)

lemma obeys_CompleteProfile_proc:
  "admissible s \<Longrightarrow> (\<And>u. keeps R (on_users (\<lambda>t. UpdateUser (repo s) t u))) \<Longrightarrow>
     obeys R (CompleteProfile_proc s i n m)"
  unfolding CompleteProfile_proc_def Let_def by (auto intro!: obeys_signed_in split: sum.split)

lemmas obeys_processes =
  obeys_Refresh_proc obeys_Logout_proc obeys_Login_proc obeys_RequestSignupOTP_proc obeys_ResendSignupOTP_proc
  obeys_SignupStatus_proc obeys_RequestLoginOTP_proc obeys_VerifyLoginOTP_proc obeys_GoogleLogin_proc
  obeys_AuthenticateAccessToken_proc obeys_ValidateCurrentUser_proc

text \<open>All requests, or all but the two that write a mobile.\<close>

lemma obeys_other_request:
  assumes "admissible s" and "\<not> sets_mobile req"
  shows "obeys R (request_proc s req)"
  using assms by (cases req) (simp_all add: sets_mobile_def obeys_map_proc obeys_processes)

lemma obeys_any_request:
  assumes "admissible s" and "\<And>u h. keeps R (on_users (\<lambda>t. RegisterUser (repo s) t u h))"
    and "\<And>u. keeps R (on_users (\<lambda>t. UpdateUser (repo s) t u))"
  shows "obeys R (request_proc s req)"
  using assms
  by (cases req) (simp_all add: obeys_map_proc obeys_processes obeys_VerifySignupOTP_proc obeys_CompleteProfile_proc)

end

section \<open>Logging out among concurrent requests\<close>

abbreviation kept_absent ::
  "(string \<Rightarrow> string) \<Rightarrow> string \<Rightarrow> ('u, refresh_store, 'p, 'o, 'x) world \<Rightarrow>
     ('u, refresh_store, 'p, 'o, 'x) world \<Rightarrow> bool" where
  "kept_absent sha256 tok \<equiv> \<lambda>w w'. sessions (refresh_tokens w) (tokenKey sha256 tok) = None \<longrightarrow>
     sessions (refresh_tokens w') (tokenKey sha256 tok) = None"

lemma obeys_Issue_proc:
  assumes "refreshStore s = Some (memory_refresh_store sha256)" and "never_issued s sha256 tok"
  shows "obeys (kept_absent sha256 tok) (Issue_proc s u)"
proof (cases "tokenManager s")
  case None
  then show ?thesis by (simp add: Issue_proc_def obeys.Ret)
next
  case (Some m)
  show ?thesis
    unfolding Issue_proc_def assms(1) Some prod.case option.case
  proof (intro obeys_act obeys_act_ok obeys.Ret session_runs.keeps_Now session_runs.keeps_on_outside, safe)
    fix w now w' w1 p session w2
    assume "run_state (on_outside (GenerateTokenPair (crypto (libs s)) m now u)) w1 = (Inr (p, session), w2)"
    then obtain x where "run_state (GenerateTokenPair (crypto (libs s)) m now u) (outside w1) = (Inr (p, session), x)"
      by (auto simp: run_on_outside split: prod.splits)
    then have "tokenKey sha256 (token_pair.RefreshToken p) \<noteq> tokenKey sha256 tok"
      using assms(2) unfolding never_issued_def by blast
    then show "obeys (kept_absent sha256 tok)
      (act_ok (on_refresh (\<lambda>t. refresh_token_store.Save (memory_refresh_store sha256) t
        (token_pair.RefreshToken p) session)) (\<lambda>_. Ret (Inr p)))"
      by (intro obeys_act_ok obeys.Ret)
        (auto simp: keeps_def go_eval memory_refresh_store_def RefreshStore_Save_def split: prod.split)
  qed
qed

interpretation session_processes: process_invariant
  "kept_absent sha256 tok"
  "\<lambda>s. refreshStore s = Some (memory_refresh_store sha256) \<and> never_issued s sha256 tok"
  for sha256 tok
proof unfold_locales
  show "keeps (kept_absent sha256 tok) (on_refresh (\<lambda>t. refresh_token_store.Get rs t k))"
    if "refreshStore s = Some (memory_refresh_store sha256) \<and> never_issued s sha256 tok" "refreshStore s = Some rs"
    for s rs k
    using that by (intro keepsI) (auto simp: go_eval memory_refresh_store_def split: prod.splits
      dest!: mem_refresh.get_le dest: map_le_None)
qed (auto simp: keeps_def go_eval memory_refresh_store_def RefreshStore_Delete_def split: prod.split
    intro: obeys_Issue_proc [unfolded memory_refresh_store_def])

lemma obeys_request:
  assumes "refreshStore s = Some (memory_refresh_store sha256)" and "never_issued s sha256 tok"
  shows "obeys (kept_absent sha256 tok) (request_proc s req)"
  using assms
  by (auto intro!: session_processes.obeys_any_request simp: keeps_def go_eval split: prod.split)

text \<open>
  The states of a pool in which the sessions of \<open>tok\<close> are controlled: every process obeys the
  relation of the previous lemma, an answered logout of \<open>tok\<close> has removed its session, and a
  refresh of \<open>tok\<close> that is named in \<open>late\<close> has not started or was refused.
\<close>

definition presents_token :: "string \<Rightarrow> service_request \<Rightarrow> bool" where
  "presents_token tok req \<longleftrightarrow>
     (case req of RefreshReq t \<Rightarrow> TrimSpace t = tok | LogoutReq t \<Rightarrow> TrimSpace t = tok | _ \<Rightarrow> False)"

lemma Refresh_proc_first:
  assumes "refreshStore s = Some (memory_refresh_store sha256)" and "presents_token tok (RefreshReq t)"
    and "tok \<noteq> []" and "sessions (refresh_tokens w) (tokenKey sha256 tok) = None"
    and "request_proc s (RefreshReq t) = Act f" and "f w = (p, w')"
  shows "p = Ret (Inl ErrInvalidRefreshToken)"
  using assms
  by (auto simp: presents_token_def Refresh_proc_def act_def go_eval memory_refresh_store_def RefreshStore_Get_def
      after_lookup_def isCacheMiss_def Let_def split: prod.splits)

lemma Logout_proc_first:
  assumes "refreshStore s = Some (memory_refresh_store sha256)" and "presents_token tok (LogoutReq t)"
    and "tok \<noteq> []" and "request_proc s (LogoutReq t) = Act f" and "f w = (p, w')"
  shows "sessions (refresh_tokens w') (tokenKey sha256 tok) = None \<and> (\<exists>a. p = Ret a)"
  using assms
  by (auto simp: presents_token_def Logout_proc_def act_def go_eval memory_refresh_store_def RefreshStore_Delete_def
      Let_def split: prod.splits)

lemma request_starts:
  assumes "refreshStore s = Some rs" and "presents_token tok req" and "tok \<noteq> []"
  shows "\<exists>f. request_proc s req = Act f"
  using assms by (cases req) (auto simp: presents_token_def Refresh_proc_def Logout_proc_def act_def Let_def)

definition logged_out_pool ::
  "('u, refresh_store, 'p, 'o, 'x) service \<Rightarrow> (string \<Rightarrow> string) \<Rightarrow> string \<Rightarrow> service_request list \<Rightarrow> nat \<Rightarrow>
     (('u, refresh_store, 'p, 'o, 'x) world, auth_error + service_answer) pool \<Rightarrow> bool" where
  "logged_out_pool s sha256 tok reqs j c \<longleftrightarrow>
     length (fst c) = length reqs \<and>
     pool_obeys (kept_absent sha256 tok) (fst c) \<and>
     (fst c ! j = request_proc s (reqs ! j) \<or> sessions (refresh_tokens (snd c)) (tokenKey sha256 tok) = None)"

lemma logged_out_pool_step:
  assumes store: "refreshStore s = Some (memory_refresh_store sha256)" and "tok \<noteq> []"
    and j: "j < length reqs" "reqs ! j = LogoutReq t" "presents_token tok (reqs ! j)"
    and inv: "logged_out_pool s sha256 tok reqs j c" and step: "pool_step c c'"
  shows "logged_out_pool s sha256 tok reqs j c'"
proof -
  obtain ps w ps' w' where c: "c = (ps, w)" "c' = (ps', w')" by (metis surj_pair)
  obtain i f p where 1: "ps' = ps[i := p]" "i < length ps" "ps ! i = Act f" "f w = (p, w')"
    using step unfolding c by (rule pool_stepE)
  from pool_step_obeys [OF step [unfolded c]] inv
  have keep: "sessions (refresh_tokens w) (tokenKey sha256 tok) = None \<longrightarrow>
      sessions (refresh_tokens w') (tokenKey sha256 tok) = None"
    and obeys: "pool_obeys (kept_absent sha256 tok) ps'"
    by (auto simp: logged_out_pool_def c)
  show ?thesis
  proof (cases "i = j \<and> ps ! j = request_proc s (reqs ! j)")
    case True
    then have "sessions (refresh_tokens w') (tokenKey sha256 tok) = None"
      using Logout_proc_first [OF store, of tok t f w p w'] 1 assms by simp
    with inv obeys 1 show ?thesis by (simp add: logged_out_pool_def c)
  next
    case False
    with inv obeys keep 1 show ?thesis by (auto simp: logged_out_pool_def c nth_list_update)
  qed
qed

lemma logged_out_pool_run:
  assumes "refreshStore s = Some (memory_refresh_store sha256)" and "never_issued s sha256 tok" and "tok \<noteq> []"
    and "j < length reqs" "reqs ! j = LogoutReq t" "presents_token tok (reqs ! j)"
    and "pool_run (map (request_proc s) reqs, w) n c"
  shows "logged_out_pool s sha256 tok reqs j c"
  using assms(7)
proof (induction rule: pool_run.induct)
  case stay
  then show ?case
    using obeys_request [OF assms(1,2)] assms(4) by (simp add: logged_out_pool_def pool_obeys_def)
next
  case (step n c1 c2)
  then show ?case using logged_out_pool_step [OF assms(1,3,4-6)] by blast
qed

text \<open>A refresh that starts in a pool without its session is refused.\<close>

lemma late_refresh_refused:
  assumes store: "refreshStore s = Some (memory_refresh_store sha256)" and tok: "tok \<noteq> []" "presents_token tok (RefreshReq t)"
    and obeys: "pool_obeys (kept_absent sha256 tok) ps"
    and i: "i < length ps" "ps ! i = request_proc s (RefreshReq t)"
    and none: "sessions (refresh_tokens w) (tokenKey sha256 tok) = None"
    and run: "pool_run (ps, w) n c"
  shows "pool_obeys (kept_absent sha256 tok) (fst c) \<and> i < length (fst c) \<and>
    sessions (refresh_tokens (snd c)) (tokenKey sha256 tok) = None \<and>
    fst c ! i \<in> {request_proc s (RefreshReq t), Ret (Inl ErrInvalidRefreshToken)}"
  using run
proof (induction rule: pool_run.induct)
  case stay
  then show ?case using obeys i none by simp
next
  case (step n c1 c2)
  obtain ps1 w1 ps2 w2 where c: "c1 = (ps1, w1)" "c2 = (ps2, w2)" by (metis surj_pair)
  obtain k f p where 1: "ps2 = ps1[k := p]" "k < length ps1" "ps1 ! k = Act f" "f w1 = (p, w2)"
    using step.hyps(2) unfolding c by (rule pool_stepE)
  note o = pool_step_obeys [OF step.hyps(2) [unfolded c]]
  show ?case
  proof (cases "k = i")
    case True
    then have "ps1 ! i = request_proc s (RefreshReq t)" using step.IH 1(3) by (auto simp: c)
    then have "p = Ret (Inl ErrInvalidRefreshToken)"
      using Refresh_proc_first [OF store tok(2,1), of w1 f p w2] step.IH 1 True by (auto simp: c)
    with step.IH o 1 True show ?thesis by (auto simp: c)
  next
    case False
    with step.IH o 1 show ?thesis by (auto simp: c)
  qed
qed


section \<open>Reservations among concurrent requests\<close>

lemma obeys_Issue_procI:
  assumes "keeps R Now" and "\<And>m now. keeps R (on_outside (GenerateTokenPair (crypto (libs s)) m now u))"
    and "\<And>rs k v. refreshStore s = Some rs \<Longrightarrow> keeps R (on_refresh (\<lambda>t. refresh_token_store.Save rs t k v))"
  shows "obeys R (Issue_proc s u)"
  unfolding Issue_proc_def using assms
  by (auto intro!: obeys_act obeys_act_ok obeys.Ret split: option.split prod.split)

abbreviation kept_sound ::
  "('u, 'r, pending_store, 'o, 'x) world \<Rightarrow> ('u, 'r, pending_store, 'o, 'x) world \<Rightarrow> bool" where
  "kept_sound \<equiv> \<lambda>w w'. pending_sound (pending w) \<longrightarrow> pending_sound (pending w')"

interpretation pending_processes: process_invariant
  kept_sound "\<lambda>s. pendingSignupStore s = memory_pending_store"
  by unfold_locales
    (auto simp: memory_pending_store_def PendingSignupStore_DeleteByMobile_def keeps_def go_eval split: prod.split
      intro!: obeys_Issue_procI
      dest: pending_sound_get pending_sound_index pending_sound_save pending_sound_delete)

text \<open>
  C4. Reservations stay real among concurrent requests.  Started with an empty store of pending
  signups, in every state that any interleaving of requests of all kinds reaches, an index leads
  only to a live signup that has the very username, email or mobile that was looked up.
\<close>

theorem concurrent_reservations_are_real:
  assumes "pool_run (map (request_proc s) reqs, w) n (ps, w')"
    and "pendingSignupStore s = memory_pending_store" and "pending w = NewPendingSignupStore"
  shows "(\<forall>t k m p'. run_state (GetMobileByUsername memory_pending_store t k) (pending w') = (Inr m, p') \<longrightarrow>
       (\<exists>p. run_state (GetByMobile memory_pending_store t m) (pending w') = (Inr p, pending w') \<and>
         pending_signup.Username p = k)) \<and>
    (\<forall>t k m p'. run_state (GetMobileByEmail memory_pending_store t k) (pending w') = (Inr m, p') \<longrightarrow>
       (\<exists>p. run_state (GetByMobile memory_pending_store t m) (pending w') = (Inr p, pending w') \<and>
         pending_signup.Email p = k)) \<and>
    (\<forall>t k m p'. run_state (GetMobileByMobile memory_pending_store t k) (pending w') = (Inr m, p') \<longrightarrow>
       (\<exists>p. run_state (GetByMobile memory_pending_store t m) (pending w') = (Inr p, pending w') \<and>
         pending_signup.Mobile p = k))"
proof -
  have "obeys kept_sound (request_proc s req)" for req
    using assms(2)
    by (auto intro!: pending_processes.obeys_any_request simp: keeps_def go_eval split: prod.split)
  then have "pool_obeys kept_sound (map (request_proc s) reqs)" by (simp add: pool_obeys_def)
  from pool_run_obeys [OF assms(1) this] assms(3) pending_sound_empty
  have "pending_sound (pending w')" by simp
  then show ?thesis by (rule pending_sound_lookups)
qed

section \<open>Small pools\<close>

lemma demo_store: "refreshStore demo_service = Some (memory_refresh_store (\<lambda>x. x))"
  by (simp add: demo_service_def)

lemma demo_fresh: "never_issued demo_service (\<lambda>x. x) ''old''"
proof -
  have "tokenKey (\<lambda>x. x) a \<noteq> tokenKey (\<lambda>x. x) ''old''" if "length a = 76" for a
    using that hex_encode_length [of a] hex_encode_length [of "''old''"] by (auto simp: tokenKey_def)
  then show ?thesis by (auto simp: never_issued_def demo_service_simps dest!: demo_generated)
qed



lemma concurrent_reservations_are_real_witness:
  "\<exists>n answers w. pool_run (map (request_proc demo_service) [SignupReq demo_request, SignupReq demo_request], demo_world)
     n (map Ret answers, w) \<and>
     (\<forall>t k m p'. run_state (GetMobileByEmail memory_pending_store t k) (pending w) = (Inr m, p') \<longrightarrow>
       (\<exists>p. run_state (GetByMobile memory_pending_store t m) (pending w) = (Inr p, pending w) \<and>
         pending_signup.Email p = k))"
proof -
  let ?reqs = "[SignupReq demo_request, SignupReq demo_request]"
  obtain n answers w where run: "pool_run (map (request_proc demo_service) ?reqs, demo_world) n (map Ret answers, w)"
    using pool_completes [OF bounded_requests] by blast
  have "pendingSignupStore demo_service = memory_pending_store" "pending demo_world = NewPendingSignupStore"
    by (simp_all add: demo_service_def demo_world_def)
  from concurrent_reservations_are_real [OF run this] run show ?thesis by blast
qed

text \<open>
  Rotation is not atomic.  Two refreshes that present the same token and both look it up before
  either deletes it both succeed: one token is exchanged for two sessions.
\<close>

lemma demo_stale_lookup:
  assumes "ticks w < 400" and "clock w = (\<lambda>n. 5 + int n)" and "users w = users demo_world"
  shows "\<exists>p w'. run_proc (map_proc (map_sum id (case_prod SignedIn))
      (after_lookup demo_service (memory_refresh_store (\<lambda>x. x)) ''old'' (Inr demo_session))) w =
      (Inr (SignedIn demo_user p), w') \<and> ticks w' = ticks w + 5 \<and> clock w' = clock w \<and> users w' = users w"
proof -
  have live: "\<not> time_After (5 + int (ticks w)) (refresh_session.ExpiresAt demo_session)"
    using assms(1) by (simp add: time_After_def demo_session_def)
  define w3 where "w3 = w\<lparr>ticks := ticks w + 3, refresh_tokens := snd (run_state
    (RefreshStore_Delete (\<lambda>x. x) (clock w (ticks w + 2)) ''old'') (refresh_tokens w))\<rparr>"
  have w3: "ticks w3 < 900" "clock w3 = (\<lambda>n. 5 + int n)" "ticks w3 = ticks w + 3" "users w3 = users w"
    using assms by (simp_all add: w3_def)
  have s: "refreshStore demo_service = Some (memory_refresh_store (\<lambda>x. x))"
    "tokenManager demo_service = Some demo_manager" "libs demo_service = demo_libs"
    by (simp_all add: demo_service_def)
  obtain p w' where issue: "run_state (IssueTokenPair demo_service demo_user) w3 = (Inr p, w')" "ticks w' = ticks w3 + 2"
    "clock w' = clock w3" "users w' = users w3"
    using demo_issue [OF w3(1,2) s(2,1,3), of demo_user] by blast
  have look: "run_state (GetUserDetailsByUsername (repo demo_service) t (refresh_session.Username demo_session)) (users w)
      = (Inr demo_user, users w)" for t
    using demo_old(2,3) assms(3) by (simp add: demo_session_def)
  have "run_proc (after_lookup demo_service (memory_refresh_store (\<lambda>x. x)) ''old'' (Inr demo_session)) w =
      run_state (call_ok (IssueTokenPair demo_service demo_user) (\<lambda>tokens. ok (demo_user, tokens))) w3"
    using live look assms(2)
    by (simp add: after_lookup_def go_eval w3_def memory_refresh_store_def RefreshStore_Delete_def
        numeral_3_eq_3)
  with issue w3 assms(2) show ?thesis by (simp add: go_eval)
qed

lemma concurrent_refreshes_share_token:
  "\<exists>n p1 p2 w. pool_run (map (request_proc demo_service) [RefreshReq ''old'', RefreshReq ''old''], demo_world) n
     ([Ret (Inr (SignedIn demo_user p1)), Ret (Inr (SignedIn demo_user p2))], w)"
proof -
  let ?q = "map_proc (map_sum id (case_prod SignedIn))
    (after_lookup demo_service (memory_refresh_store (\<lambda>x. x)) ''old'' (Inr demo_session))"
  let ?w = "\<lambda>n. demo_world\<lparr>ticks := n\<rparr>"
  define f :: "(demo_users, refresh_store, pending_store, otp_store, unit) world \<Rightarrow> _"
    where "f = (\<lambda>w. case run_state (on_refresh (\<lambda>t. RefreshStore_Get (\<lambda>x. x) t ''old'')) w of (r, w') \<Rightarrow>
    (map_proc (map_sum id (case_prod SignedIn)) (after_lookup demo_service (memory_refresh_store (\<lambda>x. x)) ''old'' r), w'))"
  have f: "request_proc demo_service (RefreshReq ''old'') = Act f"
    by (simp add: Refresh_proc_def demo_old demo_store f_def act_def Let_def memory_refresh_store_def fun_eq_iff
      split: prod.split)
  have get: "f (?w n) = (?q, ?w (Suc n))" if "n < 100" for n
    using that by (simp add: f_def go_eval RefreshStore_Get_def time_After_def)
      (simp add: demo_world_def time_After_def demo_session_def)
  obtain p1 w1 where 1: "run_proc ?q (?w 2) = (Inr (SignedIn demo_user p1), w1)"
    "ticks w1 = 7" "clock w1 = clock demo_world" "users w1 = users demo_world"
    using demo_stale_lookup [of "?w 2"] by (auto simp: demo_world_def)
  obtain p2 w2 where 2: "run_proc ?q w1 = (Inr (SignedIn demo_user p2), w2)"
    using demo_stale_lookup [of w1] 1 by (auto simp: demo_world_def)
  have "f (?w 0) = (?q, ?w 1)" "f (?w 1) = (?q, ?w 2)" using get [of 0] get [of 1] by (simp_all add: numeral_2_eq_2)
  from race [OF this 1(1) 2] have "\<exists>n. pool_run ([Act f, Act f], ?w 0) n
    ([Ret (Inr (SignedIn demo_user p1)), Ret (Inr (SignedIn demo_user p2))], w2)" .
  moreover have "?w 0 = demo_world" by (simp add: demo_world_def)
  ultimately show ?thesis using f by (simp del: request_proc.simps) blast
qed

text \<open>
  Neither is resending: two resends of one signup that both find it before either stores its
  count are both carried out, although the configuration allows one, and one is counted.
\<close>

definition resend_service :: "(demo_users, refresh_store, pending_store, otp_store, unit) service" where
  "resend_service = demo_service\<lparr>otpConfig := \<lparr>PendingSignupTTL = 600 * Second, ResendCooldown = 0, MaxResends = 1\<rparr>\<rparr>"

definition demo_resend :: otp_request where
  "demo_resend = \<lparr>otp_request.Mobile = ''9876543210'', ClientType = ''web''\<rparr>"

definition found_resend ::
  "(demo_users, refresh_store, pending_store, otp_store, unit, service_answer) process" where
  "found_resend = map_proc (map_sum id (\<lambda>_. Done))
     (act_ok (on_outside (SendVerification (otpProvider resend_service) ''+919876543210'')) (\<lambda>_.
      act Now (\<lambda>now.
      act (on_pending (\<lambda>t. pending_signup_store.Save (pendingSignupStore resend_service) t
        (demo_pending\<lparr>pending_signup.ResendCount := 1, pending_signup.LastSentAt := now\<rparr>))) Ret)))"

lemma found_resend_done:
  assumes "ticks w < 100" and "clock w = (\<lambda>n. 5 + int n)"
  shows "\<exists>w'. run_proc found_resend w = (Inr Done, w') \<and> ticks w' = ticks w + 2 \<and> clock w' = clock w"
  using assms
  by (simp add: found_resend_def resend_service_def demo_service_def go_eval memory_pending_store_def
      PendingSignupStore_Save_def demo_pending_def Let_def)

lemma resend_found:
  assumes "n < 100"
  shows "\<exists>f. request_proc resend_service (ResendSignupReq demo_resend) = Act f \<and>
    f (pending_world\<lparr>ticks := n\<rparr>) = (found_resend, pending_world\<lparr>ticks := Suc n\<rparr>)"
proof -
  have m: "NormalizeIndianMobile (otp_request.Mobile demo_resend) = Inr ''+919876543210''"
    by (simp add: demo_resend_def demo_mobile)
  have s: "pendingSignupStore resend_service = memory_pending_store" "MaxResends (otpConfig resend_service) = 1"
    "ResendCooldown (otpConfig resend_service) = 0"
    by (simp_all add: resend_service_def demo_service_def)
  have g: "run_state (GetByMobile memory_pending_store t ''+919876543210'') (pending pending_world) =
      (Inr demo_pending, pending pending_world)" if "t < 900" for t
    using that by (simp add: memory_pending_store_def getByMobileLocked_def pending_world_def demo_pending_def
        time_After_def)
  have c: "clock pending_world = (\<lambda>n. 5 + int n)" by (simp add: pending_world_def demo_world_def)
  show ?thesis
    using assms g
    by (simp add: ResendSignupOTP_proc_def m s c act_def go_eval found_resend_def validateResendWindow_proc_def
        and_then_def demo_pending_def int64_def)
qed

lemma concurrent_resends_exceed:
  "MaxResends (otpConfig resend_service) = 1 \<and>
   (\<exists>n w. pool_run (map (request_proc resend_service) [ResendSignupReq demo_resend, ResendSignupReq demo_resend],
      pending_world) n ([Ret (Inr Done), Ret (Inr Done)], w))"
proof -
  let ?w = "\<lambda>n. pending_world\<lparr>ticks := n\<rparr>"
  obtain f where f: "request_proc resend_service (ResendSignupReq demo_resend) = Act f"
    and 0: "f (?w 0) = (found_resend, ?w 1)" using resend_found [of 0] by auto
  have 1: "f (?w 1) = (found_resend, ?w 2)" using resend_found [of 1] f by (simp add: numeral_2_eq_2)
  have c: "clock (?w n) = (\<lambda>n. 5 + int n)" for n by (simp add: pending_world_def demo_world_def)
  obtain w3 where 2: "run_proc found_resend (?w 2) = (Inr Done, w3)" "ticks w3 = 4" "clock w3 = (\<lambda>n. 5 + int n)"
    using found_resend_done [of "?w 2"] c [of 2] by auto
  obtain w4 where 3: "run_proc found_resend w3 = (Inr Done, w4)" using found_resend_done [of w3] 2 by auto
  from race [OF 0 1 2(1) 3] have "\<exists>n. pool_run ([Act f, Act f], ?w 0) n ([Ret (Inr Done), Ret (Inr Done)], w4)" .
  moreover have "?w 0 = pending_world" by (simp add: pending_world_def demo_world_def)
  ultimately show ?thesis using f by (simp add: resend_service_def del: request_proc.simps) blast
qed

end
