(* ===== verification/User_Dao.thy ===== *)
theory User_Dao
  imports Auth_Types Gorm
begin

text \<open>
  \<open>dbase/userdao/postgres.go\<close>: the user repository on Postgres.  \<open>gorm\<close> is a record of tables
  as in \<open>Gorm\<close>; the clock plays no part in the code (the columns \<open>created_at\<close> and
  \<open>updated_at\<close> are filled by the library), so the methods ignore the reading they are given.
\<close>

section \<open>Models\<close>

record user_model =
  ID :: nat
  Username :: string
  Email :: string
  Mobile :: "string option"
  MobileVerified :: bool
  Role :: string
  IsProfileComplete :: "bool option"
  CreatedAt :: time
  UpdatedAt :: time
  DeletedAt :: "time option"

record password_model =
  UserID :: nat
  PasswordHash :: string
  CreatedAt :: time
  UpdatedAt :: time

record sso_account_model =
  ID :: nat
  UserID :: nat
  Provider :: string
  ProviderID :: string
  Email :: string
  Data :: string
  CreatedAt :: time
  UpdatedAt :: time

text \<open>The tables, and transactions whose function leaves a user in a variable of the caller.\<close>

record 'd user_db =
  user_models :: "('d, user_model) gorm_table"
  password_models :: "('d, password_model) gorm_table"
  sso_account_models :: "('d, sso_account_model) gorm_table"
  Transaction :: "('d, db_error, user) call \<Rightarrow> ('d, db_error, user) call"

text \<open>\<open>migrate\<close> is the schema migration of \<open>gorm\<close> for models given by name.\<close>

definition Users_AutoMigrate :: "(string list \<Rightarrow> ('d, 'e, unit) call) \<Rightarrow> ('d, 'e, unit) call" where
  "Users_AutoMigrate migrate = migrate [''UserModel'', ''PasswordModel'', ''SSOAccountModel'']"

definition toDomainUser :: "user_model \<Rightarrow> user" where
  "toDomainUser model =
     \<lparr>user.ID = user_model.ID model, Username = user_model.Username model,
      Email = user_model.Email model,
      Mobile = (case user_model.Mobile model of None \<Rightarrow> [] | Some m \<Rightarrow> m),
      MobileVerified = user_model.MobileVerified model, Role = user_model.Role model,
      IsProfileComplete = (case user_model.IsProfileComplete model of None \<Rightarrow> False | Some b \<Rightarrow> b),
      CreatedAt = user_model.CreatedAt model, UpdatedAt = user_model.UpdatedAt model\<rparr>"

definition mobile_column :: "user \<Rightarrow> string option" where
  "mobile_column u = (if user.Mobile u = [] then None else Some (user.Mobile u))"

text \<open>The literal \<open>UserModel{...}\<close> of \<open>RegisterUser\<close> and \<open>CreateSSOUser\<close>.\<close>

definition new_user_model :: "user \<Rightarrow> user_model" where
  "new_user_model u =
     \<lparr>user_model.ID = 0, Username = user.Username u, Email = user.Email u, Mobile = mobile_column u,
      MobileVerified = user.MobileVerified u, Role = user.Role u,
      IsProfileComplete = Some (user.IsProfileComplete u), CreatedAt = 0, UpdatedAt = 0, DeletedAt = None\<rparr>"

definition new_sso_model :: "nat \<Rightarrow> sso_account \<Rightarrow> sso_account_model" where
  "new_sso_model userID account =
     \<lparr>sso_account_model.ID = 0, UserID = userID, Provider = sso_account.Provider account,
      ProviderID = sso_account.ProviderID account, Email = sso_account.Email account, Data = [],
      CreatedAt = 0, UpdatedAt = 0\<rparr>"

section \<open>The repository\<close>

text \<open>An error of the database that is passed on as it is.\<close>

fun db_message :: "db_error \<Rightarrow> string" where
  "db_message RecordNotFound = ''record not found''"
| "db_message (DuplicatedKey m) = m"
| "db_message (DBError m) = m"

definition passed_on :: "db_error \<Rightarrow> auth_error" where
  "passed_on e = ErrOther (db_message e)"

definition user_not_found :: "db_error \<Rightarrow> auth_error" where
  "user_not_found e = (if e = RecordNotFound then ErrUserNotFound else passed_on e)"

definition find_user :: "'d user_db \<Rightarrow> query \<Rightarrow> ('d, auth_error, user) call" where
  "find_user db q =
     call_ok (with_error user_not_found (First (user_models db) q)) (\<lambda>model. ok (toDomainUser model))"

definition Users_GetUserDetailsByUsername :: "'d user_db \<Rightarrow> string \<Rightarrow> ('d, auth_error, user) call" where
  "Users_GetUserDetailsByUsername db username = find_user db (Where ''username = ?'' [SQLText username] all_rows)"

definition Users_GetUserByEmail :: "'d user_db \<Rightarrow> string \<Rightarrow> ('d, auth_error, user) call" where
  "Users_GetUserByEmail db email = find_user db (Where ''email = ?'' [SQLText email] all_rows)"

definition Users_GetUserByMobile :: "'d user_db \<Rightarrow> string \<Rightarrow> ('d, auth_error, user) call" where
  "Users_GetUserByMobile db mobile = find_user db (Where ''mobile = ?'' [SQLText mobile] all_rows)"

definition Users_GetUserByID :: "'d user_db \<Rightarrow> nat \<Rightarrow> ('d, auth_error, user) call" where
  "Users_GetUserByID db i = find_user db (by_key i)"

definition registerUser_tx :: "'d user_db \<Rightarrow> user \<Rightarrow> string \<Rightarrow> ('d, db_error, user) call" where
  "registerUser_tx db u passwordHash =
     call_ok (Create (user_models db) (new_user_model u)) (\<lambda>model.
       if passwordHash \<noteq> []
       then call_ok (Create (password_models db)
           \<lparr>password_model.UserID = user_model.ID model, PasswordHash = passwordHash, CreatedAt = 0, UpdatedAt = 0\<rparr>)
         (\<lambda>_. ok (toDomainUser model))
       else ok (toDomainUser model))"

text \<open>
  The lookups that name the conflict when the database has not; \<open>lookup\<close> is \<open>True\<close> when a row
  is found without an error.
\<close>

definition lookup :: "'d user_db \<Rightarrow> string \<Rightarrow> string \<Rightarrow> ('d, bool) state" where
  "lookup db condition value = do {
     r \<leftarrow> First (user_models db) (Where condition [SQLText value] all_rows);
     State_Monad.return (\<not> Sum_Type.isl r) }"

definition name_conflict :: "'d user_db \<Rightarrow> user \<Rightarrow> db_error \<Rightarrow> ('d, auth_error, user) call" where
  "name_conflict db u e = do {
     username_taken \<leftarrow> lookup db ''username = ?'' (user.Username u);
     if username_taken then err ErrUsernameAlreadyExists
     else do {
       email_taken \<leftarrow> lookup db ''email = ?'' (user.Email u);
       if email_taken then err ErrEmailAlreadyExists
       else if user.Mobile u = [] then err (passed_on e)
       else do {
         mobile_taken \<leftarrow> lookup db ''mobile = ?'' (user.Mobile u);
         if mobile_taken then err ErrMobileAlreadyExists else err (passed_on e) } } }"

definition Users_RegisterUser :: "'d user_db \<Rightarrow> user \<Rightarrow> string \<Rightarrow> ('d, auth_error, user) call" where
  "Users_RegisterUser db u passwordHash = do {
     r \<leftarrow> Transaction db (registerUser_tx db u passwordHash);
     case r of
       Inr created \<Rightarrow> ok created
     | Inl (DuplicatedKey _) \<Rightarrow> err ErrUserAlreadyExists
     | Inl e \<Rightarrow> name_conflict db u e }"

definition Users_UpdateUser :: "'d user_db \<Rightarrow> user \<Rightarrow> ('d, auth_error, unit) call" where
  "Users_UpdateUser db u =
     call_ok (with_error passed_on (Updates (user_models db) (by_key (user.ID u))
       [(''username'', SQLText (user.Username u)), (''email'', SQLText (user.Email u)),
        (''mobile'', case mobile_column u of None \<Rightarrow> SQLNull | Some m \<Rightarrow> SQLText m),
        (''mobile_verified'', SQLBool (user.MobileVerified u)), (''role'', SQLText (user.Role u)),
        (''is_profile_complete'', SQLBool (user.IsProfileComplete u))])) (\<lambda>_. ok ())"

definition Users_GetPasswordHashByUserID :: "'d user_db \<Rightarrow> nat \<Rightarrow> ('d, auth_error, string) call" where
  "Users_GetPasswordHashByUserID db userID =
     call_ok (with_error (\<lambda>e. if e = RecordNotFound then ErrOther ''password not found'' else passed_on e)
       (First (password_models db) (Where ''user_id = ?'' [SQLUint userID] all_rows)))
       (\<lambda>model. ok (password_model.PasswordHash model))"

definition Users_GetSSOAccount ::
  "'d user_db \<Rightarrow> string \<Rightarrow> string \<Rightarrow> ('d, auth_error, user \<times> bool) call" where
  "Users_GetSSOAccount db provider providerID = do {
     r \<leftarrow> First (sso_account_models db)
       (Where ''provider = ? AND provider_id = ?'' [SQLText provider, SQLText providerID] all_rows);
     case r of
       Inl RecordNotFound \<Rightarrow> ok (zero_user, False)
     | Inl e \<Rightarrow> err (passed_on e)
     | Inr ssoModel \<Rightarrow> do {
         u \<leftarrow> First (user_models db) (by_key (sso_account_model.UserID ssoModel));
         case u of
           Inl RecordNotFound \<Rightarrow> ok (zero_user, False)
         | Inl e \<Rightarrow> err (passed_on e)
         | Inr userModel \<Rightarrow> ok (toDomainUser userModel, True) } }"

definition createSSOUser_tx :: "'d user_db \<Rightarrow> user \<Rightarrow> sso_account \<Rightarrow> ('d, db_error, user) call" where
  "createSSOUser_tx db u account =
     call_ok (Create (user_models db) (new_user_model u)) (\<lambda>userModel.
     call_ok (Create (sso_account_models db) (new_sso_model (user_model.ID userModel) account)) (\<lambda>_.
     ok (toDomainUser userModel)))"

definition Users_CreateSSOUser :: "'d user_db \<Rightarrow> user \<Rightarrow> sso_account \<Rightarrow> ('d, auth_error, user) call" where
  "Users_CreateSSOUser db u account = with_error passed_on (Transaction db (createSSOUser_tx db u account))"

definition Users_LinkSSOAccount :: "'d user_db \<Rightarrow> nat \<Rightarrow> sso_account \<Rightarrow> ('d, auth_error, unit) call" where
  "Users_LinkSSOAccount db userID account =
     call_ok (with_error passed_on (Create (sso_account_models db) (new_sso_model userID account))) (\<lambda>_. ok ())"

definition NewUserRepository :: "'d user_db \<Rightarrow> 'd user_repository" where
  "NewUserRepository db =
     \<lparr>GetUserDetailsByUsername = (\<lambda>_. Users_GetUserDetailsByUsername db),
      GetUserByEmail = (\<lambda>_. Users_GetUserByEmail db), GetUserByMobile = (\<lambda>_. Users_GetUserByMobile db),
      GetUserByID = (\<lambda>_. Users_GetUserByID db), RegisterUser = (\<lambda>_. Users_RegisterUser db),
      UpdateUser = (\<lambda>_. Users_UpdateUser db),
      GetPasswordHashByUserID = (\<lambda>_. Users_GetPasswordHashByUserID db),
      GetSSOAccount = (\<lambda>_. Users_GetSSOAccount db), CreateSSOUser = (\<lambda>_. Users_CreateSSOUser db),
      LinkSSOAccount = (\<lambda>_. Users_LinkSSOAccount db)\<rparr>"

section \<open>What the database promises\<close>

record user_rows =
  user_table :: "user_model list"
  password_table :: "password_model list"
  sso_table :: "sso_account_model list"

text \<open>The columns of a row that the database does not choose; an empty role is stored as the default.\<close>

definition user_content :: "user_model \<Rightarrow> user_model" where
  "user_content m = m\<lparr>user_model.ID := 0, user_model.CreatedAt := 0, user_model.UpdatedAt := 0\<rparr>"

definition user_stored :: "user_model \<Rightarrow> user_model" where
  "user_stored m = m\<lparr>user_model.Role := (if user_model.Role m = [] then ''customer'' else user_model.Role m)\<rparr>"

definition user_tables_ok :: "'d user_db \<Rightarrow> ('d \<Rightarrow> user_rows) \<Rightarrow> bool" where
  "user_tables_ok db view \<longleftrightarrow>
     (\<forall>m d m' d'. run_state (Create (user_models db) m) d = (Inr m', d') \<longrightarrow>
        user_content m' = user_content (user_stored m) \<and>
        view d' = (view d)\<lparr>user_table := user_table (view d) @ [m']\<rparr>) \<and>
     (\<forall>p d p' d'. run_state (Create (password_models db) p) d = (Inr p', d') \<longrightarrow>
        password_model.UserID p' = password_model.UserID p \<and>
        password_model.PasswordHash p' = password_model.PasswordHash p \<and>
        view d' = (view d)\<lparr>password_table := password_table (view d) @ [p']\<rparr>) \<and>
     (\<forall>a d a' d'. run_state (Create (sso_account_models db) a) d = (Inr a', d') \<longrightarrow>
        sso_account_model.UserID a' = sso_account_model.UserID a \<and>
        sso_account_model.Provider a' = sso_account_model.Provider a \<and>
        sso_account_model.ProviderID a' = sso_account_model.ProviderID a \<and>
        sso_account_model.Email a' = sso_account_model.Email a \<and>
        view d' = (view d)\<lparr>sso_table := sso_table (view d) @ [a']\<rparr>) \<and>
     (\<forall>q. keeps (\<lambda>d d'. view d' = view d) (First (user_models db) q))"

lemma user_tables_okD:
  assumes "user_tables_ok db view"
  shows "run_state (Create (user_models db) m) d = (Inr m', d') \<Longrightarrow>
      user_content m' = user_content (user_stored m) \<and> view d' = (view d)\<lparr>user_table := user_table (view d) @ [m']\<rparr>"
    and "run_state (Create (password_models db) p) d = (Inr p', d') \<Longrightarrow>
      password_model.UserID p' = password_model.UserID p \<and>
      password_model.PasswordHash p' = password_model.PasswordHash p \<and>
      view d' = (view d)\<lparr>password_table := password_table (view d) @ [p']\<rparr>"
    and "run_state (Create (sso_account_models db) a) d = (Inr a', d') \<Longrightarrow>
      sso_account_model.UserID a' = sso_account_model.UserID a \<and>
      sso_account_model.Provider a' = sso_account_model.Provider a \<and>
      sso_account_model.ProviderID a' = sso_account_model.ProviderID a \<and>
      sso_account_model.Email a' = sso_account_model.Email a \<and>
      view d' = (view d)\<lparr>sso_table := sso_table (view d) @ [a']\<rparr>"
    and "keeps (\<lambda>d d'. view d' = view d) (First (user_models db) q)"
  using assms unfolding user_tables_ok_def by blast+

lemma lookup_reads:
  assumes "user_tables_ok db view"
  shows "keeps (\<lambda>d d'. view d' = view d) (lookup db condition x)"
  unfolding lookup_def
  by (intro keeps_bind transp_frame user_tables_okD(4) [OF assms] keeps_return reflp_frame)

lemma name_conflict_fails:
  assumes "user_tables_ok db view" and "run_state (name_conflict db u e) d = (r, d')"
  shows "(\<exists>e. r = Inl e) \<and> view d' = view d"
proof
  show "\<exists>e. r = Inl e"
    using assms(2) by (auto simp: name_conflict_def split: prod.splits if_splits)
  have "keeps (\<lambda>d d'. view d' = view d) (name_conflict db u e)"
    unfolding name_conflict_def
    by (intro keeps_bind keeps_if transp_frame lookup_reads [OF assms(1)] keeps_return reflp_frame)
  then show "view d' = view d" by (rule keepsD [OF _ assms(2)])
qed

text \<open>The user a row of given content stands for.\<close>

lemma toDomainUser_content:
  assumes "user_content m = user_content (user_stored (new_user_model u))"
  shows "toDomainUser m = u\<lparr>user.ID := user_model.ID m,
    user.Role := (if user.Role u = [] then ''customer'' else user.Role u),
    user.CreatedAt := user_model.CreatedAt m, user.UpdatedAt := user_model.UpdatedAt m\<rparr>"
proof -
  have "user_model.Username (user_content m) = user.Username u" "user_model.Email (user_content m) = user.Email u"
    "user_model.Mobile (user_content m) = mobile_column u"
    "user_model.MobileVerified (user_content m) = user.MobileVerified u"
    "user_model.Role (user_content m) = (if user.Role u = [] then ''customer'' else user.Role u)"
    "user_model.IsProfileComplete (user_content m) = Some (user.IsProfileComplete u)"
    unfolding assms by (simp_all add: user_content_def user_stored_def new_user_model_def)
  then show ?thesis
    by (simp add: user_content_def toDomainUser_def mobile_column_def)
qed

lemma RegisterUser_run:
  assumes "user_tables_ok db view" and "atomic (Transaction db) view"
    and "run_state (Users_RegisterUser db u hash) d = (r, d')"
  shows "(\<exists>e. r = Inl e) \<and> view d' = view d \<or>
    (\<exists>m ps. view d' = (view d)\<lparr>user_table := user_table (view d) @ [m], password_table := password_table (view d) @ ps\<rparr> \<and>
       r = Inr (toDomainUser m) \<and> user_content m = user_content (user_stored (new_user_model u)) \<and>
       map (\<lambda>p. (password_model.UserID p, password_model.PasswordHash p)) ps =
         (if hash = [] then [] else [(user_model.ID m, hash)]))"
proof -
  let ?tx = "registerUser_tx db u hash"
  consider (failed) e d1 where "run_state (Transaction db ?tx) d = (Inl e, d1)" "view d1 = view d"
    | (stored) x d1 where "run_state ?tx d = (Inr x, d1)" "run_state (Transaction db ?tx) d = (Inr x, d1)"
    using assms(2) unfolding atomic_def by blast
  then show ?thesis
  proof cases
    case failed
    have "(\<exists>e. r = Inl e) \<and> view d' = view d1"
      using assms(3) failed(1) name_conflict_fails [OF assms(1)]
      by (cases e) (auto simp: Users_RegisterUser_def)
    with failed(2) show ?thesis by simp
  next
    case stored
    with assms(3) have r: "r = Inr x" "d' = d1" by (simp_all add: Users_RegisterUser_def)
    from stored(1) obtain m d2 where m: "run_state (Create (user_models db) (new_user_model u)) d = (Inr m, d2)"
      and x: "x = toDomainUser m" and
      rest: "hash = [] \<and> d1 = d2 \<or> hash \<noteq> [] \<and> (\<exists>p. run_state (Create (password_models db)
        \<lparr>password_model.UserID = user_model.ID m, PasswordHash = hash, CreatedAt = 0, UpdatedAt = 0\<rparr>) d2 = (Inr p, d1))"
      by (auto simp: registerUser_tx_def go_result split: if_splits)
    note M = user_tables_okD(1) [OF assms(1) m]
    show ?thesis
      using rest
    proof (elim disjE exE conjE)
      assume "hash = []" "d1 = d2"
      with M r x show ?thesis by (intro disjI2 exI [of _ m] exI [of _ "[]"]) auto
    next
      fix p
      assume "hash \<noteq> []" and "run_state (Create (password_models db)
        \<lparr>password_model.UserID = user_model.ID m, PasswordHash = hash, CreatedAt = 0, UpdatedAt = 0\<rparr>) d2 = (Inr p, d1)"
      with user_tables_okD(2) [OF assms(1) this(2)] M r x show ?thesis
        by (intro disjI2 exI [of _ m] exI [of _ "[p]"]) auto
    qed
  qed
qed

section \<open>A small database\<close>

definition demo_rows_of :: "('m \<Rightarrow> 'm) \<Rightarrow> (('m list \<Rightarrow> 'm list) \<Rightarrow> user_rows \<Rightarrow> user_rows) \<Rightarrow> (user_rows, 'm) gorm_table" where
  "demo_rows_of stored upd =
     \<lparr>Create = (\<lambda>m. State (\<lambda>d. (Inr (stored m), upd (\<lambda>rows. rows @ [stored m]) d))),
      CreateAll = (\<lambda>ms. err (DBError ''unsupported'')), First = (\<lambda>q. err RecordNotFound), Find = (\<lambda>q. ok []),
      Count = (\<lambda>q. ok 0), Updates = (\<lambda>q cols. ok 0), Delete = (\<lambda>q. ok 0)\<rparr>"

definition demo_user_db :: "user_rows user_db" where
  "demo_user_db =
     \<lparr>user_models = demo_rows_of user_stored user_table_update, password_models = demo_rows_of id password_table_update,
      sso_account_models = demo_rows_of id sso_table_update, Transaction = demo_transaction\<rparr>"

definition demo_user_rows :: user_rows where
  "demo_user_rows = \<lparr>user_table = [], password_table = [], sso_table = []\<rparr>"

definition demo_new_user :: user where
  "demo_new_user = \<lparr>user.ID = 0, Username = ''bala'', Email = ''b@x'', Mobile = [], MobileVerified = True,
     Role = [], IsProfileComplete = True, CreatedAt = 0, UpdatedAt = 0\<rparr>"

lemma demo_user_tables_ok: "user_tables_ok demo_user_db id"
  by (auto simp: user_tables_ok_def demo_user_db_def demo_rows_of_def keeps_def)

lemma demo_user_atomic: "atomic (Transaction demo_user_db) id"
  by (simp add: demo_user_db_def atomic_demo_transaction)

section \<open>Properties\<close>

text \<open>
  C37. A user is registered with the password or not at all.  Over tables that behave as
  documented and atomic transactions, either \<open>RegisterUser\<close> reports an error and no row has
  changed, or exactly one user row was added, with one password row for that user if a hash
  was given, and the user returned is the one given with the identifier, the times and the
  default role of the row.
\<close>

theorem RegisterUser_all_or_nothing:
  assumes "user_tables_ok db view" and "atomic (Transaction db) view"
    and "run_state (Users_RegisterUser db u hash) d = (r, d')"
  shows "(\<exists>e. r = Inl e) \<and> view d' = view d \<or>
    (\<exists>m ps. view d' = (view d)\<lparr>user_table := user_table (view d) @ [m], password_table := password_table (view d) @ ps\<rparr> \<and>
       r = Inr (u\<lparr>user.ID := user_model.ID m, user.Role := (if user.Role u = [] then ''customer'' else user.Role u),
         user.CreatedAt := user_model.CreatedAt m, user.UpdatedAt := user_model.UpdatedAt m\<rparr>) \<and>
       map (\<lambda>p. (password_model.UserID p, password_model.PasswordHash p)) ps =
         (if hash = [] then [] else [(user_model.ID m, hash)]))"
  using RegisterUser_run [OF assms]
  by (elim disjE exE conjE)
    (simp, intro disjI2 exI conjI, assumption, simp add: toDomainUser_content, assumption)

lemma RegisterUser_all_or_nothing_witness:
  "\<exists>m u d'. run_state (Users_RegisterUser demo_user_db demo_new_user ''$pw'') demo_user_rows = (Inr u, d') \<and>
     user_table d' = [m] \<and> user.ID u = user_model.ID m \<and> user.Role u = ''customer'' \<and>
     map password_model.PasswordHash (password_table d') = [''$pw'']"
proof -
  obtain r d' where run: "run_state (Users_RegisterUser demo_user_db demo_new_user ''$pw'') demo_user_rows = (r, d')"
    by fastforce
  have r: "\<exists>u. r = Inr u"
    using run by (auto simp: Users_RegisterUser_def registerUser_tx_def demo_user_db_def demo_transaction_def
        demo_rows_of_def go_eval)
  with RegisterUser_all_or_nothing [OF demo_user_tables_ok demo_user_atomic run] obtain m ps where
    "d' = demo_user_rows\<lparr>user_table := [m], password_table := ps\<rparr>"
    "r = Inr (demo_new_user\<lparr>user.ID := user_model.ID m, user.Role := ''customer'',
       user.CreatedAt := user_model.CreatedAt m, user.UpdatedAt := user_model.UpdatedAt m\<rparr>)"
    "map (\<lambda>p. (password_model.UserID p, password_model.PasswordHash p)) ps = [(user_model.ID m, ''$pw'')]"
    by (auto simp: demo_user_rows_def demo_new_user_def)
  with run show ?thesis by auto
qed

end
