(* ===== verification/Verified_Mobiles.thy ===== *)
theory Verified_Mobiles
  imports Auth_Concurrency User_Dao
begin

text \<open>
  A user row says that its mobile was verified only if the provider has approved a code for that
  mobile, however the requests are interleaved.  The argument is by rely and guarantee: what the
  processes of a sign-up and of a profile completion have read is an assertion that all other
  requests leave true.  The composition spans the processes of the service, the pending signups
  in memory and the user repository on Postgres, as \<open>main.go\<close> puts them together without Redis.
\<close>

section \<open>What a repository does to its users\<close>

text \<open>The parts of a user that decide what its mobile is worth.\<close>

definition same_standing :: "user \<Rightarrow> user \<Rightarrow> bool" where
  "same_standing u v \<longleftrightarrow> user.Mobile v = user.Mobile u \<and> user.MobileVerified v = user.MobileVerified u \<and>
     user.IsProfileComplete v = user.IsProfileComplete u"

abbreviation no_new_users :: "('u \<Rightarrow> user set) \<Rightarrow> 'u \<Rightarrow> 'u \<Rightarrow> bool" where
  "no_new_users held \<equiv> \<lambda>d d'. held d' \<subseteq> held d"

abbreviation only_new_user :: "('u \<Rightarrow> user set) \<Rightarrow> user \<Rightarrow> 'u \<Rightarrow> 'u \<Rightarrow> bool" where
  "only_new_user held u \<equiv> \<lambda>d d'. held d' \<subseteq> held d \<union> {v. same_standing u v}"

text \<open>
  Reading adds no user, a lookup by identifier finds a user the repository holds, and a write
  adds or changes at most users into ones with the standing of the user it is given.
\<close>

definition holds_users :: "'u user_repository \<Rightarrow> ('u \<Rightarrow> user set) \<Rightarrow> bool" where
  "holds_users st held \<longleftrightarrow>
     (\<forall>t n. keeps (no_new_users held) (GetUserDetailsByUsername st t n)) \<and>
     (\<forall>t e. keeps (no_new_users held) (GetUserByEmail st t e)) \<and>
     (\<forall>t m. keeps (no_new_users held) (GetUserByMobile st t m)) \<and>
     (\<forall>t i. keeps (no_new_users held) (GetUserByID st t i)) \<and>
     (\<forall>t i. keeps (no_new_users held) (GetPasswordHashByUserID st t i)) \<and>
     (\<forall>t p k. keeps (no_new_users held) (GetSSOAccount st t p k)) \<and>
     (\<forall>t i a. keeps (no_new_users held) (LinkSSOAccount st t i a)) \<and>
     (\<forall>t i d u d'. run_state (GetUserByID st t i) d = (Inr u, d') \<longrightarrow> u \<in> held d) \<and>
     (\<forall>t u h. keeps (only_new_user held u) (RegisterUser st t u h)) \<and>
     (\<forall>t u. keeps (only_new_user held u) (UpdateUser st t u)) \<and>
     (\<forall>t u a. keeps (only_new_user held u) (CreateSSOUser st t u a))"

lemma holds_usersD:
  assumes "holds_users st held"
  shows "keeps (no_new_users held) (GetUserDetailsByUsername st t n)"
    and "keeps (no_new_users held) (GetUserByEmail st t n)"
    and "keeps (no_new_users held) (GetUserByMobile st t n)"
    and "keeps (no_new_users held) (GetUserByID st t i)"
    and "keeps (no_new_users held) (GetPasswordHashByUserID st t i)"
    and "keeps (no_new_users held) (GetSSOAccount st t n k)"
    and "keeps (no_new_users held) (LinkSSOAccount st t i a)"
    and "run_state (GetUserByID st t i) d = (Inr u, d') \<Longrightarrow> u \<in> held d"
    and "keeps (only_new_user held u) (RegisterUser st t u h)"
    and "keeps (only_new_user held u) (UpdateUser st t u)"
    and "keeps (only_new_user held u) (CreateSSOUser st t u a)"
  using assms by (simp_all add: holds_users_def) blast

subsection \<open>On Postgres\<close>

text \<open>What an assignment of \<open>Updates\<close> does to a row.\<close>

fun set_column :: "string \<times> sql_value \<Rightarrow> user_model \<Rightarrow> user_model" where
  "set_column (c, SQLText s) m =
     (if c = ''username'' then m\<lparr>user_model.Username := s\<rparr>
      else if c = ''email'' then m\<lparr>user_model.Email := s\<rparr>
      else if c = ''mobile'' then m\<lparr>user_model.Mobile := Some s\<rparr>
      else if c = ''role'' then m\<lparr>user_model.Role := s\<rparr> else m)"
| "set_column (c, SQLNull) m = (if c = ''mobile'' then m\<lparr>user_model.Mobile := None\<rparr> else m)"
| "set_column (c, SQLBool b) m =
     (if c = ''mobile_verified'' then m\<lparr>user_model.MobileVerified := b\<rparr>
      else if c = ''is_profile_complete'' then m\<lparr>user_model.IsProfileComplete := Some b\<rparr> else m)"
| "set_column (c, v) m = m"

text \<open>
  The documented behaviour of the queries: \<open>First\<close> returns a row of its table and changes none,
  a failed \<open>Create\<close> changes none, and \<open>Updates\<close> by primary key assigns the named columns of rows
  the table has (and the time of the update).
\<close>

definition user_queries_ok :: "'d user_db \<Rightarrow> ('d \<Rightarrow> user_rows) \<Rightarrow> bool" where
  "user_queries_ok db view \<longleftrightarrow>
     (\<forall>q d m d'. run_state (First (user_models db) q) d = (Inr m, d') \<longrightarrow> m \<in> set (user_table (view d))) \<and>
     (\<forall>q. keeps (\<lambda>d d'. view d' = view d) (First (password_models db) q)) \<and>
     (\<forall>q. keeps (\<lambda>d d'. view d' = view d) (First (sso_account_models db) q)) \<and>
     (\<forall>a d e d'. run_state (Create (sso_account_models db) a) d = (Inl e, d') \<longrightarrow> view d' = view d) \<and>
     (\<forall>i cols d r d'. run_state (Updates (user_models db) (by_key i) cols) d = (r, d') \<longrightarrow>
        (\<forall>m' \<in> set (user_table (view d')). m' \<in> set (user_table (view d)) \<or>
           (\<exists>m \<in> set (user_table (view d)). user_content m' = user_content (fold set_column cols m))))"

lemma user_queries_okD:
  assumes "user_queries_ok db view"
  shows "run_state (First (user_models db) q) d = (Inr m, d') \<Longrightarrow> m \<in> set (user_table (view d))"
    and "keeps (\<lambda>d d'. view d' = view d) (First (password_models db) q)"
    and "keeps (\<lambda>d d'. view d' = view d) (First (sso_account_models db) q)"
    and "run_state (Create (sso_account_models db) a) d = (Inl e, d') \<Longrightarrow> view d' = view d"
    and "run_state (Updates (user_models db) (by_key i) cols) d = (r, d') \<Longrightarrow>
      m' \<in> set (user_table (view d')) \<Longrightarrow> m' \<in> set (user_table (view d)) \<or>
        (\<exists>m \<in> set (user_table (view d)). user_content m' = user_content (fold set_column cols m))"
  using assms unfolding user_queries_ok_def by blast+

definition stored_users :: "('d \<Rightarrow> user_rows) \<Rightarrow> 'd \<Rightarrow> user set" where
  "stored_users view d = toDomainUser ` set (user_table (view d))"

lemma standing_of_content:
  "user_content m = user_content (user_stored (new_user_model u)) \<Longrightarrow> same_standing u (toDomainUser m)"
  by (simp add: toDomainUser_content same_standing_def)

lemma standing_of_columns:
  assumes "user_content m' = user_content (set_column (''is_profile_complete'', SQLBool (user.IsProfileComplete u))
    (set_column (''role'', SQLText r) (set_column (''mobile_verified'', SQLBool (user.MobileVerified u))
    (set_column (''mobile'', case mobile_column u of None \<Rightarrow> SQLNull | Some x \<Rightarrow> SQLText x) m))))"
  shows "same_standing u (toDomainUser m')"
proof -
  have "user_model.Mobile m' = mobile_column u \<and> user_model.MobileVerified m' = user.MobileVerified u \<and>
      user_model.IsProfileComplete m' = Some (user.IsProfileComplete u)"
    using arg_cong [OF assms, of user_model.Mobile] arg_cong [OF assms, of user_model.MobileVerified]
      arg_cong [OF assms, of user_model.IsProfileComplete]
    by (auto simp: user_content_def split: option.splits)
  then show ?thesis
    by (simp add: same_standing_def toDomainUser_def mobile_column_def split: if_splits)
qed

text \<open>Reading leaves the rows alone.\<close>

lemma no_users_read: "keeps (\<lambda>d d'. view d' = view d) m \<Longrightarrow> keeps (no_new_users (stored_users view)) m"
  by (simp add: keeps_def stored_users_def)

lemma find_user_keeps:
  assumes "user_tables_ok db view"
  shows "keeps (\<lambda>d d'. view d' = view d) (find_user db q)"
  unfolding find_user_def with_error_def
  by (intro keeps_call_ok keeps_bind keeps_sum keeps_return user_tables_okD(4) [OF assms] transp_frame reflp_frame)

lemma GetSSOAccount_keeps:
  assumes "user_tables_ok db view" and "user_queries_ok db view"
  shows "keeps (\<lambda>d d'. view d' = view d) (Users_GetSSOAccount db p k)"
proof (rule keepsI)
  fix d r d'
  assume run: "run_state (Users_GetSSOAccount db p k) d = (r, d')"
  obtain a d1 where a: "run_state (First (sso_account_models db)
      (Where ''provider = ? AND provider_id = ?'' [SQLText p, SQLText k] all_rows)) d = (a, d1)" by fastforce
  note v1 = keepsD [OF user_queries_okD(3) [OF assms(2)] a]
  show "view d' = view d"
  proof (cases a)
    case (Inl e)
    with run a v1 show ?thesis by (cases e) (auto simp: Users_GetSSOAccount_def)
  next
    case (Inr sso)
    obtain b d2 where b: "run_state (First (user_models db) (by_key (sso_account_model.UserID sso))) d1 = (b, d2)"
      by fastforce
    have "d' = d2" using run a b Inr
      by (cases b; cases "projl b") (auto simp: Users_GetSSOAccount_def)
    with keepsD [OF user_tables_okD(4) [OF assms(1)] b] v1 show ?thesis by simp
  qed
qed

lemma CreateSSOUser_adds:
  assumes "user_tables_ok db view" and "atomic (Transaction db) view"
  shows "keeps (only_new_user (stored_users view) u) (Users_CreateSSOUser db u a)"
proof (rule keepsI)
  fix d r d'
  assume run: "run_state (Users_CreateSSOUser db u a) d = (r, d')"
  let ?tx = "createSSOUser_tx db u a"
  consider (failed) e d1 where "run_state (Transaction db ?tx) d = (Inl e, d1)" "view d1 = view d"
    | (stored) x d1 where "run_state ?tx d = (Inr x, d1)" "run_state (Transaction db ?tx) d = (Inr x, d1)"
    using assms(2) unfolding atomic_def by blast
  then show "only_new_user (stored_users view) u d d'"
  proof cases
    case failed
    with run show ?thesis by (auto simp: Users_CreateSSOUser_def go_eval stored_users_def)
  next
    case stored
    with run have d': "d' = d1" by (simp add: Users_CreateSSOUser_def go_eval)
    from stored(1) obtain m d2 b where m: "run_state (Create (user_models db) (new_user_model u)) d = (Inr m, d2)"
      and b: "run_state (Create (sso_account_models db) (new_sso_model (user_model.ID m) a)) d2 = (Inr b, d1)"
      by (auto simp: createSSOUser_tx_def go_result)
    from user_tables_okD(1) [OF assms(1) m] user_tables_okD(3) [OF assms(1) b] d'
    show ?thesis by (auto simp: stored_users_def standing_of_content)
  qed
qed

text \<open>
  The repository on Postgres holds the users of its table.
\<close>

lemma postgres_holds_users:
  assumes tables: "user_tables_ok db view" and queries: "user_queries_ok db view"
    and tx: "atomic (Transaction db) view"
  shows "holds_users (NewUserRepository db) (stored_users view)"
proof -
  have find: "keeps (no_new_users (stored_users view)) (find_user db q)" for q
    by (rule no_users_read [OF find_user_keeps [OF tables]])
  have "keeps (\<lambda>d d'. view d' = view d) (Users_GetPasswordHashByUserID db i)" for i
    unfolding Users_GetPasswordHashByUserID_def with_error_def
    by (intro keeps_call_ok keeps_bind keeps_sum keeps_return user_queries_okD(2) [OF queries] transp_frame reflp_frame)
  then have hash: "keeps (no_new_users (stored_users view)) (Users_GetPasswordHashByUserID db i)" for i
    by (rule no_users_read)
  have link: "keeps (no_new_users (stored_users view)) (Users_LinkSSOAccount db i a)" for i a
  proof (rule keepsI)
    fix d r d'
    assume run: "run_state (Users_LinkSSOAccount db i a) d = (r, d')"
    obtain q d1 where q: "run_state (Create (sso_account_models db) (new_sso_model i a)) d = (q, d1)" by fastforce
    with run user_tables_okD(3) [OF tables] user_queries_okD(4) [OF queries] show "no_new_users (stored_users view) d d'"
      by (cases q) (fastforce simp: Users_LinkSSOAccount_def go_eval stored_users_def)+
  qed
  have found: "u \<in> stored_users view d" if "run_state (find_user db q) d = (Inr u, d')" for q d u d'
    using that user_queries_okD(1) [OF queries] by (auto simp: find_user_def go_result stored_users_def)
  have register: "keeps (only_new_user (stored_users view) u) (Users_RegisterUser db u h)" for u h
    using RegisterUser_run [OF tables tx, of u h]
    by (intro keepsI) (fastforce simp: stored_users_def standing_of_content)
  have update: "keeps (only_new_user (stored_users view) u) (Users_UpdateUser db u)" for u
  proof (rule keepsI)
    fix d r d'
    assume run: "run_state (Users_UpdateUser db u) d = (r, d')"
    obtain q d1 where q: "run_state (Updates (user_models db) (by_key (user.ID u))
       [(''username'', SQLText (user.Username u)), (''email'', SQLText (user.Email u)),
        (''mobile'', case mobile_column u of None \<Rightarrow> SQLNull | Some m \<Rightarrow> SQLText m),
        (''mobile_verified'', SQLBool (user.MobileVerified u)), (''role'', SQLText (user.Role u)),
        (''is_profile_complete'', SQLBool (user.IsProfileComplete u))]) d = (q, d1)" by fastforce
    have "d' = d1" using run q by (cases q) (simp_all add: Users_UpdateUser_def go_eval)
    with user_queries_okD(5) [OF queries q] show "only_new_user (stored_users view) u d d'"
      by (auto simp: stored_users_def simp del: set_column.simps dest!: standing_of_columns)
  qed
  show ?thesis
    unfolding holds_users_def
    using find hash link found register update no_users_read [OF GetSSOAccount_keeps [OF tables queries]]
      CreateSSOUser_adds [OF tables tx]
    by (simp add: NewUserRepository_def Users_GetUserDetailsByUsername_def Users_GetUserByEmail_def
        Users_GetUserByMobile_def Users_GetUserByID_def)
qed

section \<open>What the provider has approved\<close>

text \<open>
  \<open>approvals\<close> is the history of the outside: the mobiles the provider has approved a code for.
  An approving check adds its mobile, and nothing is ever taken back.
\<close>

definition notes_approvals :: "('u, 'r, 'p, 'o, 'x) service \<Rightarrow> ('x \<Rightarrow> string set) \<Rightarrow> bool" where
  "notes_approvals s approvals \<longleftrightarrow>
     (\<forall>m c x x'. run_state (CheckVerification (otpProvider s) m c) x = (Inr True, x') \<longrightarrow> m \<in> approvals x') \<and>
     (\<forall>m c. keeps (\<lambda>x x'. approvals x \<subseteq> approvals x') (CheckVerification (otpProvider s) m c)) \<and>
     (\<forall>m. keeps (\<lambda>x x'. approvals x \<subseteq> approvals x') (SendVerification (otpProvider s) m)) \<and>
     (\<forall>pw. keeps (\<lambda>x x'. approvals x \<subseteq> approvals x') (bcrypt_Generate (libs s) pw)) \<and>
     (\<forall>cfg c. keeps (\<lambda>x x'. approvals x \<subseteq> approvals x') (oauth2_Exchange (libs s) cfg c)) \<and>
     (\<forall>cfg c. keeps (\<lambda>x x'. approvals x \<subseteq> approvals x') (google_NewService (libs s) cfg c)) \<and>
     (\<forall>c. keeps (\<lambda>x x'. approvals x \<subseteq> approvals x') (google_Userinfo (libs s) c)) \<and>
     (\<forall>m now u. keeps (\<lambda>x x'. approvals x \<subseteq> approvals x') (GenerateTokenPair (crypto (libs s)) m now u))"

lemma notes_approvalsD:
  assumes "notes_approvals s approvals"
  shows "run_state (CheckVerification (otpProvider s) m c) x = (Inr True, x') \<Longrightarrow> m \<in> approvals x'"
    and "keeps (\<lambda>x x'. approvals x \<subseteq> approvals x') (CheckVerification (otpProvider s) m c)"
    and "keeps (\<lambda>x x'. approvals x \<subseteq> approvals x') (SendVerification (otpProvider s) m)"
    and "keeps (\<lambda>x x'. approvals x \<subseteq> approvals x') (bcrypt_Generate (libs s) pw)"
    and "keeps (\<lambda>x x'. approvals x \<subseteq> approvals x') (oauth2_Exchange (libs s) cfg c)"
    and "keeps (\<lambda>x x'. approvals x \<subseteq> approvals x') (google_NewService (libs s) cfg c)"
    and "keeps (\<lambda>x x'. approvals x \<subseteq> approvals x') (google_Userinfo (libs s) c)"
    and "keeps (\<lambda>x x'. approvals x \<subseteq> approvals x') (GenerateTokenPair (crypto (libs s)) tm now u)"
  using assms by (simp_all add: notes_approvals_def)

section \<open>The relation all requests respect\<close>

text \<open>The pending signups are sound and no user without a complete profile has a verified mobile.\<close>

definition accounts_sound :: "('u \<Rightarrow> user set) \<Rightarrow> ('u, 'r, pending_store, 'o, 'x) world \<Rightarrow> bool" where
  "accounts_sound held w \<longleftrightarrow> pending_sound (pending w) \<and>
     (\<forall>u \<in> held (users w). user.IsProfileComplete u \<or> \<not> user.MobileVerified u)"

definition verified_mobiles :: "user set \<Rightarrow> string set" where
  "verified_mobiles us = user.Mobile ` {u \<in> us. user.MobileVerified u}"

definition approved_only ::
  "('u \<Rightarrow> user set) \<Rightarrow> ('x \<Rightarrow> string set) \<Rightarrow> ('u, 'r, pending_store, 'o, 'x) world \<Rightarrow>
     ('u, 'r, pending_store, 'o, 'x) world \<Rightarrow> bool" where
  "approved_only held approvals w w' \<longleftrightarrow>
     approvals (outside w) \<subseteq> approvals (outside w') \<and>
     (accounts_sound held w \<longrightarrow> accounts_sound held w' \<and>
       verified_mobiles (held (users w')) \<subseteq> verified_mobiles (held (users w)) \<union> approvals (outside w'))"

lemma reflp_approved_only: "reflp (approved_only held approvals)"
  by (auto simp: reflp_def approved_only_def)

lemma transp_approved_only: "transp (approved_only held approvals)"
  unfolding transp_def approved_only_def by blast

lemma verified_mobiles_mono: "us \<subseteq> vs \<Longrightarrow> verified_mobiles us \<subseteq> verified_mobiles vs"
  by (auto simp: verified_mobiles_def)

lemma approved_only_same:
  assumes "held (users w') \<subseteq> held (users w)" and "outside w' = outside w"
    and "pending_sound (pending w) \<longrightarrow> pending_sound (pending w')"
  shows "approved_only held approvals w w'"
  using assms verified_mobiles_mono [OF assms(1)] by (auto simp: approved_only_def accounts_sound_def)

lemma approved_only_users:
  assumes "keeps (no_new_users held) (m (clock w (ticks w)))" and "run_state (on_users m) w = (r, w')"
  shows "approved_only held approvals w w'"
proof -
  obtain a d where a: "run_state (m (clock w (ticks w))) (users w) = (a, d)" by fastforce
  with keepsD [OF assms(1) a] assms(2) show ?thesis
    by (intro approved_only_same) (auto simp: go_eval)
qed

lemma approved_only_write:
  assumes "keeps (only_new_user held u) (m (clock w (ticks w)))" and "run_state (on_users m) w = (r, w')"
    and "user.MobileVerified u \<longrightarrow> user.IsProfileComplete u \<and> user.Mobile u \<in> approvals (outside w)"
  shows "approved_only held approvals w w'"
proof -
  obtain a d where a: "run_state (m (clock w (ticks w))) (users w) = (a, d)" by fastforce
  with assms(2) have w': "users w' = d" "outside w' = outside w" "pending w' = pending w"
    by (auto simp: go_eval)
  have "held d \<subseteq> held (users w) \<union> {v. same_standing u v}" by (rule keepsD [OF assms(1) a])
  then show ?thesis
    using assms(3) unfolding approved_only_def accounts_sound_def verified_mobiles_def w' same_standing_def
    by (auto; blast)
qed

lemma approved_only_outside:
  assumes "keeps (\<lambda>x x'. approvals x \<subseteq> approvals x') m"
  shows "keeps (approved_only held approvals) (on_outside m)"
proof (rule keepsI, goal_cases)
  case (1 w r w')
  obtain a x where a: "run_state m (outside w) = (a, x)" by fastforce
  with 1 keepsD [OF assms a] show ?case
    by (auto simp: go_eval approved_only_def accounts_sound_def)
qed

abbreviation sound_signups :: "pending_store \<Rightarrow> pending_store \<Rightarrow> bool" where
  "sound_signups \<equiv> \<lambda>p p'. pending_sound p \<longrightarrow> pending_sound p'"

lemma memory_sound_signups:
  "keeps sound_signups (GetByMobile memory_pending_store t k)"
  "keeps sound_signups (GetMobileByUsername memory_pending_store t k)"
  "keeps sound_signups (GetMobileByEmail memory_pending_store t k)"
  "keeps sound_signups (GetMobileByMobile memory_pending_store t k)"
  "keeps sound_signups (DeleteByMobile memory_pending_store t k)"
  "keeps sound_signups (pending_signup_store.Save memory_pending_store t p)"
  by (rule keepsI; auto simp: memory_pending_store_def PendingSignupStore_DeleteByMobile_def
      dest: pending_sound_get pending_sound_index pending_sound_save pending_sound_delete)+

lemma approved_only_pending:
  assumes "\<And>t. keeps sound_signups (m t)"
  shows "keeps (approved_only held approvals) (on_pending m)"
proof (rule keepsI, goal_cases)
  case (1 w r w')
  obtain a p where a: "run_state (m (clock w (ticks w))) (pending w) = (a, p)" by fastforce
  from keepsD [OF assms a] a 1 show ?case
    by (intro approved_only_same) (auto simp: go_eval)
qed

lemma approved_only_read:
  "(\<And>t. keeps (no_new_users held) (m t)) \<Longrightarrow> keeps (approved_only held approvals) (on_users m)"
  by (rule keepsI [OF approved_only_users])

lemma approved_only_unverified:
  "(\<And>t. keeps (only_new_user held u) (m t)) \<Longrightarrow> \<not> user.MobileVerified u \<Longrightarrow>
     keeps (approved_only held approvals) (on_users m)"
  by (rule keepsI [OF approved_only_write]) auto

lemma approved_only_frame:
  "keeps (approved_only held approvals) Now"
  "keeps (approved_only held approvals) (on_refresh m)"
  "keeps (approved_only held approvals) (on_otps k)"
  by (auto simp: keeps_def go_eval intro!: approved_only_same split: prod.split)

abbreviation approved_setting ::
  "('u \<Rightarrow> user set) \<Rightarrow> ('x \<Rightarrow> string set) \<Rightarrow> ('u, 'r, pending_store, 'o, 'x) service \<Rightarrow> bool" where
  "approved_setting held approvals \<equiv> \<lambda>s. holds_users (repo s) held \<and> notes_approvals s approvals \<and>
     pendingSignupStore s = memory_pending_store"

interpretation verified_processes: process_invariant
  "approved_only held approvals" "approved_setting held approvals" for held approvals
proof unfold_locales
  show "keeps (approved_only held approvals) (on_users (\<lambda>t. CreateSSOUser (repo s) t (google_user n e) a))"
    if "approved_setting held approvals s" for s n e a
    by (rule approved_only_unverified [OF holds_usersD(11)]) (use that in \<open>auto simp: google_user_def\<close>)
qed (auto intro!: reflp_approved_only approved_only_frame obeys_Issue_procI
    approved_only_outside approved_only_pending approved_only_read
    intro: holds_usersD notes_approvalsD memory_sound_signups)

section \<open>The two requests that set a mobile\<close>

text \<open>
  A sign-up knows, once its code is approved, that its mobile is among the approvals; the others
  never take that away.
\<close>

lemma stable_approved: "stable (approved_only held approvals) (\<lambda>w. m \<in> approvals (outside w))"
  by (auto simp: stable_def approved_only_def)

lemma stable_sound: "stable (approved_only held approvals) (accounts_sound held)"
  by (simp add: stable_def approved_only_def)

lemma stable_always: "stable R (\<lambda>_. True)"
  by (simp add: stable_def)

lemma registration_guaranteed:
  fixes s :: "('u, 'r, pending_store, 'o, 'x) service"
  assumes s: "approved_setting held approvals s" and p: "pending_signup.Mobile p = mobile"
  shows "guarantees (approved_only held approvals) (\<lambda>w. mobile \<in> approvals (outside w))
    (act_ok (on_users (\<lambda>t. RegisterUser (repo s) t (pending_user p) (pending_signup.PasswordHash p))) (\<lambda>u.
     act (on_pending (\<lambda>t. DeleteByMobile (pendingSignupStore s) t mobile)) (\<lambda>_. signed_in s u)))"
proof (rule guarantees_act_ok, rule conjI)
  fix w w' :: "('u, 'r, pending_store, 'o, 'x) world" and x
  assume k: "mobile \<in> approvals (outside w)"
    and run: "run_state (on_users (\<lambda>t. RegisterUser (repo s) t (pending_user p) (pending_signup.PasswordHash p))) w = (x, w')"
  show "approved_only held approvals w w'"
    using s k p by (intro approved_only_write [OF holds_usersD(9) run]) (auto simp: pending_user_def)
  have "obeys (approved_only held approvals)
      (act (on_pending (\<lambda>t. DeleteByMobile (pendingSignupStore s) t mobile)) (\<lambda>_. signed_in s u))" for u
    using s by (intro obeys_act verified_processes.pending_delete verified_processes.obeys_signed_in)
  then show "\<forall>u. x = Inr u \<longrightarrow> guaranteed_at (approved_only held approvals) w'
      (act (on_pending (\<lambda>t. DeleteByMobile (pendingSignupStore s) t mobile)) (\<lambda>_. signed_in s u))"
    by (blast intro: guaranteed_obeys)
qed

lemma check_guaranteed:
  fixes s :: "('u, 'r, pending_store, 'o, 'x) service"
  assumes s: "approved_setting held approvals s" and p: "pending_signup.Mobile p = mobile"
  shows "guarantees (approved_only held approvals) (\<lambda>_. True)
    (act_ok (on_outside (CheckVerification (otpProvider s) mobile code)) (\<lambda>approved.
     if \<not> approved then Ret (Inl ErrInvalidOTPCode)
     else
       act_ok (on_users (\<lambda>t. RegisterUser (repo s) t (pending_user p) (pending_signup.PasswordHash p))) (\<lambda>u.
       act (on_pending (\<lambda>t. DeleteByMobile (pendingSignupStore s) t mobile)) (\<lambda>_. signed_in s u))))"
proof (rule guarantees_act_ok, rule conjI)
  fix w w' :: "('u, 'r, pending_store, 'o, 'x) world" and x
  assume run: "run_state (on_outside (CheckVerification (otpProvider s) mobile code)) w = (x, w')"
  from s show "approved_only held approvals w w'"
    by (intro keepsD [OF verified_processes.check_call run])
  have "mobile \<in> approvals (outside w')" if "x = Inr True"
    using run that s by (auto simp: go_eval dest: notes_approvalsD(1) split: prod.splits)
  then show "\<forall>y. x = Inr y \<longrightarrow> guaranteed_at (approved_only held approvals) w'
      (if \<not> y then Ret (Inl ErrInvalidOTPCode)
       else
         act_ok (on_users (\<lambda>t. RegisterUser (repo s) t (pending_user p) (pending_signup.PasswordHash p))) (\<lambda>u.
         act (on_pending (\<lambda>t. DeleteByMobile (pendingSignupStore s) t mobile)) (\<lambda>_. signed_in s u)))"
    using guaranteed_atI [OF _ stable_approved registration_guaranteed [OF s p]]
    by (auto intro: guaranteed_Ret)
qed

lemma VerifySignupOTP_guaranteed:
  fixes s :: "('u, 'r, pending_store, 'o, 'x) service"
  assumes s: "approved_setting held approvals s"
  shows "guarantees (approved_only held approvals) (accounts_sound held) (VerifySignupOTP_proc s req)"
proof (cases "NormalizeIndianMobile (otp_verify_request.Mobile req)")
  case (Inl e)
  then show ?thesis by (simp add: VerifySignupOTP_proc_def guarantees.Ret)
next
  case (Inr mobile)
  let ?R = "approved_only held approvals :: ('u, 'r, pending_store, 'o, 'x) world \<Rightarrow> _"
  show ?thesis
    unfolding VerifySignupOTP_proc_def Inr Let_def
  proof (simp, intro impI conjI guarantees.Ret guarantees_act)
    fix w w' :: "('u, 'r, pending_store, 'o, 'x) world" and r
    assume sound: "accounts_sound held w"
      and run: "run_state (on_pending (\<lambda>t. GetByMobile (pendingSignupStore s) t mobile)) w = (r, w')"
    from s show "?R w w'" by (intro keepsD [OF verified_processes.pending_get run])
    show "guaranteed_at ?R w' (case r of
        Inl e \<Rightarrow> Ret (Inl (if isCacheMiss e then ErrPendingSignupExpired else e))
      | Inr p \<Rightarrow> act Now (\<lambda>now.
          if time_After now (pending_signup.ExpiresAt p)
          then act (on_pending (\<lambda>t. DeleteByMobile (pendingSignupStore s) t mobile))
                 (\<lambda>_. Ret (Inl ErrPendingSignupExpired))
          else
            act_ok (on_outside (CheckVerification (otpProvider s) mobile (TrimSpace (otp_verify_request.Code req)))) (\<lambda>approved.
            if \<not> approved then Ret (Inl ErrInvalidOTPCode)
            else
              act_ok (on_users (\<lambda>t. RegisterUser (repo s) t (pending_user p) (pending_signup.PasswordHash p))) (\<lambda>u.
              act (on_pending (\<lambda>t. DeleteByMobile (pendingSignupStore s) t mobile)) (\<lambda>_.
              signed_in s u)))))"
    proof (cases r)
      case (Inr p)
      have "run_state (getByMobileLocked (clock w (ticks w)) mobile) (pending w) = (Inr p, pending w')"
        using run Inr s by (auto simp: go_eval memory_pending_store_def split: prod.splits)
      then have p: "pending_signup.Mobile p = mobile"
        using sound mem_pending_get_Inr by (fastforce simp: accounts_sound_def pending_sound_def)
      have expired: "obeys ?R (act (on_pending (\<lambda>t. DeleteByMobile (pendingSignupStore s) t mobile))
          (\<lambda>_. Ret (Inl ErrPendingSignupExpired)))"
        using s by (intro obeys_act obeys.Ret verified_processes.pending_delete)
      show ?thesis
        unfolding Inr sum.case
        by (rule guaranteed_atI [OF TrueI stable_always guarantees_act])
          (auto intro: guaranteed_obeys [OF expired] guaranteed_atI [OF TrueI stable_always check_guaranteed [OF s p]]
            keepsD [OF approved_only_frame(1)])
    qed (simp add: guaranteed_Ret)
  qed
qed

text \<open>
  A profile completion knows from its first lookup that the mobile of the user is not verified,
  and it writes that back, whatever has happened to the row since.
\<close>

lemma CompleteProfile_guaranteed:
  fixes s :: "('u, 'r, pending_store, 'o, 'x) service"
  assumes s: "approved_setting held approvals s"
  shows "guarantees (approved_only held approvals) (accounts_sound held) (CompleteProfile_proc s i n m)"
  unfolding CompleteProfile_proc_def Let_def
proof (rule guarantees_act_ok, intro conjI allI impI)
  fix w w' :: "('u, 'r, pending_store, 'o, 'x) world" and r u
  assume sound: "accounts_sound held w" and run: "run_state (on_users (\<lambda>t. GetUserByID (repo s) t i)) w = (r, w')"
  from s show "approved_only held approvals w w'" by (intro keepsD [OF verified_processes.user_by_id run])
  assume "r = Inr u"
  then have "u \<in> held (users w)"
    using run s by (auto simp: go_eval dest: holds_usersD(8) split: prod.splits)
  then have "\<not> user.MobileVerified u" if "\<not> user.IsProfileComplete u"
    using sound that by (auto simp: accounts_sound_def)
  then have "keeps (approved_only held approvals) (on_users (\<lambda>t. UpdateUser (repo s) t
      (u\<lparr>user.Username := n', user.Mobile := m', user.IsProfileComplete := True\<rparr>)))"
    if "\<not> user.IsProfileComplete u" for n' m'
    using s that by (intro approved_only_unverified [OF holds_usersD(10)]) auto
  then show "guaranteed_at (approved_only held approvals) w'
    (if user.IsProfileComplete u then Ret (Inl ErrProfileAlreadyComplete)
     else if TrimSpace n = [] then Ret (Inl ErrInvalidUsername)
     else case NormalizeIndianMobile m of
       Inl e \<Rightarrow> Ret (Inl e)
     | Inr normalizedMobile \<Rightarrow>
         act (on_users (\<lambda>t. GetUserDetailsByUsername (repo s) t (TrimSpace n))) (\<lambda>r.
         if taken_by_other i r then Ret (Inl ErrUsernameAlreadyExists)
         else
           act (on_users (\<lambda>t. GetUserByMobile (repo s) t normalizedMobile)) (\<lambda>q.
           if taken_by_other i q then Ret (Inl ErrMobileAlreadyExists)
           else
             act_ok (on_users (\<lambda>t. UpdateUser (repo s) t (u\<lparr>user.Username := TrimSpace n,
               user.Mobile := normalizedMobile, user.IsProfileComplete := True\<rparr>)))
               (\<lambda>_. signed_in s (u\<lparr>user.Username := TrimSpace n, user.Mobile := normalizedMobile,
                 user.IsProfileComplete := True\<rparr>)))))"
    using s
    by (auto intro!: guaranteed_obeys verified_processes.processes verified_processes.actions
        verified_processes.obeys_signed_in split: sum.split)
qed

lemma request_guaranteed:
  assumes "approved_setting held approvals s" and "accounts_sound held w"
  shows "guaranteed_at (approved_only held approvals) w (request_proc s req)"
proof (cases "sets_mobile req")
  case True
  then show ?thesis
    using guaranteed_map_proc [OF guaranteed_atI [OF assms(2) stable_sound VerifySignupOTP_guaranteed [OF assms(1)]]]
      guaranteed_map_proc [OF guaranteed_atI [OF assms(2) stable_sound CompleteProfile_guaranteed [OF assms(1)]]]
    by (cases req) (simp_all add: sets_mobile_def)
next
  case False
  then show ?thesis using assms(1) by (intro guaranteed_obeys verified_processes.obeys_other_request)
qed

lemma pool_approved_only:
  assumes "approved_setting held approvals s" and "accounts_sound held w"
    and "pool_run (map (request_proc s) reqs, w) n (ps, w')"
  shows "verified_mobiles (held (users w')) \<subseteq> verified_mobiles (held (users w)) \<union> approvals (outside w')"
proof -
  have "\<forall>p \<in> set (map (request_proc s) reqs). guaranteed_at (approved_only held approvals) w p"
    using request_guaranteed [OF assms(1,2)] by auto
  from pool_run_guaranteed [OF assms(3) this reflp_approved_only transp_approved_only] assms(2)
  show ?thesis by (simp add: approved_only_def)
qed

section \<open>A provider that keeps a list\<close>

lemma GenerateTokenPair_keeps:
  assumes R: "reflp R" "transp R" and "\<And>n. keeps R (rand_Read lib n)"
    and "\<And>key e doc. jose_NewEncrypter lib key = Inr e \<Longrightarrow> keeps R (e doc)"
  shows "keeps R (GenerateTokenPair lib m now u)"
  unfolding GenerateTokenPair_def encrypt_def randomToken_def
  using assms by (auto intro!: keeps_call_ok keeps_return split: sum.split)

definition noting_provider :: "string list otp_provider" where
  "noting_provider =
     \<lparr>SendVerification = (\<lambda>_. ok ()),
      CheckVerification = (\<lambda>m c. State (\<lambda>x. if c = ''1234'' then (Inr True, m # x) else (Inr False, x)))\<rparr>"

definition noting_libs :: "string list auth_libs" where
  "noting_libs =
     \<lparr>crypto = \<lparr>rand_Read = (\<lambda>n. ok (replicate n CHR ''r'')), jose_NewEncrypter = (\<lambda>_. Inl ErrUnauthorized),
        jose_ParseEncrypted = (\<lambda>_. Inl ErrUnauthorized), json_clock = demo_clock\<rparr>,
      bcrypt_Generate = (\<lambda>p. ok (CHR ''$'' # p)), bcrypt_Compare = (\<lambda>h p. h = CHR ''$'' # p),
      oauth2_AuthCodeURL = (\<lambda>cfg st. ClientID cfg), oauth2_Exchange = (\<lambda>_ code. ok code),
      google_NewService = (\<lambda>_ tok. ok tok), google_Userinfo = (\<lambda>tok. ok \<lparr>Id = tok, Email = tok @ ''@x''\<rparr>)\<rparr>"

definition noting_service ::
  "(user_rows, refresh_store, pending_store, otp_store, string list) service" where
  "noting_service =
     \<lparr>repo = NewUserRepository demo_user_db, tokenManager = None,
      refreshStore = None, otpProvider = noting_provider,
      pendingSignupStore = memory_pending_store, loginOTPStore = memory_otp_store,
      otpConfig = demo_otp_config,
      googleConfig = \<lparr>ClientID = ''id'', ClientSecret = ''secret'', RedirectURI = ''uri''\<rparr>,
      libs = noting_libs\<rparr>"

definition noting_world ::
  "(user_rows, refresh_store, pending_store, otp_store, string list) world" where
  "noting_world =
     \<lparr>users = demo_user_rows, refresh_tokens = \<lparr>sessions = Map.empty\<rparr>,
      pending = pending pending_world, login_otps = NewOTPStateStore, outside = [],
      clock = (\<lambda>n. 5 + int n), ticks = 0\<rparr>"

lemma noting_approvals: "notes_approvals noting_service set"
proof -
  have "keeps (\<lambda>x x'. set x \<subseteq> set x') (GenerateTokenPair (crypto noting_libs) m now u)" for m now u
    by (rule GenerateTokenPair_keeps) (auto simp: noting_libs_def keeps_def reflp_def intro!: transpI)
  then show ?thesis
    by (auto simp: notes_approvals_def noting_service_def noting_provider_def noting_libs_def keeps_def)
qed

lemma demo_user_queries_ok: "user_queries_ok demo_user_db id"
  by (auto simp: user_queries_ok_def demo_user_db_def demo_rows_of_def keeps_def)

lemma noting_sound: "pending_sound (pending noting_world)"
  by (auto simp: noting_world_def pending_world_def pending_sound_def index_sound_def index_exact_def demo_pending_def)

lemma noting_verified:
  "\<exists>r w'. run_proc (VerifySignupOTP_proc noting_service demo_verify) noting_world = (r, w') \<and>
     (\<exists>u \<in> stored_users id (users w'). user.MobileVerified u)"
proof -
  have code: "TrimSpace (otp_verify_request.Code demo_verify) = ''1234''"
    by (simp add: demo_verify_def) (rule TrimSpace_plain, simp add: is_space_def space_ranges_def)
  have m: "NormalizeIndianMobile (otp_verify_request.Mobile demo_verify) = Inr ''+919876543210''"
    by (simp add: demo_verify_def demo_mobile)
  have g: "run_state (GetByMobile memory_pending_store 5 ''+919876543210'') (pending noting_world) =
      (Inr demo_pending, pending noting_world)"
    by (simp add: memory_pending_store_def getByMobileLocked_def noting_world_def pending_world_def demo_pending_def
        time_After_def)
  have w: "clock noting_world = (\<lambda>n. 5 + int n)" "ticks noting_world = 0" "outside noting_world = []"
    "users noting_world = demo_user_rows"
    by (simp_all add: noting_world_def)
  have s: "pendingSignupStore noting_service = memory_pending_store" "otpProvider noting_service = noting_provider"
    "tokenManager noting_service = None" "refreshStore noting_service = None"
    "repo noting_service = NewUserRepository demo_user_db"
    by (simp_all add: noting_service_def)
  obtain u d where reg: "run_state (RegisterUser (repo noting_service) 7 (pending_user demo_pending) (pending_signup.PasswordHash demo_pending))
      (users noting_world) = (Inr u, d)" "\<exists>u \<in> stored_users id d. user.MobileVerified u"
    by (simp add: s w NewUserRepository_def go_eval
        Users_RegisterUser_def registerUser_tx_def demo_user_db_def demo_transaction_def demo_rows_of_def demo_pending_def
        stored_users_def toDomainUser_def new_user_model_def user_stored_def pending_user_def)
  obtain q p1 where d: "run_state (DeleteByMobile memory_pending_store 8 ''+919876543210'') (pending noting_world) = (q, p1)"
    by fastforce
  have "\<exists>r w'. run_proc (VerifySignupOTP_proc noting_service demo_verify) noting_world = (r, w') \<and> users w' = d"
    using reg(1) g d w
    by (simp add: VerifySignupOTP_proc_def code m s go_eval IssueTokenPair_def noting_provider_def time_After_def
        demo_pending_def)
  with reg(2) show ?thesis by blast
qed

section \<open>Properties\<close>

text \<open>
  C1. No mobile is verified without an approved code.  However the requests of any number of
  clients are interleaved, action by action, every user of the database whose mobile is marked
  as verified has a mobile that the provider has approved a code for, or that was already
  verified at the start.  The users live on Postgres, over tables and
  transactions that behave as documented, and the start is a sound one: no user with a verified
  mobile has an incomplete profile, and the pending signups in memory are sound.
\<close>

theorem verified_mobiles_are_approved:
  assumes "user_tables_ok db view" "user_queries_ok db view" "atomic (Transaction db) view"
    and "repo s = NewUserRepository db"
    and "pendingSignupStore s = memory_pending_store" and "notes_approvals s approvals"
    and "pending_sound (pending w)"
    and "\<forall>v \<in> stored_users view (users w). user.MobileVerified v \<longrightarrow> user.IsProfileComplete v"
    and "pool_run (map (request_proc s) reqs, w) n (ps, w')"
    and "u \<in> stored_users view (users w')" "user.MobileVerified u"
  shows "user.Mobile u \<in> approvals (outside w') \<or>
    (\<exists>v \<in> stored_users view (users w). user.MobileVerified v \<and> user.Mobile v = user.Mobile u)"
proof -
  have "approved_setting (stored_users view) approvals s"
    using postgres_holds_users [OF assms(1-3)] assms(4-6) by simp
  moreover have "accounts_sound (stored_users view) w"
    using assms(7,8) by (auto simp: accounts_sound_def)
  ultimately have "verified_mobiles (stored_users view (users w')) \<subseteq>
      verified_mobiles (stored_users view (users w)) \<union> approvals (outside w')"
    using assms(9) by (rule pool_approved_only)
  moreover have "user.Mobile u \<in> verified_mobiles (stored_users view (users w'))"
    using assms(10,11) by (auto simp: verified_mobiles_def)
  ultimately have "user.Mobile u \<in> verified_mobiles (stored_users view (users w)) \<union> approvals (outside w')"
    by (rule subsetD)
  then show ?thesis by (auto simp: verified_mobiles_def)
qed

lemma verified_mobiles_are_approved_witness:
  "\<exists>n ps w' u. pool_run (map (request_proc noting_service) [VerifySignupReq demo_verify, GoogleReq ''code''], noting_world)
     n (ps, w') \<and> u \<in> stored_users id (users w') \<and> user.MobileVerified u \<and> user.Mobile u \<in> set (outside w')"
proof -
  let ?reqs = "[VerifySignupReq demo_verify, GoogleReq ''code'']"
  let ?ps = "map (request_proc noting_service) ?reqs"
  obtain r w' u where r: "run_proc (VerifySignupOTP_proc noting_service demo_verify) noting_world = (r, w')"
    and u: "u \<in> stored_users id (users w')" "user.MobileVerified u" using noting_verified by blast
  have "run_proc (?ps ! 0) noting_world = (map_sum id (case_prod SignedIn) r, w')"
    by (simp add: r run_map_proc)
  from run_alone [OF _ refl this] obtain n
    where n: "pool_run (?ps, noting_world) n (?ps[0 := Ret (map_sum id (case_prod SignedIn) r)], w')" by auto
  have s: "repo noting_service = NewUserRepository demo_user_db"
    "pendingSignupStore noting_service = memory_pending_store"
    "stored_users id (users noting_world) = {}"
    by (simp_all add: noting_service_def noting_world_def stored_users_def demo_user_rows_def)
  have "user.Mobile u \<in> set (outside w')"
    using verified_mobiles_are_approved [OF demo_user_tables_ok demo_user_queries_ok demo_user_atomic s(1,2)
        noting_approvals noting_sound _ n u] s(3) by simp
  with n u show ?thesis by blast
qed

end
