(* ===== verification/Logging.thy ===== *)
theory Logging
  imports Http
begin

text \<open>
  \<open>logger/logger.go\<close>: the logger of the program and the handler that prints for developers.
  Printing a floating-point number and a time of day is left to \<open>log_formats\<close>; a call of
  \<open>Int64\<close> or \<open>Float64\<close> on a value of another kind panics, which is the result \<open>None\<close>.
\<close>

section \<open>Records\<close>

datatype 'f attr_value = StringValue string | Int64Value int | Float64Value 'f | BoolValue bool

type_synonym 'f attrs = "(string \<times> 'f attr_value) list"

record 'f slog_record =
  Time :: time
  Level :: int
  Message :: string
  Attrs :: "'f attrs"

definition LevelDebug :: int where
  "LevelDebug = - 4"

definition LevelInfo :: int where
  "LevelInfo = 0"

definition LevelWarn :: int where
  "LevelWarn = 4"

definition LevelError :: int where
  "LevelError = 8"

definition Level_String :: "int \<Rightarrow> string" where
  "Level_String l =
     (let str = (\<lambda>base v. if v = 0 then base else base @ (if 0 < v then ''+'' else []) @ Itoa v) in
      if l < LevelInfo then str ''DEBUG'' (l - LevelDebug)
      else if l < LevelWarn then str ''INFO'' (l - LevelInfo)
      else if l < LevelError then str ''WARN'' (l - LevelWarn)
      else str ''ERROR'' (l - LevelError))"

text \<open>
  \<open>FormatClock\<close> is the layout \<open>15:04:05.000\<close>, \<open>FloatString\<close> the method \<open>String\<close> of a float value,
  \<open>FloatV\<close> the verb \<open>%v\<close>, \<open>Float2\<close> the verb \<open>%.2f\<close>.
\<close>

record 'f log_formats =
  FormatClock :: "time \<Rightarrow> string"
  FloatString :: "'f \<Rightarrow> string"
  FloatV :: "'f \<Rightarrow> string"
  Float2 :: "'f \<Rightarrow> string"
  FloatZero :: 'f

fun Value_String :: "'f log_formats \<Rightarrow> 'f attr_value \<Rightarrow> string" where
  "Value_String fm (StringValue s) = s"
| "Value_String fm (Int64Value n) = Itoa n"
| "Value_String fm (Float64Value f) = FloatString fm f"
| "Value_String fm (BoolValue b) = (if b then ''true'' else ''false'')"

fun Value_V :: "'f log_formats \<Rightarrow> 'f attr_value \<Rightarrow> string" where
  "Value_V fm (Float64Value f) = FloatV fm f"
| "Value_V fm v = Value_String fm v"

section \<open>The handler for developers\<close>

definition escape_code :: "string \<Rightarrow> string" where
  "escape_code n = CHR 0x1B # CHR ''['' # n @ ''m''"

definition reset :: string where
  "reset = escape_code ''0''"

definition red :: string where
  "red = escape_code ''31''"

definition green :: string where
  "green = escape_code ''32''"

definition yellow :: string where
  "yellow = escape_code ''33''"

definition blue :: string where
  "blue = escape_code ''34''"

definition magenta :: string where
  "magenta = escape_code ''35''"

definition cyan :: string where
  "cyan = escape_code ''36''"

definition gray :: string where
  "gray = escape_code ''90''"

definition level_color :: "int \<Rightarrow> string" where
  "level_color l =
     (if l = LevelDebug then gray else if l = LevelInfo then green
      else if l = LevelWarn then yellow else if l = LevelError then red else reset)"

text \<open>The last attribute with a key; the empty string when there is none.\<close>

definition last_attr :: "'f log_formats \<Rightarrow> string \<Rightarrow> 'f attrs \<Rightarrow> string" where
  "last_attr fm key as = fold (\<lambda>(k, v) found. if k = key then Value_String fm v else found) as []"

definition id_part :: "string \<Rightarrow> string \<Rightarrow> string" where
  "id_part requestID traceID =
     (if requestID \<noteq> [] \<or> traceID \<noteq> []
      then let req = (if requestID = [] then ''none''
             else if 16 < length requestID then take 8 requestID else requestID);
           trace = (if traceID = [] then ''none'' else traceID) in
        cyan @ ''[req:'' @ req @ ''] [trace:'' @ trace @ '']'' @ reset @ '' ''
      else [])"

record 'f line_fields =
  http_method :: string
  path :: string
  status :: int
  latency :: 'f
  rest :: string

definition add_field ::
  "'f log_formats \<Rightarrow> bool \<Rightarrow> string \<times> 'f attr_value \<Rightarrow> 'f line_fields \<Rightarrow> 'f line_fields option" where
  "add_field fm isHTTP a fs =
     (case a of (key, v) \<Rightarrow>
        if key \<in> {''service'', ''component'', ''request_id'', ''trace_id''} then Some fs
        else if isHTTP \<and> key = ''method'' then Some (fs\<lparr>http_method := Value_String fm v\<rparr>)
        else if isHTTP \<and> key = ''path'' then Some (fs\<lparr>path := Value_String fm v\<rparr>)
        else if isHTTP \<and> key = ''status''
          then (case v of Int64Value n \<Rightarrow> Some (fs\<lparr>status := n\<rparr>) | _ \<Rightarrow> None)
        else if isHTTP \<and> key = ''latency_ms''
          then (case v of Float64Value f \<Rightarrow> Some (fs\<lparr>latency := f\<rparr>) | _ \<Rightarrow> None)
        else if isHTTP \<and> key = ''created_at'' then Some fs
        else Some (fs\<lparr>rest := rest fs @ '' '' @ magenta @ key @ reset @ ''='' @ Value_V fm v\<rparr>))"

fun add_fields ::
  "'f log_formats \<Rightarrow> bool \<Rightarrow> 'f attrs \<Rightarrow> 'f line_fields \<Rightarrow> 'f line_fields option" where
  "add_fields fm isHTTP [] fs = Some fs"
| "add_fields fm isHTTP (a # as) fs =
     (case add_field fm isHTTP a fs of None \<Rightarrow> None | Some fs' \<Rightarrow> add_fields fm isHTTP as fs')"

text \<open>\<open>span\<close> is the trace identifier of the span in the context, if it is valid.\<close>

definition PrettyHandler_Handle ::
  "'f log_formats \<Rightarrow> request_context \<Rightarrow> string option \<Rightarrow> 'f slog_record \<Rightarrow> string option" where
  "PrettyHandler_Handle fm ctx span r =
     (let level = Level_String (Level r);
          levelColor = level_color (Level r);
          timeStr = FormatClock fm (Time r);
          given = last_attr fm ''request_id'' (Attrs r);
          requestID = (if given = [] then ctx_RequestID ctx else given);
          bound = last_attr fm ''trace_id'' (Attrs r);
          traceID = (if bound = [] then (case span of Some t \<Rightarrow> t | None \<Rightarrow> []) else bound);
          idPart = id_part requestID traceID;
          msg = Message r;
          isHTTP = Contains msg ''http request'' in
      case add_fields fm isHTTP (Attrs r)
          \<lparr>http_method = [], path = [], status = 0, latency = FloatZero fm, rest = []\<rparr> of
        None \<Rightarrow> None
      | Some fs \<Rightarrow>
          if isHTTP \<and> http_method fs \<noteq> []
          then let statusColor = (if 500 \<le> status fs then red else if 400 \<le> status fs then yellow else green) in
            Some (gray @ timeStr @ reset @ '' '' @ levelColor @ level @ reset @ '' '' @ idPart @
              blue @ http_method fs @ reset @ '' '' @ path fs @ '' '' @ statusColor @ Itoa (status fs) @ reset @
              '' ('' @ Float2 fm (latency fs) @ ''ms)'' @ rest fs @ [CHR 0x0A])
          else Some (gray @ timeStr @ reset @ '' '' @ levelColor @ level @ reset @ '' '' @ idPart @ msg @ rest fs @ [CHR 0x0A]))"

section \<open>Loggers\<close>

text \<open>
  A logger is its handler.  The handler for production is the library's and keeps what is
  bound to it; what it writes is the line before its encoding as JSON.
\<close>

datatype 'f logger = JSONHandler int "'f attrs" | PrettyHandler int

datatype 'f log_line = JSONLine "'f attrs" "'f slog_record" | PrettyLine string | LoggerPanic

definition PrettyHandler_WithAttrs :: "'f attrs \<Rightarrow> int \<Rightarrow> 'f logger" where
  "PrettyHandler_WithAttrs attrs level = PrettyHandler level"

definition PrettyHandler_WithGroup :: "string \<Rightarrow> int \<Rightarrow> 'f logger" where
  "PrettyHandler_WithGroup name level = PrettyHandler level"

definition With :: "'f logger \<Rightarrow> 'f attrs \<Rightarrow> 'f logger" where
  "With l attrs =
     (if attrs = [] then l
      else case l of
        JSONHandler level bound \<Rightarrow> JSONHandler level (bound @ attrs)
      | PrettyHandler level \<Rightarrow> PrettyHandler_WithAttrs attrs level)"

definition PrettyHandler_Enabled :: "int \<Rightarrow> int \<Rightarrow> bool" where
  "PrettyHandler_Enabled optsLevel level \<longleftrightarrow> optsLevel \<le> level"

text \<open>\<open>Info\<close>, \<open>Warn\<close> and \<open>Error\<close> pass the background context to the handler.\<close>

definition Log :: "'f log_formats \<Rightarrow> 'f logger \<Rightarrow> 'f slog_record \<Rightarrow> 'f log_line list" where
  "Log fm l r =
     (case l of
        JSONHandler level bound \<Rightarrow> if level \<le> Level r then [JSONLine bound r] else []
      | PrettyHandler level \<Rightarrow>
          if PrettyHandler_Enabled level (Level r)
          then (case PrettyHandler_Handle fm background None r of Some s \<Rightarrow> [PrettyLine s] | None \<Rightarrow> [LoggerPanic])
          else [])"

definition prints_json :: "string \<Rightarrow> bool" where
  "prints_json env \<longleftrightarrow> ToLower (TrimSpace env) \<in> {''prod'', ''production'', ''staging''}"

definition NewLogger :: "string \<Rightarrow> string \<Rightarrow> string \<Rightarrow> 'f logger" where
  "NewLogger log_level srv env =
     (let level = (if log_level = ''debug'' then LevelDebug else LevelInfo) in
      With (if prints_json env then JSONHandler level [] else PrettyHandler level)
        [(''service'', StringValue srv)])"

text \<open>The logger a context carries, or the library's default.\<close>

text \<open>A context carries at most one logger.\<close>

definition ToContext :: "'f logger option \<Rightarrow> 'f logger \<Rightarrow> 'f logger option" where
  "ToContext stored l = Some l"

definition FromContext :: "'f logger \<Rightarrow> 'f logger option \<Rightarrow> 'f logger" where
  "FromContext default_logger stored = (case stored of Some l \<Rightarrow> l | None \<Rightarrow> default_logger)"

section \<open>Lemmas\<close>

lemma FromContext_ToContext [simp]: "FromContext dflt (ToContext stored l) = l"
  by (simp add: FromContext_def ToContext_def)

definition is_json :: "'f logger \<Rightarrow> bool" where
  "is_json l \<longleftrightarrow> (case l of JSONHandler _ _ \<Rightarrow> True | PrettyHandler _ \<Rightarrow> False)"

lemma With_pretty: "\<not> is_json l \<Longrightarrow> With l attrs = l"
  by (cases l) (simp_all add: With_def PrettyHandler_WithAttrs_def is_json_def)

lemma is_json_NewLogger:
  "is_json (NewLogger log_level srv env) \<longleftrightarrow> prints_json env"
  by (simp add: NewLogger_def Let_def With_def PrettyHandler_WithAttrs_def is_json_def)

text \<open>
  The identifiers that the middlewares bind to the logger of a request reach the lines of the
  production handler; the handler for developers drops them, and since the background context
  carries none either, its lines never name the request.
\<close>

lemma bound_identifiers:
  assumes "LevelInfo \<le> Level r"
  shows "Log fm (With (NewLogger log_level srv env) ids) r =
    (if prints_json env
     then [JSONLine ((''service'', StringValue srv) # ids) r]
     else Log fm (NewLogger log_level srv env) r)"
proof (cases "prints_json env")
  case True
  with assms show ?thesis
    by (auto simp: NewLogger_def Let_def With_def Log_def LevelDebug_def LevelInfo_def)
next
  case False
  then show ?thesis by (simp add: With_pretty is_json_NewLogger)
qed

lemma if_Some: "(b \<Longrightarrow> \<exists>z. x = Some z) \<Longrightarrow> (\<not> b \<Longrightarrow> \<exists>z. y = Some z) \<Longrightarrow> \<exists>z. (if b then x else y) = Some z"
  by simp

lemma add_fields_total:
  assumes "\<forall>a \<in> set as. (fst a = ''status'' \<longrightarrow> (\<exists>n. snd a = Int64Value n)) \<and>
      (fst a = ''latency_ms'' \<longrightarrow> (\<exists>f. snd a = Float64Value f))"
  shows "\<exists>fs'. add_fields fm h as fs = Some fs'"
  using assms
proof (induction as arbitrary: fs)
  case (Cons a as)
  have "\<exists>fs1. add_field fm h a fs = Some fs1"
  proof -
    obtain key v where a: "a = (key, v)" by fastforce
    have "key = ''status'' \<Longrightarrow> \<exists>n. v = Int64Value n" "key = ''latency_ms'' \<Longrightarrow> \<exists>f. v = Float64Value f"
      using Cons.prems by (simp_all add: a)
    then show ?thesis
      unfolding a add_field_def prod.case by (intro if_Some) auto
  qed
  then obtain fs1 where "add_field fm h a fs = Some fs1" by blast
  moreover have "\<exists>fs'. add_fields fm h as fs1 = Some fs'" using Cons by simp
  ultimately show ?case by simp
qed simp

text \<open>Lines whose status and latency have the right kinds are printed.\<close>

lemma Log_prints:
  assumes "\<forall>a \<in> set (Attrs r). (fst a = ''status'' \<longrightarrow> (\<exists>n. snd a = Int64Value n)) \<and>
      (fst a = ''latency_ms'' \<longrightarrow> (\<exists>f. snd a = Float64Value f))"
  shows "LoggerPanic \<notin> set (Log fm l r)"
proof -
  have "PrettyHandler_Handle fm background None r \<noteq> None"
    using add_fields_total [OF assms, of fm "Contains (Message r) ''http request''"
        "\<lparr>http_method = [], path = [], status = 0, latency = FloatZero fm, rest = []\<rparr>"]
    by (auto simp: PrettyHandler_Handle_def Let_def)
  then show ?thesis by (cases l) (auto simp: Log_def)
qed

end
