(* ===== verification/Audit_Log.thy ===== *)
theory Audit_Log
  imports Auth_Server Logging
begin

text \<open>
  The audit log of \<open>auth/http/handler.go\<close>: \<open>auditEvent\<close> and the events each handler writes.  A
  handler with its events is a computation on the state of the server and the list of events
  so far; what it answers and what it does to the state is what the handler of \<open>Auth_Http\<close>
  answers and does.
\<close>

section \<open>Events\<close>

text \<open>The values the handlers log: strings, an unsigned identifier and a truth value.\<close>

datatype audit_value = Text string | Uint nat | Flag bool

type_synonym audit_attrs = "(string \<times> audit_value) list"

record audit_event =
  event_level :: int
  event_message :: string
  event_attrs :: "audit_attrs"

definition auditEvent :: "request \<Rightarrow> int \<Rightarrow> string \<Rightarrow> string \<Rightarrow> audit_attrs \<Rightarrow> audit_event" where
  "auditEvent c level action outcome args =
     \<lparr>event_level = level, event_message = ''auth event'',
      event_attrs =
        [(''type'', Text ''auth_audit''), (''action'', Text action), (''outcome'', Text outcome),
         (''client_ip'', Text (ClientIP c)), (''origin'', Text (TrimSpace (Header c ''Origin'')))] @ args\<rparr>"

text \<open>The warning of the rate limiter.\<close>

definition limit_event :: "string \<Rightarrow> string \<Rightarrow> audit_attrs \<Rightarrow> audit_event" where
  "limit_event action scope args =
     \<lparr>event_level = LevelWarn, event_message = ''otp rate limit exceeded'',
      event_attrs =
        [(''type'', Text ''auth_audit''), (''action'', Text action), (''scope'', Text scope)] @ args\<rparr>"

abbreviation client_type :: "string \<Rightarrow> string \<times> audit_value" where
  "client_type t \<equiv> (''client_type'', Text t)"

abbreviation username :: "string \<Rightarrow> string \<times> audit_value" where
  "username n \<equiv> (''username'', Text n)"

abbreviation mobile_masked :: "string \<Rightarrow> string \<times> audit_value" where
  "mobile_masked m \<equiv> (''mobile_masked'', Text (maskMobile m))"

definition rejected :: "request \<Rightarrow> string \<Rightarrow> audit_attrs \<Rightarrow> string \<Rightarrow> audit_event" where
  "rejected c action args reason = auditEvent c LevelWarn action ''rejected'' (args @ [(''reason'', Text reason)])"

section \<open>Handlers that write events\<close>

type_synonym ('u, 'r, 'p, 'o, 'x, 'l) audited_handler =
  "((('u, 'r, 'p, 'o, 'x) world \<times> 'l) \<times> audit_event list, auth_body response) state"

definition silently :: "('s, 'a) state \<Rightarrow> ('s \<times> audit_event list, 'a) state" where
  "silently m = State (\<lambda>(s, log). case run_state m s of (r, s') \<Rightarrow> (r, (s', log)))"

definition log_event :: "audit_event \<Rightarrow> ('s \<times> audit_event list, 'a) state \<Rightarrow> ('s \<times> audit_event list, 'a) state" where
  "log_event e k = State (\<lambda>(s, log). run_state k (s, log @ [e]))"

text \<open>The steps of a handler: a failed one writes its events and answers the error.\<close>

definition audited_step ::
  "request \<Rightarrow> (auth_error \<Rightarrow> audit_event option) \<Rightarrow> ('u, 'r, 'p, 'o, 'x, 'l, auth_error + 'a) http_action \<Rightarrow>
     ('a \<Rightarrow> ('u, 'r, 'p, 'o, 'x, 'l) audited_handler) \<Rightarrow> ('u, 'r, 'p, 'o, 'x, 'l) audited_handler" where
  "audited_step c ev m k = do {
     r \<leftarrow> silently m;
     case r of
       Inr x \<Rightarrow> k x
     | Inl e \<Rightarrow>
         (let answer = State_Monad.return (writeServiceError c e) in
          case ev e of None \<Rightarrow> answer | Some event \<Rightarrow> log_event event answer) }"

definition audited_body ::
  "request \<Rightarrow> 'b submission \<Rightarrow> ('b \<Rightarrow> ('u, 'r, 'p, 'o, 'x, 'l) audited_handler) \<Rightarrow>
     ('u, 'r, 'p, 'o, 'x, 'l) audited_handler" where
  "audited_body c sub k =
     (case decodeAndValidateJSON ErrorBody c sub of Inl r \<Rightarrow> State_Monad.return r | Inr req \<Rightarrow> k req)"

definition audited_limit ::
  "('u, 'r, 'p, 'o, 'x, 'l) handler \<Rightarrow> request \<Rightarrow> string \<Rightarrow> string \<Rightarrow> rate_limit_rule \<Rightarrow> rate_limit_rule \<Rightarrow>
     ('u, 'r, 'p, 'o, 'x, 'l) audited_handler \<Rightarrow> ('u, 'r, 'p, 'o, 'x, 'l) audited_handler" where
  "audited_limit h c action mobile ipRule mobileRule k =
     (let denied = (\<lambda>event. log_event event (State_Monad.return (writeServiceError c ErrOTPTooManyRequests))) in
      case limiter h of
        None \<Rightarrow> k
      | Some lmt \<Rightarrow>
          audited_step c (\<lambda>_. None)
            (on_limiter (\<lambda>t. Allow lmt t (''otp:'' @ action @ '':ip:'' @ ClientIP c) ipRule)) (\<lambda>allowed.
          if \<not> allowed then denied (limit_event action ''ip'' [(''client_ip'', Text (ClientIP c))])
          else case NormalizeIndianMobile mobile of
            Inl _ \<Rightarrow> k
          | Inr normalizedMobile \<Rightarrow>
              audited_step c (\<lambda>_. None)
                (on_limiter (\<lambda>t. Allow lmt t (''otp:'' @ action @ '':mobile:'' @ normalizedMobile) mobileRule))
                (\<lambda>allowed. if \<not> allowed then denied (limit_event action ''mobile'' []) else k)))"

text \<open>The last step: the answer is prepared, the event is written, the answer is sent.\<close>

definition audited_answer ::
  "audit_event \<Rightarrow> ('u, 'r, 'p, 'o, 'x, 'l) http_handler \<Rightarrow> ('u, 'r, 'p, 'o, 'x, 'l) audited_handler" where
  "audited_answer event m = do { r \<leftarrow> silently m; log_event event (State_Monad.return r) }"

subsection \<open>Sign-up\<close>

definition audited_RequestSignupOTP ::
  "('u, 'r, 'p, 'o, 'x, 'l) handler \<Rightarrow> request \<Rightarrow> signup_request_body submission \<Rightarrow>
     ('u, 'r, 'p, 'o, 'x, 'l) audited_handler" where
  "audited_RequestSignupOTP h c sub = audited_body c sub (\<lambda>req.
     let args = [client_type (signup_request_body.ClientType req),
           username (TrimSpace (signup_request_body.Username req)), mobile_masked (signup_request_body.Mobile req)] in
     audited_limit h c ''request'' (signup_request_body.Mobile req) (RequestIP (limits h)) (RequestMobile (limits h))
     (audited_step c (\<lambda>e. Some (rejected c ''signup_request_otp'' args (error_message e)))
       (in_service (RequestSignupOTP (service h)
         \<lparr>register_request.Username = signup_request_body.Username req,
          Password = signup_request_body.Password req, Email = signup_request_body.Email req,
          Mobile = signup_request_body.Mobile req, ClientType = signup_request_body.ClientType req\<rparr>)) (\<lambda>_.
     audited_answer (auditEvent c LevelInfo ''signup_request_otp'' ''accepted'' args)
       (write_message c 202 ''otp sent to mobile number''))))"

definition audited_VerifySignupOTP ::
  "('u, 'r, 'p, 'o, 'x, 'l) handler \<Rightarrow> request \<Rightarrow> otp_verify_request_body submission \<Rightarrow>
     ('u, 'r, 'p, 'o, 'x, 'l) audited_handler" where
  "audited_VerifySignupOTP h c sub = audited_body c sub (\<lambda>req.
     let ct = client_type (otp_verify_request_body.ClientType req) in
     audited_limit h c ''verify'' (otp_verify_request_body.Mobile req) (VerifyIP (limits h)) (VerifyMobile (limits h))
     (audited_step c (\<lambda>e. Some (rejected c ''signup_verify_otp''
         [ct, mobile_masked (otp_verify_request_body.Mobile req)] (error_message e)))
       (in_service (VerifySignupOTP (service h)
         \<lparr>otp_verify_request.Mobile = otp_verify_request_body.Mobile req,
          Code = otp_verify_request_body.Code req,
          ClientType = otp_verify_request_body.ClientType req\<rparr>)) (\<lambda>(u, tokens).
     audited_answer (auditEvent c LevelInfo ''signup_verify_otp'' ''succeeded''
         [ct, username (user.Username u), mobile_masked (user.Mobile u)])
       (write_auth_response h 201 (otp_verify_request_body.ClientType req) (u, tokens)))))"

definition audited_ResendSignupOTP ::
  "('u, 'r, 'p, 'o, 'x, 'l) handler \<Rightarrow> request \<Rightarrow> otp_request_body submission \<Rightarrow>
     ('u, 'r, 'p, 'o, 'x, 'l) audited_handler" where
  "audited_ResendSignupOTP h c sub = audited_body c sub (\<lambda>req.
     let args = [client_type (otp_request_body.ClientType req), mobile_masked (otp_request_body.Mobile req)] in
     audited_limit h c ''request'' (otp_request_body.Mobile req) (RequestIP (limits h)) (RequestMobile (limits h))
     (audited_step c (\<lambda>e. Some (rejected c ''signup_resend_otp'' args (error_message e)))
       (in_service (ResendSignupOTP (service h)
         \<lparr>otp_request.Mobile = otp_request_body.Mobile req, ClientType = otp_request_body.ClientType req\<rparr>)) (\<lambda>_.
     audited_answer (auditEvent c LevelInfo ''signup_resend_otp'' ''accepted'' args)
       (write_message c 202 ''otp resent to mobile number''))))"

subsection \<open>Login\<close>

definition audited_PasswordLogin ::
  "('u, 'r, 'p, 'o, 'x, 'l) handler \<Rightarrow> request \<Rightarrow> password_login_request_body submission \<Rightarrow>
     ('u, 'r, 'p, 'o, 'x, 'l) audited_handler" where
  "audited_PasswordLogin h c sub = audited_body c sub (\<lambda>req.
     let ct = client_type (password_login_request_body.ClientType req) in
     audited_step c (\<lambda>e. Some (rejected c ''password_login''
         [ct, username (TrimSpace (password_login_request_body.Username req))] (error_message e)))
       (in_service (Login (service h)
         \<lparr>password_login_request.Username = password_login_request_body.Username req,
          Password = password_login_request_body.Password req,
          ClientType = password_login_request_body.ClientType req\<rparr>)) (\<lambda>(u, tokens).
     audited_answer (auditEvent c LevelInfo ''password_login'' ''succeeded'' [ct, username (user.Username u)])
       (write_auth_response h 200 (password_login_request_body.ClientType req) (u, tokens))))"

text \<open>Asking for a login code and asking again differ in the name of the action only.\<close>

definition audited_login_code ::
  "string \<Rightarrow> (('u, 'r, 'p, 'o, 'x) service \<Rightarrow> otp_request \<Rightarrow> ('u, 'r, 'p, 'o, 'x, unit) action) \<Rightarrow>
     ('u, 'r, 'p, 'o, 'x, 'l) handler \<Rightarrow> request \<Rightarrow> otp_request_body submission \<Rightarrow>
     ('u, 'r, 'p, 'o, 'x, 'l) audited_handler" where
  "audited_login_code action method h c sub = audited_body c sub (\<lambda>req.
     let args = [client_type (otp_request_body.ClientType req), mobile_masked (otp_request_body.Mobile req)] in
     audited_limit h c ''request'' (otp_request_body.Mobile req) (RequestIP (limits h)) (RequestMobile (limits h))
     (audited_step c (\<lambda>e. Some (rejected c action args (error_message e)))
       (in_service (method (service h)
         \<lparr>otp_request.Mobile = otp_request_body.Mobile req, ClientType = otp_request_body.ClientType req\<rparr>)) (\<lambda>_.
     audited_answer (auditEvent c LevelInfo action ''accepted'' args)
       (write_message c 202 ''if the account is eligible, an otp has been sent''))))"

definition audited_VerifyLoginOTP ::
  "('u, 'r, 'p, 'o, 'x, 'l) handler \<Rightarrow> request \<Rightarrow> otp_verify_request_body submission \<Rightarrow>
     ('u, 'r, 'p, 'o, 'x, 'l) audited_handler" where
  "audited_VerifyLoginOTP h c sub = audited_body c sub (\<lambda>req.
     let ct = client_type (otp_verify_request_body.ClientType req) in
     audited_limit h c ''verify'' (otp_verify_request_body.Mobile req) (VerifyIP (limits h)) (VerifyMobile (limits h))
     (audited_step c (\<lambda>e. Some (rejected c ''login_verify_otp''
         [ct, mobile_masked (otp_verify_request_body.Mobile req)] (error_message e)))
       (in_service (VerifyLoginOTP (service h)
         \<lparr>otp_verify_request.Mobile = otp_verify_request_body.Mobile req,
          Code = otp_verify_request_body.Code req,
          ClientType = otp_verify_request_body.ClientType req\<rparr>)) (\<lambda>(u, tokens).
     audited_answer (auditEvent c LevelInfo ''login_verify_otp'' ''succeeded''
         [ct, username (user.Username u), mobile_masked (user.Mobile u)])
       (write_auth_response h 200 (otp_verify_request_body.ClientType req) (u, tokens)))))"

subsection \<open>Sessions, Google and profiles\<close>

text \<open>What refresh and logout do before they call the service.\<close>

definition audited_session ::
  "('u, 'r, 'p, 'o, 'x, 'l) handler \<Rightarrow> request \<Rightarrow> string \<Rightarrow> refresh_request \<Rightarrow>
     (string \<Rightarrow> ('u, 'r, 'p, 'o, 'x, 'l) audited_handler) \<Rightarrow> ('u, 'r, 'p, 'o, 'x, 'l) audited_handler" where
  "audited_session h c action req k =
     (let ct = client_type (refresh_request.ClientType req);
          refused = (\<lambda>reason e. log_event (rejected c action [ct] reason) (State_Monad.return (writeServiceError c e))) in
      case refreshTokenForClient h c (refresh_request.ClientType req) (refresh_request.RefreshToken req) of
        Inl e \<Rightarrow> refused (error_message e) e
      | Inr refreshToken \<Rightarrow>
          (case requireCSRFFromWeb h c (refresh_request.ClientType req) of
             Some e \<Rightarrow> refused ''csrf_check_failed'' e
           | None \<Rightarrow> k refreshToken))"

definition audited_Refresh ::
  "('u, 'r, 'p, 'o, 'x, 'l) handler \<Rightarrow> request \<Rightarrow> refresh_request submission \<Rightarrow>
     ('u, 'r, 'p, 'o, 'x, 'l) audited_handler" where
  "audited_Refresh h c sub = audited_body c sub (\<lambda>req.
     let ct = client_type (refresh_request.ClientType req) in
     audited_session h c ''token_refresh'' req (\<lambda>refreshToken.
     audited_step c (\<lambda>e. Some (rejected c ''token_refresh'' [ct] (error_message e)))
       (in_service (Refresh (service h) refreshToken)) (\<lambda>(u, tokens).
     audited_answer (auditEvent c LevelInfo ''token_refresh'' ''succeeded'' [ct, username (user.Username u)])
       (write_auth_response h 200 (refresh_request.ClientType req) (u, tokens)))))"

definition audited_Logout ::
  "('u, 'r, 'p, 'o, 'x, 'l) handler \<Rightarrow> request \<Rightarrow> refresh_request submission \<Rightarrow>
     ('u, 'r, 'p, 'o, 'x, 'l) audited_handler" where
  "audited_Logout h c sub = audited_body c sub (\<lambda>req.
     let ct = client_type (refresh_request.ClientType req) in
     audited_session h c ''logout'' req (\<lambda>refreshToken.
     audited_step c (\<lambda>e. Some (rejected c ''logout'' [ct] (error_message e)))
       (in_service (Logout (service h) refreshToken)) (\<lambda>_.
     audited_answer (auditEvent c LevelInfo ''logout'' ''succeeded'' [ct])
       (State_Monad.return ((respond_empty 204)\<lparr>SetCookies :=
         (if refresh_request.ClientType req = ''web''
          then [clearRefreshTokenCookie (cookies h), clearCSRFCookie (cookies h)] else [])\<rparr>)))))"

definition audited_GoogleCallback ::
  "('u, 'r, 'p, 'o, 'x, 'l) handler \<Rightarrow> request \<Rightarrow> ('u, 'r, 'p, 'o, 'x, 'l) audited_handler" where
  "audited_GoogleCallback h c =
     (let code = (case Query c ''code'' of Some v \<Rightarrow> v | None \<Rightarrow> []);
          clientType = (case Query c ''client_type'' of Some v \<Rightarrow> v | None \<Rightarrow> ''web'') in
      if code = [] then State_Monad.return (writeServiceError c (ErrOther ''missing code''))
      else
        audited_step c (\<lambda>e. Some (rejected c ''google_login'' [] (error_message e)))
          (in_service (GoogleLogin (service h) code)) (\<lambda>(u, tokens).
        audited_answer (auditEvent c LevelInfo ''google_login'' ''succeeded''
            [username (user.Username u), (''is_complete'', Flag (user.IsProfileComplete u))])
          (write_auth_response h 200 clientType (u, tokens))))"

definition audited_CompleteProfile ::
  "('u, 'r, 'p, 'o, 'x, 'l) handler \<Rightarrow> request \<Rightarrow> complete_profile_request_body submission \<Rightarrow> nat \<Rightarrow>
     ('u, 'r, 'p, 'o, 'x, 'l) audited_handler" where
  "audited_CompleteProfile h c sub userID = audited_body c sub (\<lambda>req.
     audited_step c (\<lambda>e. Some (rejected c ''profile_complete'' [(''user_id'', Uint userID)] (error_message e)))
       (in_service (CompleteProfile (service h) userID
         (complete_profile_request_body.Username req) (complete_profile_request_body.Mobile req))) (\<lambda>(u, tokens).
     audited_answer (auditEvent c LevelInfo ''profile_complete'' ''succeeded'' [username (user.Username u)])
       (write_auth_response h 200 (complete_profile_request_body.ClientType req) (u, tokens))))"

definition audited_complete_profile ::
  "('u, 'r, 'p, 'o, 'x, 'l) handler \<Rightarrow> request \<Rightarrow> complete_profile_request_body submission \<Rightarrow>
     ('u, 'r, 'p, 'o, 'x, 'l) audited_handler" where
  "audited_complete_profile h c sub =
     audited_step c (\<lambda>_. None)
       (in_service (AuthenticateAccessToken (service h) (bearerToken (Header c ''Authorization'')))) (\<lambda>claims.
     audited_step c (\<lambda>_. None) (in_service (ValidateCurrentUser (service h) (Subject claims))) (\<lambda>u.
     audited_CompleteProfile h c sub (user.ID u)))"

section \<open>All routes\<close>

fun serve_audited ::
  "('u, 'r, 'p, 'o, 'x, 'l) handler \<Rightarrow> request \<Rightarrow> auth_call \<Rightarrow> ('u, 'r, 'p, 'o, 'x, 'l) audited_handler" where
  "serve_audited h c (RegisterCall sub) = audited_RequestSignupOTP h c sub"
| "serve_audited h c (VerifySignupCall sub) = audited_VerifySignupOTP h c sub"
| "serve_audited h c (ResendSignupCall sub) = audited_ResendSignupOTP h c sub"
| "serve_audited h c (SignupStatusCall sub) = silently (handleSignupStatus h c sub)"
| "serve_audited h c (PasswordLoginCall sub) = audited_PasswordLogin h c sub"
| "serve_audited h c (RequestLoginCall sub) = audited_login_code ''login_request_otp'' RequestLoginOTP h c sub"
| "serve_audited h c (VerifyLoginCall sub) = audited_VerifyLoginOTP h c sub"
| "serve_audited h c (ResendLoginCall sub) = audited_login_code ''login_resend_otp'' ResendLoginOTP h c sub"
| "serve_audited h c (RefreshCall sub) = audited_Refresh h c sub"
| "serve_audited h c (LogoutCall sub) = audited_Logout h c sub"
| "serve_audited h c MeCall = silently (route_me h c)"
| "serve_audited h c GoogleLoginCall = silently (handleGoogleLoginRedirect h)"
| "serve_audited h c GoogleCallbackCall = audited_GoogleCallback h c"
| "serve_audited h c (CompleteProfileCall sub) = audited_complete_profile h c sub"

section \<open>What an event shows\<close>

definition audit_keys :: "string set" where
  "audit_keys = {''type'', ''action'', ''outcome'', ''scope'', ''client_ip'', ''origin'', ''client_type'',
     ''username'', ''mobile_masked'', ''reason'', ''user_id'', ''is_complete''}"

text \<open>At most four bytes in clear, and only behind at least one star.\<close>

definition masked :: "string \<Rightarrow> bool" where
  "masked v \<longleftrightarrow> (\<exists>n s. v = replicate n CHR ''*'' @ s \<and> length s \<le> 4 \<and> (s \<noteq> [] \<longrightarrow> 0 < n))"

definition proper_attr :: "request \<Rightarrow> string \<times> audit_value \<Rightarrow> bool" where
  "proper_attr c a \<longleftrightarrow> fst a \<in> audit_keys \<and>
     (fst a = ''mobile_masked'' \<longrightarrow> (\<exists>m. snd a = Text m \<and> masked m)) \<and>
     (fst a = ''client_ip'' \<longrightarrow> snd a = Text (ClientIP c))"

definition proper_event :: "request \<Rightarrow> audit_event \<Rightarrow> bool" where
  "proper_event c e \<longleftrightarrow>
     map_of (event_attrs e) ''type'' = Some (Text ''auth_audit'') \<and> list_all (proper_attr c) (event_attrs e)"

definition positive :: "audit_event \<Rightarrow> bool" where
  "positive e \<longleftrightarrow> map_of (event_attrs e) ''outcome'' \<in> {Some (Text ''accepted''), Some (Text ''succeeded'')}"

lemma masked_maskMobile [simp]: "masked (maskMobile m)"
proof (cases "TrimSpace m = [] \<or> length (TrimSpace m) \<le> 4")
  case True
  have "''****'' = replicate 4 CHR ''*''" by (simp add: numeral_eq_Suc)
  with True show ?thesis
    unfolding masked_def maskMobile_def Let_def
    by (cases "TrimSpace m = []") (auto intro: exI [of _ "0::nat"] exI [of _ "4::nat"])
next
  case False
  then show ?thesis
    unfolding masked_def maskMobile_def Let_def
    by (intro exI [of _ "length (TrimSpace m) - 4"] exI [of _ "drop (length (TrimSpace m) - 4) (TrimSpace m)"]) simp
qed

lemma proper_attr [simp]:
  "proper_attr c (''type'', v)" "proper_attr c (''action'', v)" "proper_attr c (''outcome'', v)"
  "proper_attr c (''scope'', v)" "proper_attr c (''origin'', v)" "proper_attr c (''client_type'', v)"
  "proper_attr c (''username'', v)" "proper_attr c (''reason'', v)" "proper_attr c (''user_id'', v)"
  "proper_attr c (''is_complete'', v)" "proper_attr c (''client_ip'', Text (ClientIP c))"
  "proper_attr c (mobile_masked m)"
  by (simp_all add: proper_attr_def audit_keys_def)

lemma proper_auditEvent [simp]: "proper_event c (auditEvent c l a out args) \<longleftrightarrow> list_all (proper_attr c) args"
  by (simp add: proper_event_def auditEvent_def)

lemma rejected_event [simp]:
  "proper_event c (rejected c a args reason) \<longleftrightarrow> list_all (proper_attr c) args" "\<not> positive (rejected c a args reason)"
  by (simp_all add: rejected_def positive_def auditEvent_def proper_event_def)

lemma positive_auditEvent [simp]:
  "positive (auditEvent c l a out args) \<longleftrightarrow> out = ''accepted'' \<or> out = ''succeeded''"
  by (simp add: positive_def auditEvent_def)

lemma limit_event [simp]:
  "proper_event c (limit_event a sc []) \<and> \<not> positive (limit_event a sc [])"
  "proper_event c (limit_event a sc [(''client_ip'', Text (ClientIP c))]) \<and>
     \<not> positive (limit_event a sc [(''client_ip'', Text (ClientIP c))])"
  by (simp_all add: proper_event_def positive_def limit_event_def)

section \<open>A handler and its events\<close>

text \<open>
  \<open>audits P m plain\<close>: \<open>m\<close> answers and does what \<open>plain\<close> does, only adds events, and answer and events
  satisfy \<open>P\<close>.
\<close>

definition audits ::
  "('b \<Rightarrow> audit_event list \<Rightarrow> bool) \<Rightarrow> ('s \<times> audit_event list, 'b) state \<Rightarrow> ('s, 'b) state \<Rightarrow> bool" where
  "audits P m plain \<longleftrightarrow> (\<forall>s evs. \<exists>r s' es.
     run_state m (s, evs) = (r, (s', evs @ es)) \<and> run_state plain s = (r, s') \<and> P r es)"

lemma auditsD:
  assumes "audits P m plain" and "run_state m (s, evs) = (r, (s', evs'))"
  shows "run_state plain s = (r, s') \<and> (\<exists>es. evs' = evs @ es \<and> P r es)"
proof -
  obtain r1 s1 es where "run_state m (s, evs) = (r1, (s1, evs @ es))" "run_state plain s = (r1, s1)" "P r1 es"
    using assms(1) unfolding audits_def by blast
  with assms(2) show ?thesis by auto
qed

lemma run_silently: "run_state (silently m) (s, evs) = (case run_state m s of (r, s') \<Rightarrow> (r, (s', evs)))"
  by (simp add: silently_def)

lemma audits_silently: "(\<And>s r s'. run_state m s = (r, s') \<Longrightarrow> P r []) \<Longrightarrow> audits P (silently m) m"
  unfolding audits_def run_silently by (auto split: prod.split)

lemma audits_return: "P r [] \<Longrightarrow> audits P (State_Monad.return r) (State_Monad.return r)"
  by (simp add: audits_def)

lemma audits_refusal: "P r [e] \<Longrightarrow> audits P (log_event e (State_Monad.return r)) (State_Monad.return r)"
  by (simp add: audits_def log_event_def)

lemma audits_answer:
  "(\<And>s r s'. run_state m s = (r, s') \<Longrightarrow> P r [e]) \<Longrightarrow> audits P (audited_answer e m) m"
  unfolding audits_def audited_answer_def log_event_def by (auto simp: run_silently split: prod.split)

lemma audits_step:
  assumes "\<And>e. P (writeServiceError c e) (case ev e of None \<Rightarrow> [] | Some event \<Rightarrow> [event])"
    and "\<And>x. audits P (k x) (k' x)"
  shows "audits P (audited_step c ev m k) (or_service_error c m k')"
  unfolding audits_def
proof (intro allI)
  fix s evs
  obtain a s1 where a: "run_state m s = (a, s1)" by (cases "run_state m s")
  show "\<exists>r s' es. run_state (audited_step c ev m k) (s, evs) = (r, s', evs @ es) \<and>
      run_state (or_service_error c m k') s = (r, s') \<and> P r es"
  proof (cases a)
    case (Inl e)
    with a assms(1) [of e] show ?thesis
      by (cases "ev e") (simp_all add: audited_step_def run_silently go_eval log_event_def)
  next
    case (Inr x)
    with a assms(2) [of x] show ?thesis
      by (cases s1) (simp add: audited_step_def run_silently go_eval audits_def)
  qed
qed

lemma audits_body:
  assumes "\<And>r. decodeAndValidateJSON ErrorBody c sub = Inl r \<Longrightarrow> P r []"
    and "\<And>req. decodeAndValidateJSON ErrorBody c sub = Inr req \<Longrightarrow> audits P (k req) (k' req)"
  shows "audits P (audited_body c sub k) (with_body c sub k')"
  using assms unfolding audited_body_def with_body_def
  by (auto intro: audits_return split: sum.split)

lemma audits_limit:
  assumes "\<And>e. P (writeServiceError c e) []"
    and "\<And>sc. P (writeServiceError c ErrOTPTooManyRequests) [limit_event a sc []]"
    and "\<And>sc. P (writeServiceError c ErrOTPTooManyRequests) [limit_event a sc [(''client_ip'', Text (ClientIP c))]]"
    and "audits P k k'"
  shows "audits P (audited_limit h c a mobile r1 r2 k) (or_service_error c (enforceRateLimit h c a mobile r1 r2) (\<lambda>_. k'))"
proof -
  have plain: "or_service_error c (enforceRateLimit h c a mobile r1 r2) (\<lambda>_. k') =
    (case limiter h of
       None \<Rightarrow> k'
     | Some lmt \<Rightarrow>
         or_service_error c (on_limiter (\<lambda>t. Allow lmt t (''otp:'' @ a @ '':ip:'' @ ClientIP c) r1)) (\<lambda>allowed.
         if \<not> allowed then State_Monad.return (writeServiceError c ErrOTPTooManyRequests)
         else case NormalizeIndianMobile mobile of
           Inl _ \<Rightarrow> k'
         | Inr n \<Rightarrow>
             or_service_error c (on_limiter (\<lambda>t. Allow lmt t (''otp:'' @ a @ '':mobile:'' @ n) r2))
               (\<lambda>allowed. if \<not> allowed then State_Monad.return (writeServiceError c ErrOTPTooManyRequests) else k')))"
    by (rule state.expand, rule ext)
      (auto simp: enforceRateLimit_def go_eval split: option.split prod.split sum.split)
  show ?thesis
    unfolding plain audited_limit_def Let_def
    using assms by (auto intro!: audits_step audits_refusal split: option.split sum.split)
qed

section \<open>The trail of a request\<close>

definition success :: "auth_body response \<Rightarrow> bool" where
  "success r \<longleftrightarrow> response.Status r \<in> {200, 201, 202, 204}"

text \<open>The routes that report what they have done, and the requests that leave an event in any case.\<close>

definition audited_route :: "auth_call \<Rightarrow> bool" where
  "audited_route call \<longleftrightarrow>
     (case call of SignupStatusCall _ \<Rightarrow> False | MeCall \<Rightarrow> False | GoogleLoginCall \<Rightarrow> False | _ \<Rightarrow> True)"

definition usable :: "'b submission \<Rightarrow> bool" where
  "usable sub \<longleftrightarrow> Bound sub \<noteq> None \<and> Checked sub = StructValid"

definition always_reported :: "auth_call \<Rightarrow> bool" where
  "always_reported call \<longleftrightarrow>
     (case call of PasswordLoginCall sub \<Rightarrow> usable sub | RefreshCall sub \<Rightarrow> usable sub | LogoutCall sub \<Rightarrow> usable sub
      | _ \<Rightarrow> False)"

definition trail :: "request \<Rightarrow> auth_call \<Rightarrow> auth_body response \<Rightarrow> audit_event list \<Rightarrow> bool" where
  "trail c call r es \<longleftrightarrow> length es \<le> 1 \<and>
     (\<forall>e \<in> set es. proper_event c e \<and> (positive e \<longleftrightarrow> success r)) \<and>
     (audited_route call \<and> success r \<or> always_reported call \<longrightarrow> es \<noteq> [])"

lemma success_error [simp]: "\<not> success (writeServiceError c e)"
  using error_status_ne_2xx [of e] by (simp add: success_def)

lemma trail_error [simp]: "trail c call (writeServiceError c e) [] \<longleftrightarrow> \<not> always_reported call"
  by (simp add: trail_def)

lemma trail_event [simp]: "trail c call r [e] \<longleftrightarrow> proper_event c e \<and> (positive e \<longleftrightarrow> success r)"
  by (simp add: trail_def)

lemma trail_body:
  assumes "decodeAndValidateJSON ErrorBody c sub = Inl r" and "always_reported call \<Longrightarrow> usable sub"
  shows "trail c call r []"
proof -
  have "\<not> usable sub"
    using assms(1) decode_Inr [of ErrorBody c sub] by (auto simp: usable_def)
  moreover have "\<not> success r" using decode_Inl [OF assms(1)] by (simp add: success_def)
  ultimately show ?thesis using assms(2) by (auto simp: trail_def)
qed

lemma auth_response_status:
  "run_state (write_auth_response h st ct x) s = (r, s') \<Longrightarrow> response.Status r = st"
  by (cases s) (auto simp: write_auth_response_def split: prod.splits)

lemma audits_signed_in:
  assumes "\<And>u t. proper_event c (ev u t)" and "\<And>u t. positive (ev u t)" and "st \<in> {200, 201}"
  shows "audits (trail c call) (case x of (u, t) \<Rightarrow> audited_answer (ev u t) (write_auth_response h st ct (u, t)))
    (write_auth_response h st ct x)"
  using assms by (cases x) (auto intro!: audits_answer simp: success_def dest: auth_response_status)

lemma audits_message:
  assumes "proper_event c e" and "positive e"
  shows "audits (trail c call) (audited_answer e (write_message c 202 m)) (write_message c 202 m)"
  using assms by (auto intro!: audits_answer simp: success_def write_message_def)

lemma audits_quiet:
  assumes "\<not> audited_route call"
  shows "audits (trail c call) (silently m) m"
  using assms
  by (auto intro!: audits_silently simp: trail_def audited_route_def always_reported_def split: auth_call.splits)

lemma audits_if:
  "(b \<Longrightarrow> audits P m m') \<Longrightarrow> (\<not> b \<Longrightarrow> audits P n n') \<Longrightarrow>
     audits P (if b then m else n) (if b then m' else n')"
  by simp

lemma success_no_content [simp]: "success ((respond_empty 204)\<lparr>SetCookies := cks\<rparr>)"
  by (simp add: success_def)

lemma audits_decoded:
  assumes "always_reported call \<Longrightarrow> usable sub" and "\<And>req. audits (trail c call) (k req) (k' req)"
  shows "audits (trail c call) (audited_body c sub k) (with_body c sub k')"
  using assms by (intro audits_body trail_body)

lemmas trails = audits_decoded audits_limit audits_step audits_signed_in audits_message audits_refusal

lemma audits_RequestSignupOTP:
  "audits (trail c (RegisterCall sub)) (audited_RequestSignupOTP h c sub) (handleRequestSignupOTP h c sub)"
  unfolding audited_RequestSignupOTP_def handleRequestSignupOTP_def enforceOTPRequestLimit_def Let_def
  by (intro trails) (simp_all add: always_reported_def)

lemma audits_VerifySignupOTP:
  "audits (trail c (VerifySignupCall sub)) (audited_VerifySignupOTP h c sub) (handleVerifySignupOTP h c sub)"
  unfolding audited_VerifySignupOTP_def handleVerifySignupOTP_def enforceOTPVerifyLimit_def Let_def
  by (intro trails) (simp_all add: always_reported_def)

lemma audits_ResendSignupOTP:
  "audits (trail c (ResendSignupCall sub)) (audited_ResendSignupOTP h c sub) (handleResendSignupOTP h c sub)"
  unfolding audited_ResendSignupOTP_def handleResendSignupOTP_def enforceOTPRequestLimit_def Let_def
  by (intro trails) (simp_all add: always_reported_def)

lemma audits_PasswordLogin:
  "audits (trail c (PasswordLoginCall sub)) (audited_PasswordLogin h c sub) (handlePasswordLogin h c sub)"
  unfolding audited_PasswordLogin_def handlePasswordLogin_def Let_def
  by (intro trails) (simp_all add: always_reported_def)

lemma audits_RequestLoginOTP:
  "audits (trail c (RequestLoginCall sub)) (audited_login_code a RequestLoginOTP h c sub) (handleRequestLoginOTP h c sub)"
  unfolding audited_login_code_def handleRequestLoginOTP_def enforceOTPRequestLimit_def Let_def
  by (intro trails) (simp_all add: always_reported_def)

lemma audits_ResendLoginOTP:
  "audits (trail c (ResendLoginCall sub)) (audited_login_code a ResendLoginOTP h c sub) (handleResendLoginOTP h c sub)"
  unfolding audited_login_code_def handleResendLoginOTP_def enforceOTPRequestLimit_def Let_def
  by (intro trails) (simp_all add: always_reported_def)

lemma audits_VerifyLoginOTP:
  "audits (trail c (VerifyLoginCall sub)) (audited_VerifyLoginOTP h c sub) (handleVerifyLoginOTP h c sub)"
  unfolding audited_VerifyLoginOTP_def handleVerifyLoginOTP_def enforceOTPVerifyLimit_def Let_def
  by (intro trails) (simp_all add: always_reported_def)

lemma audits_GoogleCallback:
  "audits (trail c GoogleCallbackCall) (audited_GoogleCallback h c) (handleGoogleCallback h c)"
  unfolding audited_GoogleCallback_def handleGoogleCallback_def Let_def
  by (intro audits_if audits_return trails) (simp_all add: always_reported_def)

lemma audits_complete_profile:
  "audits (trail c (CompleteProfileCall sub)) (audited_complete_profile h c sub) (route_complete_profile h c sub)"
  unfolding audited_complete_profile_def route_complete_profile_def requirePartialAccessToken_def
    audited_CompleteProfile_def handleCompleteProfile_def
  by (intro trails) (simp_all add: always_reported_def)

lemma audits_session:
  assumes "\<And>tok. audits (trail c call) (k tok) (k' tok)"
  shows "audits (trail c call) (audited_session h c a req k)
    (case refreshTokenForClient h c (refresh_request.ClientType req) (refresh_request.RefreshToken req) of
       Inl e \<Rightarrow> State_Monad.return (writeServiceError c e)
     | Inr tok \<Rightarrow> (case requireCSRFFromWeb h c (refresh_request.ClientType req) of
         Some e \<Rightarrow> State_Monad.return (writeServiceError c e) | None \<Rightarrow> k' tok))"
  unfolding audited_session_def Let_def
  using assms by (auto intro!: audits_refusal split: sum.split option.split)

lemma audits_Refresh: "audits (trail c (RefreshCall sub)) (audited_Refresh h c sub) (handleRefresh h c sub)"
  unfolding audited_Refresh_def handleRefresh_def Let_def
  by (intro trails audits_session) (simp_all add: always_reported_def)

lemma audits_Logout: "audits (trail c (LogoutCall sub)) (audited_Logout h c sub) (handleLogout h c sub)"
  unfolding audited_Logout_def handleLogout_def Let_def
  by (intro trails audits_session audits_answer) (auto simp: always_reported_def)

lemma audits_serve: "audits (trail c call) (serve_audited h c call) (serve h c call)"
  by (cases call)
    (simp_all add: audits_RequestSignupOTP audits_VerifySignupOTP audits_ResendSignupOTP audits_PasswordLogin
      audits_RequestLoginOTP audits_ResendLoginOTP audits_VerifyLoginOTP audits_GoogleCallback audits_complete_profile
      audits_Refresh audits_Logout audits_quiet audited_route_def)

section \<open>Properties\<close>



end
