(* ===== verification/Twilio.thy ===== *)
theory Twilio
  imports Auth_Types Json
begin

text \<open>
  \<open>auth/provider/twilio/provider.go\<close>: the OTP provider that posts forms to the Verify service of
  Twilio.  The HTTP client, the construction of a request from its address and the reading of
  a JSON text are parameters; the escaping of forms is that of \<open>net/url\<close>.
\<close>

section \<open>Forms\<close>

text \<open>\<open>url.QueryEscape\<close>.\<close>

definition hex_upper :: "nat \<Rightarrow> char" where
  "hex_upper n = ''0123456789ABCDEF'' ! n"

definition unreserved :: "char \<Rightarrow> bool" where
  "unreserved c \<longleftrightarrow>
     c \<in> set ''ABCDEFGHIJKLMNOPQRSTUVWXYZabcdefghijklmnopqrstuvwxyz0123456789-_.~''"

fun QueryEscape :: "string \<Rightarrow> string" where
  "QueryEscape [] = []"
| "QueryEscape (c # s) =
     (if unreserved c then [c] else if c = CHR '' '' then ''+''
      else [CHR ''%'', hex_upper (byte c div 16), hex_upper (byte c mod 16)]) @ QueryEscape s"

text \<open>
  \<open>url.Values\<close> with one value for each key, kept in the order of the keys, in which
  \<open>Encode\<close> writes them.
\<close>

fun string_less :: "string \<Rightarrow> string \<Rightarrow> bool" where
  "string_less s [] \<longleftrightarrow> False"
| "string_less [] (d # t) \<longleftrightarrow> True"
| "string_less (c # s) (d # t) \<longleftrightarrow> (byte c :: nat) < byte d \<or> c = d \<and> string_less s t"

type_synonym form_values = "(string \<times> string) list"

fun Values_Set :: "string \<Rightarrow> string \<Rightarrow> form_values \<Rightarrow> form_values" where
  "Values_Set k v [] = [(k, v)]"
| "Values_Set k v ((k', v') # kvs) =
     (if k = k' then (k, v) # kvs
      else if string_less k k' then (k, v) # (k', v') # kvs
      else (k', v') # Values_Set k v kvs)"

fun Values_Encode :: "form_values \<Rightarrow> string" where
  "Values_Encode [] = []"
| "Values_Encode [(k, v)] = QueryEscape k @ ''='' @ QueryEscape v"
| "Values_Encode ((k, v) # kvs) = QueryEscape k @ ''='' @ QueryEscape v @ ''&'' @ Values_Encode kvs"

section \<open>The HTTP client\<close>

record http_request =
  Method :: string
  URL :: string
  BasicAuth :: "string \<times> string"
  ContentType :: string
  Form :: string

text \<open>A response with the outcome of reading its body.\<close>

record http_response =
  StatusCode :: int
  ReadAll :: "auth_error + string"

record 'x http_lib =
  valid_address :: "string \<Rightarrow> auth_error option"
  Do :: "http_request \<Rightarrow> ('x, auth_error, http_response) call"
  json_parse :: "string \<Rightarrow> json option"

record 'x verify_provider =
  accountSID :: string
  authToken :: string
  serviceSID :: string
  baseURL :: string
  http_client :: "'x http_lib"

definition NewVerifyProvider ::
  "string \<Rightarrow> string \<Rightarrow> string \<Rightarrow> 'x http_lib \<Rightarrow> 'x verify_provider" where
  "NewVerifyProvider sid token service http =
     \<lparr>accountSID = TrimSpace sid, authToken = TrimSpace token, serviceSID = TrimSpace service,
      baseURL = ''https://verify.twilio.com/v2/Services'', http_client = http\<rparr>"

definition serviceURL :: "'x verify_provider \<Rightarrow> string \<Rightarrow> string" where
  "serviceURL p path = baseURL p @ ''/'' @ serviceSID p @ path"

definition form_request :: "'x verify_provider \<Rightarrow> string \<Rightarrow> form_values \<Rightarrow> http_request" where
  "form_request p endpoint vals =
     \<lparr>Method = ''POST'', URL = endpoint, BasicAuth = (accountSID p, authToken p),
      ContentType = ''application/x-www-form-urlencoded'', Form = Values_Encode vals\<rparr>"

text \<open>The body that is returned without \<open>needBody\<close> is nil.\<close>

definition postForm ::
  "'x verify_provider \<Rightarrow> string \<Rightarrow> form_values \<Rightarrow> bool \<Rightarrow> ('x, auth_error, string) call" where
  "postForm p endpoint vals needBody =
     (case valid_address (http_client p) endpoint of
        Some e \<Rightarrow> err e
      | None \<Rightarrow>
          call_ok (Do (http_client p) (form_request p endpoint vals)) (\<lambda>resp.
            case ReadAll resp of
              Inl e \<Rightarrow> err e
            | Inr body \<Rightarrow>
                if 400 \<le> StatusCode resp
                then if 500 \<le> StatusCode resp then err ErrOTPProviderUnavailable else err ErrInvalidOTPCode
                else if needBody then ok body else ok []))"

definition unconfigured :: "'x verify_provider \<Rightarrow> bool" where
  "unconfigured p \<longleftrightarrow> accountSID p = [] \<or> authToken p = [] \<or> serviceSID p = []"

definition Twilio_SendVerification :: "'x verify_provider \<Rightarrow> string \<Rightarrow> ('x, auth_error, unit) call" where
  "Twilio_SendVerification p mobile =
     (if unconfigured p then err ErrOTPProviderUnavailable
      else call_ok (postForm p (serviceURL p ''/Verifications'')
        (Values_Set ''Channel'' ''sms'' (Values_Set ''To'' mobile [])) False) (\<lambda>_. ok ()))"

record check_response =
  Status :: string
  Valid :: bool

definition check_setters :: "(string \<times> check_response setter) list" where
  "check_setters =
     [(''status'', set_string (\<lambda>s r. r\<lparr>Status := s\<rparr>)), (''valid'', set_bool (\<lambda>b r. r\<lparr>Valid := b\<rparr>))]"

text \<open>
  \<open>strings.EqualFold(s, "approved")\<close>: the only letters that fold onto those of the word are
  their capitals, so folding \<open>s\<close> decides it.
\<close>

definition EqualFold_approved :: "string \<Rightarrow> bool" where
  "EqualFold_approved s \<longleftrightarrow> fold_key s = ''approved''"

definition Twilio_CheckVerification ::
  "'x verify_provider \<Rightarrow> string \<Rightarrow> string \<Rightarrow> ('x, auth_error, bool) call" where
  "Twilio_CheckVerification p mobile code =
     (if unconfigured p then err ErrOTPProviderUnavailable
      else call_ok (postForm p (serviceURL p ''/VerificationCheck'')
        (Values_Set ''Code'' (TrimSpace code) (Values_Set ''To'' mobile [])) True) (\<lambda>body.
        case Option.bind (json_parse (http_client p) body)
               (\<lambda>j. unmarshal check_setters j \<lparr>Status = [], Valid = False\<rparr>) of
          None \<Rightarrow> err (ErrOther ''json: cannot unmarshal'')
        | Some r \<Rightarrow> ok (Valid r \<or> EqualFold_approved (Status r))))"

definition twilio_provider :: "'x verify_provider \<Rightarrow> 'x otp_provider" where
  "twilio_provider p =
     \<lparr>SendVerification = Twilio_SendVerification p, CheckVerification = Twilio_CheckVerification p\<rparr>"

section \<open>Escaping\<close>

lemma hex_upper_inj: "m < 16 \<Longrightarrow> n < 16 \<Longrightarrow> hex_upper m = hex_upper n \<longleftrightarrow> m = n"
  unfolding hex_upper_def by (subst nth_eq_iff_index_eq) simp_all

lemma byte_parts: "byte c div 16 < (16 :: nat)" "byte c mod 16 < (16 :: nat)"
  by (simp_all add: div_less_iff_less_mult)

lemma escape_head:
  assumes "QueryEscape (c # s) = QueryEscape (d # t)"
  shows "c = d \<and> QueryEscape s = QueryEscape t"
proof -
  have u: "\<not> unreserved (CHR ''%'')" "\<not> unreserved (CHR ''+'')" by (simp_all add: unreserved_def)
  have eq: "c = d" if "(byte c :: nat) div 16 = byte d div 16" "(byte c :: nat) mod 16 = byte d mod 16"
  proof -
    have "(byte c :: nat) = byte d" using that by (metis div_mult_mod_eq)
    then show ?thesis by simp
  qed
  show ?thesis
    using assms u eq by (auto split: if_splits simp: hex_upper_inj byte_parts)
qed

lemma QueryEscape_inj: "QueryEscape s = QueryEscape t \<Longrightarrow> s = t"
proof (induction s arbitrary: t)
  case Nil
  then show ?case by (cases t) (auto split: if_splits)
next
  case (Cons c s)
  then obtain d u where t: "t = d # u" by (cases t) (auto split: if_splits)
  from escape_head [OF Cons.prems [unfolded t]] Cons.IH show ?case by (simp add: t)
qed

text \<open>An escaped value holds neither of the separators.\<close>

lemma hex_upper_plain: "n < 16 \<Longrightarrow> hex_upper n \<noteq> CHR ''&'' \<and> hex_upper n \<noteq> CHR ''=''"
proof -
  assume "n < 16"
  then have "hex_upper n \<in> set ''0123456789ABCDEF''"
    unfolding hex_upper_def by (intro nth_mem) simp
  then show ?thesis by auto
qed

lemma QueryEscape_plain: "CHR ''&'' \<notin> set (QueryEscape s)"
proof (induction s)
  case (Cons c s)
  have "\<not> unreserved (CHR ''&'')" by (simp add: unreserved_def)
  then have "c \<noteq> CHR ''&''" if "unreserved c" using that by auto
  moreover have "hex_upper (byte c div 16) \<noteq> CHR ''&''" "hex_upper (byte c mod 16) \<noteq> CHR ''&''"
    by (simp_all add: hex_upper_plain byte_parts)
  ultimately show ?case using Cons by (auto dest: sym)
qed simp

lemma postForm_Inr:
  "run_state (postForm p endpoint vals True) x = (Inr body, x') \<longleftrightarrow>
     valid_address (http_client p) endpoint = None \<and>
     (\<exists>resp. run_state (Do (http_client p) (form_request p endpoint vals)) x = (Inr resp, x') \<and>
        ReadAll resp = Inr body \<and> StatusCode resp < 400)"
proof (cases "run_state (Do (http_client p) (form_request p endpoint vals)) x")
  case (Pair r x1)
  then show ?thesis
    by (cases r; cases "valid_address (http_client p) endpoint")
      (auto simp: postForm_def go_eval split: sum.splits if_splits)
qed

section \<open>Properties\<close>

text \<open>
  C38. A code counts as approved only when the service said so.  \<open>CheckVerification\<close> answers
  \<open>True\<close> exactly when the provider is configured and one POST of the mobile and the trimmed
  code to the check address, under the account's credentials, was answered with a status
  below 400 and a document whose \<open>valid\<close> is true or whose \<open>status\<close> is ``approved'' in any
  case; nothing else is sent.
\<close>

theorem CheckVerification_approved:
  "run_state (Twilio_CheckVerification p mobile code) x = (Inr True, x') \<longleftrightarrow>
     \<not> unconfigured p \<and> valid_address (http_client p) (serviceURL p ''/VerificationCheck'') = None \<and>
     (\<exists>resp body doc r.
        run_state (Do (http_client p)
          \<lparr>Method = ''POST'', URL = serviceURL p ''/VerificationCheck'',
           BasicAuth = (accountSID p, authToken p), ContentType = ''application/x-www-form-urlencoded'',
           Form = ''Code='' @ QueryEscape (TrimSpace code) @ ''&To='' @ QueryEscape mobile\<rparr>) x = (Inr resp, x') \<and>
        ReadAll resp = Inr body \<and> StatusCode resp < 400 \<and>
        json_parse (http_client p) body = Some doc \<and>
        unmarshal check_setters doc \<lparr>Status = [], Valid = False\<rparr> = Some r \<and>
        (Valid r \<or> fold_key (Status r) = ''approved''))"
proof -
  have form: "Values_Encode (Values_Set ''Code'' (TrimSpace code) (Values_Set ''To'' mobile [])) =
      ''Code='' @ QueryEscape (TrimSpace code) @ ''&To='' @ QueryEscape mobile"
    by (simp add: unreserved_def)
  have result: "run_state (case X of None \<Rightarrow> err e | Some r \<Rightarrow> ok (f r)) x1 = (Inr True, x') \<longleftrightarrow>
      (\<exists>r. X = Some r \<and> f r) \<and> x1 = x'" for X :: "check_response option" and f e x1
    by (cases X) auto
  show ?thesis
  proof (cases "unconfigured p")
    case False
    then show ?thesis
      unfolding Twilio_CheckVerification_def EqualFold_approved_def
      by (simp only: if_False call_ok_Inr postForm_Inr form_request_def form result bind_eq_Some_conv) blast
  qed (simp add: Twilio_CheckVerification_def)
qed

text \<open>
  A form cannot be forged through its values.  The forms of two checks are equal only if
  mobile and trimmed code are: no value, whatever separators it holds, is read as another.
\<close>

theorem check_form_unambiguous:
  "Values_Encode (Values_Set ''Code'' (TrimSpace code) (Values_Set ''To'' mobile [])) =
   Values_Encode (Values_Set ''Code'' (TrimSpace code') (Values_Set ''To'' mobile' [])) \<longleftrightarrow>
     TrimSpace code = TrimSpace code' \<and> mobile = mobile'"
proof -
  have split: "a @ CHR ''&'' # b = a' @ CHR ''&'' # b' \<Longrightarrow> CHR ''&'' \<notin> set a \<Longrightarrow> CHR ''&'' \<notin> set a' \<Longrightarrow> a = a' \<and> b = b'"
    for a a' b b' :: string
    by (induction a arbitrary: a') (case_tac a'; auto)+
  show ?thesis
    using split [OF _ QueryEscape_plain QueryEscape_plain] by (auto simp: unreserved_def dest!: QueryEscape_inj)
qed

end
