(* ===== verification/Configs.thy ===== *)
theory Configs
  imports Strconv
begin

text \<open>
  \<open>configs/configs.go\<close>, \<open>dbase/dbConnect.go\<close> and the configuration of \<open>cache/redis/client.go\<close>:
  the configuration is read from the environment, a partial function from names to values,
  and validated.  The parser of URLs is a parameter.
\<close>

section \<open>Names of the environment\<close>

definition DatabaseURL :: string where "DatabaseURL = ''DATABASE_URL''"
definition DBHost :: string where "DBHost = ''DB_HOST''"
definition DBPort :: string where "DBPort = ''DB_PORT''"
definition DBUser :: string where "DBUser = ''DB_USER''"
definition DBPass :: string where "DBPass = ''DB_PASS''"
definition DBName_env :: string where "DBName_env = ''DB_NAME''"
definition DBDebug :: string where "DBDebug = ''DB_DEBUG''"
definition DBSSLMode :: string where "DBSSLMode = ''DB_SSL_MODE''"
definition RedisHost :: string where "RedisHost = ''REDIS_HOST''"
definition RedisEnabled :: string where "RedisEnabled = ''REDIS_ENABLED''"
definition RedisPort :: string where "RedisPort = ''REDIS_PORT''"
definition RedisUser :: string where "RedisUser = ''REDIS_USER''"
definition RedisPass :: string where "RedisPass = ''REDIS_PASS''"
definition RedisDB :: string where "RedisDB = ''REDIS_DB''"
definition RedisCacheTTL :: string where "RedisCacheTTL = ''REDIS_CACHE_TTL_SECONDS''"
definition RedisDialTimeout :: string where "RedisDialTimeout = ''REDIS_DIAL_TIMEOUT_SECONDS''"
definition RedisReadTimeout :: string where "RedisReadTimeout = ''REDIS_READ_TIMEOUT_SECONDS''"
definition RedisWriteTimeout :: string where "RedisWriteTimeout = ''REDIS_WRITE_TIMEOUT_SECONDS''"
definition RedisPoolTimeout :: string where "RedisPoolTimeout = ''REDIS_POOL_TIMEOUT_MILLISECONDS''"
definition HTTPPort :: string where "HTTPPort = ''HTTP_PORT''"
definition Port_env :: string where "Port_env = ''PORT''"
definition HTTPAllowedOrigins :: string where "HTTPAllowedOrigins = ''HTTP_ALLOWED_ORIGINS''"
definition AuthIssuer :: string where "AuthIssuer = ''AUTH_ISSUER''"
definition AuthJWEKey :: string where "AuthJWEKey = ''AUTH_JWE_KEY''"
definition AccessTokenTTL_env :: string where "AccessTokenTTL_env = ''AUTH_ACCESS_TOKEN_TTL_SECONDS''"
definition RefreshTokenTTL_env :: string where "RefreshTokenTTL_env = ''AUTH_REFRESH_TOKEN_TTL_SECONDS''"
definition AuthCookieName :: string where "AuthCookieName = ''AUTH_COOKIE_NAME''"
definition AuthCookieDomain :: string where "AuthCookieDomain = ''AUTH_COOKIE_DOMAIN''"
definition AuthCookiePath :: string where "AuthCookiePath = ''AUTH_COOKIE_PATH''"
definition AuthCookieSecure :: string where "AuthCookieSecure = ''AUTH_COOKIE_SECURE''"
definition AuthCookieHTTPOnly :: string where "AuthCookieHTTPOnly = ''AUTH_COOKIE_HTTP_ONLY''"
definition AuthCookieSameSite :: string where "AuthCookieSameSite = ''AUTH_COOKIE_SAME_SITE''"
definition TwilioAccountSID_env :: string where "TwilioAccountSID_env = ''TWILIO_ACCOUNT_SID''"
definition TwilioAuthToken_env :: string where "TwilioAuthToken_env = ''TWILIO_AUTH_TOKEN''"
definition TwilioVerifyServiceSID_env :: string where "TwilioVerifyServiceSID_env = ''TWILIO_VERIFY_SERVICE_SID''"
definition AuthPendingSignupTTL :: string where "AuthPendingSignupTTL = ''AUTH_PENDING_SIGNUP_TTL_SECONDS''"
definition AuthOTPResendCooldown :: string where "AuthOTPResendCooldown = ''AUTH_OTP_RESEND_COOLDOWN_SECONDS''"
definition AuthOTPMaxResends :: string where "AuthOTPMaxResends = ''AUTH_OTP_MAX_RESENDS''"
definition AuthOTPRequestLimitIP :: string where "AuthOTPRequestLimitIP = ''AUTH_OTP_REQUEST_LIMIT_IP''"
definition AuthOTPRequestLimitWindowSeconds :: string where "AuthOTPRequestLimitWindowSeconds = ''AUTH_OTP_REQUEST_LIMIT_WINDOW_SECONDS''"
definition AuthOTPRequestLimitMobile :: string where "AuthOTPRequestLimitMobile = ''AUTH_OTP_REQUEST_LIMIT_MOBILE''"
definition AuthOTPVerifyLimitIP :: string where "AuthOTPVerifyLimitIP = ''AUTH_OTP_VERIFY_LIMIT_IP''"
definition AuthOTPVerifyLimitWindowSeconds :: string where "AuthOTPVerifyLimitWindowSeconds = ''AUTH_OTP_VERIFY_LIMIT_WINDOW_SECONDS''"
definition AuthOTPVerifyLimitMobile :: string where "AuthOTPVerifyLimitMobile = ''AUTH_OTP_VERIFY_LIMIT_MOBILE''"
definition AuthCSRFCookieName :: string where "AuthCSRFCookieName = ''AUTH_CSRF_COOKIE_NAME''"
definition AuthCSRFHeaderName :: string where "AuthCSRFHeaderName = ''AUTH_CSRF_HEADER_NAME''"
definition AuthCSRFCookiePath :: string where "AuthCSRFCookiePath = ''AUTH_CSRF_COOKIE_PATH''"
definition AuthCSRFCookieSecure :: string where "AuthCSRFCookieSecure = ''AUTH_CSRF_COOKIE_SECURE''"
definition AuthCSRFCookieSameSite :: string where "AuthCSRFCookieSameSite = ''AUTH_CSRF_COOKIE_SAME_SITE''"
definition GoogleClientID_env :: string where "GoogleClientID_env = ''GOOGLE_CLIENT_ID''"
definition GoogleClientSecret_env :: string where "GoogleClientSecret_env = ''GOOGLE_CLIENT_SECRET''"
definition GoogleRedirectURI_env :: string where "GoogleRedirectURI_env = ''GOOGLE_REDIRECT_URI''"

lemmas env_names =
  DatabaseURL_def DBHost_def DBPort_def DBUser_def DBPass_def DBName_env_def DBDebug_def DBSSLMode_def
  RedisHost_def RedisEnabled_def RedisPort_def RedisUser_def RedisPass_def RedisDB_def RedisCacheTTL_def
  RedisDialTimeout_def RedisReadTimeout_def RedisWriteTimeout_def RedisPoolTimeout_def HTTPPort_def
  Port_env_def HTTPAllowedOrigins_def AuthIssuer_def AuthJWEKey_def AccessTokenTTL_env_def
  RefreshTokenTTL_env_def AuthCookieName_def AuthCookieDomain_def AuthCookiePath_def
  AuthCookieSecure_def AuthCookieHTTPOnly_def AuthCookieSameSite_def TwilioAccountSID_env_def
  TwilioAuthToken_env_def TwilioVerifyServiceSID_env_def AuthPendingSignupTTL_def
  AuthOTPResendCooldown_def AuthOTPMaxResends_def AuthOTPRequestLimitIP_def
  AuthOTPRequestLimitWindowSeconds_def AuthOTPRequestLimitMobile_def AuthOTPVerifyLimitIP_def
  AuthOTPVerifyLimitWindowSeconds_def AuthOTPVerifyLimitMobile_def AuthCSRFCookieName_def
  AuthCSRFHeaderName_def AuthCSRFCookiePath_def AuthCSRFCookieSecure_def AuthCSRFCookieSameSite_def
  GoogleClientID_env_def GoogleClientSecret_env_def GoogleRedirectURI_env_def

section \<open>The configuration\<close>

record db_config =
  Host :: string
  Password :: string
  Port :: string
  User :: string
  DBName :: string
  SSLMode :: string
  Debug :: bool

record redis_config =
  Enabled :: bool
  Addr :: string
  Username :: string
  Password :: string
  DB :: int
  CacheTTL :: duration
  DialTimeout :: duration
  ReadTimeout :: duration
  WriteTimeout :: duration
  PoolTimeout :: duration

record http_config =
  Port :: string
  AllowedOrigins :: "string list"

record auth_config =
  Issuer :: string
  JWEKey :: string
  AccessTokenTTL :: duration
  RefreshTokenTTL :: duration
  CookieName :: string
  CookieDomain :: string
  CookiePath :: string
  CookieSecure :: bool
  CookieHTTPOnly :: bool
  CookieSameSite :: string
  TwilioAccountSID :: string
  TwilioAuthToken :: string
  TwilioVerifyServiceSID :: string
  PendingSignupTTL :: duration
  OTPResendCooldown :: duration
  OTPMaxResends :: int
  OTPRequestLimitIP :: int
  OTPRequestLimitWindow :: duration
  OTPRequestLimitMobile :: int
  OTPVerifyLimitIP :: int
  OTPVerifyLimitWindow :: duration
  OTPVerifyLimitMobile :: int
  CSRFCookieName :: string
  CSRFHeaderName :: string
  CSRFCookiePath :: string
  CSRFCookieSecure :: bool
  CSRFCookieSameSite :: string
  GoogleClientID :: string
  GoogleClientSecret :: string
  GoogleRedirectURI :: string

record configs =
  DBConfig :: db_config
  RedisConfig :: redis_config
  HTTP :: http_config
  Auth :: auth_config

section \<open>Reading the environment\<close>

type_synonym environment = "string \<rightharpoonup> string"

definition Getenv :: "environment \<Rightarrow> string \<Rightarrow> string" where
  "Getenv env name = (case env name of None \<Rightarrow> [] | Some v \<Rightarrow> v)"

definition getEnvString :: "environment \<Rightarrow> string \<Rightarrow> string \<Rightarrow> string" where
  "getEnvString env name fallBack = (case env name of None \<Rightarrow> fallBack | Some v \<Rightarrow> v)"

fun getFirstEnvString :: "environment \<Rightarrow> string \<Rightarrow> string list \<Rightarrow> string" where
  "getFirstEnvString env fallBack [] = fallBack"
| "getFirstEnvString env fallBack (name # names) =
     (case env name of
        Some v \<Rightarrow> if TrimSpace v \<noteq> [] then v else getFirstEnvString env fallBack names
      | None \<Rightarrow> getFirstEnvString env fallBack names)"

definition getEnvBool :: "environment \<Rightarrow> string \<Rightarrow> bool \<Rightarrow> bool" where
  "getEnvBool env name fallBack = (case ParseBool (Getenv env name) of None \<Rightarrow> fallBack | Some b \<Rightarrow> b)"

definition getEnvInt :: "environment \<Rightarrow> string \<Rightarrow> int \<Rightarrow> int" where
  "getEnvInt env name fallBack = (case Atoi (Getenv env name) of None \<Rightarrow> fallBack | Some i \<Rightarrow> i)"

definition getEnvCSV :: "environment \<Rightarrow> string \<Rightarrow> string list" where
  "getEnvCSV env name =
     (let raw = TrimSpace (Getenv env name) in
      if raw = [] then [] else filter (\<lambda>part. part \<noteq> []) (map TrimSpace (Split (CHR '','') raw)))"

text \<open>A URL as \<open>url.Parse\<close> reads it; the user may come without a password.\<close>

record url =
  Hostname :: string
  URLPort :: string
  UserInfo :: "(string \<times> string option) option"
  URLPath :: string
  QueryGet :: "string \<Rightarrow> string"

definition set_if :: "string \<Rightarrow> (string \<Rightarrow> 'c \<Rightarrow> 'c) \<Rightarrow> 'c \<Rightarrow> 'c" where
  "set_if v upd cfg = (if v \<noteq> [] then upd v cfg else cfg)"

definition TrimPrefix :: "string \<Rightarrow> string \<Rightarrow> string" where
  "TrimPrefix s p = (if HasPrefix s p then drop (length p) s else s)"

definition apply_url :: "url \<Rightarrow> db_config \<Rightarrow> db_config" where
  "apply_url parsed cfg0 =
     (let cfg1 = set_if (Hostname parsed) (\<lambda>v c. c\<lparr>db_config.Host := v\<rparr>) cfg0;
          cfg2 = set_if (URLPort parsed) (\<lambda>v c. c\<lparr>db_config.Port := v\<rparr>) cfg1;
          cfg3 = (case UserInfo parsed of
                    None \<Rightarrow> cfg2
                  | Some (user, password) \<Rightarrow>
                      let cfg = set_if user (\<lambda>v c. c\<lparr>User := v\<rparr>) cfg2 in
                      case password of None \<Rightarrow> cfg | Some pw \<Rightarrow> cfg\<lparr>db_config.Password := pw\<rparr>);
          cfg4 = set_if (TrimPrefix (URLPath parsed) ''/'') (\<lambda>v c. c\<lparr>DBName := v\<rparr>) cfg3;
          cfg5 = set_if (QueryGet parsed ''sslmode'') (\<lambda>v c. c\<lparr>SSLMode := v\<rparr>) cfg4;
          cfg6 = set_if (TrimSpace (QueryGet parsed ''host'')) (\<lambda>v c. c\<lparr>db_config.Host := v\<rparr>) cfg5 in
      set_if (TrimSpace (QueryGet parsed ''port'')) (\<lambda>v c. c\<lparr>db_config.Port := v\<rparr>) cfg6)"

definition loadDBConfig :: "(string \<Rightarrow> url option) \<Rightarrow> environment \<Rightarrow> db_config" where
  "loadDBConfig url_Parse env =
     (let cfg = \<lparr>db_config.Host = getEnvString env DBHost ''localhost'',
                 Password = getEnvString env DBPass [],
                 Port = getEnvString env DBPort ''5432'', User = getEnvString env DBUser ''postgres'',
                 DBName = getEnvString env DBName_env ''vesko-backend'',
                 SSLMode = getEnvString env DBSSLMode ''disable'', Debug = getEnvBool env DBDebug False\<rparr>;
          rawURL = TrimSpace (Getenv env DatabaseURL) in
      if rawURL = [] then cfg
      else case url_Parse rawURL of None \<Rightarrow> cfg | Some parsed \<Rightarrow> apply_url parsed cfg)"

text \<open>\<open>time.Duration(n) * unit\<close>.\<close>

definition times :: "int \<Rightarrow> duration \<Rightarrow> duration" where
  "times n unit = int64 (n * unit)"

definition seconds_env :: "environment \<Rightarrow> string \<Rightarrow> int \<Rightarrow> duration" where
  "seconds_env env name fallBack = times (getEnvInt env name fallBack) Second"

definition Load :: "(string \<Rightarrow> url option) \<Rightarrow> environment \<Rightarrow> configs" where
  "Load url_Parse env =
     \<lparr>DBConfig = loadDBConfig url_Parse env,
      RedisConfig =
        \<lparr>redis_config.Enabled = getEnvBool env RedisEnabled False,
         Addr = JoinHostPort (getEnvString env RedisHost ''localhost'') (getEnvString env RedisPort ''6379''),
         Username = getEnvString env RedisUser [], Password = getEnvString env RedisPass [],
         DB = getEnvInt env RedisDB 0, CacheTTL = seconds_env env RedisCacheTTL 300,
         DialTimeout = seconds_env env RedisDialTimeout 5, ReadTimeout = seconds_env env RedisReadTimeout 1,
         WriteTimeout = seconds_env env RedisWriteTimeout 2,
         PoolTimeout = times (getEnvInt env RedisPoolTimeout 500) (10 ^ 6)\<rparr>,
      HTTP =
        \<lparr>http_config.Port = getFirstEnvString env ''8080'' [HTTPPort, Port_env],
         AllowedOrigins = getEnvCSV env HTTPAllowedOrigins\<rparr>,
      Auth =
        \<lparr>Issuer = getEnvString env AuthIssuer ''vesko'', JWEKey = getEnvString env AuthJWEKey [],
         AccessTokenTTL = seconds_env env AccessTokenTTL_env 900,
         RefreshTokenTTL = seconds_env env RefreshTokenTTL_env 86400,
         CookieName = getEnvString env AuthCookieName ''refresh_token'',
         CookieDomain = getEnvString env AuthCookieDomain [],
         CookiePath = getEnvString env AuthCookiePath ''/auth'',
         CookieSecure = getEnvBool env AuthCookieSecure False,
         CookieHTTPOnly = getEnvBool env AuthCookieHTTPOnly False,
         CookieSameSite = getEnvString env AuthCookieSameSite ''lax'',
         TwilioAccountSID = getEnvString env TwilioAccountSID_env [],
         TwilioAuthToken = getEnvString env TwilioAuthToken_env [],
         TwilioVerifyServiceSID = getEnvString env TwilioVerifyServiceSID_env [],
         PendingSignupTTL = seconds_env env AuthPendingSignupTTL 600,
         OTPResendCooldown = seconds_env env AuthOTPResendCooldown 60,
         OTPMaxResends = getEnvInt env AuthOTPMaxResends 5,
         OTPRequestLimitIP = getEnvInt env AuthOTPRequestLimitIP 10,
         OTPRequestLimitWindow = seconds_env env AuthOTPRequestLimitWindowSeconds 600,
         OTPRequestLimitMobile = getEnvInt env AuthOTPRequestLimitMobile 3,
         OTPVerifyLimitIP = getEnvInt env AuthOTPVerifyLimitIP 20,
         OTPVerifyLimitWindow = seconds_env env AuthOTPVerifyLimitWindowSeconds 600,
         OTPVerifyLimitMobile = getEnvInt env AuthOTPVerifyLimitMobile 5,
         CSRFCookieName = getEnvString env AuthCSRFCookieName ''csrf_token'',
         CSRFHeaderName = getEnvString env AuthCSRFHeaderName ''X-CSRF-Token'',
         CSRFCookiePath = getEnvString env AuthCSRFCookiePath ''/auth'',
         CSRFCookieSecure = getEnvBool env AuthCSRFCookieSecure True,
         CSRFCookieSameSite = getEnvString env AuthCSRFCookieSameSite ''lax'',
         GoogleClientID = getEnvString env GoogleClientID_env [],
         GoogleClientSecret = getEnvString env GoogleClientSecret_env [],
         GoogleRedirectURI = getEnvString env GoogleRedirectURI_env []\<rparr>\<rparr>"

section \<open>Validation\<close>

text \<open>The error of the first case that applies.\<close>

fun first_failed :: "(bool \<times> string) list \<Rightarrow> string option" where
  "first_failed [] = None"
| "first_failed ((b, m) # cs) = (if b then Some m else first_failed cs)"

definition is_required :: "string \<Rightarrow> string" where
  "is_required name = name @ '' is required''"

definition must_be_positive :: "string \<Rightarrow> string" where
  "must_be_positive name = name @ '' must be greater than 0''"

definition must_not_be_negative :: "string \<Rightarrow> string" where
  "must_not_be_negative name = name @ '' must be 0 or greater''"

definition redis_checks :: "redis_config \<Rightarrow> (bool \<times> string) list" where
  "redis_checks r =
     [(Addr r = [], ''redis address is required''),
      (CacheTTL r \<le> 0, must_be_positive RedisCacheTTL),
      (DialTimeout r \<le> 0, must_be_positive RedisDialTimeout),
      (ReadTimeout r \<le> 0, must_be_positive RedisReadTimeout),
      (WriteTimeout r \<le> 0, must_be_positive RedisWriteTimeout),
      (PoolTimeout r \<le> 0, must_be_positive RedisPoolTimeout),
      (case SplitHostPort (Addr r) of None \<Rightarrow> True | Some (host, port) \<Rightarrow> host = [] \<or> port = [],
       ''redis address must include host and port'')]"

definition config_checks :: "configs \<Rightarrow> (bool \<times> string) list" where
  "config_checks c =
     (let db = DBConfig c; a = Auth c in
      [(db_config.Host db = [], is_required DBHost), (db_config.Port db = [], is_required DBPort),
       (User db = [], is_required DBUser), (DBName db = [], is_required DBName_env),
       (db_config.Password db = [], is_required DBPass),
       (Atoi (db_config.Port db) = None, DBPort @ '' must be a valid port''),
       (http_config.Port (HTTP c) = [], is_required HTTPPort), (Issuer a = [], is_required AuthIssuer),
       (JWEKey a = [], is_required AuthJWEKey),
       (length (JWEKey a) \<noteq> 32, AuthJWEKey @ '' must be exactly 32 bytes''),
       (AccessTokenTTL a \<le> 0, must_be_positive AccessTokenTTL_env),
       (RefreshTokenTTL a \<le> 0, must_be_positive RefreshTokenTTL_env),
       (CookieName a = [], is_required AuthCookieName), (CookiePath a = [], is_required AuthCookiePath),
       (CSRFCookieName a = [], is_required AuthCSRFCookieName),
       (CSRFHeaderName a = [], is_required AuthCSRFHeaderName),
       (CSRFCookiePath a = [], is_required AuthCSRFCookiePath),
       (PendingSignupTTL a \<le> 0, must_be_positive AuthPendingSignupTTL),
       (OTPResendCooldown a < 0, must_not_be_negative AuthOTPResendCooldown),
       (OTPMaxResends a < 0, must_not_be_negative AuthOTPMaxResends),
       (OTPRequestLimitIP a < 0, must_not_be_negative AuthOTPRequestLimitIP),
       (OTPRequestLimitWindow a < 0, must_not_be_negative AuthOTPRequestLimitWindowSeconds),
       (OTPRequestLimitMobile a < 0, must_not_be_negative AuthOTPRequestLimitMobile),
       (OTPVerifyLimitIP a < 0, must_not_be_negative AuthOTPVerifyLimitIP),
       (OTPVerifyLimitWindow a < 0, must_not_be_negative AuthOTPVerifyLimitWindowSeconds),
       (OTPVerifyLimitMobile a < 0, must_not_be_negative AuthOTPVerifyLimitMobile),
       (Atoi (http_config.Port (HTTP c)) = None, HTTPPort @ '' must be a valid port'')] @
      (if Enabled (RedisConfig c) then redis_checks (RedisConfig c) else []) @
      [(CookieSameSite a \<notin> {''lax'', ''strict'', ''none''},
        AuthCookieSameSite @ '' must be one of lax, strict, none''),
       (CSRFCookieSameSite a \<notin> {''lax'', ''strict'', ''none''},
        AuthCSRFCookieSameSite @ '' must be one of lax, strict, none'')])"

definition Validate_config :: "configs \<Rightarrow> string option" where
  "Validate_config c = first_failed (config_checks c)"

section \<open>The connection string\<close>

definition ConnectString :: "db_config \<Rightarrow> string" where
  "ConnectString cfg =
     ''host='' @ db_config.Host cfg @ '' port='' @ db_config.Port cfg @ '' user='' @ User cfg @
     '' dbname='' @ DBName cfg @ '' password='' @ db_config.Password cfg @ '' sslmode='' @ SSLMode cfg"

text \<open>\<open>gorm_Open\<close> opens a connection string; the second argument silences its logger.\<close>

definition DBConn :: "(string \<Rightarrow> bool \<Rightarrow> ('s, 'e, 'a) call) \<Rightarrow> db_config \<Rightarrow> ('s, 'e, 'a) call" where
  "DBConn gorm_Open cfg = gorm_Open (ConnectString cfg) (\<not> Debug cfg)"

section \<open>Lemmas\<close>

lemma first_failed_None: "first_failed cs = None \<longleftrightarrow> (\<forall>(b, m) \<in> set cs. \<not> b)"
  by (induction cs rule: first_failed.induct) (auto split: if_splits)

lemma first_failed_Some:
  "first_failed cs = Some m \<longleftrightarrow> (\<exists>pre post. cs = pre @ (True, m) # post \<and> (\<forall>(b, m) \<in> set pre. \<not> b))"
proof (induction cs)
  case (Cons c cs)
  obtain b k where c: "c = (b, k)" by fastforce
  show ?case
  proof (cases b)
    case True
    then show ?thesis by (auto simp: c Cons_eq_append_conv)
  next
    case False
    with Cons show ?thesis by (fastforce simp: c Cons_eq_append_conv)
  qed
qed simp

text \<open>What an accepted configuration guarantees to the rest of the program.\<close>

definition usable_auth :: "auth_config \<Rightarrow> bool" where
  "usable_auth a \<longleftrightarrow>
     length (JWEKey a) = 32 \<and> 0 < AccessTokenTTL a \<and> 0 < RefreshTokenTTL a \<and>
     CookieName a \<noteq> [] \<and> CookiePath a \<noteq> [] \<and> CSRFCookieName a \<noteq> [] \<and> CSRFHeaderName a \<noteq> [] \<and>
     CSRFCookiePath a \<noteq> [] \<and> 0 < PendingSignupTTL a \<and> 0 \<le> OTPResendCooldown a \<and> 0 \<le> OTPMaxResends a \<and>
     0 \<le> OTPRequestLimitIP a \<and> 0 \<le> OTPRequestLimitWindow a \<and> 0 \<le> OTPRequestLimitMobile a \<and>
     0 \<le> OTPVerifyLimitIP a \<and> 0 \<le> OTPVerifyLimitWindow a \<and> 0 \<le> OTPVerifyLimitMobile a \<and>
     CookieSameSite a \<in> {''lax'', ''strict'', ''none''} \<and> CSRFCookieSameSite a \<in> {''lax'', ''strict'', ''none''}"

lemma Validate_config_usable: "Validate_config c = None \<Longrightarrow> usable_auth (Auth c)"
  by (simp add: Validate_config_def first_failed_None config_checks_def Let_def usable_auth_def not_le not_less
      del: first_failed.simps)

lemma times_exact: "0 \<le> n \<Longrightarrow> n \<le> 9223372036 \<Longrightarrow> times n Second = n * Second"
  by (simp add: times_def Second_def int64_id min_int64_def max_int64_def)

lemma getEnvInt_Itoa:
  "env name = Some (Itoa n) \<Longrightarrow> min_int64 \<le> n \<Longrightarrow> n \<le> max_int64 \<Longrightarrow> getEnvInt env name fallBack = n"
  by (simp add: getEnvInt_def Getenv_def Atoi_Itoa)

text \<open>
  Values are not quoted, so the connection string does not determine them: a password with a
  space in it can set any other option.
\<close>

lemma ConnectString_ambiguous:
  "\<exists>c c'. ConnectString c = ConnectString c' \<and> SSLMode c \<noteq> SSLMode c' \<and> db_config.Password c \<noteq> db_config.Password c'"
  by (rule exI [of _ "\<lparr>db_config.Host = [], Password = ''p sslmode=disable'', Port = [], User = [], DBName = [],
        SSLMode = ''require'', Debug = False\<rparr>"],
      rule exI [of _ "\<lparr>db_config.Host = [], Password = ''p'', Port = [], User = [], DBName = [],
        SSLMode = ''disable sslmode=require'', Debug = False\<rparr>"])
    (simp add: ConnectString_def)

end
