(* ===== verification/Server_Http.thy ===== *)
theory Server_Http
  imports Http Memory_Stores
begin

text \<open>
  \<open>server/http.go\<close>: what happens to a request before and after the routes.  The middlewares
  that log or trace are in \<open>Serving\<close>.  A middleware that ends without calling \<open>Next\<close> does
  not end the request in \<open>gin\<close>: only \<open>Abort\<close> does, and the outcome of the CORS middleware
  says so.
\<close>

section \<open>Cross-origin requests\<close>

definition allowed_origins :: "string list \<Rightarrow> string set" where
  "allowed_origins allowedOrigins = set (filter (\<lambda>origin. origin \<noteq> []) (map TrimSpace allowedOrigins))"

definition allow_methods :: string where
  "allow_methods = ''GET, POST, OPTIONS''"

record cors_outcome =
  CORSHeaders :: "(string \<times> string) list"
  CORSStatus :: "int option"
  Aborted :: bool

definition corsMiddleware :: "string list \<Rightarrow> string \<Rightarrow> request \<Rightarrow> cors_outcome" where
  "corsMiddleware allowedOrigins method c =
     (let allowed = allowed_origins allowedOrigins;
          origin = TrimSpace (Header c ''Origin'');
          headers = (if origin \<noteq> [] \<and> origin \<in> allowed
            then [(''Access-Control-Allow-Origin'', origin), (''Vary'', ''Origin''),
                  (''Access-Control-Allow-Credentials'', ''true''),
                  (''Access-Control-Allow-Headers'', ''Authorization, Content-Type, X-Request-ID, X-CSRF-Token''),
                  (''Access-Control-Allow-Methods'', allow_methods),
                  (''Access-Control-Expose-Headers'', ''X-Request-ID'')]
            else []) in
      if method = ''OPTIONS''
      then if origin = [] \<or> origin \<in> allowed
           then \<lparr>CORSHeaders = headers, CORSStatus = Some 204, Aborted = False\<rparr>
           else \<lparr>CORSHeaders = headers, CORSStatus = Some 403, Aborted = True\<rparr>
      else \<lparr>CORSHeaders = headers, CORSStatus = None, Aborted = False\<rparr>)"

section \<open>Request identifiers\<close>

text \<open>\<open>UnixNano\<close>, on 64 bits.\<close>

definition UnixNano :: "time \<Rightarrow> int" where
  "UnixNano t = int64 (t - 62135596800 * Second)"

text \<open>\<open>rand_read\<close> is the entropy source, \<open>read_clock\<close> the clock.\<close>

definition newRequestID :: "(nat \<Rightarrow> ('x, 'e, string) call) \<Rightarrow> ('x, time) state \<Rightarrow> ('x, string) state" where
  "newRequestID rand_read read_clock = do {
     r \<leftarrow> rand_read 16;
     case r of
       Inl _ \<Rightarrow> do { now \<leftarrow> read_clock; State_Monad.return (''req-'' @ Itoa (UnixNano now)) }
     | Inr data \<Rightarrow> State_Monad.return (hex_encode data) }"

text \<open>The request that is passed on, and the header that is set on the response.\<close>

definition requestContextMiddleware ::
  "(nat \<Rightarrow> ('x, 'e, string) call) \<Rightarrow> ('x, time) state \<Rightarrow> request \<Rightarrow> ('x, request \<times> (string \<times> string)) state" where
  "requestContextMiddleware rand_read read_clock c = do {
     start \<leftarrow> read_clock;
     let given = TrimSpace (Header c ''X-Request-ID'');
     requestID \<leftarrow> (if given = [] then newRequestID rand_read read_clock else State_Monad.return given);
     State_Monad.return
       (c\<lparr>Context := WithMetadata (Context c)
            \<lparr>metadata.RequestID = requestID, RequestStart = start, TraceParent = TrimSpace (Header c ''traceparent''),
             TraceState = TrimSpace (Header c ''tracestate'')\<rparr>,
          Header := (Header c)(''X-Request-ID'' := requestID)\<rparr>,
        (''X-Request-ID'', requestID)) }"

section \<open>Health and readiness\<close>

text \<open>\<open>pkg/buildinfo\<close>: version, commit and date, unless the linker sets others.\<close>

definition buildinfo :: "string \<times> string \<times> string" where
  "buildinfo = (''dev'', ''unknown'', ''unknown'')"

record health_response =
  Status :: string
  Service :: string
  Env :: string
  Version :: string
  Commit :: string
  BuildDate :: string

definition handleHealth :: "string \<Rightarrow> string \<Rightarrow> string \<times> string \<times> string \<Rightarrow> health_response response" where
  "handleHealth serviceName environment build =
     (case build of (version, commit, date) \<Rightarrow>
        respond 200 \<lparr>Status = ''ok'', Service = serviceName, Env = environment, Version = version,
          Commit = commit, BuildDate = date\<rparr>)"

definition handleReady :: "('d, 'e, unit) call option \<Rightarrow> ('d, string response) state" where
  "handleReady check =
     (case check of
        None \<Rightarrow> State_Monad.return (respond 200 ''ready'')
      | Some readinessCheck \<Rightarrow> do {
          r \<leftarrow> readinessCheck;
          State_Monad.return (case r of Inl _ \<Rightarrow> respond 503 ''not_ready'' | Inr _ \<Rightarrow> respond 200 ''ready'') })"

section \<open>User agents\<close>

definition summarize_browser :: "string \<Rightarrow> string" where
  "summarize_browser ua =
     (if Contains ua ''edg/'' then ''edge''
      else if Contains ua ''opr/'' \<or> Contains ua ''opera'' then ''opera''
      else if Contains ua ''chrome/'' \<and> \<not> Contains ua ''edg/'' \<and> \<not> Contains ua ''opr/'' then ''chrome''
      else if Contains ua ''firefox/'' then ''firefox''
      else if Contains ua ''safari/'' \<and> \<not> Contains ua ''chrome/'' then ''safari''
      else if Contains ua ''postmanruntime/'' then ''postman''
      else if Contains ua ''curl/'' then ''curl'' else ''unknown'')"

definition summarize_platform :: "string \<Rightarrow> string" where
  "summarize_platform ua =
     (if Contains ua ''windows'' then ''windows''
      else if Contains ua ''android'' then ''android''
      else if Contains ua ''iphone'' \<or> Contains ua ''ipad'' \<or> Contains ua ''ios'' then ''ios''
      else if Contains ua ''mac os x'' \<or> Contains ua ''macintosh'' then ''macos''
      else if Contains ua ''linux'' then ''linux'' else ''unknown'')"

definition summarize_device :: "string \<Rightarrow> string \<Rightarrow> string" where
  "summarize_device ua browser =
     (if Contains ua ''bot'' \<or> Contains ua ''spider'' \<or> Contains ua ''crawler'' then ''bot''
      else if Contains ua ''ipad'' \<or> Contains ua ''tablet'' then ''tablet''
      else if Contains ua ''mobile'' \<or> Contains ua ''iphone'' \<or> Contains ua ''android'' then ''mobile''
      else if browser = ''curl'' \<or> browser = ''postman'' then ''script'' else ''desktop'')"

definition summarizeUserAgent :: "string \<Rightarrow> string \<times> string \<times> string" where
  "summarizeUserAgent userAgent =
     (let ua = ToLower (TrimSpace userAgent) in
      if ua = [] then (''unknown'', ''unknown'', ''unknown'')
      else let browser = summarize_browser ua in
        (browser, summarize_platform ua, summarize_device ua browser))"

section \<open>Lemmas\<close>

lemma mem_allowed_origins:
  "o' \<in> allowed_origins xs \<longleftrightarrow> o' \<noteq> [] \<and> (\<exists>a \<in> set xs. TrimSpace a = o')"
  by (auto simp: allowed_origins_def)

lemma Itoa_nonempty: "Itoa n \<noteq> []"
  by (simp add: Itoa_def)

lemma newRequestID_nonempty:
  assumes "\<And>x d x'. run_state (rand_read 16) x = (Inr d, x') \<Longrightarrow> length d = 16"
    and "run_state (newRequestID rand_read read_clock) x = (i, x')"
  shows "i \<noteq> []"
proof -
  obtain r x1 where r: "run_state (rand_read 16) x = (r, x1)" by fastforce
  show ?thesis
  proof (cases r)
    case (Inr d)
    with assms(1) r have "length (hex_encode d) = 32" by (simp add: hex_encode_length)
    with assms(2) r Inr show ?thesis by (auto simp: newRequestID_def)
  qed (use assms(2) r in \<open>auto simp: newRequestID_def split: prod.splits\<close>)
qed

section \<open>Properties\<close>

text \<open>
  Other origins get nothing.  The cross-origin headers are sent exactly when the trimmed
  origin of the request is, up to surrounding space, one of the configured ones, and then
  they name that very origin; a preflight request of any other origin is refused with 403
  and goes no further, and every other request is passed on to the routes.
\<close>

theorem corsMiddleware_exact:
  "(let o' = TrimSpace (Header c ''Origin''); out = corsMiddleware allowedOrigins method c;
        listed = (o' \<noteq> [] \<and> (\<exists>a \<in> set allowedOrigins. TrimSpace a = o')) in
     (CORSHeaders out = [] \<longleftrightarrow> \<not> listed) \<and>
     map_of (CORSHeaders out) ''Access-Control-Allow-Origin'' = (if listed then Some o' else None) \<and>
     (Aborted out \<longleftrightarrow> method = ''OPTIONS'' \<and> o' \<noteq> [] \<and> \<not> listed) \<and>
     CORSStatus out = (if method \<noteq> ''OPTIONS'' then None else if Aborted out then Some 403 else Some 204))"
  by (simp add: corsMiddleware_def Let_def mem_allowed_origins)

text \<open>
  Every request has one identifier.  If the entropy source fills its buffer or fails, the
  identifier that the handlers find in the context, the one in the request's header and the
  one in the response's header are the same non-empty string, and the client's own trimmed
  identifier if it sent one.
\<close>

theorem requestContextMiddleware_identifies:
  assumes "\<And>x d x'. run_state (rand_read 16) x = (Inr d, x') \<Longrightarrow> length d = 16"
    and "run_state (requestContextMiddleware rand_read read_clock c) x = ((c', (h, requestID)), x')"
  shows "requestID \<noteq> [] \<and> h = ''X-Request-ID'' \<and> requestIDFromContext c' = requestID \<and>
    Header c' = (Header c)(''X-Request-ID'' := requestID) \<and>
    (if TrimSpace (Header c ''X-Request-ID'') = [] then True
     else requestID = TrimSpace (Header c ''X-Request-ID''))"
proof -
  let ?given = "TrimSpace (Header c ''X-Request-ID'')"
  define m where "m = (if ?given = [] then newRequestID rand_read read_clock else State_Monad.return ?given)"
  obtain start x0 where start: "run_state read_clock x = (start, x0)" by fastforce
  obtain i x1 where i: "run_state m x0 = (i, x1)" by fastforce
  have run: "requestID = i" "x' = x1" "h = ''X-Request-ID''" "Header c' = (Header c)(''X-Request-ID'' := i)"
    "request_id (Context c') = (if i \<noteq> [] then Some i else request_id (Context c))"
    using assms(2) i start by (auto simp: requestContextMiddleware_def m_def [symmetric] Let_def WithMetadata_def)
  have ne: "i \<noteq> []"
  proof (cases "?given = []")
    case True
    with i have "run_state (newRequestID rand_read read_clock) x0 = (i, x1)" by (simp add: m_def)
    from newRequestID_nonempty [OF assms(1) this] show ?thesis .
  qed (use i in \<open>auto simp: m_def\<close>)
  have "?given \<noteq> [] \<Longrightarrow> i = ?given" using i by (simp add: m_def)
  with run ne show ?thesis by (simp add: requestIDFromContext_def ctx_RequestID_def)
qed

lemma requestContextMiddleware_identifies_witness:
  "\<exists>c' h i. run_state (requestContextMiddleware (\<lambda>n. err ()) (State_Monad.return 5) (demo_request_of (\<lambda>_. []) (\<lambda>_. None))) () =
     ((c', (h, i)), ()) \<and> requestIDFromContext c' = i \<and> i \<noteq> []"
proof -
  let ?run = "run_state (requestContextMiddleware (\<lambda>n. err ()) (State_Monad.return 5) (demo_request_of (\<lambda>_. []) (\<lambda>_. None))) ()"
  obtain c' h i where run: "?run = ((c', (h, i)), ())" by (metis surj_pair old.unit.exhaust)
  from requestContextMiddleware_identifies [OF _ run] run show ?thesis by auto
qed

end
