(* ===== verification/Serving.thy ===== *)
theory Serving
  imports Server_Http Logging
begin

text \<open>
  The engine of \<open>server/http.go\<close>: the middlewares of \<open>New\<close> in their order around the handler of
  a route, the recovery from its panics, the span of \<open>internal/observability/trace.go\<close> and the line
  of the access log; the listener and what \<open>New\<close> hands to it.  The router is \<open>gin\<close>'s: the handlers of the matched route, if one matched,
  are a parameter, and so is the tracer, which reads the headers of other services.
\<close>

section \<open>Handlers\<close>

text \<open>How the handlers of a route end; a panic leaves the cookies that were set before it.\<close>

datatype 'b handled = Answered "'b response" | Panicked string "cookie list"

type_synonym ('s, 'b) route_handlers = "request \<Rightarrow> ('s, 'b handled) state"

text \<open>The body of a response: the one of the route, \<open>gin\<close>'s own for an unknown path, or the one of the recovery.\<close>

datatype 'b server_body = RouteBody 'b | PageNotFound | PanicError string

record ('s, 'f) server_libs =
  RandRead :: "nat \<Rightarrow> ('s, unit, string) call"
  Clock :: "('s, time) state"
  StartSpan :: "string \<Rightarrow> request \<Rightarrow> ('s, string option) state"
  RFC3339 :: "time \<Rightarrow> string"
  MicrosToMillis :: "int \<Rightarrow> 'f"

record 'f server_config =
  Addr :: string
  AllowedOrigins :: "string list"
  ReadTimeout :: duration
  WriteTimeout :: duration
  IdleTimeout :: duration
  ShutdownTimeout :: duration
  ServiceName :: string
  Environment :: string
  Logger :: "'f logger option"

text \<open>What \<open>New\<close> derives from it: the logger of the server, and the listener it will start.\<close>

record 'f http_server =
  ListenAddr :: string
  ListenTimeouts :: "duration \<times> duration \<times> duration"
  ServerLogger :: "'f logger"

definition New_server :: "'f logger \<Rightarrow> 'f server_config \<Rightarrow> 'f http_server" where
  "New_server default_logger cfg =
     (let loggerInternal = (case Logger cfg of Some l \<Rightarrow> l | None \<Rightarrow> default_logger) in
      \<lparr>ListenAddr = Addr cfg, ListenTimeouts = (ReadTimeout cfg, WriteTimeout cfg, IdleTimeout cfg),
       ServerLogger = With loggerInternal [(''component'', StringValue ''http_server'')]\<rparr>)"

section \<open>Spans\<close>

record span =
  SpanName :: string
  HttpRoute :: "string option"
  HttpMethod :: string
  UrlPath :: string
  HttpStatus :: int
  SpanError :: bool

text \<open>
  What is recorded of a request when its span ends.  \<open>errors\<close> is the text of the errors the
  context has collected; no handler of the program adds one, so the chain below passes \<open>None\<close>.
\<close>

definition end_span :: "string \<Rightarrow> string \<Rightarrow> string \<Rightarrow> int \<Rightarrow> string option \<Rightarrow> span" where
  "end_span mth pth route st errors =
     \<lparr>SpanName = mth @ '' '' @ (if route = [] then pth else route),
      HttpRoute = (if route = [] then None else Some route),
      HttpMethod = mth, UrlPath = pth, HttpStatus = st,
      SpanError = (errors \<noteq> None \<or> 500 \<le> st)\<rparr>"

text \<open>
  The tracing middleware: it starts a span for what the headers of the request say, runs the
  rest of the chain, and records the outcome.
\<close>

definition HTTPMiddleware ::
  "('s, 'f) server_libs \<Rightarrow> string \<Rightarrow> string \<Rightarrow> string \<Rightarrow> request \<Rightarrow>
     (string option \<Rightarrow> ('s, 'b response \<times> 'l) state) \<Rightarrow> ('s, ('b response \<times> 'l) \<times> span) state" where
  "HTTPMiddleware lbs mth pth route c Next = do {
     let spanName = mth @ '' '' @ pth;
     spn \<leftarrow> StartSpan lbs spanName c;
     (r, out) \<leftarrow> Next spn;
     State_Monad.return ((r, out), end_span mth pth route (response.Status r) None) }"

text \<open>\<open>Configure\<close>: every request is sampled, and two formats of headers are understood.\<close>

datatype propagator = TraceContextFormat | BaggageFormat

record tracing =
  ResourceAttributes :: "(string \<times> string) list"
  AlwaysSample :: bool
  Propagators :: "propagator list"

definition Configure ::
  "((string \<times> string) list \<Rightarrow> (string \<times> string) list) \<Rightarrow> string \<Rightarrow> tracing" where
  "Configure merge_with_default service =
     \<lparr>ResourceAttributes = merge_with_default [(''service.name'', service)],
      AlwaysSample = True, Propagators = [TraceContextFormat, BaggageFormat]\<rparr>"

section \<open>Middlewares\<close>

definition traceIDMiddleware :: "string option \<Rightarrow> 'f logger \<Rightarrow> 'f logger" where
  "traceIDMiddleware spn l =
     (case spn of Some traceID \<Rightarrow> With l [(''trace_id'', StringValue traceID)] | None \<Rightarrow> l)"

text \<open>
  A line that was asked for, with the logger it was asked of.  The time stamp \<open>slog\<close> gives a
  line of the access log is identified with the reading that ends the latency.
\<close>

type_synonym 'f log_entry = "'f logger \<times> 'f slog_record"

definition microseconds :: "duration \<Rightarrow> int" where
  "microseconds d = sgn d * (\<bar>d\<bar> div 1000)"

definition access_record ::
  "('s, 'f) server_libs \<Rightarrow> string \<Rightarrow> string \<Rightarrow> time \<Rightarrow> time \<Rightarrow> int \<Rightarrow> string option \<Rightarrow> 'f slog_record" where
  "access_record lbs mth pth start now st errors =
     (let fields = [(''method'', StringValue mth), (''path'', StringValue pth), (''status'', Int64Value st),
            (''latency_ms'', Float64Value (MicrosToMillis lbs (microseconds (time_Sub now start)))),
            (''created_at'', StringValue (RFC3339 lbs start))] in
      if errors \<noteq> None
      then \<lparr>Time = now, Level = LevelError, Message = ''http request failed'',
             Attrs = fields @ [(''errors'', StringValue (the errors))]\<rparr>
      else if 500 \<le> st
      then \<lparr>Time = now, Level = LevelError, Message = ''http request error'', Attrs = fields\<rparr>
      else if 400 \<le> st
      then \<lparr>Time = now, Level = LevelWarn, Message = ''http request warning'', Attrs = fields\<rparr>
      else \<lparr>Time = now, Level = LevelInfo, Message = ''http request completed'', Attrs = fields\<rparr>)"

definition accessLogMiddleware ::
  "('s, 'f) server_libs \<Rightarrow> 'f logger \<Rightarrow> string \<Rightarrow> string \<Rightarrow> request_context \<Rightarrow>
     ('s, 'b server_body response \<times> 'f log_entry list) state \<Rightarrow>
     ('s, 'b server_body response \<times> 'f log_entry list) state" where
  "accessLogMiddleware lbs l mth pth ctx Next = do {
     let given = ctx_RequestStart ctx;
     start \<leftarrow> (if time_IsZero given then Clock lbs else State_Monad.return given);
     (r, inner) \<leftarrow> Next;
     now \<leftarrow> Clock lbs;
     State_Monad.return (r, inner @ [(l, access_record lbs mth pth start now (response.Status r) None)]) }"

text \<open>\<open>path\<close> of the line is the pattern of the route.\<close>

definition panic_record :: "string \<Rightarrow> string \<Rightarrow> time \<Rightarrow> string \<Rightarrow> 'f slog_record" where
  "panic_record mth route now recovered =
     \<lparr>Time = now, Level = LevelError, Message = ''panic recovered'',
      Attrs = [(''method'', StringValue mth), (''path'', StringValue route), (''error'', StringValue recovered)]\<rparr>"

definition CustomRecovery ::
  "('s, 'f) server_libs \<Rightarrow> 'f logger \<Rightarrow> string \<Rightarrow> string \<Rightarrow> ('s, 'b handled) state \<Rightarrow>
     ('s, 'b server_body response \<times> 'f log_entry list) state" where
  "CustomRecovery lbs l mth route Next = do {
     h \<leftarrow> Next;
     case h of
       Answered r \<Rightarrow> State_Monad.return
         (\<lparr>response.Status = response.Status r, Location = Location r, SetCookies = SetCookies r,
           Body = map_option RouteBody (Body r)\<rparr>, [])
     | Panicked recovered set_before \<Rightarrow> do {
         now \<leftarrow> Clock lbs;
         State_Monad.return
           (\<lparr>response.Status = 500, Location = None, SetCookies = set_before,
             Body = Some (PanicError ''internal server error'')\<rparr>,
            [(l, panic_record mth route now recovered)]) } }"

text \<open>
  Without a matching route the status is the one a middleware has set, else 404 with the
  page of \<open>gin\<close>.
\<close>

definition unrouted :: "int option \<Rightarrow> 'b server_body response" where
  "unrouted st = (case st of Some n \<Rightarrow> respond_empty n | None \<Rightarrow> respond 404 PageNotFound)"

section \<open>The chain\<close>

record ('b, 'f) served =
  Headers :: "(string \<times> string) list"
  Answer :: "'b server_body response"
  Lines :: "'f log_entry list"
  Span :: span

text \<open>What the middlewares from \<open>corsMiddleware\<close> on do with a request.\<close>

definition from_cors ::
  "('s, 'f) server_libs \<Rightarrow> 'f server_config \<Rightarrow> 'f logger \<Rightarrow> string \<Rightarrow> string \<Rightarrow>
     (string \<times> ('s, 'b) route_handlers) option \<Rightarrow> request \<Rightarrow>
     ('s, 'b server_body response \<times> 'f log_entry list) state" where
  "from_cors lbs cfg l mth pth matched c =
     (let cors = corsMiddleware (AllowedOrigins cfg) mth c in
      if Aborted cors then State_Monad.return (respond_empty (the (CORSStatus cors)), [])
      else accessLogMiddleware lbs l mth pth (Context c)
        (case matched of
           None \<Rightarrow> State_Monad.return (unrouted (CORSStatus cors), [])
         | Some (pattern, handlers) \<Rightarrow> CustomRecovery lbs l mth pattern (handlers c)))"

definition serve_request ::
  "('s, 'f) server_libs \<Rightarrow> 'f logger \<Rightarrow> 'f server_config \<Rightarrow> string \<Rightarrow> string \<Rightarrow> (string \<times> ('s, 'b) route_handlers) option \<Rightarrow>
     request \<Rightarrow> ('s, ('b, 'f) served) state" where
  "serve_request lbs dflt cfg mth pth matched c0 = do {
     (c, idHeader) \<leftarrow> requestContextMiddleware (RandRead lbs) (Clock lbs) c0;
     let l = With (ServerLogger (New_server dflt cfg)) [(''request_id'', StringValue (snd idHeader))];
     let route = (case matched of Some (pattern, _) \<Rightarrow> pattern | None \<Rightarrow> []);
     ((r, lns), spn) \<leftarrow> HTTPMiddleware lbs mth pth route c (\<lambda>started.
       from_cors lbs cfg (traceIDMiddleware started l) mth pth matched c);
     State_Monad.return
       \<lparr>Headers = idHeader # CORSHeaders (corsMiddleware (AllowedOrigins cfg) mth c), Answer = r, Lines = lns,
        Span = spn\<rparr> }"

text \<open>What \<open>/health\<close> and \<open>/healthz\<close> answer, in a program the linker has not stamped.\<close>

definition health_route :: "'f server_config \<Rightarrow> health_response response" where
  "health_route cfg = handleHealth (ServiceName cfg) (Environment cfg) buildinfo"

section \<open>Starting and stopping the listener\<close>

text \<open>Serving until the listener ends, and stopping it, are calls of \<open>net/http\<close>.\<close>

definition HTTPServer_Start ::
  "('s, 'f) server_libs \<Rightarrow> 'f http_server \<Rightarrow> (string \<Rightarrow> duration \<times> duration \<times> duration \<Rightarrow> ('s, 'e) state) \<Rightarrow>
     ('s, 'e \<times> 'f log_entry list) state" where
  "HTTPServer_Start lbs srv ListenAndServe = do {
     now \<leftarrow> Clock lbs;
     e \<leftarrow> ListenAndServe (ListenAddr srv) (ListenTimeouts srv);
     State_Monad.return (e, [(ServerLogger srv,
       \<lparr>Time = now, Level = LevelInfo, Message = ''http server starting'',
        Attrs = [(''addr'', StringValue (ListenAddr srv))]\<rparr>)]) }"

definition HTTPServer_Shutdown ::
  "('s, 'f) server_libs \<Rightarrow> 'f http_server \<Rightarrow> ('s, 'e) state \<Rightarrow> ('s, 'e \<times> 'f log_entry list) state" where
  "HTTPServer_Shutdown lbs srv shutdown = do {
     now \<leftarrow> Clock lbs;
     e \<leftarrow> shutdown;
     State_Monad.return (e, [(ServerLogger srv,
       \<lparr>Time = now, Level = LevelInfo, Message = ''http server shutting down'', Attrs = []\<rparr>)]) }"

section \<open>Lemmas\<close>

definition refused_origin :: "'f server_config \<Rightarrow> string \<Rightarrow> request \<Rightarrow> bool" where
  "refused_origin cfg mth c \<longleftrightarrow> mth = ''OPTIONS'' \<and> TrimSpace (Header c ''Origin'') \<noteq> [] \<and>
     (\<forall>a \<in> set (AllowedOrigins cfg). TrimSpace a \<noteq> TrimSpace (Header c ''Origin''))"

lemma cors_aborts:
  "Aborted (corsMiddleware (AllowedOrigins cfg) mth c) \<longleftrightarrow> refused_origin cfg mth c"
  "refused_origin cfg mth c \<Longrightarrow> CORSStatus (corsMiddleware (AllowedOrigins cfg) mth c) = Some 403"
  by (auto simp: corsMiddleware_def refused_origin_def Let_def mem_allowed_origins)

definition access_level :: "int \<Rightarrow> int" where
  "access_level st = (if 500 \<le> st then LevelError else if 400 \<le> st then LevelWarn else LevelInfo)"

lemma access_record_sel:
  "Level (access_record lbs mth pth start now st None) = access_level st"
  "map_of (Attrs (access_record lbs mth pth start now st None)) ''status'' = Some (Int64Value st)"
  "\<forall>a \<in> set (Attrs (access_record lbs mth pth start now st None)).
     (fst a = ''status'' \<longrightarrow> (\<exists>n. snd a = Int64Value n)) \<and> (fst a = ''latency_ms'' \<longrightarrow> (\<exists>f. snd a = Float64Value f))"
  by (simp_all add: access_record_def access_level_def Let_def)

lemma access_log_run:
  assumes "run_state (accessLogMiddleware lbs l mth pth ctx Next) s = ((r, lns), s')"
  obtains s1 r1 inner s2 start now where "run_state Next s1 = ((r, inner), s2)"
    and "lns = inner @ [(l, access_record lbs mth pth start now (response.Status r) None)]"
  using assms by (auto simp: accessLogMiddleware_def Let_def split: prod.splits)

lemma recovery_run:
  assumes "run_state (CustomRecovery lbs l mth route Next) s = ((r, lns), s')"
  obtains h s1 where "run_state Next s = (h, s1)"
    and "case h of
        Answered a \<Rightarrow> response.Status r = response.Status a \<and> Body r = map_option RouteBody (Body a) \<and>
          SetCookies r = SetCookies a \<and> lns = []
      | Panicked why cks \<Rightarrow> response.Status r = 500 \<and> Body r = Some (PanicError ''internal server error'') \<and>
          (\<exists>now. lns = [(l, panic_record mth route now why)])"
proof -
  obtain h s1 where h: "run_state Next s = (h, s1)" by fastforce
  with assms show ?thesis
    by (intro that [of h s1]) (cases h; auto simp: CustomRecovery_def split: prod.splits)+
qed

text \<open>The entropy source fills the buffer it is given, or fails.\<close>

definition fills_buffer :: "('s, 'f) server_libs \<Rightarrow> bool" where
  "fills_buffer lbs \<longleftrightarrow> (\<forall>n s d s'. run_state (RandRead lbs n) s = (Inr d, s') \<longrightarrow> length d = n)"

section \<open>Properties\<close>

text \<open>How the handlers of a matched route show in a response and in the lines before the access log.\<close>

definition shows_outcome ::
  "'b handled \<Rightarrow> 'b server_body response \<Rightarrow> 'f log_entry list \<Rightarrow> bool" where
  "shows_outcome h r inner \<longleftrightarrow>
     (case h of
        Answered a \<Rightarrow> response.Status r = response.Status a \<and> Body r = map_option RouteBody (Body a) \<and>
          SetCookies r = SetCookies a \<and> inner = []
      | Panicked why cks \<Rightarrow> response.Status r = 500 \<and> Body r = Some (PanicError ''internal server error'') \<and>
          (\<exists>l mth route now. inner = [(l, panic_record mth route now why)]))"

lemma serve_request_stages:
  assumes "run_state (serve_request lbs dflt cfg mth pth matched c0) s = (out, s')"
  obtains c h requestID s1 l s2 where
    "run_state (requestContextMiddleware (RandRead lbs) (Clock lbs) c0) s = ((c, (h, requestID)), s1)"
    and "Headers out = (h, requestID) # CORSHeaders (corsMiddleware (AllowedOrigins cfg) mth c)"
    and "HttpStatus (Span out) = response.Status (Answer out)"
    and "run_state (from_cors lbs cfg l mth pth matched c) s2 = ((Answer out, Lines out), s')"
proof -
  obtain c h requestID s1
    where 1: "run_state (requestContextMiddleware (RandRead lbs) (Clock lbs) c0) s = ((c, (h, requestID)), s1)"
    by (metis surj_pair)
  obtain spn s2 where 2: "run_state (StartSpan lbs (mth @ '' '' @ pth) c) s1 = (spn, s2)" by fastforce
  define l where "l = traceIDMiddleware spn (With (ServerLogger (New_server dflt cfg)) [(''request_id'', StringValue requestID)])"
  obtain r lns s3 where 3: "run_state (from_cors lbs cfg l mth pth matched c) s2 = ((r, lns), s3)" by (metis surj_pair)
  from assms 1 2 3 show ?thesis
    by (intro that [of c h requestID s1 l s2]) (auto simp: serve_request_def HTTPMiddleware_def Let_def l_def [symmetric] end_span_def)
qed

lemma from_cors_refused:
  assumes "refused_origin cfg mth c"
  shows "run_state (from_cors lbs cfg l mth pth matched c) s = ((respond_empty 403, []), s)"
  using cors_aborts [of cfg mth c] assms by (simp add: from_cors_def Let_def)

lemma from_cors_admitted:
  assumes "\<not> refused_origin cfg mth c"
    and "run_state (from_cors lbs cfg l mth pth matched c) s = ((r, lns), s')"
  shows "\<exists>inner start now. lns = inner @ [(l, access_record lbs mth pth start now (response.Status r) None)] \<and>
    (case matched of
       None \<Rightarrow> response.Status r = (if mth = ''OPTIONS'' then 204 else 404) \<and> inner = []
     | Some (pattern, handlers) \<Rightarrow> \<exists>h s1 s2. run_state (handlers c) s1 = (h, s2) \<and> shows_outcome h r inner)"
proof -
  let ?cors = "corsMiddleware (AllowedOrigins cfg) mth c"
  let ?next = "case matched of None \<Rightarrow> State_Monad.return (unrouted (CORSStatus ?cors), [])
    | Some (pattern, handlers) \<Rightarrow> CustomRecovery lbs l mth pattern (handlers c)"
  have "run_state (accessLogMiddleware lbs l mth pth (Context c) ?next) s = ((r, lns), s')"
    using assms cors_aborts(1) [of cfg mth c] by (simp add: from_cors_def Let_def)
  then obtain s1 inner s2 start now where n: "run_state ?next s1 = ((r, inner), s2)"
    and lns: "lns = inner @ [(l, access_record lbs mth pth start now (response.Status r) None)]"
    by (rule access_log_run)
  show ?thesis
  proof (cases matched)
    case None
    have "CORSStatus ?cors = (if mth = ''OPTIONS'' then Some 204 else None)"
      using assms(1) cors_aborts(1) [of cfg mth c] by (auto simp: corsMiddleware_def Let_def)
    with n lns None show ?thesis by (auto simp: unrouted_def respond_def respond_empty_def)
  next
    case (Some m)
    obtain pattern handlers where m: "m = (pattern, handlers)" by fastforce
    from n have "run_state (CustomRecovery lbs l mth pattern (handlers c)) s1 = ((r, inner), s2)"
      by (simp add: Some m)
    then obtain h s3 where h: "run_state (handlers c) s1 = (h, s3)" and o: "shows_outcome h r inner"
      by (rule recovery_run) (auto simp: shows_outcome_def split: handled.splits)
    with lns show ?thesis by (auto simp: Some m)
  qed
qed

text \<open>
  C6. Every request is identified, answered and logged.  Whatever the route's handlers do, the response carries one
  non-empty request identifier, the client's own if it sent one, and it is the one the
  handlers find in their context.  A preflight of another origin is refused with 403 and
  reaches no handler.  Every other request ends with exactly one line of the access log, at the level of
  the status that was sent, which any logger prints; a panic of the handlers becomes a 500 with a
  fixed body that does not name its cause, which is logged before.
\<close>

theorem serve_request_contract:
  assumes entropy: "fills_buffer lbs"
    and run: "run_state (serve_request lbs dflt cfg mth pth matched c0) s = (out, s')"
  shows "\<exists>requestID. requestID \<noteq> [] \<and> map_of (Headers out) ''X-Request-ID'' = Some requestID \<and>
    TrimSpace (Header c0 ''X-Request-ID'') \<in> {[], requestID} \<and>
    HttpStatus (Span out) = response.Status (Answer out) \<and>
    (if refused_origin cfg mth c0
     then Answer out = respond_empty 403 \<and> Lines out = []
     else \<exists>inner l r. Lines out = inner @ [(l, r)] \<and>
       Level r = access_level (response.Status (Answer out)) \<and>
       map_of (Attrs r) ''status'' = Some (Int64Value (response.Status (Answer out))) \<and>
       LoggerPanic \<notin> set (Log fm l r) \<and>
       (case matched of
          None \<Rightarrow> response.Status (Answer out) = (if mth = ''OPTIONS'' then 204 else 404) \<and> inner = []
        | Some (pattern, handlers) \<Rightarrow> \<exists>c h s1 s2. requestIDFromContext c = requestID \<and>
            run_state (handlers c) s1 = (h, s2) \<and> shows_outcome h (Answer out) inner))"
proof -
  obtain c h requestID s1 l s2 where
    req: "run_state (requestContextMiddleware (RandRead lbs) (Clock lbs) c0) s = ((c, (h, requestID)), s1)"
    and hd: "Headers out = (h, requestID) # CORSHeaders (corsMiddleware (AllowedOrigins cfg) mth c)"
    and spn: "HttpStatus (Span out) = response.Status (Answer out)"
    and chain: "run_state (from_cors lbs cfg l mth pth matched c) s2 = ((Answer out, Lines out), s')"
    using run by (rule serve_request_stages)
  have iden: "requestID \<noteq> [] \<and> h = ''X-Request-ID'' \<and> requestIDFromContext c = requestID \<and>
      Header c = (Header c0)(''X-Request-ID'' := requestID) \<and>
      (if TrimSpace (Header c0 ''X-Request-ID'') = [] then True
       else requestID = TrimSpace (Header c0 ''X-Request-ID''))"
    by (rule requestContextMiddleware_identifies [OF _ req])
      (use entropy in \<open>blast dest: fills_buffer_def [THEN iffD1]\<close>)
  have same: "refused_origin cfg mth c \<longleftrightarrow> refused_origin cfg mth c0"
    using iden by (simp add: refused_origin_def)
  have first: "requestID \<noteq> []" "map_of (Headers out) ''X-Request-ID'' = Some requestID"
    "TrimSpace (Header c0 ''X-Request-ID'') \<in> {[], requestID}" "requestIDFromContext c = requestID"
    using iden hd by (auto split: if_splits)
  show ?thesis
  proof (cases "refused_origin cfg mth c0")
    case True
    with from_cors_refused [of cfg mth c lbs l pth matched s2] chain same first spn
    show ?thesis by (intro exI [of _ requestID]) simp
  next
    case False
    from from_cors_admitted [OF _ chain] False same obtain inner start now where
      lns: "Lines out = inner @ [(l, access_record lbs mth pth start now (response.Status (Answer out)) None)]"
      and rest: "case matched of
         None \<Rightarrow> response.Status (Answer out) = (if mth = ''OPTIONS'' then 204 else 404) \<and> inner = []
       | Some (pattern, handlers) \<Rightarrow> \<exists>h s1 s2. run_state (handlers c) s1 = (h, s2) \<and> shows_outcome h (Answer out) inner"
      by blast
    from rest first(4) have rest': "case matched of
         None \<Rightarrow> response.Status (Answer out) = (if mth = ''OPTIONS'' then 204 else 404) \<and> inner = []
       | Some (pattern, handlers) \<Rightarrow> \<exists>c h s1 s2. requestIDFromContext c = requestID \<and>
           run_state (handlers c) s1 = (h, s2) \<and> shows_outcome h (Answer out) inner"
      by (cases matched) auto
    let ?r = "access_record lbs mth pth start now (response.Status (Answer out)) None"
    have "Level ?r = access_level (response.Status (Answer out)) \<and>
        map_of (Attrs ?r) ''status'' = Some (Int64Value (response.Status (Answer out))) \<and>
        LoggerPanic \<notin> set (Log fm l ?r)"
      by (simp add: access_record_sel Log_prints)
    with lns rest' first spn show ?thesis unfolding if_not_P [OF False] by blast
  qed
qed

definition demo_server_libs :: "(nat, int) server_libs" where
  "demo_server_libs = \<lparr>RandRead = (\<lambda>n. err ()), Clock = do { t \<leftarrow> State_Monad.get; State_Monad.set (Suc t); State_Monad.return (int t) },
     StartSpan = (\<lambda>_ _. State_Monad.return None), RFC3339 = (\<lambda>_. []), MicrosToMillis = (\<lambda>n. n div 1000)\<rparr>"

definition demo_server_config :: "int server_config" where
  "demo_server_config = \<lparr>Addr = '':8080'', AllowedOrigins = [''https://shop''], ReadTimeout = 5 * Second,
     WriteTimeout = 10 * Second, IdleTimeout = 30 * Second, ShutdownTimeout = 10 * Second,
     ServiceName = ''shop'', Environment = ''development'', Logger = None\<rparr>"

definition demo_panic :: "(nat, unit) route_handlers" where
  "demo_panic c = State_Monad.return (Panicked ''secret'' [])"

lemma serve_request_contract_witness:
  "\<exists>out s'. run_state (serve_request demo_server_libs (PrettyHandler LevelInfo) demo_server_config ''GET'' ''/p''
       (Some (''/p'', demo_panic)) (demo_request_of (\<lambda>_. []) (\<lambda>_. None))) 0 = (out, s') \<and>
     response.Status (Answer out) = 500 \<and> Body (Answer out) = Some (PanicError ''internal server error'')"
proof -
  let ?c = "demo_request_of (\<lambda>_. []) (\<lambda>_. None)"
  obtain out s' where run: "run_state (serve_request demo_server_libs (PrettyHandler LevelInfo) demo_server_config ''GET'' ''/p''
      (Some (''/p'', demo_panic)) ?c) 0 = (out, s')" by fastforce
  have "fills_buffer demo_server_libs" by (simp add: demo_server_libs_def fills_buffer_def)
  from serve_request_contract [OF this run] run show ?thesis
    by (auto simp: refused_origin_def demo_panic_def shows_outcome_def)
qed

end
