(* ===== verification/Startup.thy ===== *)
theory Startup
  imports Configs Serving Auth_Server Redis_Stores User_Dao Twilio Catalog_Http
begin

text \<open>
  \<open>main.go\<close> and \<open>NewClient\<close> of \<open>cache/redis\<close>: from the environment to a serving program.  What the start needs from outside
  (the file of variables, the parser of URLs, the database, Redis) is a parameter; the steps
  are a computation that may end with the message of \<open>fatal\<close>.  The components are put together
  once over the in-process stores and once over Redis.
\<close>

section \<open>Environments\<close>

definition normalizeEnv :: "string \<Rightarrow> string" where
  "normalizeEnv v =
     (let e = ToLower (TrimSpace v) in
      if e \<in> {[], ''dev'', ''development''} then ''development''
      else if e = ''local'' then ''local''
      else if e \<in> {''stage'', ''staging''} then ''staging''
      else if e \<in> {''prod'', ''production''} then ''production'' else e)"

definition isDotEnvEnvironment :: "string \<Rightarrow> bool" where
  "isDotEnvEnvironment env \<longleftrightarrow> env = ''local'' \<or> env = ''development''"

definition isReleaseEnvironment :: "string \<Rightarrow> bool" where
  "isReleaseEnvironment env \<longleftrightarrow> env = ''staging'' \<or> env = ''production''"

definition mapSameSite :: "string \<Rightarrow> same_site" where
  "mapSameSite v = (if v = ''strict'' then SameSiteStrictMode
     else if v = ''none'' then SameSiteNoneMode else SameSiteLaxMode)"

section \<open>Starting\<close>

datatype fatal = Fatal (message: string) (cause: string)

text \<open>What \<open>NewClient\<close> of \<open>cache/redis\<close> hands to the library; how long users are cached is not an option of the client.\<close>

record redis_options =
  Addr :: string
  Username :: string
  Password :: string
  DB :: int
  DialTimeout :: duration
  ReadTimeout :: duration
  WriteTimeout :: duration
  PoolTimeout :: duration

definition redis_NewClient :: "redis_config \<Rightarrow> redis_options" where
  "redis_NewClient cfg =
     \<lparr>redis_options.Addr = redis_config.Addr cfg, Username = redis_config.Username cfg,
      Password = redis_config.Password cfg, DB = redis_config.DB cfg,
      DialTimeout = redis_config.DialTimeout cfg, ReadTimeout = redis_config.ReadTimeout cfg,
      WriteTimeout = redis_config.WriteTimeout cfg, PoolTimeout = redis_config.PoolTimeout cfg\<rparr>"

record 's host =
  LoadDotEnv :: "environment \<Rightarrow> string + environment"
  ParseURL :: "string \<Rightarrow> url option"
  MergeResource :: "(string \<times> string) list \<Rightarrow> (string \<times> string) list"
  OpenDB :: "string \<Rightarrow> bool \<Rightarrow> ('s, string, unit) call"
  Migrate :: "string list \<Rightarrow> ('s, string, unit) call"
  SqlHandle :: "('s, string, unit) call"
  PingRedis :: "redis_options \<Rightarrow> ('s, string, unit) call"

record started =
  Environment :: string
  ReleaseMode :: bool
  Tracing :: tracing
  Settings :: configs
  Manager :: token_manager

definition startup :: "'s host \<Rightarrow> environment \<Rightarrow> ('s, fatal, started) call" where
  "startup hst vars0 =
     (let env = normalizeEnv (Getenv vars0 ''ENV'') in
      (case (if isDotEnvEnvironment env then LoadDotEnv hst vars0 else Inr vars0) of
        Inl e \<Rightarrow> err (Fatal ''failed to load env file'' e)
      | Inr vars \<Rightarrow>
          (let envConfigs = Load (ParseURL hst) vars; a = Auth envConfigs in
          (case Validate_config envConfigs of
            Some e \<Rightarrow> err (Fatal ''invalid configuration'' e)
          | None \<Rightarrow>
              call_ok (with_error (Fatal ''database connection failed'') (DBConn (OpenDB hst) (DBConfig envConfigs))) (\<lambda>_.
              call_ok (with_error (Fatal ''database migration failed'') (Users_AutoMigrate (Migrate hst))) (\<lambda>_.
              ignoring (Catalog_AutoMigrate (Migrate hst))
              (call_ok (with_error (Fatal ''database sql handle failed'') (SqlHandle hst)) (\<lambda>_.
              (case NewTokenManager (Issuer a) (JWEKey a) (AccessTokenTTL a) (RefreshTokenTTL a) of
                Inl e \<Rightarrow> err (Fatal ''token manager initialization failed'' (error_message e))
              | Inr m \<Rightarrow>
                  call_ok (if redis_config.Enabled (RedisConfig envConfigs)
                    then with_error (Fatal ''redis connection failed'') (PingRedis hst (redis_NewClient (RedisConfig envConfigs)))
                    else ok ()) (\<lambda>_.
                  ok \<lparr>Environment = env, ReleaseMode = isReleaseEnvironment env,
                    Tracing = Configure (MergeResource hst) ''wesko-api'', Settings = envConfigs, Manager = m\<rparr>))))))))))"

section \<open>Putting the components together\<close>

definition otp_config_of :: "auth_config \<Rightarrow> otp_config" where
  "otp_config_of a = \<lparr>otp_config.PendingSignupTTL = auth_config.PendingSignupTTL a,
     ResendCooldown = OTPResendCooldown a, MaxResends = OTPMaxResends a\<rparr>"

definition google_config_of :: "auth_config \<Rightarrow> google_config" where
  "google_config_of a = \<lparr>ClientID = GoogleClientID a, ClientSecret = GoogleClientSecret a,
     RedirectURI = GoogleRedirectURI a\<rparr>"

definition cookie_config_of :: "auth_config \<Rightarrow> cookie_config" where
  "cookie_config_of a =
     \<lparr>RefreshTokenName = CookieName a, Domain = CookieDomain a, Path = CookiePath a,
      Secure = auth_config.CookieSecure a, HTTPOnly = CookieHTTPOnly a,
      SameSite = mapSameSite (auth_config.CookieSameSite a),
      CSRFCookieName = auth_config.CSRFCookieName a, CSRFHeaderName = auth_config.CSRFHeaderName a,
      CSRFCookiePath = auth_config.CSRFCookiePath a, CSRFCookieSecure = auth_config.CSRFCookieSecure a,
      CSRFCookieSameSite = mapSameSite (auth_config.CSRFCookieSameSite a)\<rparr>"

definition limits_of :: "auth_config \<Rightarrow> otp_rate_limit_config" where
  "limits_of a =
     \<lparr>RequestIP = \<lparr>rate_limit_rule.Limit = OTPRequestLimitIP a, Window = OTPRequestLimitWindow a\<rparr>,
      RequestMobile = \<lparr>rate_limit_rule.Limit = OTPRequestLimitMobile a, Window = OTPRequestLimitWindow a\<rparr>,
      VerifyIP = \<lparr>rate_limit_rule.Limit = OTPVerifyLimitIP a, Window = OTPVerifyLimitWindow a\<rparr>,
      VerifyMobile = \<lparr>rate_limit_rule.Limit = OTPVerifyLimitMobile a, Window = OTPVerifyLimitWindow a\<rparr>\<rparr>"

definition provider_of :: "auth_config \<Rightarrow> 'x http_lib \<Rightarrow> 'x otp_provider" where
  "provider_of a http = twilio_provider
     (NewVerifyProvider (TwilioAccountSID a) (TwilioAuthToken a) (TwilioVerifyServiceSID a) http)"

definition auth_service ::
  "started \<Rightarrow> 'u user_repository \<Rightarrow> 'r refresh_token_store \<Rightarrow> 'p pending_signup_store \<Rightarrow>
     'o otp_state_store \<Rightarrow> 'x http_lib \<Rightarrow> 'x auth_libs \<Rightarrow> ('u, 'r, 'p, 'o, 'x) service" where
  "auth_service st userRepo refresh pend otps http lbs =
     NewService userRepo (Some (Manager st)) (Some refresh) (provider_of (Auth (Settings st)) http) pend otps
       (otp_config_of (Auth (Settings st))) (google_config_of (Auth (Settings st))) lbs"

definition auth_handler ::
  "started \<Rightarrow> ('u, 'r, 'p, 'o, 'x) service \<Rightarrow> 'l rate_limiter \<Rightarrow> (time \<Rightarrow> string) \<Rightarrow>
     ('u, 'r, 'p, 'o, 'x, 'l) handler" where
  "auth_handler st srv lmt fmt =
     NewWithLimiter srv (cookie_config_of (Auth (Settings st))) (Some lmt) (limits_of (Auth (Settings st))) fmt"

text \<open>Without Redis: the in-process stores, and the database as the user repository.\<close>

definition memory_handler ::
  "started \<Rightarrow> 'd user_db \<Rightarrow> (string \<Rightarrow> string) \<Rightarrow> 'x http_lib \<Rightarrow> 'x auth_libs \<Rightarrow> (time \<Rightarrow> string) \<Rightarrow>
     ('d, refresh_store, pending_store, otp_store, 'x, limiter) handler" where
  "memory_handler st db sha256 http lbs fmt =
     auth_handler st
       (auth_service st (NewUserRepository db) (memory_refresh_store sha256) memory_pending_store
         memory_otp_store http lbs)
       memory_rate_limiter fmt"

text \<open>
  With Redis: each store has its own view of the keyspace, and users are cached.
\<close>

definition redis_handler ::
  "started \<Rightarrow> 'd user_db \<Rightarrow> 'k redis_client \<Rightarrow> json_codec \<Rightarrow> (string \<Rightarrow> string) \<Rightarrow> 'x http_lib \<Rightarrow>
     'x auth_libs \<Rightarrow> (time \<Rightarrow> string) \<Rightarrow> ('d \<times> 'k, 'k, 'k, 'k, 'x, 'k) handler" where
  "redis_handler st db c cd sha256 http lbs fmt =
     auth_handler st
       (auth_service st
         (NewCachedUserRepository (NewUserRepository db)
           (Some (redis_user_cache cd (CacheTTL (RedisConfig (Settings st))) c)))
         (redis_refresh_store cd sha256 c) (redis_pending_store cd c) (redis_otp_store cd c) http lbs)
       (redis_rate_limiter c) fmt"

text \<open>The engine: its address and timeouts, who may call across origins, and the logger that writes.\<close>

definition server_config_of :: "string \<Rightarrow> started \<Rightarrow> 'f server_config" where
  "server_config_of log_level st =
     \<lparr>server_config.Addr = '':'' @ http_config.Port (HTTP (Settings st)),
      AllowedOrigins = http_config.AllowedOrigins (HTTP (Settings st)),
      ReadTimeout = 5 * Second, WriteTimeout = 10 * Second, IdleTimeout = 30 * Second,
      ShutdownTimeout = 10 * Second, ServiceName = ''wesko-api'', Environment = started.Environment st,
      Logger = Some (NewLogger log_level ''wesko-api'' (started.Environment st))\<rparr>"

text \<open>The handlers of a route of \<open>/auth\<close>, for the engine.\<close>

definition auth_route ::
  "('u, 'r, 'p, 'o, 'x, 'l) handler \<Rightarrow> auth_call \<Rightarrow>
     (('u, 'r, 'p, 'o, 'x) world \<times> 'l, auth_body) route_handlers" where
  "auth_route h call c = do { r \<leftarrow> serve h c call; State_Monad.return (Answered r) }"

definition readiness ::
  "('d, 'e, unit) call \<Rightarrow> ('d, 'e, unit) call option \<Rightarrow> ('d, 'e, unit) call" where
  "readiness sqlPing redisReadinessCheck =
     call_ok sqlPing (\<lambda>_. case redisReadinessCheck of Some check \<Rightarrow> check | None \<Rightarrow> ok ())"

section \<open>Stopping\<close>

text \<open>What ends \<open>main\<close>: a signal, or the listener with an error or without.\<close>

datatype server_error = ErrServerClosed | ListenError string
datatype wakeup = SignalReceived | ServerEnded "server_error option"

definition main_end :: "wakeup \<Rightarrow> ('s, string, unit) call \<Rightarrow> ('s, fatal, unit) call" where
  "main_end w shutdown =
     (case w of
        ServerEnded (Some (ListenError e)) \<Rightarrow> err (Fatal ''http server failed'' e)
      | ServerEnded _ \<Rightarrow> ok ()
      | SignalReceived \<Rightarrow> with_error (Fatal ''http server shutdown failed'') shutdown)"

section \<open>The route table\<close>

text \<open>Method, pattern and the requests the route takes.\<close>

definition auth_routes :: "(string \<times> string \<times> (auth_call \<Rightarrow> bool)) list" where
  "auth_routes =
     [(''POST'', ''/auth/register'', is_RegisterCall),
      (''POST'', ''/auth/signup/request-otp'', is_RegisterCall),
      (''POST'', ''/auth/signup/verify-otp'', is_VerifySignupCall),
      (''POST'', ''/auth/signup/resend-otp'', is_ResendSignupCall),
      (''POST'', ''/auth/signup/status'', is_SignupStatusCall),
      (''POST'', ''/auth/login'', is_PasswordLoginCall),
      (''POST'', ''/auth/login/request-otp'', is_RequestLoginCall),
      (''POST'', ''/auth/login/verify-otp'', is_VerifyLoginCall),
      (''POST'', ''/auth/login/resend-otp'', is_ResendLoginCall),
      (''POST'', ''/auth/refresh'', is_RefreshCall),
      (''POST'', ''/auth/logout'', is_LogoutCall),
      (''GET'', ''/auth/me'', is_MeCall),
      (''GET'', ''/auth/google/login'', is_GoogleLoginCall),
      (''GET'', ''/auth/google/callback'', is_GoogleCallbackCall),
      (''POST'', ''/auth/profile/complete'', is_CompleteProfileCall)]"

definition catalog_routes :: "(string \<times> string) list" where
  "catalog_routes =
     [(''POST'', ''/catalog/categories''), (''GET'', ''/catalog/categories''),
      (''GET'', ''/catalog/categories/:id''), (''PUT'', ''/catalog/categories/:id''),
      (''DELETE'', ''/catalog/categories/:id''),
      (''POST'', ''/catalog/products''), (''GET'', ''/catalog/products''),
      (''GET'', ''/catalog/products/:id''), (''PUT'', ''/catalog/products/:id''),
      (''DELETE'', ''/catalog/products/:id'')]"

definition server_routes :: "(string \<times> string) list" where
  "server_routes = [(''GET'', ''/health''), (''GET'', ''/healthz''), (''GET'', ''/ready'')]"

text \<open>\<open>New\<close> registers its own routes first, then \<open>routeRegistrar\<close> those of the handlers.\<close>

definition all_routes :: "(string \<times> string) list" where
  "all_routes = server_routes @ map (\<lambda>(m, p, _). (m, p)) auth_routes @ catalog_routes"

section \<open>Lemmas\<close>

lemma mapSameSite_set: "mapSameSite v \<noteq> SameSiteUnset"
  by (simp add: mapSameSite_def)

text \<open>An accepted configuration leaves nothing for the handler to fill in.\<close>

lemma usable_cookies:
  "usable_auth a \<Longrightarrow> default_cookies (cookie_config_of a) = cookie_config_of a"
  by (simp add: default_cookies_def cookie_config_of_def usable_auth_def mapSameSite_set)

lemma usable_manager:
  "usable_auth a \<Longrightarrow> NewTokenManager i (JWEKey a) t r =
     Inr \<lparr>issuer = i, jweKey = JWEKey a, accessTokenTTL = t, refreshTokenTTL = r\<rparr>"
  by (simp add: NewTokenManager_def usable_auth_def)

definition startup_messages :: "string set" where
  "startup_messages = {''failed to load env file'', ''invalid configuration'', ''database connection failed'',
     ''database migration failed'', ''database sql handle failed'', ''redis connection failed''}"

lemma startup_result:
  "yields (\<lambda>r. case r of
      Inl f \<Rightarrow> message f \<in> startup_messages
    | Inr st \<Rightarrow> usable_auth (Auth (Settings st)) \<and>
       Manager st = \<lparr>issuer = Issuer (Auth (Settings st)), jweKey = JWEKey (Auth (Settings st)),
         accessTokenTTL = AccessTokenTTL (Auth (Settings st)),
         refreshTokenTTL = RefreshTokenTTL (Auth (Settings st))\<rparr>) (startup hst vars0)"
  (is "yields ?P _")
proof -
  let ?env = "normalizeEnv (Getenv vars0 ''ENV'')"
  define vs where "vs = (if isDotEnvEnvironment ?env then LoadDotEnv hst vars0 else Inr vars0)"
  show ?thesis
  proof (cases vs)
    case (Inl e)
    then show ?thesis
      by (simp add: startup_def vs_def [symmetric] Let_def yields_return startup_messages_def)
  next
    case (Inr vars)
    define cfg where "cfg = Load (ParseURL hst) vars"
    show ?thesis
    proof (cases "Validate_config cfg")
      case (Some e)
      with Inr show ?thesis
        by (simp add: startup_def vs_def [symmetric] cfg_def [symmetric] Let_def yields_return startup_messages_def)
    next
      case None
      note ok = Validate_config_usable [OF None]
      have msg: "?P (Inl e)" if "run_state (with_error (Fatal m) n) s = (Inl e, s')" "m \<in> startup_messages" for m n s e s'
        using with_error_Inl [OF that(1)] that(2) by auto
      have "yields ?P (startup hst vars0)"
        unfolding startup_def vs_def [symmetric] Inr sum.case Let_def cfg_def [symmetric] None option.case
          usable_manager [OF ok]
        by (intro yields_call_ok yields_ignoring yields_return) (auto simp: startup_messages_def ok
            dest!: with_error_Inl split: if_splits)
      then show ?thesis .
    qed
  qed
qed

section \<open>Properties\<close>


definition demo_host :: "unit host" where
  "demo_host = \<lparr>LoadDotEnv = (\<lambda>_. Inl ''no file''), ParseURL = (\<lambda>_. None), MergeResource = (\<lambda>as. as), OpenDB = (\<lambda>_ _. ok ()),
     Migrate = (\<lambda>models. if length models = 6 then err ''drift'' else ok ()), SqlHandle = ok (), PingRedis = (\<lambda>_. ok ())\<rparr>"

definition demo_vars :: environment where
  "demo_vars = [''ENV'' \<mapsto> ''prod'', ''DB_PASS'' \<mapsto> ''pw'', ''AUTH_JWE_KEY'' \<mapsto> replicate 32 CHR ''k'']"

lemma demo_numbers:
  "Atoi [] = None" "ParseBool [] = None" "Atoi ''5432'' = Some 5432" "Atoi ''8080'' = Some 8080"
  by (simp_all add: Atoi_def ParseBool_def digit_value_def min_int64_def max_int64_def)

lemma demo_getenv: "Getenv demo_vars n = (if n = ''ENV'' then ''prod'' else if n = ''DB_PASS'' then ''pw''
    else if n = ''AUTH_JWE_KEY'' then replicate 32 CHR ''k'' else [])"
  by (simp add: Getenv_def demo_vars_def)

lemma demo_absent: "n \<notin> {''ENV'', ''DB_PASS'', ''AUTH_JWE_KEY''} \<Longrightarrow> demo_vars n = None"
  by (simp add: demo_vars_def)

lemma demo_default:
  assumes "n \<notin> {''ENV'', ''DB_PASS'', ''AUTH_JWE_KEY''}"
  shows "getEnvInt demo_vars n d = d" "getEnvBool demo_vars n b = b" "getEnvString demo_vars n x = x"
  using demo_absent [OF assms]
  by (simp_all add: getEnvInt_def getEnvBool_def getEnvString_def Getenv_def demo_numbers)

lemma demo_set: "getEnvString demo_vars ''DB_PASS'' x = ''pw''"
  "getEnvString demo_vars ''AUTH_JWE_KEY'' x = replicate 32 CHR ''k''"
  "getFirstEnvString demo_vars ''8080'' [''HTTP_PORT'', ''PORT''] = ''8080''"
  by (simp_all add: demo_vars_def getEnvString_def)

lemma demo_db: "DBConfig (Load (\<lambda>_. None) demo_vars) =
  \<lparr>db_config.Host = ''localhost'', Password = ''pw'', Port = ''5432'', User = ''postgres'',
   DBName = ''vesko-backend'', SSLMode = ''disable'', Debug = False\<rparr>"
  by (simp add: Load_def loadDBConfig_def demo_getenv demo_default demo_set env_names demo_numbers)

lemma demo_http: "http_config.Port (HTTP (Load (\<lambda>_. None) demo_vars)) = ''8080''"
  "redis_config.Enabled (RedisConfig (Load (\<lambda>_. None) demo_vars)) = False"
  by (simp_all add: Load_def demo_default demo_set env_names del: getFirstEnvString.simps)

lemma demo_auth: "Auth (Load (\<lambda>_. None) demo_vars) =
  \<lparr>Issuer = ''vesko'', JWEKey = replicate 32 CHR ''k'', AccessTokenTTL = 900 * Second,
   RefreshTokenTTL = 86400 * Second, CookieName = ''refresh_token'', CookieDomain = [], CookiePath = ''/auth'',
   CookieSecure = False, CookieHTTPOnly = False, CookieSameSite = ''lax'', TwilioAccountSID = [],
   TwilioAuthToken = [], TwilioVerifyServiceSID = [], PendingSignupTTL = 600 * Second,
   OTPResendCooldown = 60 * Second, OTPMaxResends = 5, OTPRequestLimitIP = 10,
   OTPRequestLimitWindow = 600 * Second, OTPRequestLimitMobile = 3, OTPVerifyLimitIP = 20,
   OTPVerifyLimitWindow = 600 * Second, OTPVerifyLimitMobile = 5, CSRFCookieName = ''csrf_token'',
   CSRFHeaderName = ''X-CSRF-Token'', CSRFCookiePath = ''/auth'', CSRFCookieSecure = True,
   CSRFCookieSameSite = ''lax'', GoogleClientID = [], GoogleClientSecret = [], GoogleRedirectURI = []\<rparr>"
  by (simp add: Load_def demo_default demo_set env_names seconds_env_def times_exact
      del: getFirstEnvString.simps)

lemma demo_accepted: "Validate_config (Load (\<lambda>_. None) demo_vars) = None"
  unfolding Validate_config_def first_failed_None config_checks_def demo_db demo_http demo_auth
  by (simp add: demo_numbers Second_def)

lemma demo_env: "normalizeEnv (Getenv demo_vars ''ENV'') = ''production''"
proof -
  have "TrimSpace ''prod'' = ''prod''" by (rule TrimSpace_plain) (simp_all add: is_space_def space_ranges_def)
  moreover have "ToLower ''prod'' = ''prod''" by (rule ToLower_plain) (simp add: plain_name_def)
  ultimately show ?thesis by (simp add: normalizeEnv_def demo_getenv Let_def)
qed

lemma demo_startup: "\<exists>st. run_state (startup demo_host demo_vars) () = (Inr st, ())"
proof -
  show ?thesis
    using usable_manager [OF Validate_config_usable [OF demo_accepted]]
    by (simp add: startup_def demo_env isDotEnvEnvironment_def demo_host_def demo_accepted demo_http Let_def go_eval
        DBConn_def Users_AutoMigrate_def Catalog_AutoMigrate_def)
qed


text \<open>
  How long a configured lifetime really is.  A number of seconds in
  \<open>AUTH_ACCESS_TOKEN_TTL_SECONDS\<close> is multiplied in 64 bits: it becomes exactly that many
  seconds, reported as such to clients, if and only if it is at most 9223372036; a larger one
  wraps, and 18446744074 seconds become less than a third of a second.
\<close>

theorem configured_lifetime:
  assumes "env AccessTokenTTL_env = Some (Itoa n)" and "0 < n" "n \<le> max_int64"
  shows "(AccessTokenTTL (Auth (Load p env)) = n * Second \<longleftrightarrow> n \<le> 9223372036) \<and>
    (if n \<le> 9223372036 then duration_seconds (AccessTokenTTL (Auth (Load p env))) = n else True) \<and>
    (if n = 18446744074 then AccessTokenTTL (Auth (Load p env)) = 290448384 else True)"
proof -
  have "min_int64 \<le> n" using assms(2) by (simp add: min_int64_def)
  from getEnvInt_Itoa [of env AccessTokenTTL_env n, OF assms(1) this assms(3)]
  have ttl: "AccessTokenTTL (Auth (Load p env)) = int64 (n * Second)"
    by (simp add: Load_def seconds_env_def times_def)
  have exact: "int64 (n * Second) = n * Second" if "n \<le> 9223372036"
    using times_exact [of n] that assms(2) by (simp add: times_def)
  have wraps: "int64 (n * Second) \<noteq> n * Second" if "\<not> n \<le> 9223372036"
    using int64_range(2) [of "n * Second"] that by (simp add: Second_def max_int64_def)
  have "int64 (18446744074 * Second) = 290448384"
    by (simp add: int64_def Second_def signed_take_bit_eq_take_bit_shift take_bit_eq_mod)
  moreover have "duration_seconds (n * Second) = n" if "n \<le> 9223372036"
    by (rule duration_seconds_whole) (use that assms(2) in simp_all)
  ultimately show ?thesis using exact wraps unfolding ttl by auto
qed

text \<open>The three groups of routes start with different letters.\<close>

lemma route_groups:
  "\<forall>r \<in> set server_routes. snd r ! 1 \<noteq> CHR ''a'' \<and> snd r ! 1 \<noteq> CHR ''c''"
  "\<forall>r \<in> set (map (\<lambda>(m, p, _). (m, p)) auth_routes). snd r ! 1 = CHR ''a''"
  "\<forall>r \<in> set catalog_routes. snd r ! 1 = CHR ''c''"
  by (simp_all add: server_routes_def auth_routes_def catalog_routes_def)

lemma distinct_routes: "distinct all_routes"
proof -
  have "distinct server_routes" "distinct catalog_routes"
    by (simp_all add: server_routes_def catalog_routes_def)
  moreover have "distinct (map (\<lambda>(m, p, _). (m, p)) auth_routes)"
    by (simp add: auth_routes_def)
  moreover have "set server_routes \<inter> set (map (\<lambda>(m, p, _). (m, p)) auth_routes) = {}"
    using route_groups(1,2) by blast
  moreover have "set server_routes \<inter> set catalog_routes = {}"
    using route_groups(1,3) by blast
  moreover have "r \<notin> set catalog_routes" if "r \<in> set (map (\<lambda>(m, p, _). (m, p)) auth_routes)" for r
    using bspec [OF route_groups(2) that] bspec [OF route_groups(3), of r] by auto
  ultimately show ?thesis unfolding all_routes_def distinct_append set_append by blast
qed

text \<open>
  Every request has one handler.  No method and pattern is registered twice, which would
  end the start with a panic of the router, and every request of \<open>/auth\<close> that the model serves has a route.
\<close>

theorem routes_registered_once:
  "distinct all_routes \<and> (\<exists>r \<in> set auth_routes. snd (snd r) call) \<and>
   length all_routes = 28"
proof -
  have "\<exists>r \<in> set auth_routes. snd (snd r) call"
    by (cases call) (simp_all add: auth_routes_def)
  moreover have "length all_routes = 28"
    by (simp add: all_routes_def auth_routes_def catalog_routes_def server_routes_def)
  ultimately show ?thesis using distinct_routes by blast
qed

lemma updates_are_not_allowed_across_origins:
  "(''PUT'', ''/catalog/products/:id'') \<in> set all_routes \<and> allow_methods = ''GET, POST, OPTIONS''"
  by (simp add: all_routes_def catalog_routes_def allow_methods_def)

lemma configured_lifetime_witness:
  "AccessTokenTTL (Auth (Load p [AccessTokenTTL_env \<mapsto> Itoa 18446744074])) = 290448384"
  using configured_lifetime [of "[AccessTokenTTL_env \<mapsto> Itoa 18446744074]" 18446744074 p]
  by (simp add: max_int64_def)

text \<open>
  The program reports itself as ready exactly when the database and, if it is enabled, Redis
  answer; Redis is asked only after the database has answered.
\<close>

lemma ready_exact:
  "response.Status (fst (run_state (handleReady (Some (readiness db_ping redis_ping))) d)) =
     (case run_state db_ping d of
        (Inl _, _) \<Rightarrow> 503
      | (Inr _, d1) \<Rightarrow> (case redis_ping of None \<Rightarrow> 200
          | Some ping \<Rightarrow> (case fst (run_state ping d1) of Inl _ \<Rightarrow> 503 | Inr _ \<Rightarrow> 200)))"
proof -
  obtain r d1 where r: "run_state db_ping d = (r, d1)" by fastforce
  show ?thesis
  proof (cases redis_ping)
    case None
    with r show ?thesis by (cases r) (simp_all add: handleReady_def readiness_def respond_def go_eval)
  next
    case (Some ping)
    obtain q d2 where "run_state ping d1 = (q, d2)" by fastforce
    with r Some show ?thesis
      by (cases r; cases q) (simp_all add: handleReady_def readiness_def respond_def go_eval)
  qed
qed

end
