(* ===== verification/Spec2Isabelle.thy ===== *)
theory Spec2Isabelle
  imports Cached_Repository Catalog_Http Redis_Separation Verified_Mobiles Audit_Log Twilio Startup
begin

text \<open>
  A verification development for the Wesko commerce backend (module \<open>vesko\<close>): a Go server that
  signs users up and in, keeps their sessions, and serves a product catalogue.

  \<^bold>\<open>The program.\<close>  \<open>main.go\<close> reads the environment (\<open>configs/\<close>), opens the database (\<open>dbase/\<close>),
  chooses in-process (\<open>cache/memory\<close>) or Redis (\<open>cache/redis\<close>) stores, puts the services together and runs the
  engine of \<open>server/http.go\<close>.  A request passes the middlewares, is routed to a handler of
  \<open>auth/http\<close> or \<open>catalog/http\<close>, which validates it (\<open>validation/\<close>) and calls \<open>auth/service\<close> or
  \<open>catalog/service\<close>; these rely on the interfaces of \<open>auth/\<close> and \<open>catalog/\<close>, behind which are the
  repositories (\<open>dbase/userdao\<close>, \<open>catalog/productdao\<close>), the stores, the token manager and the OTP
  provider (\<open>auth/provider/twilio\<close>).

  \<^bold>\<open>Conventions.\<close>  \<open>Go_Prelude\<close> fixes them: a pair of value and error is a sum, \<open>Inl\<close> the error; a
  method that changes state is a computation of \<open>State_Monad\<close> over an explicit state; \<open>int\<close>,
  \<open>int64\<close> and \<open>time.Duration\<close> wrap at 64 bits by \<open>int64\<close>; a \<open>time.Time\<close> is a number of nanoseconds
  since year 1.  Every reading of the clock is an action of its own, so time may pass between
  any two lines.  Strings are Go's byte strings (\<open>Go_Strings\<close>, with the tables of \<open>unicode\<close> in
  \<open>Unicode_Tables\<close>); \<open>strconv\<close> and \<open>net.SplitHostPort\<close> are in \<open>Strconv\<close>, \<open>encoding/json\<close> on parsed documents in
  \<open>Json\<close>.  The collections \<open>go_eval\<close> and \<open>go_result\<close> run a computation forwards and invert a
  result; \<open>keeps\<close> and \<open>yields\<close> are the two compositional judgements on computations.

  \<^bold>\<open>The parts.\<close>
  \<^item> \<open>Auth_Types\<close>, \<open>Mobile\<close>: package \<open>auth\<close>, its records, sentinel errors and normal forms.
  \<^item> \<open>Auth_Interfaces\<close>: the contracts of the store interfaces as locales.  \<open>Memory_Stores\<close> models the
    in-process stores, a Go map behind a mutex as one record, and interprets the contracts; it
    also bounds what the rate limiter admits.
  \<^item> \<open>Redis_Client\<close>, \<open>Redis_Stores\<close>, \<open>Redis_Separation\<close>: the client's commands, the documented
    behaviour of the server as the locale \<open>redis_server\<close> (replies may be lost, dead entries may
    vanish), the five stores over it, and that they do not interfere.
  \<^item> \<open>Token_Manager\<close>: JWE access tokens and random refresh tokens over the JOSE library.
  \<^item> \<open>Auth_Service\<close>: every method of the service over a \<open>world\<close> of repository, stores, outside
    services and clock.  Its lemmas are in \<open>Auth_Sessions\<close>, \<open>Auth_Signup\<close> and \<open>Auth_Login\<close>;
    \<open>Demo_World\<close> is the small world of the witnesses.
  \<^item> \<open>Http\<close>, \<open>Auth_Http\<close>, \<open>Auth_Guards\<close>: requests, every route of \<open>/auth\<close>, and what its guards (CSRF, rate limits,
    access tokens, cookies, opaque errors) guarantee.
  \<^item> \<open>Audit_Log\<close>: the handlers again, with the events they write; one judgement \<open>audits\<close> says that a handler with
    events does what the one without does.
  \<^item> \<open>Auth_Server\<close>: runs of the server, a step per request.  The locale \<open>world_invariant\<close> lifts a
    relation from the calls of the stores to all runs, once for the pending signups and
    once for the sessions.
  \<^item> \<open>Processes\<close>: computations cut into atomic actions, pools that interleave them, when pools end, and
    relations carried through them, by every action alone or by rely and guarantee.
    \<open>Service_Processes\<close> cuts every method of the service; \<open>Auth_Concurrency\<close> shows what holds of any
    interleaving of requests, through the locale \<open>process_invariant\<close>.
  \<^item> \<open>Verified_Mobiles\<close>: the processes, the pending signups in memory and the tables of users composed, as
    \<open>main\<close> does without Redis: no mobile is verified without an approved code.
  \<^item> \<open>Cached_Repository\<close>, \<open>User_Dao\<close>, \<open>Gorm\<close>: users, cached and in the database.
  \<^item> \<open>Catalog_Types\<close>, \<open>Catalog_Service\<close>, \<open>Catalog_Dao\<close>, \<open>Catalog_Http\<close>: the catalogue from its routes to its rows.
  \<^item> \<open>Twilio\<close>: the two calls of the Verify service, forms, responses and documents.
  \<^item> \<open>Configs\<close>: loading, validation in the order of its checks, the connection string.
  \<^item> \<open>Logging\<close>, \<open>Server_Http\<close>, \<open>Serving\<close>: loggers and their lines, the middlewares, and their
    chain around any handlers, with recovery from panics, tracing, span and access log, and the listener.
  \<^item> \<open>Startup\<close>: \<open>main.go\<close>, every fatal end of it, and the program it puts together.

  \<^bold>\<open>What is shown.\<close>  Sessions: rotation, acceptance until expiry, finality of logging out in every
  run and every interleaving.  Sign-up and codes: an account needs an approved code for an unexpired
  reservation, a verified mobile an approved code in every interleaving, reservations are real in every run and every
  interleaving, undisturbed resends and requests are bounded.  Tokens: round
  trip and expiry.  Logins: exact conditions, no hint whether a user exists.  HTTP: CSRF, cookies, admission, opaque errors,
  one identifier, one answer and one log line per request, and an audit log that is complete, true and discreet.  Catalogue: only valid products reach the repository, writes
  are all or nothing, validation equals its declarative form.  Redis: revocation, reservations, windows, transparency of the
  cache, separation of the stores.  Start: an accepted configuration yields well-formed components.  Each theorem that
  is a property carries its claim id; lemmas with a telling name next to them show deviations:
  a token shared by concurrent refreshes, resends beyond the limit, a rename that keeps a stale cache entry,
  a lifetime that wraps.

  \<^bold>\<open>Parameters.\<close>  Third-party code is an argument: \<open>gorm\<close> and its database as a record of table operations, Redis,
  the JOSE library, bcrypt, oauth2 and Google, \<open>gin\<close>'s binding, validation and routing, the HTTP client, entropy and
  the clock.  What is assumed of them is named where it is used (\<open>redis_server\<close>, \<open>tables_ok\<close>,
  \<open>user_tables_ok\<close>, \<open>user_queries_ok\<close>, \<open>atomic\<close>, \<open>fills_buffer\<close>) and shown satisfiable by a witness.  The digest of a refresh token is
  any function; theorems speak of tokens with other digests.  No loop of the program needs
  fuel: loops over strings, rows and attributes are structural recursions, and the retry-free calls
  are straight-line; a pool of requests ends within the sum of \<open>actions_of\<close>, between one and eleven
  actions per request.

  \<^bold>\<open>Not modelled.\<close>  Deadlines of contexts and timeouts of the listener; the encoding of log lines as JSON and the messages of the services,
  the repository and \<open>main\<close> (the audit events of the handlers and the access log are modelled); the start of spans and
  the reading of trace headers, which are OpenTelemetry's; SQL below the
  queries and the migration files; redirects of the router; the requests and responses of bulk uploads and availability
  and the constants of attribute types, which no code uses.  In the
  interleavings a call of the repository is one action, although with the cache it is a query and a
  command; handlers and middlewares are run undisturbed.  The two kinds of stores give each store a state of its own; for Redis this rests
  on \<open>Redis_Separation\<close>.
\<close>

end
